(* ===== verification/Js_Prelude.thy ===== *)
theory Js_Prelude
  imports Complex_Main "HOL-Library.Sublist"
begin

section \<open>The part of JavaScript that the front ends use\<close>

text \<open>
  The values the TypeScript sources compute with, and the standard-library operations they call.
  \<^item> Strings are byte lists: an ASCII character is one \<open>char\<close>, any other character is its UTF-8
    encoding. The em dash the pages print for a missing value is the three bytes of \<open>DASH\<close>.
    Case mapping is modelled on ASCII letters.
  \<^item> A JSON number is a \<open>real\<close>: IEEE rounding is not modelled. JSON has no NaN and no infinity, so
    these occur only as results of \<open>Number(text)\<close>, whose type is \<open>jsnum\<close>.
  \<^item> An exception is a value \<open>Inl e\<close>; \<open>err_message\<close> is its \<open>message\<close>.
\<close>

named_theorems js_defs \<open>definitions of the JavaScript operations, for evaluation\<close>
named_theorems split_rules \<open>case splits that the handlers of the pages need\<close>

declare sum.splits [split_rules] option.splits [split_rules] prod.splits [split_rules]
  if_splits [split_rules]

subsection \<open>Values, truthiness, property access\<close>

datatype jsval =
    JUndef
  | JNull
  | JBool bool
  | JNum real
  | JStr string
  | JArr "jsval list"
  | JObj "(string \<times> jsval) list"

datatype js_error =
    TypeError string
  | SyntaxError string
  | NetworkError string
  | ErrorMsg string

fun err_message :: "js_error \<Rightarrow> string" where
  "err_message (TypeError m) = m"
| "err_message (SyntaxError m) = m"
| "err_message (NetworkError m) = m"
| "err_message (ErrorMsg m) = m"

fun truthy :: "jsval \<Rightarrow> bool" where
  "truthy JUndef = False"
| "truthy JNull = False"
| "truthy (JBool b) = b"
| "truthy (JNum x) = (x \<noteq> 0)"
| "truthy (JStr s) = (s \<noteq> [])"
| "truthy (JArr xs) = True"
| "truthy (JObj kvs) = True"

fun nullish :: "jsval \<Rightarrow> bool" where
  "nullish JUndef = True"
| "nullish JNull = True"
| "nullish v = False"

text \<open>\<open>a ?? b\<close> and \<open>a || b\<close>.\<close>

definition coalesce :: "jsval \<Rightarrow> jsval \<Rightarrow> jsval" where
  "coalesce a b = (if nullish a then b else a)"

definition js_or :: "jsval \<Rightarrow> jsval \<Rightarrow> jsval" where
  "js_or a b = (if truthy a then a else b)"

text \<open>
  \<open>v?.k\<close> never throws; \<open>v.k\<close> throws a TypeError on \<open>null\<close> and \<open>undefined\<close>. A missing property is
  \<open>undefined\<close>. The keys the sources read are never the built-in ones of arrays and strings.
\<close>

fun jopt :: "jsval \<Rightarrow> string \<Rightarrow> jsval" where
  "jopt (JObj kvs) k = (case map_of kvs k of None \<Rightarrow> JUndef | Some v \<Rightarrow> v)"
| "jopt v k = JUndef"

definition jget :: "jsval \<Rightarrow> string \<Rightarrow> js_error + jsval" where
  "jget v k =
     (if nullish v
      then Inl (TypeError (''Cannot read properties of '' @
             (if v = JNull then ''null'' else ''undefined'') @ '' (reading '' @ k @ '')''))
      else Inr (jopt v k))"

text \<open>The checked reads of one field: \<open>typeof x === ...\<close>, \<open>Array.isArray\<close>.\<close>

fun as_num :: "jsval \<Rightarrow> real option" where
  "as_num (JNum x) = Some x"
| "as_num v = None"

fun as_str :: "jsval \<Rightarrow> string option" where
  "as_str (JStr s) = Some s"
| "as_str v = None"

fun as_bool :: "jsval \<Rightarrow> bool option" where
  "as_bool (JBool b) = Some b"
| "as_bool v = None"

fun as_arr :: "jsval \<Rightarrow> jsval list option" where
  "as_arr (JArr xs) = Some xs"
| "as_arr v = None"

text \<open>
  Fields of a row whose declared TypeScript type is \<open>number\<close>, \<open>string\<close> or \<open>boolean\<close> (possibly null or
  absent). Where the source trusts the declared type without a check, the model reads a value of
  another type as absent.
\<close>

abbreviation num_field :: "jsval \<Rightarrow> string \<Rightarrow> real option" where
  "num_field r k \<equiv> as_num (jopt r k)"

abbreviation str_field :: "jsval \<Rightarrow> string \<Rightarrow> string option" where
  "str_field r k \<equiv> as_str (jopt r k)"

abbreviation bool_field :: "jsval \<Rightarrow> string \<Rightarrow> bool option" where
  "bool_field r k \<equiv> as_bool (jopt r k)"

text \<open>A \<open>string | null\<close> as an operand of \<open>||\<close>: the empty string is falsy too.\<close>

definition str_or :: "string option \<Rightarrow> string \<Rightarrow> string" where
  "str_or x d = (case x of None \<Rightarrow> d | Some s \<Rightarrow> if s = [] then d else s)"

definition str_truthy :: "string option \<Rightarrow> bool" where
  "str_truthy x = (case x of None \<Rightarrow> False | Some s \<Rightarrow> s \<noteq> [])"

definition opt_val :: "('a \<Rightarrow> jsval) \<Rightarrow> 'a option \<Rightarrow> jsval" where
  "opt_val f x = (case x of None \<Rightarrow> JNull | Some a \<Rightarrow> f a)"

lemma str_or_nonempty [simp]: "d \<noteq> [] \<Longrightarrow> str_or x d \<noteq> []"
  by (auto simp: str_or_def split: option.splits)

lemma str_or_simps [simp]:
  "str_or None d = d" "str_or (Some s) d = (if s = [] then d else s)"
  by (simp_all add: str_or_def)

lemma truthy_as_str: "as_str v = Some s \<Longrightarrow> truthy v = (s \<noteq> [])"
  by (cases v) auto

subsection \<open>Strings\<close>

definition DASH :: string where
  "DASH = [CHR 0xE2, CHR 0x80, CHR 0x94]"

definition NL :: char where
  "NL = CHR 0x0A"

definition lower_char :: "char \<Rightarrow> char" where
  "lower_char c =
     (if 65 \<le> (of_char c :: nat) \<and> (of_char c :: nat) \<le> 90 then char_of ((of_char c :: nat) + 32) else c)"

definition toLowerCase :: "string \<Rightarrow> string" where
  "toLowerCase s = map lower_char s"

definition upper_char :: "char \<Rightarrow> char" where
  "upper_char c =
     (if 97 \<le> (of_char c :: nat) \<and> (of_char c :: nat) \<le> 122 then char_of ((of_char c :: nat) - 32) else c)"

definition toUpperCase :: "string \<Rightarrow> string" where
  "toUpperCase s = map upper_char s"

fun str_includes :: "string \<Rightarrow> string \<Rightarrow> bool" where
  "str_includes [] q = (q = [])"
| "str_includes (c # cs) q = (prefix q (c # cs) \<or> str_includes cs q)"

lemma str_includes_sublist: "str_includes s q \<longleftrightarrow> sublist q s"
  by (induction s) (auto simp: sublist_Cons_right)

lemma str_includes_Nil [simp]: "str_includes s []"
  by (simp add: str_includes_sublist)

lemma str_includes_refl [simp]: "str_includes s s"
  by (simp add: str_includes_sublist)

definition is_ws :: "char \<Rightarrow> bool" where
  "is_ws c = (c = CHR '' '' \<or> c = CHR 0x09 \<or> c = CHR 0x0A \<or> c = CHR 0x0B \<or> c = CHR 0x0C \<or> c = CHR 0x0D)"

definition trim :: "string \<Rightarrow> string" where
  "trim s = rev (dropWhile is_ws (rev (dropWhile is_ws s)))"

fun split_on :: "char \<Rightarrow> string \<Rightarrow> string list" where
  "split_on d [] = [[]]"
| "split_on d (c # cs) =
     (if c = d then [] # split_on d cs
      else (case split_on d cs of [] \<Rightarrow> [[c]] | w # ws \<Rightarrow> (c # w) # ws))"

fun join :: "string \<Rightarrow> string list \<Rightarrow> string" where
  "join sep [] = []"
| "join sep [x] = x"
| "join sep (x # y # ys) = x @ sep @ join sep (y # ys)"

lemma split_on_nonempty [simp]: "split_on d s \<noteq> []"
  by (induction s) (auto split: list.splits)

lemma split_on_no_sep: "d \<notin> set s \<Longrightarrow> split_on d s = [s]"
  by (induction s) auto

lemma split_on_append: "d \<notin> set s \<Longrightarrow> split_on d (s @ d # t) = s # split_on d t"
  by (induction s) auto

text \<open>Splitting undoes joining when no part contains the separator.\<close>

lemma split_on_join:
  "xs \<noteq> [] \<Longrightarrow> (\<forall>x \<in> set xs. d \<notin> set x) \<Longrightarrow> split_on d (join [d] xs) = xs"
  by (induction "[d]" xs rule: join.induct) (auto simp: split_on_no_sep split_on_append)

definition padStart2 :: "string \<Rightarrow> string" where
  "padStart2 s = replicate (2 - length s) (CHR ''0'') @ s"

subsection \<open>Numbers and their text\<close>

definition digit_char :: "nat \<Rightarrow> char" where
  "digit_char d = char_of (48 + d)"

definition is_digit :: "char \<Rightarrow> bool" where
  "is_digit c = (48 \<le> (of_char c :: nat) \<and> (of_char c :: nat) \<le> 57)"

definition digit_val :: "char \<Rightarrow> nat" where
  "digit_val c = of_char c - 48"

lemma digit_char_eval:
  "digit_char 0 = CHR ''0''" "digit_char 1 = CHR ''1''" "digit_char (Suc 0) = CHR ''1''"
  "digit_char 2 = CHR ''2''" "digit_char 3 = CHR ''3''" "digit_char 4 = CHR ''4''"
  "digit_char 5 = CHR ''5''" "digit_char 6 = CHR ''6''" "digit_char 7 = CHR ''7''"
  "digit_char 8 = CHR ''8''" "digit_char 9 = CHR ''9''"
  by code_simp+

lemma of_digit_char: "d < 10 \<Longrightarrow> of_char (digit_char d) = 48 + d"
  by (simp add: digit_char_def of_char_of)

lemma is_digit_digit_char [simp]: "d < 10 \<Longrightarrow> is_digit (digit_char d)"
  by (simp add: is_digit_def of_digit_char)

lemma digit_val_digit_char [simp]: "d < 10 \<Longrightarrow> digit_val (digit_char d) = d"
  by (simp add: digit_val_def of_digit_char)

fun nat_to_string :: "nat \<Rightarrow> string" where
  "nat_to_string n =
     (if n < 10 then [digit_char n] else nat_to_string (n div 10) @ [digit_char (n mod 10)])"

declare nat_to_string.simps [simp del]

definition digits_val :: "string \<Rightarrow> nat" where
  "digits_val s = foldl (\<lambda>a c. 10 * a + digit_val c) 0 s"

lemma digits_val_snoc: "digits_val (s @ [c]) = 10 * digits_val s + digit_val c"
  by (simp add: digits_val_def)

lemma nat_to_string_nonempty [simp]: "nat_to_string n \<noteq> []"
  by (subst nat_to_string.simps) simp

lemma nat_to_string_digits: "c \<in> set (nat_to_string n) \<Longrightarrow> is_digit c"
proof (induction n rule: nat_to_string.induct)
  case (1 n)
  then show ?case
    by (cases "n < 10") (auto simp: nat_to_string.simps [of n])
qed

lemma digits_val_nat_to_string [simp]: "digits_val (nat_to_string n) = n"
proof (induction n rule: nat_to_string.induct)
  case (1 n)
  show ?case
  proof (cases "n < 10")
    case True
    then show ?thesis by (simp add: nat_to_string.simps [of n] digits_val_def)
  next
    case False
    then have "nat_to_string n = nat_to_string (n div 10) @ [digit_char (n mod 10)]"
      by (simp add: nat_to_string.simps [of n])
    with False 1 show ?thesis by (simp add: digits_val_snoc)
  qed
qed

lemma nat_to_string_inj: "nat_to_string m = nat_to_string n \<Longrightarrow> m = n"
  by (metis digits_val_nat_to_string)

text \<open>
  \<open>String(x)\<close> of a number: an integer prints all its digits, a fraction its decimal expansion, cut
  after 17 places, which is where the shortest representation of a double ends at the latest. (The
  exponent form, for magnitudes from \<open>1e21\<close> up and below \<open>1e-6\<close>, is not modelled.)
\<close>

fun frac_digits :: "nat \<Rightarrow> real \<Rightarrow> string" where
  "frac_digits 0 f = []"
| "frac_digits (Suc n) f =
     (if f = 0 then [] else digit_char (nat \<lfloor>10 * f\<rfloor>) # frac_digits n (10 * f - of_int \<lfloor>10 * f\<rfloor>))"

definition num_to_string :: "real \<Rightarrow> string" where
  "num_to_string x =
     (let a = \<bar>x\<bar>; i = \<lfloor>a\<rfloor>; f = a - of_int i
      in (if x < 0 then ''-'' else []) @ nat_to_string (nat i) @
         (if f = 0 then [] else ''.'' @ frac_digits 17 f))"

lemma frac_digits_digits: "0 \<le> f \<Longrightarrow> f < 1 \<Longrightarrow> c \<in> set (frac_digits n f) \<Longrightarrow> is_digit c"
proof (induction n arbitrary: f)
  case (Suc n)
  have "c \<in> set (frac_digits n (10 * f - of_int \<lfloor>10 * f\<rfloor>)) \<Longrightarrow> is_digit c"
    by (rule Suc.IH [of "10 * f - of_int \<lfloor>10 * f\<rfloor>"]) linarith+
  moreover have "nat \<lfloor>10 * f\<rfloor> < 10" using Suc.prems by (simp add: nat_less_iff floor_less_iff)
  ultimately show ?case using Suc.prems(3) by (auto split: if_splits)
qed simp

lemma num_text_chars: "c \<in> set (num_to_string x) \<Longrightarrow> is_digit c \<or> c = CHR ''.'' \<or> c = CHR ''-''"
proof -
  assume "c \<in> set (num_to_string x)"
  moreover have "0 \<le> \<bar>x\<bar> - of_int \<lfloor>\<bar>x\<bar>\<rfloor>" "\<bar>x\<bar> - of_int \<lfloor>\<bar>x\<bar>\<rfloor> < 1" by linarith+
  ultimately show ?thesis
    using frac_digits_digits [of "\<bar>x\<bar> - of_int \<lfloor>\<bar>x\<bar>\<rfloor>" c 17]
    by (auto simp: num_to_string_def Let_def dest: nat_to_string_digits split: if_splits)
qed

lemma num_to_string_nat [simp]: "num_to_string (of_nat n) = nat_to_string n"
  by (simp add: num_to_string_def)

lemma num_to_string_neg: "num_to_string (- of_nat (Suc n)) = CHR ''-'' # nat_to_string (Suc n)"
proof -
  have floor: "\<lfloor>\<bar>- real (Suc n)\<bar>\<rfloor> = int (Suc n)"
    by (simp only: abs_minus_cancel abs_of_nat floor_of_nat)
  have rest: "\<bar>- real (Suc n)\<bar> - real_of_int (int (Suc n)) = 0"
    by (simp only: abs_minus_cancel abs_of_nat of_int_of_nat_eq diff_self)
  have "- real (Suc n) < 0" by simp
  then show ?thesis
    unfolding num_to_string_def Let_def floor rest by (simp only: nat_int refl if_True append.simps append_Nil2)
qed

text \<open>\<open>Math.round\<close> rounds half up.\<close>

definition js_round :: "real \<Rightarrow> int" where
  "js_round x = \<lfloor>x + 1 / 2\<rfloor>"

lemma js_round_int [simp]: "js_round (of_int n) = n"
  unfolding js_round_def by linarith

lemma js_round_bounds: "x - 1 / 2 < of_int (js_round x) \<and> of_int (js_round x) \<le> x + 1 / 2"
  unfolding js_round_def by linarith

lemma js_round_mono: "x \<le> y \<Longrightarrow> js_round x \<le> js_round y"
  by (simp add: js_round_def floor_mono)

text \<open>
  \<open>x.toFixed(f)\<close>: the nearest multiple of \<open>10 ^ -f\<close>, the larger of two equally near ones, on the absolute
  value; \<open>Number\<close> of that text is \<open>fixed_num f x\<close>.
\<close>

definition fixed_units :: "nat \<Rightarrow> real \<Rightarrow> nat" where
  "fixed_units f x = nat \<lfloor>\<bar>x\<bar> * 10 ^ f + 1 / 2\<rfloor>"

definition padStart0 :: "nat \<Rightarrow> string \<Rightarrow> string" where
  "padStart0 n s = replicate (n - length s) (CHR ''0'') @ s"

definition toFixed :: "nat \<Rightarrow> real \<Rightarrow> string" where
  "toFixed f x =
     (let n = fixed_units f x
      in (if x < 0 then ''-'' else []) @ nat_to_string (n div 10 ^ f) @
         (if f = 0 then [] else ''.'' @ padStart0 f (nat_to_string (n mod 10 ^ f))))"

definition fixed_num :: "nat \<Rightarrow> real \<Rightarrow> real" where
  "fixed_num f x = (if x < 0 then - 1 else 1) * of_nat (fixed_units f x) / 10 ^ f"

lemma length_nat_to_string: "n < 10 ^ k \<Longrightarrow> 0 < k \<Longrightarrow> length (nat_to_string n) \<le> k"
proof (induction n arbitrary: k rule: nat_to_string.induct)
  case (1 n)
  show ?case
  proof (cases "n < 10")
    case True
    then show ?thesis using "1.prems" by (simp add: nat_to_string.simps [of n])
  next
    case False
    obtain j where k: "k = Suc j" using "1.prems" by (cases k) auto
    have "n div 10 < 10 ^ j" using "1.prems" k by (simp add: less_mult_imp_div_less mult.commute)
    moreover have "0 < j" using False "1.prems" k by (cases j) auto
    ultimately have "length (nat_to_string (n div 10)) \<le> j" using "1.IH" [OF False] by blast
    then show ?thesis using False k by (simp add: nat_to_string.simps [of n])
  qed
qed

lemma length_pad: "n < 10 ^ k \<Longrightarrow> 0 < k \<Longrightarrow> length (padStart0 k (nat_to_string n)) = k"
  using length_nat_to_string [of n k] by (simp add: padStart0_def)

lemma digits_val_zeros: "digits_val (replicate j (CHR ''0'') @ s) = digits_val s"
proof -
  have "foldl (\<lambda>a c. 10 * a + digit_val c) 0 (replicate j (CHR ''0'')) = 0"
    by (induction j) (simp_all add: digit_val_def)
  then show ?thesis by (simp add: digits_val_def)
qed

lemma digits_val_pad [simp]: "digits_val (padStart0 k (nat_to_string n)) = n"
  by (simp add: padStart0_def digits_val_zeros)

lemma pad_digits: "list_all is_digit (padStart0 k (nat_to_string n))"
  by (auto simp: padStart0_def list_all_iff is_digit_def dest: nat_to_string_digits)

lemma fixed_num_mono: "0 \<le> x \<Longrightarrow> x \<le> y \<Longrightarrow> fixed_num f x \<le> fixed_num f y"
proof -
  assume "0 \<le> x" "x \<le> y"
  then have "\<bar>x\<bar> * 10 ^ f + 1 / 2 \<le> \<bar>y\<bar> * 10 ^ f + 1 / 2" by (simp add: mult_right_mono)
  then have "fixed_units f x \<le> fixed_units f y" unfolding fixed_units_def by (intro nat_mono floor_mono)
  with \<open>0 \<le> x\<close> \<open>x \<le> y\<close> show ?thesis by (simp add: fixed_num_def divide_right_mono)
qed

lemma fixed_num_near: "0 \<le> x \<Longrightarrow> \<bar>fixed_num f x - x\<bar> \<le> 1 / (2 * 10 ^ f)"
proof -
  assume x: "0 \<le> x"
  have "0 \<le> x * 10 ^ f + 1 / 2" using x by simp
  then have "real (fixed_units f x) = of_int \<lfloor>x * 10 ^ f + 1 / 2\<rfloor>" using x by (simp add: fixed_units_def)
  then have "\<bar>real (fixed_units f x) - x * 10 ^ f\<bar> \<le> 1 / 2" by linarith
  then have "\<bar>real (fixed_units f x) - x * 10 ^ f\<bar> / 10 ^ f \<le> 1 / 2 / 10 ^ f"
    by (intro divide_right_mono) auto
  then have "\<bar>(real (fixed_units f x) - x * 10 ^ f) / 10 ^ f\<bar> \<le> 1 / (2 * 10 ^ f)"
    by (simp add: abs_divide field_simps)
  then show ?thesis using x by (simp add: fixed_num_def diff_divide_distrib)
qed

text \<open>\<open>Number(text)\<close>.\<close>

datatype jsnum = Fin real | PosInf | NegInf | NaN

fun isFinite :: "jsnum \<Rightarrow> bool" where
  "isFinite (Fin x) = True"
| "isFinite v = False"

text \<open>\<open>JSON.stringify\<close> writes \<open>null\<close> for the non-finite numbers.\<close>

fun json_of_num :: "jsnum \<Rightarrow> jsval" where
  "json_of_num (Fin x) = JNum x"
| "json_of_num v = JNull"

text \<open>\<open>x > 0\<close> and \<open>x || 0\<close>; both are false, or 0, at NaN.\<close>

fun num_gt0 :: "jsnum \<Rightarrow> bool" where
  "num_gt0 (Fin x) = (x > 0)"
| "num_gt0 PosInf = True"
| "num_gt0 v = False"

fun num_or0 :: "jsnum \<Rightarrow> jsnum" where
  "num_or0 NaN = Fin 0"
| "num_or0 v = v"

definition scale10 :: "nat \<Rightarrow> int \<Rightarrow> real" where
  "scale10 m e = (if 0 \<le> e then of_nat m * 10 ^ nat e else of_nat m / 10 ^ nat (- e))"

definition parse_exponent :: "string \<Rightarrow> int option" where
  "parse_exponent r =
     (case r of
        [] \<Rightarrow> Some 0
      | c # r' \<Rightarrow>
          if c = CHR ''e'' \<or> c = CHR ''E'' then
            (let (neg, ds) = (case r' of
                 [] \<Rightarrow> (False, [])
               | s # t \<Rightarrow> if s = CHR ''-'' then (True, t) else if s = CHR ''+'' then (False, t) else (False, r'))
             in if ds \<noteq> [] \<and> list_all is_digit ds
                then Some (if neg then - int (digits_val ds) else int (digits_val ds)) else None)
          else None)"

definition parse_decimal :: "string \<Rightarrow> real option" where
  "parse_decimal s =
     (let ip = takeWhile is_digit s; r1 = dropWhile is_digit s;
          (fp, r2) = (case r1 of
              [] \<Rightarrow> ([], [])
            | c # t \<Rightarrow> if c = CHR ''.'' then (takeWhile is_digit t, dropWhile is_digit t) else ([], r1))
      in if ip = [] \<and> fp = [] then None
         else map_option (\<lambda>e. scale10 (digits_val (ip @ fp)) (e - int (length fp))) (parse_exponent r2))"

definition radix_val :: "char \<Rightarrow> nat" where
  "radix_val c =
     (let n = of_char (lower_char c) in if is_digit c then n - 48 else if 97 \<le> n \<and> n \<le> 102 then n - 87 else 99)"

definition parse_radix :: "nat \<Rightarrow> string \<Rightarrow> real option" where
  "parse_radix b ds =
     (if ds \<noteq> [] \<and> list_all (\<lambda>c. radix_val c < b) ds
      then Some (of_nat (foldl (\<lambda>a c. b * a + radix_val c) 0 ds)) else None)"

fun num_of_opt :: "real option \<Rightarrow> jsnum" where
  "num_of_opt None = NaN"
| "num_of_opt (Some x) = Fin x"

fun signed_num :: "string \<Rightarrow> jsnum" where
  "signed_num [] = NaN"
| "signed_num (c # t) =
     (if c = CHR ''-'' then (if t = ''Infinity'' then NegInf else num_of_opt (map_option uminus (parse_decimal t)))
      else let u = (if c = CHR ''+'' then t else c # t)
           in if u = ''Infinity'' then PosInf else num_of_opt (parse_decimal u))"

definition toNumber :: "string \<Rightarrow> jsnum" where
  "toNumber s =
     (let t = trim s
      in if t = [] then Fin 0
         else if prefix ''0x'' t \<or> prefix ''0X'' t then num_of_opt (parse_radix 16 (drop 2 t))
         else if prefix ''0o'' t \<or> prefix ''0O'' t then num_of_opt (parse_radix 8 (drop 2 t))
         else if prefix ''0b'' t \<or> prefix ''0B'' t then num_of_opt (parse_radix 2 (drop 2 t))
         else signed_num t)"

lemma toNumber_blank: "trim s = [] \<Longrightarrow> toNumber s = Fin 0"
  by (simp add: toNumber_def)

subsection \<open>Lists\<close>

text \<open>\<open>xs.slice(a, b)\<close> for the non-negative bounds the sources use.\<close>

definition slice :: "nat \<Rightarrow> nat \<Rightarrow> 'a list \<Rightarrow> 'a list" where
  "slice a b xs = take (b - a) (drop a xs)"

lemma set_slice: "set (slice a b xs) \<subseteq> set xs"
  unfolding slice_def by (meson dual_order.trans set_drop_subset set_take_subset)

lemma length_slice [simp]: "length (slice a b xs) = min (b - a) (length xs - a)"
  by (simp add: slice_def)

lemma distinct_slice: "distinct xs \<Longrightarrow> distinct (slice a b xs)"
  by (simp add: slice_def)

text \<open>Counting with mutually exclusive tests.\<close>

lemma length_filter_disj:
  "(\<And>x. x \<in> set xs \<Longrightarrow> \<not> (P x \<and> Q x)) \<Longrightarrow>
   length (filter (\<lambda>x. P x \<or> Q x) xs) = length (filter P xs) + length (filter Q xs)"
  by (induction xs) auto

lemma length_filter_compl: "length (filter P xs) + length (filter (\<lambda>x. \<not> P x) xs) = length xs"
  by (induction xs) auto

text \<open>Counting per key, summed over distinct keys.\<close>

lemma sum_counts:
  "distinct ks \<Longrightarrow>
   sum_list (map (\<lambda>k. length (filter (\<lambda>x. key x = k) xs)) ks) = length (filter (\<lambda>x. key x \<in> set ks) xs)"
proof (induction ks)
  case (Cons k ks)
  then have "length (filter (\<lambda>x. key x = k \<or> key x \<in> set ks) xs) =
             length (filter (\<lambda>x. key x = k) xs) + length (filter (\<lambda>x. key x \<in> set ks) xs)"
    by (intro length_filter_disj) auto
  with Cons show ?case by simp
qed simp

lemmas js_eval = truthy.simps nullish.simps coalesce_def js_or_def jopt.simps jget_def
  as_num.simps as_str.simps as_bool.simps as_arr.simps

end
