(* ===== verification/Js_Map.thy ===== *)
theory Js_Map
  imports Js_Prelude
begin

section \<open>Insertion-ordered maps\<close>

text \<open>
  A JavaScript \<open>Map\<close> (and an object used as a dictionary) iterates in insertion order, and setting a
  key that is present keeps its place. The model is an association list with distinct keys. The
  locale \<open>js_map\<close> is the contract the stores and the map view rely on; its lemmas about loops of
  \<open>set\<close> and \<open>delete\<close> calls are proved from the contract alone.
\<close>

type_synonym ('k, 'v) omap = "('k \<times> 'v) list"

fun map_set :: "'k \<Rightarrow> 'v \<Rightarrow> ('k, 'v) omap \<Rightarrow> ('k, 'v) omap" where
  "map_set k v [] = [(k, v)]"
| "map_set k v ((k', v') # m) = (if k = k' then (k, v) # m else (k', v') # map_set k v m)"

fun map_delete :: "'k \<Rightarrow> ('k, 'v) omap \<Rightarrow> ('k, 'v) omap" where
  "map_delete k [] = []"
| "map_delete k ((k', v') # m) = (if k = k' then m else (k', v') # map_delete k m)"

definition map_get :: "('k, 'v) omap \<Rightarrow> 'k \<Rightarrow> 'v option" where
  "map_get m k = map_of m k"

definition map_has :: "('k, 'v) omap \<Rightarrow> 'k \<Rightarrow> bool" where
  "map_has m k = (k \<in> set (map fst m))"

abbreviation map_keys :: "('k, 'v) omap \<Rightarrow> 'k list" where
  "map_keys m \<equiv> map fst m"

abbreviation map_values :: "('k, 'v) omap \<Rightarrow> 'v list" where
  "map_values m \<equiv> map snd m"

definition map_ok :: "('k, 'v) omap \<Rightarrow> bool" where
  "map_ok m = distinct (map fst m)"

text \<open>A loop \<open>for x of xs: map.set(key x, val x)\<close>.\<close>

definition set_all :: "('a \<Rightarrow> 'k) \<Rightarrow> ('a \<Rightarrow> 'v) \<Rightarrow> 'a list \<Rightarrow> ('k, 'v) omap \<Rightarrow> ('k, 'v) omap" where
  "set_all key val xs m = fold (\<lambda>x. map_set (key x) (val x)) xs m"

lemma map_keys_set:
  "map_keys (map_set k v m) = (if k \<in> set (map_keys m) then map_keys m else map_keys m @ [k])"
  by (induction m) (auto, force)

lemma map_of_set: "map_of (map_set k v m) = (map_of m)(k \<mapsto> v)"
  by (induction m) (auto simp: fun_eq_iff)

lemma map_set_fresh: "k \<notin> set (map_keys m) \<Longrightarrow> map_set k v m = m @ [(k, v)]"
  by (induction m) auto

lemma map_keys_delete: "map_ok m \<Longrightarrow> map_keys (map_delete k m) = filter (\<lambda>x. x \<noteq> k) (map_keys m)"
  by (induction m) (auto simp: map_ok_def intro!: filter_True [symmetric])

lemma map_of_delete: "map_ok m \<Longrightarrow> map_of (map_delete k m) = (map_of m)(k := None)"
proof (induction m)
  case (Cons p m)
  then show ?case
    by (cases p) (auto simp: map_ok_def fun_eq_iff map_of_eq_None_iff)
qed (simp add: fun_eq_iff)

text \<open>Setting one key after the other: of two entries with one key the later wins.\<close>

lemma map_of_set_all: "map_of (set_all f g xs m) = map_of (rev (map (\<lambda>x. (f x, g x)) xs) @ m)"
proof (induction xs arbitrary: m)
  case (Cons x xs)
  have "set_all f g (x # xs) m = set_all f g xs (map_set (f x) (g x) m)" by (simp add: set_all_def)
  with Cons show ?case by (simp add: map_of_set fun_eq_iff map_add_def split: option.splits)
qed (simp add: set_all_def)

text \<open>The contract.\<close>

locale js_map =
  fixes empty :: 'm
    and set_key :: "'k \<Rightarrow> 'v \<Rightarrow> 'm \<Rightarrow> 'm"
    and get_key :: "'m \<Rightarrow> 'k \<Rightarrow> 'v option"
    and keys :: "'m \<Rightarrow> 'k list"
    and ok :: "'m \<Rightarrow> bool"
  assumes ok_empty: "ok empty"
    and keys_empty: "keys empty = []"
    and ok_set: "ok m \<Longrightarrow> ok (set_key k v m)"
    and get_set: "ok m \<Longrightarrow> get_key (set_key k v m) = (get_key m)(k \<mapsto> v)"
    and keys_set: "ok m \<Longrightarrow> keys (set_key k v m) = (if k \<in> set (keys m) then keys m else keys m @ [k])"
    and get_keys: "ok m \<Longrightarrow> get_key m k = None \<longleftrightarrow> k \<notin> set (keys m)"
    and keys_distinct: "ok m \<Longrightarrow> distinct (keys m)"
begin

lemma ok_fold: "ok m \<Longrightarrow> ok (fold (\<lambda>x. set_key (key x) (val x)) xs m)"
  by (induction xs arbitrary: m) (simp_all add: ok_set)

lemma keys_fold:
  "ok m \<Longrightarrow> set (keys (fold (\<lambda>x. set_key (key x) (val x)) xs m)) = set (keys m) \<union> key ` set xs"
  by (induction xs arbitrary: m) (auto simp: ok_set keys_set)

text \<open>With distinct keys a loop of sets on the empty map lists the keys in the loop's order.\<close>

lemma keys_fold_distinct:
  "ok m \<Longrightarrow> distinct (map key xs) \<Longrightarrow> set (keys m) \<inter> key ` set xs = {} \<Longrightarrow>
   keys (fold (\<lambda>x. set_key (key x) (val x)) xs m) = keys m @ map key xs"
proof (induction xs arbitrary: m)
  case (Cons x xs)
  then have "key x \<notin> set (keys m)" by auto
  with Cons.prems have "keys (set_key (key x) (val x) m) = keys m @ [key x]"
    by (simp add: keys_set)
  with Cons show ?case by (auto simp: ok_set)
qed simp

text \<open>The last write of a key wins.\<close>

lemma get_fold_notin:
  "ok m \<Longrightarrow> k \<notin> key ` set xs \<Longrightarrow>
   get_key (fold (\<lambda>x. set_key (key x) (val x)) xs m) k = get_key m k"
  by (induction xs arbitrary: m) (simp_all add: ok_set get_set)

lemma get_fold_last:
  assumes "ok m" and "key x \<notin> key ` set zs"
  shows "get_key (fold (\<lambda>x. set_key (key x) (val x)) (ys @ x # zs) m) (key x) = Some (val x)"
  using assms by (simp add: get_fold_notin ok_fold ok_set get_set)

lemma card_keys: "ok m \<Longrightarrow> card (set (keys m)) = length (keys m)"
  by (simp add: distinct_card keys_distinct)

end

interpretation om: js_map "[]" map_set map_get map_keys map_ok
proof unfold_locales
  fix m :: "('k, 'v) omap" and k v
  assume ok: "map_ok m"
  then show "map_ok (map_set k v m)"
    by (simp add: map_ok_def map_keys_set)
  show "map_get (map_set k v m) = (map_get m)(k \<mapsto> v)"
    by (simp add: map_get_def fun_eq_iff map_of_set)
  show "map_get m k = None \<longleftrightarrow> k \<notin> set (map_keys m)"
    by (simp add: map_get_def map_of_eq_None_iff)
  show "distinct (map_keys m)"
    using ok by (simp add: map_ok_def)
qed (simp_all add: map_ok_def map_keys_set)

lemma map_ok_Nil [simp]: "map_ok []"
  by (rule om.ok_empty)

lemma map_ok_set [simp]: "map_ok m \<Longrightarrow> map_ok (map_set k v m)"
  by (rule om.ok_set)

lemma map_ok_delete [simp]: "map_ok m \<Longrightarrow> map_ok (map_delete k m)"
  by (simp add: map_ok_def map_keys_delete [unfolded map_ok_def])

lemma map_ok_set_all [simp]: "map_ok m \<Longrightarrow> map_ok (set_all key val xs m)"
  by (simp add: set_all_def om.ok_fold)

lemma set_all_Nil [simp]: "set_all key val [] m = m"
  by (simp add: set_all_def)

lemma map_values_iff: "map_ok m \<Longrightarrow> v \<in> set (map_values m) \<longleftrightarrow> (\<exists>k. map_get m k = Some v)"
  by (force simp: map_get_def map_ok_def image_iff dest: map_of_SomeD)

text \<open>Rebuilding a map whose keys are distinct gives the list back.\<close>

lemma set_all_id: "distinct (map fst kvs) \<Longrightarrow> set_all fst snd kvs [] = kvs"
proof -
  have "distinct (map fst (m @ kvs)) \<Longrightarrow> set_all fst snd kvs m = m @ kvs" for m :: "('a, 'b) omap"
  proof (induction kvs arbitrary: m)
    case (Cons p kvs)
    then have "map_set (fst p) (snd p) m = m @ [p]"
      by (simp add: map_set_fresh)
    with Cons show ?case by (simp add: set_all_def)
  qed simp
  from this [of "[]"] show "distinct (map fst kvs) \<Longrightarrow> set_all fst snd kvs [] = kvs" by simp
qed

end
