(* ===== verification/Js_Json.thy ===== *)
theory Js_Json
  imports Js_Map
begin

section \<open>JSON text and URL components\<close>

text \<open>
  \<open>JSON.stringify\<close>, \<open>JSON.parse\<close>, \<open>encodeURIComponent\<close> and the query-string reading of
  \<open>URLSearchParams\<close>. The session is kept as JSON text in \<open>localStorage\<close> and handed to the admin
  console in a URL, so what the pages rely on is that reading undoes writing: \<open>JSON_parse_stringify\<close>
  and \<open>decode_encode\<close>. The parser is fuelled; the length of the text is always enough for what
  \<open>stringify\<close> writes, because every nested call consumes at least one character.
\<close>

subsection \<open>Writing\<close>

definition hex_char :: "nat \<Rightarrow> char" where
  "hex_char d = (if d < 10 then char_of (48 + d) else char_of (55 + d))"

definition QUOT :: char where "QUOT = CHR 0x22"

definition BSL :: char where "BSL = CHR 0x5C"

definition escape_char :: "char \<Rightarrow> string" where
  "escape_char c =
     (if c = QUOT then [BSL, QUOT] else if c = BSL then [BSL, BSL]
      else if c = CHR 0x0A then [BSL, CHR ''n''] else if c = CHR 0x0D then [BSL, CHR ''r'']
      else if c = CHR 0x09 then [BSL, CHR ''t''] else if c = CHR 0x08 then [BSL, CHR ''b'']
      else if c = CHR 0x0C then [BSL, CHR ''f'']
      else if (of_char c :: nat) < 32
        then [BSL, CHR ''u'', CHR ''0'', CHR ''0'', hex_char (of_char c div 16), hex_char (of_char c mod 16)]
      else [c])"

definition quote :: "string \<Rightarrow> string" where
  "quote s = QUOT # concat (map escape_char s) @ [QUOT]"

function stringify :: "jsval \<Rightarrow> string" where
  "stringify JUndef = ''null''"
| "stringify JNull = ''null''"
| "stringify (JBool b) = (if b then ''true'' else ''false'')"
| "stringify (JNum x) = num_to_string x"
| "stringify (JStr s) = quote s"
| "stringify (JArr xs) = ''['' @ join '','' (map stringify xs) @ '']''"
| "stringify (JObj kvs) =
     ''{'' @ join '','' (map (\<lambda>kv. quote (fst kv) @ '':'' @ stringify (snd kv))
                          (filter (\<lambda>kv. snd kv \<noteq> JUndef) kvs)) @ ''}''"
  by pat_completeness auto
termination
proof (relation "measure size", goal_cases)
  case (2 xs x)
  then show ?case by (induction xs) auto
next
  case (3 kvs kv)
  then show ?case by (induction kvs) (auto split: if_splits)
qed simp

subsection \<open>Reading\<close>

definition skip_ws :: "string \<Rightarrow> string" where
  "skip_ws s = dropWhile (\<lambda>c. c = CHR '' '' \<or> c = CHR 0x09 \<or> c = CHR 0x0A \<or> c = CHR 0x0D) s"

text \<open>The four hexadecimal digits of a \<open>\u\<close> escape, for the code points below 128.\<close>

definition unescape_u :: "string \<Rightarrow> char option" where
  "unescape_u ds =
     (if list_all (\<lambda>c. radix_val c < 16) ds \<and> foldl (\<lambda>a c. 16 * a + radix_val c) 0 ds < 128
      then Some (char_of (foldl (\<lambda>a c. 16 * a + radix_val c) 0 ds)) else None)"

definition unescape1 :: "char \<Rightarrow> char option" where
  "unescape1 c =
     (if c = QUOT \<or> c = BSL \<or> c = CHR ''/'' then Some c
      else if c = CHR ''n'' then Some (CHR 0x0A) else if c = CHR ''r'' then Some (CHR 0x0D)
      else if c = CHR ''t'' then Some (CHR 0x09) else if c = CHR ''b'' then Some (CHR 0x08)
      else if c = CHR ''f'' then Some (CHR 0x0C) else None)"

text \<open>The characters of a string literal, after its opening quote.\<close>

fun parse_str :: "string \<Rightarrow> (string \<times> string) option" where
  "parse_str [] = None"
| "parse_str (c # r) =
     (if c = QUOT then Some ([], r)
      else if c = BSL then
        (case r of
           [] \<Rightarrow> None
         | e # r1 \<Rightarrow>
             if e = CHR ''u'' then
               (case r1 of
                  a # b # d # h # r2 \<Rightarrow>
                    (case unescape_u [a, b, d, h] of None \<Rightarrow> None
                     | Some x \<Rightarrow> map_option (\<lambda>(s, t). (x # s, t)) (parse_str r2))
                | _ \<Rightarrow> None)
             else (case unescape1 e of None \<Rightarrow> None
                   | Some x \<Rightarrow> map_option (\<lambda>(s, t). (x # s, t)) (parse_str r1)))
      else if (of_char c :: nat) < 32 then None
      else map_option (\<lambda>(s, t). (c # s, t)) (parse_str r))"

definition num_token_char :: "char \<Rightarrow> bool" where
  "num_token_char c = (is_digit c \<or> c \<in> {CHR ''-'', CHR ''+'', CHR ''.'', CHR ''e'', CHR ''E''})"

text \<open>JSON forbids a leading zero, a leading plus or dot, and a dot with no digit after it.\<close>

definition json_num_shape :: "string \<Rightarrow> bool" where
  "json_num_shape t =
     (let u = (if prefix ''-'' t then tl t else t)
      in (case u of [] \<Rightarrow> False
          | c # r \<Rightarrow> is_digit c \<and> (c = CHR ''0'' \<longrightarrow> (case r of [] \<Rightarrow> True | d # _ \<Rightarrow> \<not> is_digit d)))
         \<and> (case dropWhile (\<lambda>c. c \<noteq> CHR ''.'') u of _ # d # _ \<Rightarrow> is_digit d | [_] \<Rightarrow> False | [] \<Rightarrow> True))"

definition parse_literal :: "string \<Rightarrow> (jsval \<times> string) option" where
  "parse_literal s =
     (if prefix ''null'' s then Some (JNull, drop 4 s)
      else if prefix ''true'' s then Some (JBool True, drop 4 s)
      else if prefix ''false'' s then Some (JBool False, drop 5 s)
      else let t = takeWhile num_token_char s
           in if json_num_shape t
              then (case signed_num t of Fin x \<Rightarrow> Some (JNum x, dropWhile num_token_char s) | _ \<Rightarrow> None)
              else None)"

fun parse_value :: "nat \<Rightarrow> string \<Rightarrow> (jsval \<times> string) option"
  and parse_items :: "nat \<Rightarrow> string \<Rightarrow> (jsval list \<times> string) option"
  and parse_fields :: "nat \<Rightarrow> string \<Rightarrow> ((string \<times> jsval) list \<times> string) option" where
  "parse_value 0 s = None"
| "parse_value (Suc n) s =
     (case skip_ws s of
        [] \<Rightarrow> None
      | c # r \<Rightarrow>
          if c = QUOT then map_option (\<lambda>(x, t). (JStr x, t)) (parse_str r)
          else if c = CHR ''['' then
            (if prefix '']'' (skip_ws r) then Some (JArr [], tl (skip_ws r))
             else map_option (\<lambda>(xs, t). (JArr xs, t)) (parse_items n r))
          else if c = CHR ''{'' then
            (if prefix ''}'' (skip_ws r) then Some (JObj [], tl (skip_ws r))
             else map_option (\<lambda>(kvs, t). (JObj (set_all fst snd kvs []), t)) (parse_fields n r))
          else parse_literal (c # r))"
| "parse_items 0 s = None"
| "parse_items (Suc n) s =
     (case parse_value n s of
        None \<Rightarrow> None
      | Some (v, r) \<Rightarrow>
          (case skip_ws r of
             [] \<Rightarrow> None
           | c # t \<Rightarrow>
               if c = CHR '','' then map_option (\<lambda>(vs, u). (v # vs, u)) (parse_items n t)
               else if c = CHR '']'' then Some ([v], t) else None))"
| "parse_fields 0 s = None"
| "parse_fields (Suc n) s =
     (case skip_ws s of
        [] \<Rightarrow> None
      | q # r0 \<Rightarrow>
          if q \<noteq> QUOT then None
          else (case parse_str r0 of
             None \<Rightarrow> None
           | Some (k, r1) \<Rightarrow>
               (case skip_ws r1 of
                  [] \<Rightarrow> None
                | col # r2 \<Rightarrow>
                    if col \<noteq> CHR '':'' then None
                    else (case parse_value n r2 of
                       None \<Rightarrow> None
                     | Some (v, r3) \<Rightarrow>
                         (case skip_ws r3 of
                            [] \<Rightarrow> None
                          | c # t \<Rightarrow>
                              if c = CHR '','' then map_option (\<lambda>(kvs, u). ((k, v) # kvs, u)) (parse_fields n t)
                              else if c = CHR ''}'' then Some ([(k, v)], t) else None)))))"

definition JSON_parse :: "string \<Rightarrow> js_error + jsval" where
  "JSON_parse s =
     (case parse_value (Suc (length s)) s of
        Some (v, r) \<Rightarrow> if skip_ws r = [] then Inr v else Inl (SyntaxError ''Unexpected token in JSON'')
      | None \<Rightarrow> Inl (SyntaxError ''Unexpected token in JSON''))"

subsection \<open>Reading undoes writing\<close>

text \<open>Values that survive a round trip: no \<open>undefined\<close>, integers as numbers, distinct keys.\<close>

fun json_wf :: "jsval \<Rightarrow> bool" where
  "json_wf JUndef = False"
| "json_wf (JNum x) = (x = of_int \<lfloor>x\<rfloor>)"
| "json_wf (JArr xs) = list_all json_wf xs"
| "json_wf (JObj kvs) = (distinct (map fst kvs) \<and> list_all (\<lambda>kv. json_wf (snd kv)) kvs)"
| "json_wf v = True"

definition ends_token :: "string \<Rightarrow> bool" where
  "ends_token r = (case r of [] \<Rightarrow> True | c # _ \<Rightarrow> \<not> num_token_char c)"

lemma ends_token_simps [simp]:
  "ends_token []"
  "ends_token (CHR '','' # r)" "ends_token (CHR '']'' # r)" "ends_token (CHR ''}'' # r)"
  by (simp_all add: ends_token_def num_token_char_def is_digit_def)

lemma radix_val_hex_char: "d < 16 \<Longrightarrow> radix_val (hex_char d) = d"
  by (cases "d < 10")
    (simp_all add: radix_val_def hex_char_def is_digit_def lower_char_def of_char_of Let_def)

lemma radix_val_0: "radix_val (CHR ''0'') = 0"
  by (simp add: radix_val_def is_digit_def lower_char_def)

lemma unescape_u_control:
  assumes "n < 32"
  shows "unescape_u [CHR ''0'', CHR ''0'', hex_char (n div 16), hex_char (n mod 16)] = Some (char_of n)"
proof -
  have "n div 16 < 16" "n mod 16 < 16" using assms by simp_all
  then show ?thesis using assms
    by (simp add: unescape_u_def radix_val_0 radix_val_hex_char)
qed

lemma parse_str_escape:
  "parse_str (escape_char c @ t) = map_option (\<lambda>(s, u). (c # s, u)) (parse_str t)"
proof -
  have "QUOT \<noteq> BSL" "QUOT \<noteq> CHR ''u''" "BSL \<noteq> CHR ''u''"
    by (simp_all add: QUOT_def BSL_def)
  then show ?thesis
    by (auto simp: escape_char_def unescape1_def unescape_u_control QUOT_def BSL_def)
qed

lemma parse_str_quote: "parse_str (concat (map escape_char s) @ QUOT # r) = Some (s, r)"
proof (induction s)
  case (Cons c s)
  then show ?case by (simp add: parse_str_escape)
qed simp

lemma takeWhile_all_append: "list_all P xs \<Longrightarrow> (case ys of [] \<Rightarrow> True | y # _ \<Rightarrow> \<not> P y) \<Longrightarrow>
    takeWhile P (xs @ ys) = xs \<and> dropWhile P (xs @ ys) = ys"
  by (induction xs) (auto split: list.splits)

lemma parse_decimal_nat: "parse_decimal (nat_to_string n) = Some (of_nat n)"
proof -
  have t: "takeWhile is_digit (nat_to_string n) = nat_to_string n"
    by (meson nat_to_string_digits takeWhile_eq_all_conv)
  have d: "dropWhile is_digit (nat_to_string n) = []"
    by (simp add: nat_to_string_digits)
  show ?thesis
    unfolding parse_decimal_def t d by (simp add: parse_exponent_def scale10_def)
qed

lemma nat_to_string_head:
  "\<exists>c r. nat_to_string n = c # r \<and> is_digit c \<and> (c = CHR ''0'' \<longrightarrow> r = [])"
proof (induction n rule: nat_to_string.induct)
  case (1 n)
  show ?case
  proof (cases "n < 10")
    case True
    then show ?thesis by (simp add: nat_to_string.simps [of n])
  next
    case False
    with 1 obtain c r where h: "nat_to_string (n div 10) = c # r" "is_digit c" "c = CHR ''0'' \<longrightarrow> r = []"
      by blast
    have "c \<noteq> CHR ''0''"
    proof
      assume "c = CHR ''0''"
      with h have "nat_to_string (n div 10) = ''0''" by simp
      then have "n div 10 = 0"
        using digits_val_nat_to_string [of "n div 10"] by (simp add: digits_val_def digit_val_def)
      with False show False by simp
    qed
    with h False show ?thesis by (simp add: nat_to_string.simps [of n])
  qed
qed

lemma not_digit [simp]:
  "\<not> is_digit (CHR ''-'')" "\<not> is_digit (CHR ''+'')" "\<not> is_digit (CHR ''.'')" "\<not> is_digit (CHR ''n'')"
  "\<not> is_digit (CHR ''t'')" "\<not> is_digit (CHR ''f'')" "\<not> is_digit (CHR ''I'')" "\<not> is_digit (CHR '']'')"
  "\<not> is_digit (CHR ''['')" "\<not> is_digit (CHR ''{'')" "\<not> is_digit QUOT"
  by (simp_all add: is_digit_def QUOT_def)

lemma dropWhile_dot: "list_all is_digit t \<Longrightarrow> dropWhile (\<lambda>c. c \<noteq> CHR ''.'') t = []"
  by (auto simp: dropWhile_eq_Nil_conv list_all_iff)

lemma nat_shape: "json_num_shape (nat_to_string n)" "json_num_shape (CHR ''-'' # nat_to_string n)"
proof -
  obtain c r where h: "nat_to_string n = c # r" "is_digit c" "c = CHR ''0'' \<longrightarrow> r = []"
    using nat_to_string_head by blast
  have "list_all is_digit (nat_to_string n)"
    by (simp add: list_all_iff nat_to_string_digits)
  then have d: "dropWhile (\<lambda>c. c \<noteq> CHR ''.'') (c # r) = []"
    unfolding h by (rule dropWhile_dot)
  from h have "c \<noteq> CHR ''-''" by auto
  with h d show "json_num_shape (nat_to_string n)" "json_num_shape (CHR ''-'' # nat_to_string n)"
    by (simp_all add: json_num_shape_def)
qed

lemma signed_num_nat: "signed_num (nat_to_string n) = Fin (of_nat n)"
proof -
  obtain c r where h: "nat_to_string n = c # r" "is_digit c"
    using nat_to_string_head by blast
  then have "c \<noteq> CHR ''-''" "c \<noteq> CHR ''+''" "c # r \<noteq> ''Infinity''" by auto
  with h show ?thesis using parse_decimal_nat [of n] by simp
qed

lemma signed_num_neg: "signed_num (CHR ''-'' # nat_to_string n) = Fin (- of_nat n)"
proof -
  have "nat_to_string n \<noteq> ''Infinity''"
    using nat_to_string_head [of n] by auto
  then show ?thesis by (simp add: parse_decimal_nat)
qed

text \<open>\<open>Number(x.toFixed(f))\<close> is the nearest multiple of \<open>10 ^ -f\<close>.\<close>

lemma digits_val_append: "digits_val (s @ t) = digits_val s * 10 ^ length t + digits_val t"
proof (induction t rule: rev_induct)
  case (snoc c t)
  have "digits_val (s @ t @ [c]) = 10 * digits_val (s @ t) + digit_val c"
    using digits_val_snoc [of "s @ t" c] by simp
  with snoc show ?case by (simp add: digits_val_snoc algebra_simps)
qed (simp add: digits_val_def)

lemma parse_decimal_fixed:
  assumes "ip \<noteq> []" and "list_all is_digit ip" and "list_all is_digit fp"
  shows "parse_decimal (ip @ CHR ''.'' # fp) = Some (of_nat (digits_val ip) + of_nat (digits_val fp) / 10 ^ length fp)"
proof -
  have ip: "takeWhile is_digit (ip @ CHR ''.'' # fp) = ip \<and> dropWhile is_digit (ip @ CHR ''.'' # fp) = CHR ''.'' # fp"
    by (rule takeWhile_all_append [OF assms(2)]) simp
  have fp: "takeWhile is_digit fp = fp" "dropWhile is_digit fp = []"
    using assms(3) by (simp_all add: list_all_iff)
  have "parse_decimal (ip @ CHR ''.'' # fp) = Some (scale10 (digits_val (ip @ fp)) (- int (length fp)))"
    unfolding parse_decimal_def conjunct1 [OF ip] conjunct2 [OF ip] using assms(1) fp
    by (simp add: Let_def parse_exponent_def del: takeWhile_eq_all_conv dropWhile_eq_Nil_conv)
  moreover have "scale10 (digits_val (ip @ fp)) (- int (length fp)) =
      of_nat (digits_val ip) + of_nat (digits_val fp) / 10 ^ length fp"
    by (simp add: scale10_def digits_val_append add_divide_distrib)
  ultimately show ?thesis by simp
qed

definition fixed_text :: "nat \<Rightarrow> nat \<Rightarrow> string" where
  "fixed_text f n = nat_to_string (n div 10 ^ f) @ (if f = 0 then [] else ''.'' @ padStart0 f (nat_to_string (n mod 10 ^ f)))"

lemma toFixed_text: "toFixed f x = (if x < 0 then ''-'' else []) @ fixed_text f (fixed_units f x)"
  by (simp add: toFixed_def fixed_text_def Let_def)

lemma parse_fixed_text: "parse_decimal (fixed_text f n) = Some (of_nat n / 10 ^ f)"
proof (cases "f = 0")
  case False
  let ?ip = "nat_to_string (n div 10 ^ f)" and ?fp = "padStart0 f (nat_to_string (n mod 10 ^ f))"
  have "list_all is_digit ?ip" by (simp add: list_all_iff nat_to_string_digits)
  then have "parse_decimal (?ip @ CHR ''.'' # ?fp) =
      Some (of_nat (n div 10 ^ f) + of_nat (n mod 10 ^ f) / 10 ^ f)"
    using parse_decimal_fixed [of ?ip ?fp] pad_digits [of f "n mod 10 ^ f"] False by (simp add: length_pad)
  moreover have "real (n div 10 ^ f) + real (n mod 10 ^ f) / 10 ^ f = real n / 10 ^ f"
  proof -
    have "real n = real (n div 10 ^ f) * 10 ^ f + real (n mod 10 ^ f)"
      using arg_cong [OF div_mult_mod_eq [of n "10 ^ f"], of real] by simp
    then show ?thesis by (simp add: add_divide_distrib)
  qed
  ultimately show ?thesis using False by (simp add: fixed_text_def)
qed (simp add: fixed_text_def parse_decimal_nat)

lemma fixed_text_chars: "c \<in> set (toFixed f x) \<Longrightarrow> is_digit c \<or> c = CHR ''.'' \<or> c = CHR ''-''"
  using pad_digits [of f "fixed_units f x mod 10 ^ f"]
  by (auto simp: toFixed_text fixed_text_def list_all_iff dest: nat_to_string_digits split: if_splits)

lemma is_ws_not_digit: "is_ws c \<Longrightarrow> \<not> is_digit c"
  by (auto simp: is_ws_def is_digit_def)

lemma trim_clean: "list_all (\<lambda>c. \<not> is_ws c) s \<Longrightarrow> trim s = s"
proof -
  assume s: "list_all (\<lambda>c. \<not> is_ws c) s"
  have "dropWhile is_ws t = t" if "list_all (\<lambda>c. \<not> is_ws c) t" for t using that by (cases t) auto
  from this [of s] this [of "rev s"] s show ?thesis by (simp add: trim_def)
qed

lemma fixed_clean: "list_all (\<lambda>c. \<not> is_ws c \<and> c \<noteq> CHR '','' \<and> c \<noteq> NL) (toFixed f x)"
proof -
  have "\<not> is_ws c \<and> c \<noteq> CHR '','' \<and> c \<noteq> NL" if "is_digit c \<or> c = CHR ''.'' \<or> c = CHR ''-''" for c
    using that by (auto simp: is_ws_def is_digit_def NL_def)
  then show ?thesis unfolding list_all_iff by (blast dest: fixed_text_chars)
qed

lemma fixed_text_head: "\<exists>c r. fixed_text f n = c # r \<and> is_digit c \<and> (c = CHR ''0'' \<longrightarrow> r = [] \<or> (\<exists>t. r = CHR ''.'' # t))"
  using nat_to_string_head [of "n div 10 ^ f"] by (auto simp: fixed_text_def)

lemma toNumber_toFixed: "toNumber (toFixed f x) = Fin (fixed_num f x)"
proof -
  obtain c r where h: "fixed_text f (fixed_units f x) = c # r" "is_digit c" "c = CHR ''0'' \<longrightarrow> r = [] \<or> (\<exists>t. r = CHR ''.'' # t)"
    using fixed_text_head by blast
  have tr: "trim (toFixed f x) = toFixed f x"
    using fixed_clean [of f x] by (intro trim_clean) (auto simp: list_all_iff)
  have sg: "c \<noteq> CHR ''-''" "c \<noteq> CHR ''+''" "c \<noteq> CHR ''I''" using h(2) by auto
  have "signed_num (toFixed f x) = Fin (fixed_num f x)"
    using sg parse_fixed_text [of f "fixed_units f x"] by (simp add: toFixed_text h(1) fixed_num_def)
  moreover have "\<not> prefix [CHR ''0'', k] (toFixed f x)" if "k \<noteq> CHR ''.''" for k
    using h(3) that by (auto simp: toFixed_text h(1))
  moreover have "toFixed f x \<noteq> []" by (simp add: toFixed_text h(1))
  ultimately show ?thesis by (simp add: toNumber_def tr Let_def)
qed

lemma toNumber_nat [simp]: "toNumber (nat_to_string n) = Fin (of_nat n)"
proof -
  have u: "fixed_units 0 (of_nat n) = n"
  proof -
    have "\<lfloor>real n + 1 / 2\<rfloor> = int n" by linarith
    then show ?thesis by (simp add: fixed_units_def)
  qed
  then show ?thesis using toNumber_toFixed [of 0 "of_nat n"] by (simp add: toFixed_def fixed_num_def)
qed

lemma parse_literal_token:
  assumes "list_all num_token_char t" and "ends_token r" and "json_num_shape t"
    and "signed_num t = Fin x" and "t = c # u" and "c \<notin> {CHR ''n'', CHR ''t'', CHR ''f''}"
  shows "parse_literal (t @ r) = Some (JNum x, r)"
proof -
  have "takeWhile num_token_char (t @ r) = t \<and> dropWhile num_token_char (t @ r) = r"
    using assms(1,2) by (intro takeWhile_all_append) (auto simp: ends_token_def split: list.splits)
  with assms show ?thesis by (auto simp: parse_literal_def)
qed

lemma num_token_nat: "list_all num_token_char (nat_to_string n)"
  by (simp add: list_all_iff num_token_char_def nat_to_string_digits)

lemma int_text:
  assumes "x = of_int \<lfloor>x\<rfloor>"
  shows "ends_token r \<Longrightarrow> parse_literal (num_to_string x @ r) = Some (JNum x, r)"
    and "\<exists>c u. num_to_string x = c # u \<and> (is_digit c \<or> c = CHR ''-'')"
proof -
  obtain n where "x = of_nat n \<or> (n \<noteq> 0 \<and> x = - of_nat n)"
    using assms by (cases "\<lfloor>x\<rfloor>") (metis of_int_of_nat_eq of_int_minus nat.distinct(1))+
  then have repr: "num_to_string x = nat_to_string n \<and> x = of_nat n \<or>
      num_to_string x = CHR ''-'' # nat_to_string n \<and> x = - of_nat n"
    by (metis num_to_string_nat num_to_string_neg not0_implies_Suc)
  then show "\<exists>c u. num_to_string x = c # u \<and> (is_digit c \<or> c = CHR ''-'')"
    using nat_to_string_head [of n] by auto
  obtain c u where "nat_to_string n = c # u" "is_digit c"
    using nat_to_string_head by blast
  moreover from this have "c \<notin> {CHR ''n'', CHR ''t'', CHR ''f''}" by auto
  ultimately have nat: "ends_token r \<Longrightarrow> parse_literal (nat_to_string n @ r) = Some (JNum (of_nat n), r)"
    using parse_literal_token [OF num_token_nat _ nat_shape(1) signed_num_nat] by blast
  have neg: "ends_token r \<Longrightarrow>
      parse_literal ((CHR ''-'' # nat_to_string n) @ r) = Some (JNum (- of_nat n), r)"
    by (rule parse_literal_token [where c = "CHR ''-''" and u = "nat_to_string n"])
      (simp_all add: num_token_nat nat_shape signed_num_neg num_token_char_def del: signed_num.simps)
  assume "ends_token r"
  with repr nat neg
  show "parse_literal (num_to_string x @ r) = Some (JNum x, r)" by auto
qed

lemma skip_ws_id:
  "c \<notin> {CHR '' '', CHR 0x09, CHR 0x0A, CHR 0x0D} \<Longrightarrow> skip_ws (c # r) = c # r"
  by (simp add: skip_ws_def)

text \<open>No value's text starts with white space or a closing bracket.\<close>

lemma stringify_head:
  assumes "json_wf v"
  shows "\<exists>c u. stringify v = c # u \<and> c \<notin> {CHR '' '', CHR 0x09, CHR 0x0A, CHR 0x0D, CHR '']''}"
proof (cases v)
  case (JNum x)
  with assms int_text(2) [of x] obtain c u where "num_to_string x = c # u" "is_digit c \<or> c = CHR ''-''"
    by auto
  moreover from this have "c \<notin> {CHR '' '', CHR 0x09, CHR 0x0A, CHR 0x0D, CHR '']''}"
    by (auto simp: is_digit_def)
  ultimately show ?thesis using JNum by simp
qed (use assms in \<open>auto simp: quote_def QUOT_def\<close>)

definition reads_back :: "jsval \<Rightarrow> bool" where
  "reads_back v \<longleftrightarrow>
     (\<forall>n r. size v < n \<longrightarrow> ends_token r \<longrightarrow> parse_value n (stringify v @ r) = Some (v, r))"

lemma parse_items_join:
  assumes "list_all reads_back xs" and "xs \<noteq> []" and "size_list size xs < n"
  shows "parse_items n (join '','' (map stringify xs) @ CHR '']'' # r) = Some (xs, r)"
  using assms
proof (induction xs arbitrary: n)
  case (Cons x xs)
  then obtain m where n: "n = Suc m" and m: "size x < m" "size_list size xs < m"
    by (cases n) auto
  show ?case
  proof (cases xs)
    case Nil
    with Cons.prems m show ?thesis
      by (simp add: n reads_back_def skip_ws_id)
  next
    case (Cons y ys)
    have "parse_value m (stringify x @ CHR '','' # (join '','' (map stringify xs) @ CHR '']'' # r))
        = Some (x, CHR '','' # (join '','' (map stringify xs) @ CHR '']'' # r))"
      using Cons.prems m by (simp add: reads_back_def)
    moreover have "parse_items m (join '','' (map stringify xs) @ CHR '']'' # r) = Some (xs, r)"
      using Cons.prems m Cons by (intro Cons.IH) auto
    ultimately show ?thesis
      using Cons by (simp add: n skip_ws_id)
  qed
qed simp

abbreviation field_text :: "string \<times> jsval \<Rightarrow> string" where
  "field_text kv \<equiv> quote (fst kv) @ '':'' @ stringify (snd kv)"

lemma parse_fields_join:
  assumes "list_all (\<lambda>kv. reads_back (snd kv)) kvs" and "kvs \<noteq> []"
    and "size_list (size_prod (\<lambda>_. 0) size) kvs < n"
  shows "parse_fields n (join '','' (map field_text kvs) @ CHR ''}'' # r) = Some (kvs, r)"
  using assms
proof (induction kvs arbitrary: n)
  case (Cons kv kvs)
  obtain k v where kv: "kv = (k, v)" by (cases kv)
  from Cons.prems obtain m where n: "n = Suc m"
    and m: "size v < m" "size_list (size_prod (\<lambda>_. 0) size) kvs < m"
    by (cases n) (auto simp: kv)
  have str: "parse_str (concat (map escape_char k) @ QUOT # t) = Some (k, t)" for t
    by (rule parse_str_quote)
  have val: "ends_token t \<Longrightarrow> parse_value m (stringify v @ t) = Some (v, t)" for t
    using Cons.prems m by (simp add: reads_back_def kv)
  have q: "skip_ws (QUOT # t) = QUOT # t" for t
    by (simp add: skip_ws_id QUOT_def)
  show ?case
  proof (cases kvs)
    case Nil
    then show ?thesis
      by (simp add: n kv quote_def q str val skip_ws_id)
  next
    case (Cons y ys)
    have "parse_fields m (join '','' (map field_text kvs) @ CHR ''}'' # r) = Some (kvs, r)"
      using Cons.prems m Cons by (intro Cons.IH) auto
    with Cons show ?thesis
      by (simp add: n kv quote_def q str val skip_ws_id)
  qed
qed simp

lemma stringify_no_undef: "json_wf (JObj kvs) \<Longrightarrow> filter (\<lambda>kv. snd kv \<noteq> JUndef) kvs = kvs"
  by (induction kvs) auto

lemma reads_back_obj:
  assumes "json_wf (JObj kvs)" and "list_all (\<lambda>kv. reads_back (snd kv)) kvs"
  shows "reads_back (JObj kvs)"
  unfolding reads_back_def
proof (intro allI impI)
  fix n r
  assume n: "size (JObj kvs) < n" and r: "ends_token r"
  then obtain m where m: "n = Suc m" "size_list (size_prod (\<lambda>_. 0) size) kvs < m"
    by (cases n) auto
  have eq: "stringify (JObj kvs) @ r = CHR ''{'' # join '','' (map field_text kvs) @ CHR ''}'' # r"
    using stringify_no_undef [OF assms(1)] by simp
  show "parse_value n (stringify (JObj kvs) @ r) = Some (JObj kvs, r)"
  proof (cases kvs)
    case Nil
    then show ?thesis by (simp add: m skip_ws_id QUOT_def)
  next
    case (Cons kv ks)
    then obtain t where t: "join '','' (map field_text kvs) = QUOT # t"
      by (cases ks) (auto simp: quote_def)
    have "parse_fields m (join '','' (map field_text kvs) @ CHR ''}'' # r) = Some (kvs, r)"
      using assms(2) m Cons by (intro parse_fields_join) auto
    then have "parse_fields m ((QUOT # t) @ CHR ''}'' # r) = Some (kvs, r)"
      by (simp only: t)
    moreover have "set_all fst snd kvs [] = kvs"
      using assms(1) by (simp add: set_all_id)
    ultimately show ?thesis
      unfolding eq t by (simp add: m skip_ws_id QUOT_def)
  qed
qed

lemma reads_back_arr:
  assumes "json_wf (JArr xs)" and "list_all reads_back xs"
  shows "reads_back (JArr xs)"
  unfolding reads_back_def
proof (intro allI impI)
  fix n r
  assume n: "size (JArr xs) < n" and r: "ends_token r"
  then obtain m where m: "n = Suc m" "size_list size xs < m"
    by (cases n) auto
  show "parse_value n (stringify (JArr xs) @ r) = Some (JArr xs, r)"
  proof (cases xs)
    case Nil
    then show ?thesis by (simp add: m skip_ws_id QUOT_def)
  next
    case (Cons y ys)
    with assms(1) obtain c u where c: "stringify y = c # u"
      "c \<notin> {CHR '' '', CHR 0x09, CHR 0x0A, CHR 0x0D, CHR '']''}"
      using stringify_head [of y] by auto
    then obtain t where t: "join '','' (map stringify xs) = c # t"
      by (cases ys) (auto simp: Cons)
    have "parse_items m (join '','' (map stringify xs) @ CHR '']'' # r) = Some (xs, r)"
      using assms(2) m Cons by (intro parse_items_join) auto
    moreover from c have "CHR '']'' \<noteq> c" by auto
    ultimately show ?thesis
      using c by (simp add: m t skip_ws_id QUOT_def)
  qed
qed

lemma stringify_reads_back: "json_wf v \<Longrightarrow> reads_back v"
proof (induction v)
  case (JNum x)
  then obtain c u where c: "num_to_string x = c # u" "is_digit c \<or> c = CHR ''-''"
    using int_text(2) [of x] by auto
  then have "c \<notin> {CHR '' '', CHR 0x09, CHR 0x0A, CHR 0x0D, CHR ''['', CHR ''{'', QUOT}"
    by (auto simp: is_digit_def QUOT_def)
  then show ?case
    unfolding reads_back_def
    using int_text(1) [of x] JNum c by (auto simp: gr0_conv_Suc skip_ws_id)
next
  case (JStr s)
  have "skip_ws (QUOT # t) = QUOT # t" for t
    by (simp add: skip_ws_id QUOT_def)
  then show ?case
    by (auto simp: reads_back_def gr0_conv_Suc quote_def parse_str_quote)
next
  case (JArr xs)
  then show ?case by (intro reads_back_arr) (auto simp: list_all_iff)
next
  case (JObj kvs)
  then show ?case by (intro reads_back_obj) (force simp: list_all_iff prod_set_simps)+
qed (auto simp: reads_back_def gr0_conv_Suc skip_ws_id QUOT_def parse_literal_def)

lemma size_le_join:
  "(\<And>x. x \<in> set xs \<Longrightarrow> g x \<le> length (f x)) \<Longrightarrow> size_list g xs \<le> Suc (length (join '','' (map f xs)))"
proof (induction xs)
  case (Cons x xs)
  then have "g x \<le> length (f x)" "size_list g xs \<le> Suc (length (join '','' (map f xs)))"
    by simp_all
  then show ?case by (cases xs) simp_all
qed simp

lemma size_le_length: "json_wf v \<Longrightarrow> size v \<le> length (stringify v)"
proof (induction v)
  case (JArr xs)
  then have "size_list size xs \<le> Suc (length (join '','' (map stringify xs)))"
    by (intro size_le_join) (auto simp: list_all_iff)
  then show ?case by simp
next
  case (JObj kvs)
  then have "size_list (size_prod (\<lambda>_. 0) size) kvs \<le> Suc (length (join '','' (map field_text kvs)))"
    by (intro size_le_join) (fastforce simp: list_all_iff quote_def prod_set_simps)
  then show ?case
    using stringify_no_undef [OF JObj.prems] by simp
qed auto

theorem JSON_parse_stringify: "json_wf v \<Longrightarrow> JSON_parse (stringify v) = Inr v"
proof -
  assume v: "json_wf v"
  then have "parse_value (Suc (length (stringify v))) (stringify v @ []) = Some (v, [])"
    using stringify_reads_back [OF v] size_le_length [OF v]
    unfolding reads_back_def by (meson ends_token_simps(1) le_imp_less_Suc)
  then show ?thesis
    by (simp add: JSON_parse_def skip_ws_def del: parse_value.simps)
qed

lemma stringify_nonempty: "json_wf v \<Longrightarrow> stringify v \<noteq> []"
  using stringify_head by fastforce

subsection \<open>URL components\<close>

definition unreserved :: "char \<Rightarrow> bool" where
  "unreserved c =
     (is_digit c
      \<or> 65 \<le> (of_char c :: nat) \<and> (of_char c :: nat) \<le> 90 \<or> 97 \<le> (of_char c :: nat) \<and> (of_char c :: nat) \<le> 122
      \<or> c \<in> set ''-_.!~*()'' \<or> c = CHR 0x27)"

definition encode_char :: "char \<Rightarrow> string" where
  "encode_char c =
     (if unreserved c then [c] else [CHR ''%'', hex_char (of_char c div 16), hex_char (of_char c mod 16)])"

definition encodeURIComponent :: "string \<Rightarrow> string" where
  "encodeURIComponent s = concat (map encode_char s)"

text \<open>How \<open>URLSearchParams\<close> reads a name or a value.\<close>

fun decode_comp :: "string \<Rightarrow> string" where
  "decode_comp [] = []"
| "decode_comp (c # r) =
     (if c = CHR ''+'' then CHR '' '' # decode_comp r
      else if c = CHR ''%'' then
        (case r of
           a # b # r' \<Rightarrow>
             if radix_val a < 16 \<and> radix_val b < 16
             then char_of (16 * radix_val a + radix_val b) # decode_comp r'
             else c # decode_comp r
         | _ \<Rightarrow> c # decode_comp r)
      else c # decode_comp r)"

definition split_pair :: "string \<Rightarrow> string \<times> string" where
  "split_pair s = (decode_comp (takeWhile (\<lambda>c. c \<noteq> CHR ''='') s),
                   decode_comp (tl (dropWhile (\<lambda>c. c \<noteq> CHR ''='') s)))"

definition parse_query :: "string \<Rightarrow> (string \<times> string) list" where
  "parse_query q = map split_pair (filter (\<lambda>s. s \<noteq> []) (split_on (CHR ''&'') q))"

definition param_get :: "(string \<times> string) list \<Rightarrow> string \<Rightarrow> string option" where
  "param_get ps k = map_of ps k"

definition param_has :: "(string \<times> string) list \<Rightarrow> string \<Rightarrow> bool" where
  "param_has ps k = (k \<in> set (map fst ps))"

definition param_delete :: "string \<Rightarrow> (string \<times> string) list \<Rightarrow> (string \<times> string) list" where
  "param_delete k ps = filter (\<lambda>p. fst p \<noteq> k) ps"

text \<open>\<open>set\<close> replaces the first occurrence and drops the others.\<close>

fun param_set :: "string \<Rightarrow> string \<Rightarrow> (string \<times> string) list \<Rightarrow> (string \<times> string) list" where
  "param_set k v [] = [(k, v)]"
| "param_set k v ((k', v') # ps) =
     (if k = k' then (k, v) # param_delete k ps else (k', v') # param_set k v ps)"

text \<open>\<open>URLSearchParams.toString\<close>.\<close>

definition form_char :: "char \<Rightarrow> string" where
  "form_char c =
     (if c = CHR '' '' then ''+''
      else if unreserved c \<and> c \<notin> set ''!~()'' \<and> c \<noteq> CHR 0x27 then [c]
      else [CHR ''%'', hex_char (of_char c div 16), hex_char (of_char c mod 16)])"

definition query_string :: "(string \<times> string) list \<Rightarrow> string" where
  "query_string ps =
     join ''&'' (map (\<lambda>(k, v). concat (map form_char k) @ ''='' @ concat (map form_char v)) ps)"

lemma param_get_set [simp]: "param_get (param_set k v ps) k = Some v"
  by (induction ps) (auto simp: param_get_def)

lemma of_char_bound: "(of_char c :: nat) < 256"
  using of_char_mod_256 [of c] by (metis mod_less_divisor zero_less_numeral)

lemma decode_encode_char: "decode_comp (encode_char c @ t) = c # decode_comp t"
proof (cases "unreserved c")
  case True
  then have "c \<noteq> CHR ''+''" "c \<noteq> CHR ''%''"
    by (auto simp: unreserved_def is_digit_def)
  with True show ?thesis by (simp add: encode_char_def)
next
  case False
  have "(of_char c :: nat) < 256" by (rule of_char_bound)
  then have "radix_val (hex_char (of_char c div 16)) = of_char c div 16"
    "radix_val (hex_char (of_char c mod 16)) = of_char c mod 16"
    by (simp_all add: radix_val_hex_char less_mult_imp_div_less)
  moreover have "(of_char c :: nat) div 16 < 16"
    using \<open>of_char c < 256\<close> by (simp add: less_mult_imp_div_less)
  ultimately show ?thesis
    using False by (simp add: encode_char_def mult.commute [of 16])
qed

lemma decode_encode: "decode_comp (encodeURIComponent s) = s"
  by (induction s) (simp_all add: encodeURIComponent_def decode_encode_char)

lemma hex_char_safe:
  assumes "d < 16"
  shows "hex_char d \<notin> {CHR ''&'', CHR ''='', CHR ''#''}"
proof -
  have "(of_char (hex_char d) :: nat) = (if d < 10 then 48 + d else 55 + d)"
    using assms by (simp add: hex_char_def of_char_of)
  then have "(of_char (hex_char d) :: nat) \<ge> 48 \<and> (of_char (hex_char d) :: nat) \<noteq> 61"
    using assms by auto
  then show ?thesis by auto
qed

lemma encode_char_safe: "set (encode_char c) \<inter> {CHR ''&'', CHR ''='', CHR ''#''} = {}"
proof (cases "unreserved c")
  case True
  then have "c \<notin> {CHR ''&'', CHR ''='', CHR ''#''}"
    by (auto simp: unreserved_def is_digit_def)
  with True show ?thesis by (simp add: encode_char_def)
next
  case False
  have "(of_char c :: nat) < 256" by (rule of_char_bound)
  then have "hex_char (of_char c div 16) \<notin> {CHR ''&'', CHR ''='', CHR ''#''}"
    "hex_char (of_char c mod 16) \<notin> {CHR ''&'', CHR ''='', CHR ''#''}"
    by (simp_all add: hex_char_safe less_mult_imp_div_less del: insert_iff)
  with False show ?thesis by (auto simp: encode_char_def)
qed

lemma encode_safe: "set (encodeURIComponent s) \<inter> {CHR ''&'', CHR ''='', CHR ''#''} = {}"
  using encode_char_safe by (fastforce simp: encodeURIComponent_def)

lemma split_pair_encode:
  assumes "CHR ''='' \<notin> set k"
  shows "split_pair (k @ CHR ''='' # encodeURIComponent v) = (decode_comp k, v)"
proof -
  have "takeWhile (\<lambda>c. c \<noteq> CHR ''='') (k @ CHR ''='' # t) = k \<and>
        dropWhile (\<lambda>c. c \<noteq> CHR ''='') (k @ CHR ''='' # t) = CHR ''='' # t" for t
    using assms by (induction k) auto
  then show ?thesis by (simp add: split_pair_def decode_encode)
qed

text \<open>A query of two encoded parameters is read back exactly.\<close>

lemma parse_query_two:
  assumes "CHR ''='' \<notin> set k" "CHR ''&'' \<notin> set k" "CHR ''='' \<notin> set l" "CHR ''&'' \<notin> set l"
  shows "parse_query (k @ ''='' @ encodeURIComponent a @ ''&'' @ l @ ''='' @ encodeURIComponent b)
       = [(decode_comp k, a), (decode_comp l, b)]"
proof -
  let ?p = "k @ CHR ''='' # encodeURIComponent a" and ?q = "l @ CHR ''='' # encodeURIComponent b"
  have "CHR ''&'' \<notin> set ?p" "CHR ''&'' \<notin> set ?q"
    using assms encode_safe [of a] encode_safe [of b] by auto
  then have "split_on (CHR ''&'') (?p @ CHR ''&'' # ?q) = [?p, ?q]"
    using split_on_append [of "CHR ''&''" ?p ?q] split_on_no_sep [of "CHR ''&''" ?q] by simp
  then show ?thesis
    using assms by (simp add: parse_query_def split_pair_encode)
qed

subsection \<open>\<open>String(v)\<close>\<close>

fun js_to_string :: "jsval \<Rightarrow> string" where
  "js_to_string JUndef = ''undefined''"
| "js_to_string JNull = ''null''"
| "js_to_string (JBool b) = (if b then ''true'' else ''false'')"
| "js_to_string (JNum x) = num_to_string x"
| "js_to_string (JStr s) = s"
| "js_to_string (JArr xs) = join '','' (map (\<lambda>x. if nullish x then [] else js_to_string x) xs)"
| "js_to_string (JObj kvs) = ''[object Object]''"

text \<open>What \<open>setItem(key, JSON.stringify(v))\<close> stores: the text, and \<open>undefined\<close> spelled out.\<close>

definition stringify_item :: "jsval \<Rightarrow> string" where
  "stringify_item v = (if v = JUndef then ''undefined'' else stringify v)"

text \<open>\<open>Number(v)\<close> of any value.\<close>

definition js_Number :: "jsval \<Rightarrow> jsnum" where
  "js_Number v =
     (case v of
        JUndef \<Rightarrow> NaN
      | JNull \<Rightarrow> Fin 0
      | JBool b \<Rightarrow> Fin (if b then 1 else 0)
      | JNum x \<Rightarrow> Fin x
      | _ \<Rightarrow> toNumber (js_to_string v))"

end
