(* ===== verification/Browser.thy ===== *)
theory Browser
  imports Js_Json
begin

section \<open>The browser around the two front ends\<close>

text \<open>
  What the pages see of the browser: the address, \<open>localStorage\<close>, the network, and the log of what
  they asked it to do. The network is a parameter (field \<open>net\<close>): any function from the requests sent
  so far and the new request to an outcome, so the server may change its mind between requests.
  A fetch is rejected (\<open>Inl\<close>, with the message) or resolves to a response, whose body is read by
  \<open>res.json()\<close> and may fail to parse. \<open>ls_blocked\<close> is the setting under which every access to
  \<open>localStorage\<close> throws.

  The locale \<open>authorised_fetch\<close> is the contract that the pages of both consoles rely on: one call sends
  at most one request, leaves the rest of the log alone and marks each request it sends. Both
  \<open>fetchWithAuth\<close> functions are interpretations of it.
\<close>

record response =
  status :: int
  statusText :: string
  body :: "string + jsval"

definition res_ok :: "response \<Rightarrow> bool" where
  "res_ok r = (200 \<le> status r \<and> status r \<le> 299)"

definition res_json :: "response \<Rightarrow> js_error + jsval" where
  "res_json r = (case body r of Inl m \<Rightarrow> Inl (SyntaxError m) | Inr v \<Rightarrow> Inr v)"

text \<open>\<open>res.json().catch(() => null)\<close> and \<open>res.json().catch(() => ({}))\<close>.\<close>

definition json_or :: "jsval \<Rightarrow> response \<Rightarrow> jsval" where
  "json_or d r = (case body r of Inl m \<Rightarrow> d | Inr v \<Rightarrow> v)"

datatype req_body = NoBody | JsonBody jsval | FormBody

record request =
  rq_method :: string
  rq_base :: string
  rq_path :: string
  rq_params :: "(string \<times> string) list"
  rq_headers :: "(string \<times> string) list"
  rq_body :: req_body

text \<open>The \<open>RequestInit\<close> a page passes.\<close>

record options =
  o_method :: string
  o_headers :: "(string \<times> string) list"
  o_body :: req_body

definition GET :: options where
  "GET = \<lparr>o_method = ''GET'', o_headers = [], o_body = NoBody\<rparr>"

definition json_headers :: "(string \<times> string) list" where
  "json_headers = [(''Content-Type'', ''application/json'')]"

definition send_json :: "string \<Rightarrow> jsval \<Rightarrow> options" where
  "send_json m v = \<lparr>o_method = m, o_headers = json_headers, o_body = JsonBody v\<rparr>"

definition plain_json :: "string \<Rightarrow> jsval \<Rightarrow> options" where
  "plain_json m v = \<lparr>o_method = m, o_headers = [], o_body = JsonBody v\<rparr>"

definition no_body :: "string \<Rightarrow> options" where
  "no_body m = \<lparr>o_method = m, o_headers = [], o_body = NoBody\<rparr>"

record location =
  protocol :: string
  hostname :: string
  port :: string
  pathname :: string
  search :: string
  hash :: string

definition host_of :: "location \<Rightarrow> string" where
  "host_of l = (if port l = [] then hostname l else hostname l @ '':'' @ port l)"

definition origin_of :: "location \<Rightarrow> string" where
  "origin_of l = protocol l @ ''//'' @ host_of l"

text \<open>The state of the client's \<open>useAuthStore\<close>; \<open>null\<close> is \<open>JNull\<close>.\<close>

record auth_state =
  au_token :: jsval
  au_user :: jsval
  isAuthenticated :: bool

definition signed_out :: auth_state where
  "signed_out = \<lparr>au_token = JNull, au_user = JNull, isAuthenticated = False\<rparr>"

record browser =
  loc :: location
  storage :: "string \<Rightarrow> string option"
  ls_blocked :: bool
  auth :: auth_state
  redirects :: "string list"
  events :: "string list"
  clipboard :: "string list"
  downloads :: "(string \<times> string) list"
  sent :: "request list"
  net :: "request list \<Rightarrow> request \<Rightarrow> string + response"

subsection \<open>localStorage\<close>

definition storage_error :: js_error where
  "storage_error = ErrorMsg ''Access is denied for this document.''"

definition getItem :: "browser \<Rightarrow> string \<Rightarrow> js_error + string option" where
  "getItem w k = (if ls_blocked w then Inl storage_error else Inr (storage w k))"

definition setItem :: "string \<Rightarrow> string \<Rightarrow> browser \<Rightarrow> js_error + browser" where
  "setItem k v w =
     (if ls_blocked w then Inl storage_error else Inr (w\<lparr>storage := (storage w)(k \<mapsto> v)\<rparr>))"

definition removeItem :: "string \<Rightarrow> browser \<Rightarrow> js_error + browser" where
  "removeItem k w =
     (if ls_blocked w then Inl storage_error else Inr (w\<lparr>storage := (storage w)(k := None)\<rparr>))"

text \<open>A \<open>try { ... } catch { log }\<close> around storage calls that are all of one kind.\<close>

definition set_items :: "(string \<times> string) list \<Rightarrow> browser \<Rightarrow> browser" where
  "set_items kvs w = (if ls_blocked w then w else w\<lparr>storage := (storage w)(map fst kvs [\<mapsto>] map snd kvs)\<rparr>)"

definition remove_items :: "string list \<Rightarrow> browser \<Rightarrow> browser" where
  "remove_items ks w =
     (if ls_blocked w then w else w\<lparr>storage := (\<lambda>k. if k \<in> set ks then None else storage w k)\<rparr>)"

subsection \<open>Requests\<close>

text \<open>\<open>fetch\<close>: the request is logged and the network answers.\<close>

definition fetch :: "browser \<Rightarrow> request \<Rightarrow> browser \<times> (js_error + response)" where
  "fetch w q =
     (w\<lparr>sent := sent w @ [q]\<rparr>,
      case net w (sent w) q of Inl m \<Rightarrow> Inl (NetworkError m) | Inr r \<Rightarrow> Inr r)"

text \<open>\<open>new URL(path, base)\<close>: path and query parameters; a fragment is never sent.\<close>

definition url_path :: "string \<Rightarrow> string" where
  "url_path s = takeWhile (\<lambda>c. c \<noteq> CHR ''?'' \<and> c \<noteq> CHR ''#'') s"

definition url_params :: "string \<Rightarrow> (string \<times> string) list" where
  "url_params s =
     parse_query (tl (dropWhile (\<lambda>c. c \<noteq> CHR ''?'') (takeWhile (\<lambda>c. c \<noteq> CHR ''#'') s)))"

text \<open>\<open>Headers\<close> keeps names in lower case.\<close>

definition new_Headers :: "(string \<times> string) list \<Rightarrow> (string \<times> string) list" where
  "new_Headers hs = set_all (\<lambda>h. toLowerCase (fst h)) snd hs []"

definition header_set :: "string \<Rightarrow> string \<Rightarrow> (string \<times> string) list \<Rightarrow> (string \<times> string) list" where
  "header_set k v hs = map_set (toLowerCase k) v hs"

definition header_has :: "string \<Rightarrow> (string \<times> string) list \<Rightarrow> bool" where
  "header_has k hs = map_has hs (toLowerCase k)"

definition header_get :: "string \<Rightarrow> (string \<times> string) list \<Rightarrow> string option" where
  "header_get k hs = map_get hs (toLowerCase k)"

lemma header_get_set:
  "header_get k (header_set l v hs) = (if toLowerCase k = toLowerCase l then Some v else header_get k hs)"
  by (simp add: header_get_def header_set_def map_get_def map_of_set)

text \<open>
  The content-type rule of both \<open>fetch\<close> wrappers: a caller's own header is kept, a form sets its own.
\<close>

definition default_content_type :: "options \<Rightarrow> (string \<times> string) list \<Rightarrow> (string \<times> string) list" where
  "default_content_type opt hs =
     (if \<not> header_has ''Content-Type'' hs \<and> o_body opt \<noteq> FormBody
      then header_set ''Content-Type'' ''application/json'' hs else hs)"

lemma content_type_keeps_authorization:
  "header_get ''Authorization'' (default_content_type opt hs) = header_get ''Authorization'' hs"
  by (simp add: default_content_type_def header_get_set toLowerCase_def lower_char_def)

subsection \<open>The contract of an authorised fetch\<close>

text \<open>
  A wrapper of \<open>fetch\<close> runs up to the \<open>await\<close> at once (\<open>sender\<close>) and does the rest when the answer is
  there (\<open>settler\<close>). A page that awaits one call sees both in sequence; \<open>Promise.all\<close> starts every call
  before any answer is handled.
\<close>

type_synonym fetcher = "browser \<Rightarrow> string \<Rightarrow> options \<Rightarrow> browser \<times> (js_error + response)"

type_synonym settler = "js_error + response \<Rightarrow> browser \<Rightarrow> browser"

definition await_fetch :: "fetcher \<Rightarrow> settler \<Rightarrow> fetcher" where
  "await_fetch send settle w e opt = (let (w1, r) = send w e opt in (settle r w1, r))"

fun send_all :: "fetcher \<Rightarrow> browser \<Rightarrow> (string \<times> options) list \<Rightarrow> browser \<times> (js_error + response) list" where
  "send_all send w [] = (w, [])"
| "send_all send w ((e, opt) # es) =
     (let (w1, r) = send w e opt; (w2, rs) = send_all send w1 es in (w2, r # rs))"

definition run_all ::
  "fetcher \<Rightarrow> settler \<Rightarrow> browser \<Rightarrow> (string \<times> options) list \<Rightarrow> browser \<times> (js_error + response) list" where
  "run_all send settle w es = (let (w1, rs) = send_all send w es in (fold settle rs w1, rs))"

text \<open>\<open>Promise.all\<close>: the first rejection rejects the whole.\<close>

fun promise_all :: "('e + 'a) list \<Rightarrow> 'e + 'a list" where
  "promise_all [] = Inr []"
| "promise_all (r # rs) =
     (case r of Inl x \<Rightarrow> Inl x
      | Inr a \<Rightarrow> (case promise_all rs of Inl x \<Rightarrow> Inl x | Inr as \<Rightarrow> Inr (a # as)))"

definition fetch_all :: "fetcher \<Rightarrow> settler \<Rightarrow> browser \<Rightarrow> string list \<Rightarrow> browser \<times> (js_error + response list)" where
  "fetch_all send settle w es =
     (let (w1, rs) = run_all send settle w (map (\<lambda>e. (e, GET)) es) in (w1, promise_all rs))"

lemma promise_all_Inr [simp]: "promise_all (map Inr as) = Inr as"
  by (induction as) auto

lemma promise_all_eq: "promise_all rs = Inr as \<longleftrightarrow> rs = map Inr as"
proof
  show "promise_all rs = Inr as \<Longrightarrow> rs = map Inr as"
    by (induction rs arbitrary: as) (auto split: sum.splits)
qed simp

lemma length_send_all [simp]: "length (snd (send_all send w es)) = length es"
  by (induction es arbitrary: w) (auto simp: split_beta Let_def)

text \<open>The requests between two states of the browser all satisfy \<open>P\<close>.\<close>

definition adds_only :: "(request \<Rightarrow> bool) \<Rightarrow> browser \<Rightarrow> browser \<Rightarrow> bool" where
  "adds_only P w w' \<longleftrightarrow> (\<exists>qs. sent w' = sent w @ qs \<and> list_all P qs)"

lemma adds_refl [simp]: "adds_only P w w"
  by (simp add: adds_only_def)

lemma adds_trans: "adds_only P u v \<Longrightarrow> adds_only P v w \<Longrightarrow> adds_only P u w"
  by (auto simp: adds_only_def)

lemma adds_mono: "adds_only P w w' \<Longrightarrow> (\<And>q. P q \<Longrightarrow> Q q) \<Longrightarrow> adds_only Q w w'"
  by (auto simp: adds_only_def list_all_iff)

lemma adds_rtranclp: "r\<^sup>*\<^sup>* u w \<Longrightarrow> (\<And>x y. r x y \<Longrightarrow> adds_only P x y) \<Longrightarrow> adds_only P u w"
  by (induction rule: rtranclp_induct) (auto intro: adds_trans)

locale authorised_fetch =
  fixes send :: fetcher
    and settle :: settler
    and authorised :: "request \<Rightarrow> bool"
  assumes sends_at_most_one:
      "sent (fst (send w e opt)) = sent w \<or>
       (\<exists>q. sent (fst (send w e opt)) = sent w @ [q] \<and> authorised q)"
    and answer_needs_request:
      "snd (send w e opt) = Inr r \<Longrightarrow> \<exists>q. sent (fst (send w e opt)) = sent w @ [q]"
    and keeps_network: "net (fst (send w e opt)) = net w"
    and settle_log: "sent (settle a w) = sent w"
    and settle_network: "net (settle a w) = net w"
begin

abbreviation extends_log :: "browser \<Rightarrow> browser \<Rightarrow> bool" where
  "extends_log \<equiv> adds_only authorised"

lemma send_extends: "extends_log w (fst (send w e opt))"
  using sends_at_most_one [of w e opt] by (auto simp: adds_only_def)

lemma await_extends: "extends_log w (fst (await_fetch send settle w e opt))"
  using send_extends [of w e opt] by (simp add: await_fetch_def split_beta Let_def adds_only_def settle_log)

lemma fold_settle_log: "sent (fold settle rs w) = sent w"
  by (induction rs arbitrary: w) (simp_all add: settle_log)

lemma send_all_extends: "extends_log w (fst (send_all send w es))"
proof (induction es arbitrary: w)
  case (Cons x es)
  obtain e opt where "x = (e, opt)" by fastforce
  with Cons show ?case
    by (auto simp: split_beta Let_def intro!: adds_trans [OF send_extends [of w e opt]])
qed (simp add: adds_refl)

text \<open>A page load adds only authorised requests to the log, and every answer is to a request of its own.\<close>

lemma fetch_all_extends: "extends_log w (fst (fetch_all send settle w es))"
  using send_all_extends [of w "map (\<lambda>e. (e, GET)) es"]
  by (simp add: fetch_all_def run_all_def split_beta Let_def adds_only_def fold_settle_log)

lemma send_all_sends_each:
  "list_all (\<lambda>r. \<not> isl r) (snd (send_all send w es)) \<Longrightarrow>
   \<exists>qs. sent (fst (send_all send w es)) = sent w @ qs \<and> length qs = length es"
proof (induction es arbitrary: w)
  case (Cons x es)
  obtain e opt where x: "x = (e, opt)" by fastforce
  from Cons.prems obtain a where a: "snd (send w e opt) = Inr a"
    by (cases "snd (send w e opt)") (auto simp: x split_beta Let_def)
  then obtain q where q: "sent (fst (send w e opt)) = sent w @ [q]"
    using answer_needs_request by blast
  obtain qs where "sent (fst (send_all send (fst (send w e opt)) es)) = sent (fst (send w e opt)) @ qs"
    "length qs = length es"
    using Cons.IH [of "fst (send w e opt)"] Cons.prems by (auto simp: x split_beta Let_def)
  with q show ?case by (intro exI [of _ "q # qs"]) (simp add: x split_beta Let_def)
qed simp

lemma fetch_all_sends_each:
  "snd (fetch_all send settle w es) = Inr rs \<Longrightarrow>
   \<exists>qs. sent (fst (fetch_all send settle w es)) = sent w @ qs \<and> length qs = length es"
  using send_all_sends_each [of w "map (\<lambda>e. (e, GET)) es"]
  by (auto simp: fetch_all_def run_all_def split_beta Let_def fold_settle_log promise_all_eq list_all_iff)

end

lemma fetch_simps [simp]:
  "sent (fst (fetch w q)) = sent w @ [q]" "net (fst (fetch w q)) = net w"
  "auth (fst (fetch w q)) = auth w" "storage (fst (fetch w q)) = storage w"
  "redirects (fst (fetch w q)) = redirects w" "loc (fst (fetch w q)) = loc w"
  "ls_blocked (fst (fetch w q)) = ls_blocked w" "events (fst (fetch w q)) = events w"
  by (simp_all add: fetch_def)

lemma snd_fetch: "snd (fetch w q) = (case net w (sent w) q of Inl m \<Rightarrow> Inl (NetworkError m) | Inr r \<Rightarrow> Inr r)"
  by (simp add: fetch_def)

lemma items_simps [simp]:
  "sent (set_items kvs w) = sent w" "net (set_items kvs w) = net w" "auth (set_items kvs w) = auth w"
  "loc (set_items kvs w) = loc w" "redirects (set_items kvs w) = redirects w"
  "ls_blocked (set_items kvs w) = ls_blocked w"
  "sent (remove_items ks w) = sent w" "net (remove_items ks w) = net w" "auth (remove_items ks w) = auth w"
  "loc (remove_items ks w) = loc w" "redirects (remove_items ks w) = redirects w"
  "ls_blocked (remove_items ks w) = ls_blocked w" "events (remove_items ks w) = events w"
  by (simp_all add: set_items_def remove_items_def)

text \<open>A browser at the client console's development address, for evaluation.\<close>

definition fresh_browser :: "(request list \<Rightarrow> request \<Rightarrow> string + response) \<Rightarrow> browser" where
  "fresh_browser n =
     \<lparr>loc = \<lparr>protocol = ''http:'', hostname = ''localhost'', port = ''3000'', pathname = ''/live'',
             search = [], hash = []\<rparr>,
      storage = (\<lambda>_. None), ls_blocked = False, auth = signed_out, redirects = [], events = [],
      clipboard = [], downloads = [], sent = [], net = n\<rparr>"

definition demo_user :: jsval where
  "demo_user = JObj [(''id'', JNum 7), (''username'', JStr ''ops''), (''role'', JStr ''admin''),
                     (''company_id'', JNum 2)]"

definition demo_session :: "(request list \<Rightarrow> request \<Rightarrow> string + response) \<Rightarrow> browser" where
  "demo_session n =
     (fresh_browser n)\<lparr>auth := \<lparr>au_token = JStr ''tok'', au_user = demo_user, isAuthenticated = True\<rparr>\<rparr>"

definition answer :: "int \<Rightarrow> jsval \<Rightarrow> request list \<Rightarrow> request \<Rightarrow> string + response" where
  "answer code v qs q = Inr \<lparr>status = code, statusText = ''OK'', body = Inr v\<rparr>"

definition offline_net :: "request list \<Rightarrow> request \<Rightarrow> string + response" where
  "offline_net qs q = Inl ''Failed to fetch''"

end
