(* ===== verification/Page_Kit.thy ===== *)
theory Page_Kit
  imports Browser
begin

section \<open>What the pages have in common\<close>

text \<open>
  Every page repeats the same few pieces: a toast that a timer clears, a loader that replaces a list
  when the answer is good and keeps it otherwise, a paged table, and a CSV export. They are modelled
  once here. The locales state what the pages use: \<open>list_loader\<close> (what a loader does to the list it
  owns), \<open>pager\<close> (every row is on one page) and \<open>csv_writer\<close> (a written table can be read back).
\<close>

subsection \<open>Toasts\<close>

text \<open>\<open>t_timers\<close> holds the milliseconds left on the pending \<open>setTimeout\<close> calls.\<close>

record toast =
  t_msg :: "string option"
  t_timers :: "nat list"

definition no_toast :: toast where
  "no_toast = \<lparr>t_msg = None, t_timers = []\<rparr>"

definition showToast_for :: "nat \<Rightarrow> string \<Rightarrow> toast \<Rightarrow> toast" where
  "showToast_for ms msg t = \<lparr>t_msg = Some msg, t_timers = t_timers t @ [ms]\<rparr>"

abbreviation showToast :: "string \<Rightarrow> toast \<Rightarrow> toast" where
  "showToast \<equiv> showToast_for 3500"

text \<open>\<open>n\<close> milliseconds pass: each timer that runs out clears the message.\<close>

definition toast_wait :: "nat \<Rightarrow> toast \<Rightarrow> toast" where
  "toast_wait n t =
     \<lparr>t_msg = (if list_ex (\<lambda>m. m \<le> n) (t_timers t) then None else t_msg t),
      t_timers = map (\<lambda>m. m - n) (filter (\<lambda>m. n < m) (t_timers t))\<rparr>"

lemma t_msg_showToast [simp]: "t_msg (showToast_for ms m t) = Some m"
  by (simp add: showToast_for_def)

subsection \<open>Loading lists\<close>

text \<open>
  \<open>if (res.ok) { const json = await res.json(); if (json.success && Array.isArray(json.data)) ... }\<close>:
  the rows to store, if any, or the exception the block throws.
\<close>

definition success_rows :: "response \<Rightarrow> js_error + jsval list option" where
  "success_rows r =
     (if \<not> res_ok r then Inr None
      else (case res_json r of
         Inl e \<Rightarrow> Inl e
       | Inr json \<Rightarrow>
           (case jget json ''success'' of
              Inl e \<Rightarrow> Inl e
            | Inr ok \<Rightarrow> Inr (if truthy ok then as_arr (jopt json ''data'') else None))))"

text \<open>The blocks in sequence inside one \<open>try\<close>: the first exception skips the rest.\<close>

fun apply_rows :: "(response \<times> (jsval list \<Rightarrow> 'p \<Rightarrow> 'p)) list \<Rightarrow> 'p \<Rightarrow> 'p" where
  "apply_rows [] p = p"
| "apply_rows ((r, upd) # rest) p =
     (case success_rows r of
        Inl e \<Rightarrow> p
      | Inr None \<Rightarrow> apply_rows rest p
      | Inr (Some xs) \<Rightarrow> apply_rows rest (upd xs p))"

definition load_all ::
  "fetcher \<Rightarrow> settler \<Rightarrow> (string \<times> (jsval list \<Rightarrow> 'p \<Rightarrow> 'p)) list \<Rightarrow> browser \<Rightarrow> 'p \<Rightarrow> browser \<times> 'p" where
  "load_all send settle specs w p =
     (let (w1, rs) = fetch_all send settle w (map fst specs)
      in (w1, case rs of Inl e \<Rightarrow> p | Inr answers \<Rightarrow> apply_rows (zip answers (map snd specs)) p))"

definition load_one ::
  "fetcher \<Rightarrow> string \<Rightarrow> (jsval list \<Rightarrow> 'p \<Rightarrow> 'p) \<Rightarrow> browser \<Rightarrow> 'p \<Rightarrow> browser \<times> 'p" where
  "load_one f e upd w p =
     (let (w1, r) = f w e GET
      in (w1, case r of Inl e \<Rightarrow> p | Inr a \<Rightarrow> apply_rows [(a, upd)] p))"

text \<open>The rows one answer brings: \<open>None\<close> when the request failed or the answer is not a good list.\<close>

definition good_rows :: "js_error + response \<Rightarrow> jsval list option" where
  "good_rows r = (case r of Inl e \<Rightarrow> None | Inr a \<Rightarrow> (case success_rows a of Inl e \<Rightarrow> None | Inr x \<Rightarrow> x))"

lemma load_one_eq:
  "load_one f e upd w p =
     (fst (f w e GET), case good_rows (snd (f w e GET)) of None \<Rightarrow> p | Some xs \<Rightarrow> upd xs p)"
  by (auto simp: load_one_def good_rows_def Let_def split_beta split: sum.splits option.splits)

text \<open>
  The contract of a loader of one list: at the end the spinner is off, and the list is the answer's
  rows, decoded one by one, or what it was before.
\<close>

locale list_loader =
  fixes load :: "browser \<Rightarrow> 'p \<Rightarrow> browser \<times> 'p"
    and afetch :: fetcher
    and endpoint :: string
    and decode :: "jsval \<Rightarrow> 'r"
    and rows :: "'p \<Rightarrow> 'r list"
    and loading :: "'p \<Rightarrow> bool"
  assumes load_browser: "fst (load w p) = fst (afetch w endpoint GET)"
    and load_rows: "rows (snd (load w p)) =
      (case good_rows (snd (afetch w endpoint GET)) of None \<Rightarrow> rows p | Some xs \<Rightarrow> map decode xs)"
    and load_done: "\<not> loading (snd (load w p))"
begin

lemma keeps_rows_on_failure:
  "good_rows (snd (afetch w endpoint GET)) = None \<Longrightarrow> rows (snd (load w p)) = rows p"
  by (simp add: load_rows)

lemma shows_answer:
  "good_rows (snd (afetch w endpoint GET)) = Some xs \<Longrightarrow> rows (snd (load w p)) = map decode xs"
  by (simp add: load_rows)

text \<open>Loading twice against a server that answers the same the second time changes nothing more.\<close>

lemma reload_same:
  "good_rows (snd (afetch (fst (load w p)) endpoint GET)) = good_rows (snd (afetch w endpoint GET)) \<Longrightarrow>
   rows (snd (load (fst (load w p)) (snd (load w p)))) = rows (snd (load w p))"
  by (auto simp: load_rows split: option.splits)

end

subsection \<open>Forms\<close>

text \<open>
  The pages submit a form in one way: check the input, send it, and on success show a toast, clear the
  form and load again; on failure show the server's error or a fixed text.
\<close>

definition accepted_by :: "(response \<Rightarrow> bool) \<Rightarrow> js_error + response \<Rightarrow> bool" where
  "accepted_by good r = (case r of Inl e \<Rightarrow> False | Inr res \<Rightarrow> good res)"

abbreviation accepted :: "js_error + response \<Rightarrow> bool" where
  "accepted \<equiv> accepted_by res_ok"

text \<open>\<open>res.ok && json?.success !== false\<close> and \<open>res.ok && json?.success\<close>.\<close>

definition not_refused :: "response \<Rightarrow> bool" where
  "not_refused res = (res_ok res \<and> jopt (json_or JNull res) ''success'' \<noteq> JBool False)"

definition confirmed :: "response \<Rightarrow> bool" where
  "confirmed res = (res_ok res \<and> truthy (jopt (json_or JNull res) ''success''))"

definition server_error :: "string \<Rightarrow> response \<Rightarrow> string" where
  "server_error dflt res = js_to_string (js_or (jopt (json_or JNull res) ''error'') (JStr dflt))"

definition submit_answer ::
  "(response \<Rightarrow> bool) \<Rightarrow> fetcher \<Rightarrow> string \<Rightarrow> options \<Rightarrow> (response \<Rightarrow> browser \<times> 'p \<Rightarrow> browser \<times> 'p) \<Rightarrow> (string \<Rightarrow> 'p \<Rightarrow> 'p) \<Rightarrow>
   string \<Rightarrow> string \<Rightarrow> browser \<Rightarrow> 'p \<Rightarrow> browser \<times> 'p" where
  "submit_answer good f e opt on_ok say failed broken w p =
     (let (w1, r) = f w e opt
      in case r of
           Inl x \<Rightarrow> (w1, say broken p)
         | Inr res \<Rightarrow> if good res then on_ok res (w1, p) else (w1, say (server_error failed res) p))"

text \<open>Most forms do not look at the body of a good answer.\<close>

abbreviation submit_form ::
  "(response \<Rightarrow> bool) \<Rightarrow> fetcher \<Rightarrow> string \<Rightarrow> options \<Rightarrow> (browser \<times> 'p \<Rightarrow> browser \<times> 'p) \<Rightarrow> (string \<Rightarrow> 'p \<Rightarrow> 'p) \<Rightarrow>
   string \<Rightarrow> string \<Rightarrow> browser \<Rightarrow> 'p \<Rightarrow> browser \<times> 'p" where
  "submit_form good f e opt on_ok \<equiv> submit_answer good f e opt (\<lambda>_. on_ok)"

text \<open>
  The contract of a form: what the user typed is dropped only when the server has accepted it, and an
  input that fails the check sends nothing.
\<close>

locale create_form =
  fixes submit :: "browser \<Rightarrow> 'p \<Rightarrow> browser \<times> 'p"
    and valid :: "'p \<Rightarrow> bool"
    and good :: "response \<Rightarrow> bool"
    and afetch :: fetcher
    and endpoint :: string
    and opt :: "'p \<Rightarrow> options"
    and form :: "'p \<Rightarrow> 'f"
    and blank :: 'f
    and said :: "'p \<Rightarrow> string option"
  assumes invalid: "\<not> valid p \<Longrightarrow> fst (submit w p) = w \<and> form (snd (submit w p)) = form p"
    and refused: "valid p \<Longrightarrow> \<not> accepted_by good (snd (afetch w endpoint (opt p))) \<Longrightarrow>
      fst (submit w p) = fst (afetch w endpoint (opt p)) \<and> form (snd (submit w p)) = form p \<and> said (snd (submit w p)) \<noteq> None"
    and taken: "valid p \<Longrightarrow> accepted_by good (snd (afetch w endpoint (opt p))) \<Longrightarrow> form (snd (submit w p)) = blank"
begin

lemma input_kept_or_taken:
  "form (snd (submit w p)) = form p \<or>
   form (snd (submit w p)) = blank \<and> valid p \<and> accepted_by good (snd (afetch w endpoint (opt p)))"
  using invalid refused taken by (cases "valid p"; cases "accepted_by good (snd (afetch w endpoint (opt p)))") auto

lemma invalid_sends_nothing: "\<not> valid p \<Longrightarrow> fst (submit w p) = w"
  using invalid by blast

end

text \<open>A form that also says why it refuses its input.\<close>

locale explained_form = create_form +
  fixes problem :: "'p \<Rightarrow> string option"
  assumes valid_problem: "valid p \<longleftrightarrow> problem p = None"
    and explains: "problem p = Some m \<Longrightarrow> said (snd (submit w p)) = Some m"
begin

lemma input_never_lost:
  "form (snd (submit w p)) = form p \<and> said (snd (submit w p)) \<noteq> None \<or>
   form (snd (submit w p)) = blank \<and> problem p = None \<and> accepted_by good (snd (afetch w endpoint (opt p)))"
  using invalid [of p w] refused [of p w] taken [of p w] explains [of p _ w] valid_problem [of p]
  by (cases "problem p"; cases "accepted_by good (snd (afetch w endpoint (opt p)))") auto

lemma problem_sends_nothing: "problem p \<noteq> None \<Longrightarrow> fst (submit w p) = w"
  by (rule invalid_sends_nothing) (simp add: valid_problem)

end

text \<open>Facts that discharge the contract for a handler built from \<open>submit_form\<close>.\<close>

lemma submit_answer_refused:
  "\<not> accepted_by good (snd (f w e opt)) \<Longrightarrow>
   \<exists>m. submit_answer good f e opt on_ok say failed broken w p = (fst (f w e opt), say m p)"
  by (auto simp: submit_answer_def accepted_by_def Let_def split_beta split: sum.splits)

lemma submit_answer_taken:
  "accepted_by good (snd (f w e opt)) \<Longrightarrow>
   \<exists>res. snd (f w e opt) = Inr res \<and> submit_answer good f e opt on_ok say failed broken w p = on_ok res (fst (f w e opt), p)"
  by (auto simp: submit_answer_def accepted_by_def Let_def split_beta split: sum.splits)

lemma submit_answer_keeps:
  "\<not> accepted_by good (snd (f w e opt)) \<Longrightarrow> (\<And>m. g (say m p) = g p) \<Longrightarrow>
   g (snd (submit_answer good f e opt on_ok say failed broken w p)) = g p"
  by (auto simp: submit_answer_def accepted_by_def Let_def split_beta split: sum.splits)

lemma submit_form_taken:
  "accepted_by good (snd (f w e opt)) \<Longrightarrow>
   submit_form good f e opt on_ok say failed broken w p = on_ok (fst (f w e opt), p)"
  using submit_answer_taken [where f = f] by metis

lemma create_formI:
  assumes post: "\<And>w p. post w p = submit_answer good f e (opt p) on_ok say failed broken w p"
    and sends: "\<And>w p. valid p \<Longrightarrow> submit w p = post w p"
    and bad: "\<And>w p. \<not> valid p \<Longrightarrow> fst (submit w p) = w \<and> form (snd (submit w p)) = form p"
    and keep: "\<And>m p. form (say m p) = form p" and msg: "\<And>m p. said (say m p) = Some m"
    and clear: "\<And>res wp. form (snd (on_ok res wp)) = blank"
  shows "create_form submit valid good f e opt form blank said"
proof unfold_locales
  fix p w assume v: "valid p"
  show "form (snd (submit w p)) = blank" if "accepted_by good (snd (f w e (opt p)))"
    using submit_answer_taken [where f = f, OF that, of on_ok say failed broken p] by (auto simp: sends [OF v] post clear)
  show "fst (submit w p) = fst (f w e (opt p)) \<and> form (snd (submit w p)) = form p \<and> said (snd (submit w p)) \<noteq> None"
    if "\<not> accepted_by good (snd (f w e (opt p)))"
    using submit_answer_refused [where f = f, OF that, of on_ok say failed broken p] by (auto simp: sends [OF v] post keep msg)
qed (simp add: bad)

lemma explained_formI:
  assumes eq: "\<And>w p. submit w p = (case problem p of Some m \<Rightarrow> (w, say m p)
        | None \<Rightarrow> submit_answer good f e (opt p) on_ok say failed broken w p)"
    and keep: "\<And>m p. form (say m p) = form p" and msg: "\<And>m p. said (say m p) = Some m"
    and clear: "\<And>res wp. form (snd (on_ok res wp)) = blank"
  shows "explained_form submit (\<lambda>p. problem p = None) good f e opt form blank said problem"
proof (intro explained_form.intro explained_form_axioms.intro create_formI [OF refl, where on_ok = on_ok and say = say])
  fix p w assume "problem p \<noteq> None"
  then show "fst (submit w p) = w \<and> form (snd (submit w p)) = form p" by (auto simp: eq keep)
qed (auto simp: eq keep msg clear)

subsection \<open>Actions on one row\<close>

text \<open>
  A button of a row sends a request; only an \<open>ok\<close> answer changes the page, and an answer that is not
  \<open>ok\<close> is passed over in silence.
\<close>

definition row_request ::
  "fetcher \<Rightarrow> string \<Rightarrow> options \<Rightarrow> (browser \<times> 'p \<Rightarrow> browser \<times> 'p) \<Rightarrow> ('p \<Rightarrow> 'p) \<Rightarrow> browser \<Rightarrow> 'p \<Rightarrow> browser \<times> 'p" where
  "row_request f e opt on_ok on_error w p =
     (let (w1, r) = f w e opt
      in case r of
           Inl x \<Rightarrow> (w1, on_error p)
         | Inr res \<Rightarrow> if res_ok res then on_ok (w1, p) else (w1, p))"

text \<open>A page that takes a deleted row out of its list itself.\<close>

locale row_removal =
  fixes remove :: "jsval \<Rightarrow> browser \<Rightarrow> 'p \<Rightarrow> browser \<times> 'p"
    and afetch :: fetcher
    and endpoint :: "jsval \<Rightarrow> string"
    and rows :: "'p \<Rightarrow> 'r list"
    and row_id :: "'r \<Rightarrow> jsval"
  assumes remove_browser: "fst (remove i w p) = fst (afetch w (endpoint i) (no_body ''DELETE''))"
    and remove_rows: "rows (snd (remove i w p)) =
      (if accepted (snd (afetch w (endpoint i) (no_body ''DELETE''))) then filter (\<lambda>r. row_id r \<noteq> i) (rows p) else rows p)"
begin

lemma removed_gone:
  "accepted (snd (afetch w (endpoint i) (no_body ''DELETE''))) \<Longrightarrow> i \<notin> row_id ` set (rows (snd (remove i w p)))"
  by (auto simp: remove_rows)

lemma others_stay: "row_id r \<noteq> i \<Longrightarrow> r \<in> set (rows (snd (remove i w p))) \<longleftrightarrow> r \<in> set (rows p)"
  by (simp add: remove_rows)

text \<open>Deleting rows in any order leaves the same list when the server accepts every request.\<close>

lemma removals_commute:
  assumes "accepted (snd (afetch w (endpoint i) (no_body ''DELETE'')))" "accepted (snd (afetch w (endpoint j) (no_body ''DELETE'')))"
    and "accepted (snd (afetch (fst (remove i w p)) (endpoint j) (no_body ''DELETE'')))"
    and "accepted (snd (afetch (fst (remove j w p)) (endpoint i) (no_body ''DELETE'')))"
  shows "rows (snd (remove j (fst (remove i w p)) (snd (remove i w p)))) =
         rows (snd (remove i (fst (remove j w p)) (snd (remove j w p))))"
  using assms by (simp add: remove_rows filter_filter conj_commute)

end

lemma row_removalI:
  assumes eq: "\<And>i w p. remove i w p = row_request f (ep i) (no_body ''DELETE'') (\<lambda>(w1, q). (w1, drop_row i q)) (bad i) w p"
    and ok: "\<And>i q. rows (drop_row i q) = filter (\<lambda>r. row_id r \<noteq> i) (rows q)"
    and keep: "\<And>i q. rows (bad i q) = rows q"
  shows "row_removal remove f ep rows row_id"
  by unfold_locales (auto simp: eq ok keep row_request_def accepted_by_def Let_def split_beta split: sum.splits)

subsection \<open>What the pages send\<close>

text \<open>
  A relation between browser states that each half of an authorised fetch respects, for the options the
  pages use, is respected by everything a page builds from it: loads, forms and row actions.
\<close>

locale fetch_run =
  fixes send :: fetcher
    and settle :: settler
    and run :: "browser \<Rightarrow> browser \<Rightarrow> bool"
    and plain :: "options \<Rightarrow> bool"
  assumes run_refl: "run w w"
    and run_trans: "run u v \<Longrightarrow> run v w \<Longrightarrow> run u w"
    and send_run: "plain opt \<Longrightarrow> run w (fst (send w e opt))"
    and settle_run: "run w (settle a w)"
    and plain_GET: "plain GET"
begin

lemma await_run: "plain opt \<Longrightarrow> run w (fst (await_fetch send settle w e opt))"
  using run_trans [OF send_run settle_run] by (simp add: await_fetch_def split_beta Let_def)

lemma fold_settle_run: "run w (fold settle rs w)"
  by (induction rs arbitrary: w) (auto intro: run_refl run_trans [OF settle_run])

lemma send_all_run: "list_all (\<lambda>x. plain (snd x)) es \<Longrightarrow> run w (fst (send_all send w es))"
proof (induction es arbitrary: w)
  case (Cons x es)
  obtain e opt where "x = (e, opt)" by fastforce
  with Cons show ?case by (auto simp: split_beta Let_def intro!: run_trans [OF send_run [of opt w e]])
qed (simp add: run_refl)

lemma fetch_all_run: "run w (fst (fetch_all send settle w es))"
  using run_trans [OF send_all_run fold_settle_run, of "map (\<lambda>e. (e, GET)) es"]
  by (simp add: fetch_all_def run_all_def split_beta Let_def list.pred_map comp_def plain_GET list.pred_True)

lemma load_all_run: "run w (fst (load_all send settle specs w p))"
  using fetch_all_run [of w "map fst specs"] by (simp add: load_all_def split_beta Let_def)

lemma load_one_run: "run w (fst (load_one (await_fetch send settle) e upd w p))"
  using await_run [OF plain_GET] by (simp add: load_one_def split_beta Let_def)

lemma submit_run_of:
  assumes "run w (fst (f w e opt))" and "\<And>res wp. run (fst wp) (fst (on_ok res wp))"
  shows "run w (fst (submit_answer good f e opt on_ok say failed broken w p))"
  using assms by (fastforce simp: submit_answer_def split_beta Let_def split: sum.splits intro: run_trans)

lemma submit_run:
  assumes "plain opt" and "\<And>res wp. run (fst wp) (fst (on_ok res wp))"
  shows "run w (fst (submit_answer good (await_fetch send settle) e opt on_ok say failed broken w p))"
  by (rule submit_run_of) (rule await_run assms)+

lemma row_request_run:
  assumes "plain opt" and "\<And>wp. run (fst wp) (fst (on_ok wp))"
  shows "run w (fst (row_request (await_fetch send settle) e opt on_ok on_error w p))"
  using await_run [OF assms(1), of w e] assms(2)
  by (fastforce simp: row_request_def split_beta Let_def split: sum.splits intro: run_trans)

end

text \<open>Every request of a page built from these pieces goes through its console's authorised fetch.\<close>

sublocale authorised_fetch \<subseteq> logged: fetch_run send settle extends_log "\<lambda>_. True"
  by unfold_locales (auto simp: send_extends settle_log adds_only_def [of _ _ "settle _ _"] intro: adds_trans)

text \<open>What a load does not touch.\<close>

lemma apply_rows_keeps:
  assumes "\<And>u xs q. u \<in> set (map snd ps) \<Longrightarrow> g (u xs q) = g q"
  shows "g (apply_rows ps q) = g q"
  using assms
proof (induction ps arbitrary: q)
  case (Cons x ps)
  obtain r u where x: "x = (r, u)" by fastforce
  with Cons show ?case by (auto split: sum.splits option.splits)
qed simp

lemma load_all_keeps:
  assumes "list_all (\<lambda>(e, u). \<forall>xs q. g (u xs q) = g q) specs"
  shows "g (snd (load_all send settle specs w q)) = g q"
proof -
  have "g (apply_rows (zip as (map snd specs)) q) = g q" for as
  proof (rule apply_rows_keeps)
    fix u xs q' assume "u \<in> set (map snd (zip as (map snd specs)))"
    then have "u \<in> set (map snd specs)" by (auto dest: set_zip_rightD)
    then show "g (u xs q') = g q'" using assms by (auto simp: list_all_iff)
  qed
  then show ?thesis by (simp add: load_all_def Let_def split_beta split: sum.splits)
qed

text \<open>Optional fields of a request body.\<close>

definition nullableNumber :: "string \<Rightarrow> real option" where
  "nullableNumber value =
     (let t = trim value in if t = [] then None else (case toNumber t of Fin x \<Rightarrow> Some x | _ \<Rightarrow> None))"

definition opt_num :: "string \<Rightarrow> string \<Rightarrow> (string \<times> jsval) list" where
  "opt_num k v = (case nullableNumber v of None \<Rightarrow> [] | Some x \<Rightarrow> [(k, JNum x)])"

definition opt_text :: "string \<Rightarrow> string \<Rightarrow> (string \<times> jsval) list" where
  "opt_text k v = (if v = [] then [] else [(k, JStr v)])"

text \<open>\<open>Number(text)\<close> in a JSON body: a value that is no number is written \<open>null\<close>.\<close>

definition num_body :: "string \<Rightarrow> jsval" where
  "num_body t = json_of_num (toNumber t)"

definition num_entry :: "string \<Rightarrow> real option \<Rightarrow> (string \<times> jsval) list" where
  "num_entry k x = (case x of None \<Rightarrow> [] | Some v \<Rightarrow> [(k, JNum v)])"

text \<open>An answer that \<open>apply_rows\<close> stores, and lists that all arrive.\<close>

lemma apply_rows_all:
  assumes "length rs = length us" and "list_all2 (\<lambda>r xs. success_rows r = Inr (Some xs)) rs xss"
  shows "apply_rows (zip rs us) p = fold (\<lambda>(u, xs). u xs) (zip us xss) p"
  using assms
proof (induction rs arbitrary: us xss p)
  case (Cons r rs)
  then obtain u us' where "us = u # us'" by (cases us) auto
  moreover obtain xs xss' where "xss = xs # xss'" using Cons.prems(2) by (cases xss) auto
  ultimately show ?case using Cons by simp
qed simp

text \<open>\<open>a ?? b\<close> and \<open>a || 0\<close> of a field declared a number, and the middle dot between two texts.\<close>

definition num_else :: "real option \<Rightarrow> real \<Rightarrow> real" where
  "num_else x d = (case x of None \<Rightarrow> d | Some y \<Rightarrow> y)"

definition MIDDOT :: string where
  "MIDDOT = [CHR 0xC2, CHR 0xB7]"

subsection \<open>Selections\<close>

text \<open>\<open>prev.includes(x) ? prev.filter((y) => y !== x) : [...prev, x]\<close>\<close>

definition toggle :: "'a \<Rightarrow> 'a list \<Rightarrow> 'a list" where
  "toggle x xs = (if x \<in> set xs then filter (\<lambda>y. y \<noteq> x) xs else xs @ [x])"

lemma toggle_set: "set (toggle x xs) = (if x \<in> set xs then set xs - {x} else insert x (set xs))"
  by (auto simp: toggle_def)

lemma toggle_distinct [simp]: "distinct xs \<Longrightarrow> distinct (toggle x xs)"
  by (simp add: toggle_def)

lemma toggle_twice: "set (toggle x (toggle x xs)) = set xs"
  by (auto simp: toggle_set)

subsection \<open>Paged tables\<close>

definition js_ceil_div :: "nat \<Rightarrow> nat \<Rightarrow> nat" where
  "js_ceil_div n k = nat \<lceil>real n / real k\<rceil>"

lemma ceil_div_enough: "0 < k \<Longrightarrow> n \<le> js_ceil_div n k * k"
proof -
  assume k: "0 < k"
  have "real n / real k \<le> real_of_int \<lceil>real n / real k\<rceil>" by (rule le_of_int_ceiling)
  moreover have "(0::int) \<le> \<lceil>real n / real k\<rceil>"
    by (metis ceiling_mono ceiling_zero divide_nonneg_nonneg of_nat_0_le_iff)
  ultimately have "real n / real k \<le> real (js_ceil_div n k)"
    by (simp add: js_ceil_div_def)
  then have "real n \<le> real (js_ceil_div n k * k)"
    using k by (simp add: field_simps)
  then show ?thesis by (simp only: of_nat_le_iff)
qed

lemma ceil_div_tight: "0 < k \<Longrightarrow> 0 < n \<Longrightarrow> (js_ceil_div n k - 1) * k < n"
proof -
  assume k: "0 < k" and n: "0 < n"
  have "real_of_int \<lceil>real n / real k\<rceil> < real n / real k + 1" by linarith
  moreover have "0 < \<lceil>real n / real k\<rceil>" using k n by simp
  ultimately have "real (js_ceil_div n k - 1) < real n / real k"
    by (simp add: js_ceil_div_def of_nat_diff nat_le_iff)
  then have "real ((js_ceil_div n k - 1) * k) < real n"
    using k by (simp add: field_simps)
  then show ?thesis by (simp only: of_nat_less_iff)
qed

locale pager =
  fixes page :: "nat \<Rightarrow> nat \<Rightarrow> 'a list \<Rightarrow> 'a list"
    and pages :: "nat \<Rightarrow> nat \<Rightarrow> nat"
  assumes page_rows: "page sz (Suc i) xs = take sz (drop (i * sz) xs)"
    and pages_enough: "0 < sz \<Longrightarrow> n \<le> pages sz n * sz"
    and pages_tight: "0 < sz \<Longrightarrow> pages sz n = 1 \<or> (pages sz n - 1) * sz < n"
    and pages_pos: "0 < pages sz n"
begin

lemma first_pages:
  "concat (map (\<lambda>i. page sz (Suc i) xs) [0..<m]) = take (m * sz) xs"
proof (induction m)
  case (Suc m)
  have "take (m * sz) xs @ take sz (drop (m * sz) xs) = take (m * sz + sz) xs"
    by (rule take_add [symmetric])
  with Suc show ?case by (simp add: page_rows add.commute)
qed simp

text \<open>The pages, one after the other, are the whole list.\<close>

lemma pages_cover:
  assumes "0 < sz"
  shows "concat (map (\<lambda>i. page sz (Suc i) xs) [0..<pages sz (length xs)]) = xs"
  using first_pages [of sz xs "pages sz (length xs)"] pages_enough [OF assms, of "length xs"] by simp

lemma page_bound: "length (page sz (Suc i) xs) \<le> sz"
  by (simp add: page_rows)

text \<open>No page but the only one of an empty table is empty.\<close>

lemma page_nonempty:
  assumes "0 < sz" and "xs \<noteq> []" and "i < pages sz (length xs)"
  shows "page sz (Suc i) xs \<noteq> []"
proof -
  have "i * sz < length xs"
  proof (cases "pages sz (length xs) = 1")
    case False
    then have "(pages sz (length xs) - 1) * sz < length xs"
      using pages_tight [OF assms(1), of "length xs"] by simp
    moreover have "i * sz \<le> (pages sz (length xs) - 1) * sz"
      using assms(3) by (intro mult_le_mono1) simp
    ultimately show ?thesis by (rule le_less_trans [rotated])
  qed (use assms in simp)
  with assms(1) show ?thesis by (simp add: page_rows)
qed

end

lemma ceil_pagerI:
  assumes "\<And>sz i xs. page sz (Suc i) xs = take sz (drop (i * sz) xs)"
    and "\<And>sz n. pages sz n = max 1 (js_ceil_div n sz)"
  shows "pager page pages"
proof unfold_locales
  fix sz n :: nat assume "0 < sz"
  then have e: "n \<le> js_ceil_div n sz * sz" "n = 0 \<or> (js_ceil_div n sz - 1) * sz < n"
    using ceil_div_enough [of sz n] ceil_div_tight [of sz n] by auto
  have z: "js_ceil_div 0 sz = 0" by (simp add: js_ceil_div_def)
  show "n \<le> pages sz n * sz"
    using e(1) by (cases "js_ceil_div n sz") (auto simp: assms(2) max_def)
  show "pages sz n = 1 \<or> (pages sz n - 1) * sz < n"
    using e(2) z by (auto simp: assms(2) max_def)
qed (auto simp: assms)

subsection \<open>CSV\<close>

text \<open>
  A reader for comma-separated text in the usual format: a field is bare, or quoted with doubled
  quotes inside; records end at a line feed. It is the specification of the exports.
\<close>

fun csv_quoted :: "string \<Rightarrow> (string \<times> string) option" where
  "csv_quoted [] = None"
| "csv_quoted (c # r) =
     (if c = QUOT then
        (case r of
           [] \<Rightarrow> Some ([], [])
         | d # r' \<Rightarrow> if d = QUOT then map_option (\<lambda>(s, t). (QUOT # s, t)) (csv_quoted r') else Some ([], d # r'))
      else map_option (\<lambda>(s, t). (c # s, t)) (csv_quoted r))"

definition csv_stop :: "char \<Rightarrow> bool" where
  "csv_stop c = (c = CHR '','' \<or> c = NL)"

definition csv_field :: "string \<Rightarrow> (string \<times> string) option" where
  "csv_field s =
     (if prefix [QUOT] s then csv_quoted (tl s)
      else Some (takeWhile (\<lambda>c. \<not> csv_stop c) s, dropWhile (\<lambda>c. \<not> csv_stop c) s))"

fun csv_records :: "nat \<Rightarrow> string \<Rightarrow> string list list option" where
  "csv_records 0 s = None"
| "csv_records (Suc n) s =
     (case csv_field s of
        None \<Rightarrow> None
      | Some (x, rest) \<Rightarrow>
          (case rest of
             [] \<Rightarrow> Some [[x]]
           | c # r \<Rightarrow>
               if c = CHR '','' then map_option (\<lambda>rs. (x # hd rs) # tl rs) (csv_records n r)
               else if c = NL then map_option (\<lambda>rs. [x] # rs) (csv_records n r)
               else None))"

definition csv_parse :: "string \<Rightarrow> string list list option" where
  "csv_parse s = csv_records (Suc (length s)) s"

definition csv_delim :: "string \<Rightarrow> bool" where
  "csv_delim r = (case r of [] \<Rightarrow> True | c # _ \<Rightarrow> csv_stop c)"

text \<open>What the exports write for one cell, and that a reader finds the text the cell stands for.\<close>

locale csv_writer =
  fixes cell :: "'a \<Rightarrow> string"
    and shown :: "'a \<Rightarrow> string"
    and ok :: "'a \<Rightarrow> bool"
  assumes cell_reads: "ok x \<Longrightarrow> csv_delim r \<Longrightarrow> csv_field (cell x @ r) = Some (shown x, r)"
begin

lemma row_reads:
  assumes "cs \<noteq> []" and "list_all ok cs" and "length cs \<le> n"
  shows "csv_records n (join '','' (map cell cs)) = Some [map shown cs]"
    and "csv_records (n - length cs) r = Some rs \<Longrightarrow>
         csv_records n (join '','' (map cell cs) @ NL # r) = Some (map shown cs # rs)"
  using assms
proof (induction cs arbitrary: n)
  case (Cons c cs)
  {
    case 1
    then obtain m where m: "n = Suc m" by (cases n) auto
    show ?case
    proof (cases cs)
      case Nil
      then show ?thesis using 1 cell_reads [of c "[]"] by (simp add: m csv_delim_def)
    next
      case (Cons d ds)
      then have "csv_records m (join '','' (map cell cs)) = Some [map shown cs]"
        using 1 m by (intro Cons.IH(1)) auto
      then show ?thesis
        using 1 Cons cell_reads [of c "CHR '','' # join '','' (map cell cs)"]
        by (simp add: m csv_delim_def csv_stop_def)
    qed
  next
    case 2
    then obtain m where m: "n = Suc m" by (cases n) auto
    have nl: "NL \<noteq> CHR '',''" by (simp add: NL_def)
    show ?case
    proof (cases cs)
      case Nil
      then show ?thesis
        using 2 nl cell_reads [of c "NL # r"] by (simp add: m csv_delim_def csv_stop_def)
    next
      case (Cons d ds)
      then have "csv_records m (join '','' (map cell cs) @ NL # r) = Some (map shown cs # rs)"
        using 2 m by (intro Cons.IH(2)) auto
      then show ?thesis
        using 2 Cons cell_reads [of c "CHR '','' # join '','' (map cell cs) @ NL # r"]
        by (simp add: m csv_delim_def csv_stop_def)
    qed
  }
qed simp_all

lemma table_reads_fuel:
  assumes "css \<noteq> []" and "[] \<notin> set css" and "list_all (list_all ok) css" and "sum_list (map length css) \<le> n"
  shows "csv_records n (join [NL] (map (\<lambda>cs. join '','' (map cell cs)) css)) = Some (map (map shown) css)"
  using assms
proof (induction css arbitrary: n)
  case (Cons cs css)
  then have cs: "cs \<noteq> []" "list_all ok cs" "length cs \<le> n" by auto
  show ?case
  proof (cases css)
    case Nil
    then show ?thesis using row_reads(1) [OF cs] by simp
  next
    case (Cons d ds)
    have "csv_records (n - length cs) (join [NL] (map (\<lambda>cs. join '','' (map cell cs)) css)) = Some (map (map shown) css)"
      using Cons.prems Cons by (intro Cons.IH) auto
    from row_reads(2) [OF cs this] Cons show ?thesis by simp
  qed
qed simp

lemma row_length: "cs \<noteq> [] \<Longrightarrow> length cs \<le> Suc (length (join '','' (map cell cs)))"
  by (induction cs rule: induct_list012) auto

lemma table_length:
  "css \<noteq> [] \<Longrightarrow> [] \<notin> set css \<Longrightarrow>
   sum_list (map length css) \<le> Suc (length (join [NL] (map (\<lambda>cs. join '','' (map cell cs)) css)))"
proof (induction css rule: induct_list012)
  case (2 cs)
  then show ?case using row_length [of cs] by simp
next
  case (3 cs ds css)
  then have "length cs \<le> Suc (length (join '','' (map cell cs)))"
    by (intro row_length) auto
  with 3 show ?case by simp
qed simp

text \<open>A table of at least one record, none of them empty, with cells the writer can write, is read back cell by cell.\<close>

lemma table_reads:
  assumes "css \<noteq> []" and "[] \<notin> set css" and "list_all (list_all ok) css"
  shows "csv_parse (join [NL] (map (\<lambda>cs. join '','' (map cell cs)) css)) = Some (map (map shown) css)"
  unfolding csv_parse_def by (rule table_reads_fuel [OF assms table_length [OF assms(1,2)]])

end

text \<open>\<open>text.replace(/"/g, '""')\<close> between quotes reads back as the text.\<close>

definition double_quotes :: "string \<Rightarrow> string" where
  "double_quotes s = concat (map (\<lambda>c. if c = QUOT then [QUOT, QUOT] else [c]) s)"

definition quoted_cell :: "string \<Rightarrow> string" where
  "quoted_cell s = QUOT # double_quotes s @ [QUOT]"

lemma csv_quoted_double: "csv_delim r \<Longrightarrow> csv_quoted (double_quotes s @ QUOT # r) = Some (s, r)"
proof (induction s)
  case Nil
  have "csv_delim (QUOT # t) = False" for t
    by (simp add: csv_delim_def csv_stop_def QUOT_def NL_def)
  with Nil show ?case by (cases r) (auto simp: double_quotes_def)
next
  case (Cons c s)
  then show ?case by (simp add: double_quotes_def)
qed

lemma quoted_cell_reads: "csv_delim r \<Longrightarrow> csv_field (quoted_cell s @ r) = Some (s, r)"
  by (simp add: csv_field_def quoted_cell_def csv_quoted_double)

lemma bare_cell_reads:
  assumes "csv_delim r" and "QUOT \<notin> set s" and "CHR '','' \<notin> set s" and "NL \<notin> set s"
  shows "csv_field (s @ r) = Some (s, r)"
proof -
  have "takeWhile (\<lambda>c. \<not> csv_stop c) (s @ r) = s \<and> dropWhile (\<lambda>c. \<not> csv_stop c) (s @ r) = r"
    using assms by (intro takeWhile_all_append) (auto simp: list_all_iff csv_stop_def csv_delim_def split: list.splits)
  moreover have "\<not> prefix [QUOT] (s @ r)"
    using assms by (cases s; cases r) (auto simp: csv_delim_def csv_stop_def QUOT_def NL_def)
  ultimately show ?thesis by (simp add: csv_field_def)
qed

text \<open>
  The three ways the pages write a cell: as it is (headers, numbers), quoted with its quotes doubled, and
  between quotes without doubling (\<open>Raw\<close>), which is readable only when the text has no quote.
\<close>

datatype csv_cell = Bare string | Quoted string | Raw string

fun cell_text :: "csv_cell \<Rightarrow> string" where
  "cell_text (Bare s) = s"
| "cell_text (Quoted s) = quoted_cell s"
| "cell_text (Raw s) = QUOT # s @ [QUOT]"

fun cell_shown :: "csv_cell \<Rightarrow> string" where
  "cell_shown (Bare s) = s"
| "cell_shown (Quoted s) = s"
| "cell_shown (Raw s) = s"

fun cell_ok :: "csv_cell \<Rightarrow> bool" where
  "cell_ok (Bare s) = (QUOT \<notin> set s \<and> CHR '','' \<notin> set s \<and> NL \<notin> set s)"
| "cell_ok (Quoted s) = True"
| "cell_ok (Raw s) = (QUOT \<notin> set s)"

lemma double_quotes_none: "QUOT \<notin> set s \<Longrightarrow> double_quotes s = s"
  by (induction s) (auto simp: double_quotes_def)

lemma raw_cell_reads: "QUOT \<notin> set s \<Longrightarrow> csv_delim r \<Longrightarrow> csv_field (QUOT # s @ QUOT # r) = Some (s, r)"
  using quoted_cell_reads [of r s] by (simp add: quoted_cell_def double_quotes_none)

interpretation sheet: csv_writer cell_text cell_shown cell_ok
proof unfold_locales
  fix x r assume "cell_ok x" "csv_delim r"
  then show "csv_field (cell_text x @ r) = Some (cell_shown x, r)"
    by (cases x) (auto simp: quoted_cell_reads bare_cell_reads raw_cell_reads)
qed

lemma cells_simps [simp]:
  "cell_shown \<circ> Bare = id" "cell_shown \<circ> Quoted = id" "cell_text \<circ> Bare = id" "cell_text \<circ> Quoted = quoted_cell"
  "list_all cell_ok (map Quoted ss)"
  by (auto simp: fun_eq_iff list_all_iff)

text \<open>A header line of bare cells, then rows of quoted ones.\<close>

lemma quoted_table_reads:
  assumes "hdr \<noteq> []" and "list_all cell_ok (map Bare hdr)" and "rows \<noteq> []" and "[] \<notin> set rows"
  shows "csv_parse (join '','' hdr @ [NL] @ join [NL] (map (\<lambda>cs. join '','' (map quoted_cell cs)) rows)) =
           Some (hdr # rows)"
proof -
  have "csv_parse (join [NL] (map (\<lambda>cs. join '','' (map cell_text cs)) (map Bare hdr # map (map Quoted) rows))) =
        Some (map (map cell_shown) (map Bare hdr # map (map Quoted) rows))"
    using assms by (intro sheet.table_reads) (auto simp: list_all_iff)
  moreover obtain r rs where "rows = r # rs" using assms(3) by (cases rows) auto
  ultimately show ?thesis by (simp add: comp_def)
qed

text \<open>A header line, then rows of cells of any kind.\<close>

definition sheet_text :: "string list \<Rightarrow> csv_cell list list \<Rightarrow> string" where
  "sheet_text hdr rows = join '','' hdr @ [NL] @ join [NL] (map (\<lambda>cs. join '','' (map cell_text cs)) rows)"

lemma sheet_text_reads:
  assumes "hdr \<noteq> []" and "list_all cell_ok (map Bare hdr)" and "rows \<noteq> []" and "[] \<notin> set rows"
    and "list_all (list_all cell_ok) rows"
  shows "csv_parse (sheet_text hdr rows) = Some (hdr # map (map cell_shown) rows)"
proof -
  have "csv_parse (join [NL] (map (\<lambda>cs. join '','' (map cell_text cs)) (map Bare hdr # rows))) =
        Some (map (map cell_shown) (map Bare hdr # rows))"
    using assms by (intro sheet.table_reads) auto
  moreover obtain r rs where "rows = r # rs" using assms(3) by (cases rows) auto
  ultimately show ?thesis by (simp add: sheet_text_def)
qed

text \<open>\<open>{ ...row, key: value }\<close>\<close>

fun with_field :: "string \<Rightarrow> jsval \<Rightarrow> jsval \<Rightarrow> jsval" where
  "with_field k v (JObj kvs) = JObj (map_set k v kvs)"
| "with_field k v u = JObj [(k, v)]"

lemma jopt_with_field: "jopt (with_field k v (JObj kvs)) k' = (if k' = k then v else jopt (JObj kvs) k')"
  by (simp add: map_of_set)

end
