(* ===== verification/Client_Session.thy ===== *)
theory Client_Session
  imports Page_Kit
begin

section \<open>The client's session: \<open>authStore.ts\<close> and \<open>utils/api.ts\<close>\<close>

text \<open>
  The session is a token and the user object the login endpoint returned. It lives in the store
  (field \<open>auth\<close> of the browser) and is mirrored in \<open>localStorage\<close>, from which \<open>getInitialAuth\<close>
  restores it when the page is loaded. \<open>fetchWithAuth\<close> is the only way the pages reach the API.
\<close>

subsection \<open>authStore.ts\<close>

definition getInitialAuth :: "browser \<Rightarrow> auth_state" where
  "getInitialAuth w =
     (case getItem w ''rudra_auth_token'' of
        Inl _ \<Rightarrow> signed_out
      | Inr savedToken \<Rightarrow>
          (case getItem w ''rudra_auth_user'' of
             Inl _ \<Rightarrow> signed_out
           | Inr savedUser \<Rightarrow>
               if str_truthy savedToken \<and> str_truthy savedUser then
                 (case JSON_parse (the savedUser) of
                    Inl _ \<Rightarrow> signed_out
                  | Inr u \<Rightarrow> \<lparr>au_token = JStr (the savedToken), au_user = u, isAuthenticated = True\<rparr>)
               else signed_out))"

definition setAuth :: "jsval \<Rightarrow> jsval \<Rightarrow> browser \<Rightarrow> browser" where
  "setAuth token usr w =
     (set_items [(''rudra_auth_token'', js_to_string token), (''rudra_auth_user'', stringify_item usr)] w)
       \<lparr>auth := \<lparr>au_token = token, au_user = usr, isAuthenticated = True\<rparr>\<rparr>"

definition logout :: "browser \<Rightarrow> browser" where
  "logout w = (remove_items [''rudra_auth_token'', ''rudra_auth_user''] w)\<lparr>auth := signed_out\<rparr>"

text \<open>Loading the page afresh: the store starts from \<open>localStorage\<close>.\<close>

definition reload :: "browser \<Rightarrow> browser" where
  "reload w = w\<lparr>auth := getInitialAuth w\<rparr>"

subsection \<open>utils/api.ts\<close>

definition getApiHost :: "browser \<Rightarrow> string" where
  "getApiHost w =
     (if port (loc w) \<noteq> ''8080'' \<and> hostname (loc w) = ''localhost'' then ''http://localhost:8080'' else [])"

definition clearSessionAndRedirectToLogin :: "browser \<Rightarrow> browser" where
  "clearSessionAndRedirectToLogin w =
     (let w1 = logout w
      in if pathname (loc w1) \<noteq> ''/login'' then w1\<lparr>redirects := redirects w1 @ [''/login'']\<rparr> else w1)"

definition unauthenticated :: js_error where
  "unauthenticated = ErrorMsg ''Unauthenticated: missing token or company. Redirecting to sign in.''"

definition auth_request :: "browser \<Rightarrow> jsval \<Rightarrow> jsval \<Rightarrow> string \<Rightarrow> options \<Rightarrow> request" where
  "auth_request w token companyId endpoint opt =
     (let host = getApiHost w;
          base = (if host = [] then origin_of (loc w) else host);
          path = (if prefix ''/'' endpoint then endpoint else ''/'' @ endpoint);
          ps = url_params path;
          ps' = (if param_has ps ''company_id'' then ps else param_set ''company_id'' (js_to_string companyId) ps);
          hs = header_set ''Authorization'' (''Bearer '' @ js_to_string token) (new_Headers (o_headers opt))
      in \<lparr>rq_method = o_method opt, rq_base = base, rq_path = url_path path, rq_params = ps',
          rq_headers = default_content_type opt hs, rq_body = o_body opt\<rparr>)"

text \<open>\<open>fetchWithAuth\<close> up to its \<open>await\<close>, and what it does with the answer.\<close>

definition auth_send :: fetcher where
  "auth_send w endpoint opt =
     (let companyId = jopt (au_user (auth w)) ''company_id''
      in case (if truthy (au_token (auth w)) then Inr (au_token (auth w))
               else (case getItem w ''rudra_auth_token'' of
                       Inl e \<Rightarrow> Inl e
                     | Inr t \<Rightarrow> Inr (opt_val JStr t))) of
           Inl e \<Rightarrow> (w, Inl e)
         | Inr token \<Rightarrow>
             if \<not> truthy token \<or> nullish companyId
             then (clearSessionAndRedirectToLogin w, Inl unauthenticated)
             else fetch w (auth_request w token companyId endpoint opt))"

definition auth_settle :: settler where
  "auth_settle r w =
     (case r of
        Inl e \<Rightarrow> w
      | Inr res \<Rightarrow> if status res = 401 then clearSessionAndRedirectToLogin w else w)"

definition fetchWithAuth :: fetcher where
  "fetchWithAuth = await_fetch auth_send auth_settle"

subsection \<open>Basic facts\<close>

lemma logout_simps [simp]:
  "auth (logout w) = signed_out" "sent (logout w) = sent w" "net (logout w) = net w"
  "loc (logout w) = loc w" "ls_blocked (logout w) = ls_blocked w" "redirects (logout w) = redirects w"
  by (simp_all add: logout_def)

lemma clear_simps [simp]:
  "auth (clearSessionAndRedirectToLogin w) = signed_out"
  "sent (clearSessionAndRedirectToLogin w) = sent w"
  "net (clearSessionAndRedirectToLogin w) = net w"
  "loc (clearSessionAndRedirectToLogin w) = loc w"
  "ls_blocked (clearSessionAndRedirectToLogin w) = ls_blocked w"
  by (simp_all add: clearSessionAndRedirectToLogin_def Let_def)

lemma logout_storage:
  "\<not> ls_blocked w \<Longrightarrow> storage (logout w) ''rudra_auth_token'' = None \<and> storage (logout w) ''rudra_auth_user'' = None"
  by (simp add: logout_def remove_items_def)

lemma signed_out_simps [simp]:
  "au_token signed_out = JNull" "au_user signed_out = JNull" "isAuthenticated signed_out = False"
  by (simp_all add: signed_out_def)

text \<open>Every request of \<open>fetchWithAuth\<close> is authorised for a tenant.\<close>

definition tenant_request :: "request \<Rightarrow> bool" where
  "tenant_request q \<longleftrightarrow>
     (\<exists>t. header_get ''Authorization'' (rq_headers q) = Some (''Bearer '' @ t)) \<and>
     param_has (rq_params q) ''company_id''"

lemma param_has_set [simp]: "param_has (param_set k v ps) k"
  by (induction ps) (auto simp: param_has_def, force)

lemma auth_request_bearer:
  "header_get ''Authorization'' (rq_headers (auth_request w t c e opt)) = Some (''Bearer '' @ js_to_string t)"
  by (simp add: auth_request_def Let_def content_type_keeps_authorization header_get_set)

lemma auth_request_company:
  "param_get (rq_params (auth_request w t c e opt)) ''company_id'' =
     (let p = (if prefix ''/'' e then e else ''/'' @ e)
      in if param_has (url_params p) ''company_id'' then param_get (url_params p) ''company_id''
         else Some (js_to_string c))"
  by (simp add: auth_request_def Let_def)

lemma auth_request_tenant: "tenant_request (auth_request w t c e opt)"
proof -
  have "param_has (rq_params (auth_request w t c e opt)) ''company_id''"
    by (simp add: auth_request_def Let_def)
  then show ?thesis by (simp add: tenant_request_def auth_request_bearer)
qed

lemmas fetchWithAuth_cases = fetchWithAuth_def await_fetch_def auth_send_def auth_settle_def Let_def

interpretation client: authorised_fetch auth_send auth_settle tenant_request
proof unfold_locales
  fix w e opt
  show "sent (fst (auth_send w e opt)) = sent w \<or>
        (\<exists>q. sent (fst (auth_send w e opt)) = sent w @ [q] \<and> tenant_request q)"
    by (auto simp: auth_send_def Let_def auth_request_tenant split: sum.splits)
  show "net (fst (auth_send w e opt)) = net w"
    by (auto simp: auth_send_def Let_def split: sum.splits)
next
  fix w e opt r
  assume "snd (auth_send w e opt) = Inr r"
  then show "\<exists>q. sent (fst (auth_send w e opt)) = sent w @ [q]"
    by (auto simp: auth_send_def Let_def split: sum.splits if_splits)
qed (auto simp: auth_settle_def split: sum.splits)

text \<open>With a session in the store the call is one request whose answer is returned.\<close>

definition has_session :: "browser \<Rightarrow> bool" where
  "has_session w \<longleftrightarrow> truthy (au_token (auth w)) \<and> \<not> nullish (jopt (au_user (auth w)) ''company_id'')"

lemma fetchWithAuth_session:
  assumes "has_session w"
  shows "fetchWithAuth w e opt =
     (let q = auth_request w (au_token (auth w)) (jopt (au_user (auth w)) ''company_id'') e opt;
          w1 = w\<lparr>sent := sent w @ [q]\<rparr>
      in case net w (sent w) q of
           Inl m \<Rightarrow> (w1, Inl (NetworkError m))
         | Inr r \<Rightarrow> (if status r = 401 then clearSessionAndRedirectToLogin w1 else w1, Inr r))"
  using assms by (simp add: has_session_def fetchWithAuth_cases fetch_def split: sum.splits)

lemma fetch_session_log:
  "has_session w \<Longrightarrow> sent (fst (fetchWithAuth w e opt)) =
     sent w @ [auth_request w (au_token (auth w)) (jopt (au_user (auth w)) ''company_id'') e opt]"
  by (auto simp: fetchWithAuth_session Let_def split: sum.splits)

text \<open>What the handlers of the client's pages add to the log.\<close>

lemmas client_sends [intro] = client.logged.load_all_run
  client.await_extends [folded fetchWithAuth_def] client.logged.load_one_run [folded fetchWithAuth_def]
  client.logged.submit_run [OF TrueI, folded fetchWithAuth_def] client.logged.row_request_run [OF TrueI, folded fetchWithAuth_def]

lemma fetch_sends_options:
  "adds_only (\<lambda>q. rq_body q = o_body opt \<and> rq_method q = o_method opt) w (fst (fetchWithAuth w e opt))"
proof -
  have "sent (fst (fetchWithAuth w e opt)) = sent (fst (auth_send w e opt))"
    by (simp add: fetchWithAuth_def await_fetch_def split_beta Let_def client.settle_log)
  moreover have "sent (fst (auth_send w e opt)) = sent w \<or> (\<exists>t c. sent (fst (auth_send w e opt)) = sent w @ [auth_request w t c e opt])"
    by (auto simp: auth_send_def Let_def split: sum.splits)
  moreover have "rq_body (auth_request w t c e opt) = o_body opt \<and> rq_method (auth_request w t c e opt) = o_method opt" for t c
    by (simp add: auth_request_def Let_def)
  ultimately show ?thesis by (auto simp: adds_only_def)
qed

text \<open>The first request of a submit is the form's own.\<close>

lemma submit_first_request:
  assumes "has_session w" and "\<And>wp. adds_only P (fst wp) (fst (on_ok wp))"
  shows "\<exists>qs. sent (fst (submit_form good fetchWithAuth e opt on_ok say failed broken w p)) =
      sent w @ auth_request w (au_token (auth w)) (jopt (au_user (auth w)) ''company_id'') e opt # qs"
proof -
  let ?w1 = "fst (fetchWithAuth w e opt)"
  have "\<exists>qs. sent (fst (submit_form good fetchWithAuth e opt on_ok say failed broken w p)) = sent ?w1 @ qs"
  proof (cases "accepted_by good (snd (fetchWithAuth w e opt))")
    case True
    with assms(2) [of "(?w1, p)"] show ?thesis by (auto simp: submit_form_taken adds_only_def)
  next
    case False
    from submit_answer_refused [where f = fetchWithAuth, OF this, of "\<lambda>_. on_ok" say failed broken p] show ?thesis by auto
  qed
  then show ?thesis by (simp add: fetch_session_log [OF assms(1)])
qed

text \<open>A server that always gives the same answer, for evaluation.\<close>

lemma auth_send_session:
  assumes "has_session w"
  shows "auth_send w e opt =
    fetch w (auth_request w (au_token (auth w)) (jopt (au_user (auth w)) ''company_id'') e opt)"
  using assms by (simp add: has_session_def auth_send_def)

lemma send_all_answer:
  assumes "has_session w" and "net w = answer code v"
  shows "snd (send_all auth_send w es) = replicate (length es) (Inr \<lparr>status = code, statusText = ''OK'', body = Inr v\<rparr>)"
  using assms
proof (induction es arbitrary: w)
  case (Cons x es)
  obtain e opt where x: "x = (e, opt)" by fastforce
  let ?w = "fst (auth_send w e opt)"
  have "has_session ?w" "net ?w = net w"
    using Cons.prems(1) by (simp_all add: auth_send_session has_session_def)
  moreover have "snd (auth_send w e opt) = Inr \<lparr>status = code, statusText = ''OK'', body = Inr v\<rparr>"
    using Cons.prems by (simp add: auth_send_session snd_fetch answer_def)
  ultimately have ih: "has_session ?w" "net ?w = answer code v"
    and this: "snd (auth_send w e opt) = Inr \<lparr>status = code, statusText = ''OK'', body = Inr v\<rparr>"
    using Cons.prems(2) by (simp_all only:)
  from Cons.IH [OF ih] this show ?case by (simp add: x split_beta Let_def)
qed simp

lemma fetch_all_answer:
  assumes "has_session w" and "net w = answer code v"
  shows "\<exists>w1. fetch_all auth_send auth_settle w es =
    (w1, Inr (replicate (length es) \<lparr>status = code, statusText = ''OK'', body = Inr v\<rparr>))"
proof -
  have "promise_all (replicate n (Inr r)) = Inr (replicate n r)" for n and r :: response
    using promise_all_Inr [of "replicate n r"] by (simp add: map_replicate)
  then show ?thesis
    using send_all_answer [OF assms, of "map (\<lambda>e. (e, GET)) es"]
    by (simp add: fetch_all_def run_all_def split_beta Let_def)
qed

lemma demo_has_session: "has_session (demo_session n)" "net (demo_session n) = n"
  by (simp_all add: has_session_def demo_session_def demo_user_def fresh_browser_def)

subsection \<open>Properties\<close>

text \<open>C5: signing in and loading the page again gives the same session. The token and the user object
  written by \<open>setAuth\<close> are read back by \<open>getInitialAuth\<close>, through the JSON text, for every non-empty
  token and every user object made of strings, booleans, integers, lists and objects.\<close>

theorem reload_restores_session:
  assumes "\<not> ls_blocked w" and "t \<noteq> []" and "json_wf u"
  shows "reload (setAuth (JStr t) u w) = setAuth (JStr t) u w"
proof -
  have "u \<noteq> JUndef" using assms(3) by auto
  then have "getInitialAuth (setAuth (JStr t) u w) = \<lparr>au_token = JStr t, au_user = u, isAuthenticated = True\<rparr>"
    using assms
    by (simp add: getInitialAuth_def getItem_def setAuth_def set_items_def stringify_item_def
        str_truthy_def stringify_nonempty JSON_parse_stringify)
  then show ?thesis by (simp add: reload_def setAuth_def)
qed

theorem reload_restores_session_witness:
  "\<not> ls_blocked (fresh_browser offline_net) \<and> json_wf demo_user \<and>
   reload (setAuth (JStr ''tok'') demo_user (fresh_browser offline_net)) =
     setAuth (JStr ''tok'') demo_user (fresh_browser offline_net)"
proof -
  have h: "\<not> ls_blocked (fresh_browser offline_net)" "''tok'' \<noteq> []" "json_wf demo_user"
    by (simp_all add: fresh_browser_def demo_user_def)
  then show ?thesis using reload_restores_session [OF h] by simp
qed

text \<open>C3: with a session, \<open>fetchWithAuth\<close> sends exactly one request; it carries the session's token
  and is scoped to a tenant: the one named in the endpoint's own query if there is one, the signed-in
  user's company otherwise.\<close>

theorem fetch_is_tenant_scoped:
  assumes "has_session w"
  shows "\<exists>q. sent (fst (fetchWithAuth w e opt)) = sent w @ [q]
      \<and> header_get ''Authorization'' (rq_headers q) = Some (''Bearer '' @ js_to_string (au_token (auth w)))
      \<and> param_get (rq_params q) ''company_id'' =
          (let p = (if prefix ''/'' e then e else ''/'' @ e)
           in if param_has (url_params p) ''company_id'' then param_get (url_params p) ''company_id''
              else Some (js_to_string (jopt (au_user (auth w)) ''company_id'')))"
proof -
  let ?q = "auth_request w (au_token (auth w)) (jopt (au_user (auth w)) ''company_id'') e opt"
  have "sent (fst (fetchWithAuth w e opt)) = sent w @ [?q]"
    using assms by (auto simp: fetchWithAuth_session Let_def split: sum.splits)
  then show ?thesis
    using auth_request_bearer auth_request_company by blast
qed

theorem fetch_is_tenant_scoped_witness:
  "has_session (demo_session offline_net) \<and>
   (\<exists>q. sent (fst (fetchWithAuth (demo_session offline_net) ''/api/v1/alerts'' GET)) = [q]
      \<and> header_get ''Authorization'' (rq_headers q) = Some ''Bearer tok''
      \<and> param_get (rq_params q) ''company_id'' = Some ''2'')"
proof -
  have h: "has_session (demo_session offline_net)"
    by (simp add: has_session_def demo_session_def demo_user_def)
  have n: "num_to_string 2 = ''2''"
    using num_to_string_nat [of 2] by (simp add: nat_to_string.simps digit_char_eval)
  have e: "prefix ''/'' ''/api/v1/alerts''" "\<not> param_has (url_params ''/api/v1/alerts'') ''company_id''"
    by (simp_all add: url_params_def parse_query_def param_has_def)
  show ?thesis
    using h fetch_is_tenant_scoped [OF h, of "''/api/v1/alerts''" GET] e
    by (simp add: demo_session_def fresh_browser_def demo_user_def n)
qed

text \<open>Without a token anywhere, or without a tenant, nothing is sent: the call is rejected, the
  stored session is dropped and the browser is sent to the login page (unless it is there).\<close>

theorem no_session_no_request:
  assumes "\<not> ls_blocked w"
    and "\<not> truthy (au_token (auth w)) \<and> \<not> str_truthy (storage w ''rudra_auth_token'')
         \<or> nullish (jopt (au_user (auth w)) ''company_id'')"
  shows "fetchWithAuth w e opt = (clearSessionAndRedirectToLogin w, Inl unauthenticated)
      \<and> sent (clearSessionAndRedirectToLogin w) = sent w
      \<and> auth (reload (clearSessionAndRedirectToLogin w)) = signed_out
      \<and> (pathname (loc w) = ''/login'' \<or> last (redirects (clearSessionAndRedirectToLogin w)) = ''/login'')"
proof -
  have "fetchWithAuth w e opt = (clearSessionAndRedirectToLogin w, Inl unauthenticated)"
    using assms
    by (auto simp: fetchWithAuth_cases getItem_def opt_val_def str_truthy_def split: option.splits)
  moreover have "auth (reload (clearSessionAndRedirectToLogin w)) = signed_out"
    using assms(1)
    by (simp add: reload_def clearSessionAndRedirectToLogin_def Let_def getInitialAuth_def getItem_def
        logout_storage str_truthy_def)
  ultimately show ?thesis
    by (simp add: clearSessionAndRedirectToLogin_def Let_def)
qed

theorem no_session_no_request_witness:
  "fetchWithAuth (fresh_browser offline_net) ''/api/v1/alerts'' GET =
     (clearSessionAndRedirectToLogin (fresh_browser offline_net), Inl unauthenticated)
   \<and> sent (clearSessionAndRedirectToLogin (fresh_browser offline_net)) = []"
proof -
  have h: "\<not> ls_blocked (fresh_browser offline_net)"
    "\<not> truthy (au_token (auth (fresh_browser offline_net))) \<and>
     \<not> str_truthy (storage (fresh_browser offline_net) ''rudra_auth_token'')
     \<or> nullish (jopt (au_user (auth (fresh_browser offline_net))) ''company_id'')"
    by (simp_all add: fresh_browser_def str_truthy_def)
  show ?thesis
    using no_session_no_request [OF h, of "''/api/v1/alerts''" GET] by (simp add: fresh_browser_def)
qed

text \<open>C4: an answer 401 ends the session: it is returned to the caller, the store and \<open>localStorage\<close>
  are cleared, so that the next call is rejected without a request.\<close>

theorem expired_token_ends_session:
  assumes "has_session w" and "\<not> ls_blocked w"
    and "snd (fetchWithAuth w e opt) = Inr r" and "status r = 401"
  shows "auth (fst (fetchWithAuth w e opt)) = signed_out
      \<and> snd (fetchWithAuth (fst (fetchWithAuth w e opt)) e' opt') = Inl unauthenticated
      \<and> sent (fst (fetchWithAuth (fst (fetchWithAuth w e opt)) e' opt')) = sent (fst (fetchWithAuth w e opt))"
proof -
  obtain v where v: "fst (fetchWithAuth w e opt) = clearSessionAndRedirectToLogin v"
    using assms by (auto simp: fetchWithAuth_session Let_def split: sum.splits)
  have "snd (fetchWithAuth (clearSessionAndRedirectToLogin v) e' opt') = Inl unauthenticated \<and>
        sent (fst (fetchWithAuth (clearSessionAndRedirectToLogin v) e' opt')) = sent (clearSessionAndRedirectToLogin v)"
    if "\<not> ls_blocked v"
    using that by (simp add: fetchWithAuth_cases getItem_def)
  moreover have "ls_blocked (fst (fetchWithAuth w e opt)) = ls_blocked w"
    using assms(1) by (auto simp: fetchWithAuth_session Let_def split: sum.splits)
  ultimately show ?thesis
    using assms(2) v by (metis clear_simps(1) clear_simps(5))
qed

theorem expired_token_ends_session_witness:
  "auth (fst (fetchWithAuth (demo_session (answer 401 JNull)) ''/api/v1/alerts'' GET)) = signed_out"
proof -
  let ?w = "demo_session (answer 401 JNull)"
  let ?r = "\<lparr>status = 401, statusText = ''OK'', body = Inr JNull\<rparr> :: response"
  have h: "has_session ?w" "\<not> ls_blocked ?w"
    by (simp_all add: has_session_def demo_session_def demo_user_def fresh_browser_def)
  have r: "snd (fetchWithAuth ?w ''/api/v1/alerts'' GET) = Inr ?r"
    using h(1) by (simp add: fetchWithAuth_session Let_def demo_session_def fresh_browser_def answer_def)
  have s: "status ?r = 401" by simp
  show ?thesis using expired_token_ends_session [OF h r s, of "''/api/v1/alerts''" GET] by simp
qed

end
