(* ===== verification/Vehicle_Store.thy ===== *)
theory Vehicle_Store
  imports Client_Session
begin

section \<open>The fleet store: \<open>vehicleStore.ts\<close>\<close>

text \<open>
  The vehicles of the signed-in organization, keyed by device id in a \<open>Map\<close>, with the selection, the
  filter and the load status. Fields that may be absent are options. \<open>fetchVehicles\<close> is asynchronous:
  \<open>fetchVehicles_start\<close> is what happens before the request is sent, \<open>fetchVehicles_end\<close> what happens
  when it settles; \<open>fetchVehicles\<close> is the two with nothing in between.
\<close>

record vehicle_position =
  device_id :: jsval
  reg_number :: "string option"
  vp_name :: "string option"
  driver_name :: "string option"
  driver_phone :: "string option"
  location_name :: "string option"
  lat :: "real option"
  lng :: "real option"
  speed :: "real option"
  heading :: "real option"
  ignition :: "bool option"
  vp_status :: "string option"
  online :: "bool option"
  timestamp :: "string option"
  odometer :: "real option"
  temperature :: "real option"

record vehicle_state =
  vehicles :: "(jsval, vehicle_position) omap"
  selectedDeviceId :: jsval
  filterStatus :: string
  searchQuery :: string
  vs_loading :: bool
  vs_error :: "string option"
  totalCount :: jsval
  companyId :: jsval

definition initial_vehicle_state :: vehicle_state where
  "initial_vehicle_state =
     \<lparr>vehicles = [], selectedDeviceId = JNull, filterStatus = ''all'', searchQuery = [],
      vs_loading = False, vs_error = None, totalCount = JNum 0, companyId = JNull\<rparr>"

definition updatePosition :: "vehicle_position \<Rightarrow> vehicle_state \<Rightarrow> vehicle_state" where
  "updatePosition pos s = s\<lparr>vehicles := map_set (device_id pos) pos (vehicles s)\<rparr>"

definition selectVehicle :: "jsval \<Rightarrow> vehicle_state \<Rightarrow> vehicle_state" where
  "selectVehicle deviceId s = s\<lparr>selectedDeviceId := deviceId\<rparr>"

definition setFilterStatus :: "string \<Rightarrow> vehicle_state \<Rightarrow> vehicle_state" where
  "setFilterStatus f s = s\<lparr>filterStatus := f\<rparr>"

definition setSearchQuery :: "string \<Rightarrow> vehicle_state \<Rightarrow> vehicle_state" where
  "setSearchQuery q s = s\<lparr>searchQuery := q\<rparr>"

definition clearVehicles :: "vehicle_state \<Rightarrow> vehicle_state" where
  "clearVehicles s = s\<lparr>vehicles := [], selectedDeviceId := JNull, totalCount := JNum 0, companyId := JNull\<rparr>"

subsection \<open>fetchVehicles\<close>

text \<open>\<open>[v.make, v.model].filter(Boolean).join(' ').trim()\<close>, with the empty text as undefined.\<close>

definition make_model :: "jsval \<Rightarrow> string option" where
  "make_model v =
     (let t = trim (join '' '' (map js_to_string (filter truthy [jopt v ''make'', jopt v ''model''])))
      in if t = [] then None else Some t)"

definition row_device_id :: "jsval \<Rightarrow> jsval" where
  "row_device_id v = coalesce (jopt v ''device_id'') (jopt v ''id'')"

definition vehicle_of_row :: "jsval \<Rightarrow> vehicle_position" where
  "vehicle_of_row v =
     (let la = num_field v ''lat''; ln = num_field v ''lng'';
          hasPosition = (la \<noteq> None \<and> ln \<noteq> None)
      in \<lparr>device_id = row_device_id v,
          reg_number = str_field v ''reg_number'',
          vp_name = make_model v,
          driver_name = str_field v ''driver_name'',
          driver_phone = str_field v ''driver_phone'',
          location_name = str_field v ''location_name'',
          lat = la, lng = ln,
          speed = num_field v ''speed'',
          heading = num_field v ''heading'',
          ignition = bool_field v ''ignition'',
          vp_status = (if hasPosition then str_field v ''status'' else Some ''offline''),
          online = Some (case bool_field v ''online'' of Some b \<Rightarrow> b | None \<Rightarrow> hasPosition),
          timestamp = str_field v ''timestamp'',
          odometer = num_field v ''odometer'',
          temperature = num_field v ''temperature''\<rparr>)"

definition target_company :: "browser \<Rightarrow> jsval \<Rightarrow> jsval" where
  "target_company w company =
     coalesce company (coalesce (jopt (au_user (auth w)) ''company_id'') JNull)"

definition vehicles_request :: "browser \<Rightarrow> string \<Rightarrow> jsval \<Rightarrow> request" where
  "vehicles_request w activeToken target =
     \<lparr>rq_method = ''GET'', rq_base = getApiHost w, rq_path = ''/api/v1/vehicles'',
      rq_params = [(''limit'', ''500'')] @
        (if target \<noteq> JNull then [(''company_id'', js_to_string target)] else []),
      rq_headers = [(''authorization'', ''Bearer '' @ activeToken), (''content-type'', ''application/json'')],
      rq_body = NoBody\<rparr>"

text \<open>\<open>token || auth.token || localStorage.getItem('rudra_auth_token') || ''\<close>.\<close>

definition active_token :: "browser \<Rightarrow> jsval \<Rightarrow> js_error + string" where
  "active_token w token =
     (if truthy token then Inr (js_to_string token)
      else if truthy (au_token (auth w)) then Inr (js_to_string (au_token (auth w)))
      else (case getItem w ''rudra_auth_token'' of Inl e \<Rightarrow> Inl e | Inr t \<Rightarrow> Inr (str_or t [])))"

text \<open>The rows of the answer, or the error the code throws for it.\<close>

definition vehicle_payload :: "response \<Rightarrow> js_error + (jsval list \<times> jsval)" where
  "vehicle_payload r =
     (if \<not> res_ok r then Inl (ErrorMsg (''Failed to load vehicles: '' @ statusText r))
      else (case res_json r of
         Inl e \<Rightarrow> Inl e
       | Inr json \<Rightarrow>
           (case jget json ''success'' of
              Inl e \<Rightarrow> Inl e
            | Inr success \<Rightarrow>
                (case (truthy success, as_arr (jopt json ''data'')) of
                   (True, Some rows) \<Rightarrow>
                     if list_ex nullish rows
                     then Inl (TypeError ''Cannot read properties of null (reading device_id)'')
                     else Inr (rows, jopt json ''total'')
                 | _ \<Rightarrow> Inl (ErrorMsg (js_to_string
                          (js_or (jopt json ''error'') (JStr ''Invalid vehicles payload''))))))))"

definition fleet_of_rows :: "jsval list \<Rightarrow> (jsval, vehicle_position) omap" where
  "fleet_of_rows rows = set_all row_device_id vehicle_of_row rows []"

definition fetchVehicles_start :: "vehicle_state \<Rightarrow> vehicle_state" where
  "fetchVehicles_start s = s\<lparr>vs_loading := True, vs_error := None\<rparr>"

definition fetchVehicles_fail :: "js_error \<Rightarrow> vehicle_state \<Rightarrow> vehicle_state" where
  "fetchVehicles_fail e s = s\<lparr>vs_error := Some (err_message e), vs_loading := False\<rparr>"

definition fetchVehicles_end ::
  "jsval \<Rightarrow> js_error + response \<Rightarrow> browser \<Rightarrow> vehicle_state \<Rightarrow> browser \<times> vehicle_state" where
  "fetchVehicles_end target r w s =
     (case r of
        Inl e \<Rightarrow> (w, fetchVehicles_fail e s)
      | Inr res \<Rightarrow>
          if status res = 401
          then (logout w, fetchVehicles_fail (ErrorMsg ''Session expired or unauthorized. Please sign in.'') s)
          else (w, case vehicle_payload res of
                     Inl e \<Rightarrow> fetchVehicles_fail e s
                   | Inr (rows, tot) \<Rightarrow>
                       (let m = fleet_of_rows rows
                        in s\<lparr>vehicles := m, totalCount := coalesce tot (JNum (of_nat (length m))),
                             companyId := target, vs_loading := False\<rparr>)))"

definition fetchVehicles ::
  "jsval \<Rightarrow> jsval \<Rightarrow> browser \<Rightarrow> vehicle_state \<Rightarrow> browser \<times> vehicle_state" where
  "fetchVehicles token company w s =
     (let s1 = fetchVehicles_start s; target = target_company w company
      in case active_token w token of
           Inl e \<Rightarrow> (w, fetchVehicles_fail e s1)
         | Inr activeToken \<Rightarrow>
             if activeToken = []
             then (logout w, fetchVehicles_fail (ErrorMsg ''Unauthenticated: no active session. Please sign in.'') s1)
             else (let (w1, r) = fetch w (vehicles_request w activeToken target)
                   in fetchVehicles_end target r w1 s1))"

subsection \<open>Store invariant\<close>

text \<open>
  Keys are distinct and every entry is filed under its own device id, so that looking a vehicle up
  and finding it in the list are the same.
\<close>

definition store_ok :: "vehicle_state \<Rightarrow> bool" where
  "store_ok s \<longleftrightarrow> map_ok (vehicles s) \<and> (\<forall>(k, v) \<in> set (vehicles s). device_id v = k)"

lemma device_id_row [simp]: "device_id (vehicle_of_row v) = row_device_id v"
  by (simp add: vehicle_of_row_def Let_def)

lemma map_set_entries:
  "(k, v) \<in> set (map_set a b m) \<Longrightarrow> (k, v) = (a, b) \<or> (k, v) \<in> set m"
  by (induction m) (auto split: if_splits)

lemma set_all_entries:
  "(k, v) \<in> set (set_all f g xs m) \<Longrightarrow> (\<exists>x \<in> set xs. k = f x \<and> v = g x) \<or> (k, v) \<in> set m"
proof (induction xs arbitrary: m)
  case (Cons x xs)
  then have "(\<exists>y \<in> set xs. k = f y \<and> v = g y) \<or> (k, v) \<in> set (map_set (f x) (g x) m)"
    by (simp add: set_all_def)
  then show ?case using map_set_entries by fastforce
qed simp

lemma fleet_of_rows_entries: "(k, v) \<in> set (fleet_of_rows rows) \<Longrightarrow> \<exists>r \<in> set rows. k = row_device_id r \<and> v = vehicle_of_row r"
  unfolding fleet_of_rows_def by (drule set_all_entries) simp

lemma store_ok_initial: "store_ok initial_vehicle_state"
  by (simp add: store_ok_def initial_vehicle_state_def)

lemma store_ok_fleet: "vehicles s = fleet_of_rows rows \<Longrightarrow> store_ok s"
  by (auto simp: store_ok_def dest: fleet_of_rows_entries) (simp add: fleet_of_rows_def)

lemma store_ok_update: "store_ok s \<Longrightarrow> store_ok (updatePosition pos s)"
  by (auto simp: store_ok_def updatePosition_def dest: map_set_entries)

lemma store_ok_cong: "vehicles s' = vehicles s \<Longrightarrow> store_ok s' = store_ok s"
  by (simp add: store_ok_def)

lemma store_ok_frame:
  "store_ok (selectVehicle d s) = store_ok s" "store_ok (setFilterStatus f s) = store_ok s"
  "store_ok (setSearchQuery q s) = store_ok s" "store_ok (clearVehicles s)"
  by (simp_all add: store_ok_def selectVehicle_def setFilterStatus_def setSearchQuery_def clearVehicles_def)

lemma fetchVehicles_end_vehicles:
  "vehicles (snd (fetchVehicles_end target r w s)) = vehicles s \<or>
   (\<exists>rows. vehicles (snd (fetchVehicles_end target r w s)) = fleet_of_rows rows)"
  by (auto simp: fetchVehicles_end_def fetchVehicles_fail_def Let_def split: sum.splits prod.splits if_splits)

lemma fetchVehicles_vehicles:
  "vehicles (snd (fetchVehicles t c w s)) = vehicles s \<or>
   (\<exists>rows. vehicles (snd (fetchVehicles t c w s)) = fleet_of_rows rows)"
  using fetchVehicles_end_vehicles [of "target_company w c" _ _ "fetchVehicles_start s"]
  by (auto simp: fetchVehicles_def fetchVehicles_fail_def fetchVehicles_start_def Let_def split_beta
      split: sum.splits)

text \<open>The operations a page can call, and their effect on the store.\<close>

datatype store_op =
    UpdatePosition vehicle_position
  | SelectVehicle jsval
  | SetFilter string
  | SetSearch string
  | ClearVehicles
  | FetchVehicles jsval jsval

fun store_step :: "store_op \<Rightarrow> browser \<times> vehicle_state \<Rightarrow> browser \<times> vehicle_state" where
  "store_step (UpdatePosition p) (w, s) = (w, updatePosition p s)"
| "store_step (SelectVehicle d) (w, s) = (w, selectVehicle d s)"
| "store_step (SetFilter f) (w, s) = (w, setFilterStatus f s)"
| "store_step (SetSearch q) (w, s) = (w, setSearchQuery q s)"
| "store_step ClearVehicles (w, s) = (w, clearVehicles s)"
| "store_step (FetchVehicles t c) (w, s) = fetchVehicles t c w s"

lemma store_step_ok: "store_ok (snd ws) \<Longrightarrow> store_ok (snd (store_step a ws))"
proof (cases "(a, ws)" rule: store_step.cases)
  case (6 t c w s)
  assume "store_ok (snd ws)"
  with 6 have ok: "store_ok s" and eq: "store_step a ws = fetchVehicles t c w s" by simp_all
  from fetchVehicles_vehicles [of t c w s] show ?thesis
    unfolding eq using ok store_ok_fleet store_ok_cong by blast
qed (auto simp: store_ok_update store_ok_frame)

definition demo_rows :: "jsval list" where
  "demo_rows = [JObj [(''id'', JNum 1), (''reg_number'', JStr ''A''), (''lat'', JNum 25), (''lng'', JNum 55),
                      (''status'', JStr ''moving'')],
                JObj [(''device_id'', JNum 9), (''reg_number'', JStr ''B''), (''status'', JStr ''moving'')]]"

definition demo_answer :: response where
  "demo_answer = \<lparr>status = 200, statusText = ''OK'',
     body = Inr (JObj [(''success'', JBool True), (''data'', JArr demo_rows)])\<rparr>"

lemma demo_payload: "vehicle_payload demo_answer = Inr (demo_rows, JUndef)"
  by (simp add: vehicle_payload_def demo_answer_def res_ok_def res_json_def jget_def demo_rows_def)

subsection \<open>The fleet as a finite map\<close>

text \<open>
  What the store promises its readers: a map from device ids to positions that changes in three ways. A
  position is filed under its device, a load replaces everything, clearing empties it; every other
  operation, and a load that fails for any reason, leaves it alone. \<open>store_event\<close> reads off which of these
  an operation is, from the browser alone.
\<close>

type_synonym fleet = "jsval \<rightharpoonup> vehicle_position"

datatype fleet_event = Seen vehicle_position | Loaded "jsval list" | Emptied | Quiet

fun fleet_spec :: "fleet_event \<Rightarrow> fleet \<Rightarrow> fleet" where
  "fleet_spec (Seen p) m = m(device_id p \<mapsto> p)"
| "fleet_spec (Loaded rows) m = map_of (rev (map (\<lambda>r. (row_device_id r, vehicle_of_row r)) rows))"
| "fleet_spec Emptied m = Map.empty"
| "fleet_spec Quiet m = m"

definition abs_fleet :: "vehicle_state \<Rightarrow> fleet" where
  "abs_fleet s = map_get (vehicles s)"

definition answer_event :: "js_error + response \<Rightarrow> fleet_event" where
  "answer_event r =
     (case r of
        Inl e \<Rightarrow> Quiet
      | Inr res \<Rightarrow>
          if status res = 401 then Quiet
          else (case vehicle_payload res of Inl e \<Rightarrow> Quiet | Inr (rows, tot) \<Rightarrow> Loaded rows))"

fun store_event :: "store_op \<Rightarrow> browser \<Rightarrow> fleet_event" where
  "store_event (UpdatePosition p) w = Seen p"
| "store_event ClearVehicles w = Emptied"
| "store_event (FetchVehicles t c) w =
     (case active_token w t of
        Inl e \<Rightarrow> Quiet
      | Inr tok \<Rightarrow> if tok = [] then Quiet else answer_event (snd (fetch w (vehicles_request w tok (target_company w c)))))"
| "store_event a w = Quiet"

fun store_events :: "store_op list \<Rightarrow> browser \<times> vehicle_state \<Rightarrow> fleet_event list" where
  "store_events [] ws = []"
| "store_events (a # as) ws = store_event a (fst ws) # store_events as (store_step a ws)"

lemma abs_fleet_simps [simp]:
  "abs_fleet (selectVehicle d s) = abs_fleet s" "abs_fleet (setFilterStatus f s) = abs_fleet s"
  "abs_fleet (setSearchQuery q s) = abs_fleet s" "abs_fleet (fetchVehicles_start s) = abs_fleet s"
  "abs_fleet (fetchVehicles_fail e s) = abs_fleet s" "abs_fleet (clearVehicles s) = Map.empty"
  "abs_fleet (updatePosition p s) = (abs_fleet s)(device_id p \<mapsto> p)"
  by (simp_all add: abs_fleet_def selectVehicle_def setFilterStatus_def setSearchQuery_def fetchVehicles_start_def
      fetchVehicles_fail_def clearVehicles_def updatePosition_def map_get_def map_of_set fun_eq_iff)

lemma abs_fleet_load: "map_get (fleet_of_rows rows) = map_of (rev (map (\<lambda>r. (row_device_id r, vehicle_of_row r)) rows))"
  by (simp add: fleet_of_rows_def map_get_def map_of_set_all fun_eq_iff)

lemma abs_fleet_end: "abs_fleet (snd (fetchVehicles_end target r w s)) = fleet_spec (answer_event r) (abs_fleet s)"
  by (auto simp: fetchVehicles_end_def answer_event_def Let_def abs_fleet_load split: sum.splits)
    (auto simp: abs_fleet_def abs_fleet_load)

lemma store_step_refines: "abs_fleet (snd (store_step a (w, s))) = fleet_spec (store_event a w) (abs_fleet s)"
proof (cases a)
  case (FetchVehicles t c)
  then show ?thesis
    by (auto simp: fetchVehicles_def Let_def split_beta abs_fleet_end split: sum.splits)
qed simp_all

lemma abs_fleet_initial [simp]: "abs_fleet initial_vehicle_state = Map.empty"
  by (simp add: abs_fleet_def initial_vehicle_state_def map_get_def fun_eq_iff)

lemma store_run_refines:
  "abs_fleet (snd (fold store_step ops ws)) = fold fleet_spec (store_events ops ws) (abs_fleet (snd ws))"
proof (induction ops arbitrary: ws)
  case (Cons a as)
  then show ?case using store_step_refines [of a "fst ws" "snd ws"] by simp
qed simp

lemma store_run_ok: "store_ok (snd ws) \<Longrightarrow> store_ok (snd (fold store_step ops ws))"
  by (induction ops arbitrary: ws) (simp_all add: store_step_ok)

lemma abs_fleet_find:
  assumes "store_ok s"
  shows "abs_fleet s k = find (\<lambda>v. device_id v = k) (map_values (vehicles s))"
proof -
  have "map_of m k = find (\<lambda>v. device_id v = k) (map snd m)" if "\<forall>(k, v) \<in> set m. device_id v = k" for m :: "(jsval \<times> vehicle_position) list"
    using that by (induction m) auto
  with assms show ?thesis by (simp add: abs_fleet_def map_get_def store_ok_def)
qed

subsection \<open>Requests\<close>

text \<open>
  A load of the store carries the token; it names the tenant whenever the caller or the session knows one.
  Unlike \<open>fetchWithAuth\<close> it does not refuse to run without a tenant.
\<close>

definition bearer_request :: "request \<Rightarrow> bool" where
  "bearer_request q \<longleftrightarrow> (\<exists>t. header_get ''Authorization'' (rq_headers q) = Some (''Bearer '' @ t))"

definition scoped_request :: "request \<Rightarrow> bool" where
  "scoped_request q \<longleftrightarrow> bearer_request q \<and> (param_has (rq_params q) ''company_id'' \<or> rq_path q = ''/api/v1/vehicles'')"

lemma tenant_scoped: "tenant_request q \<Longrightarrow> scoped_request q"
  by (auto simp: tenant_request_def scoped_request_def bearer_request_def)

lemma tenant_adds: "adds_only tenant_request w w' \<Longrightarrow> adds_only scoped_request w w'"
  by (erule adds_mono) (rule tenant_scoped)

lemma vehicles_request_scoped: "scoped_request (vehicles_request w t c)"
proof -
  have "toLowerCase ''Authorization'' = ''authorization''" by code_simp
  then show ?thesis
    by (simp add: scoped_request_def bearer_request_def vehicles_request_def header_get_def map_get_def)
qed

lemma sent_fetchVehicles_end [simp]: "sent (fst (fetchVehicles_end target r w s)) = sent w"
  by (auto simp: fetchVehicles_end_def split: sum.splits)

lemma fetchVehicles_send [intro]: "adds_only scoped_request w (fst (fetchVehicles token company w s))"
  by (auto simp: fetchVehicles_def Let_def split_beta adds_only_def vehicles_request_scoped split: sum.splits)

text \<open>A session without a company still loads vehicles, for no tenant in particular.\<close>

lemma unscoped_vehicle_request:
  assumes "truthy (au_token (auth w))" and "js_to_string (au_token (auth w)) \<noteq> []" and "nullish (jopt (au_user (auth w)) ''company_id'')"
  shows "\<exists>q. sent (fst (fetchVehicles JUndef JUndef w s)) = sent w @ [q] \<and> \<not> param_has (rq_params q) ''company_id''"
  using assms
  by (auto simp: fetchVehicles_def Let_def split_beta active_token_def target_company_def coalesce_def vehicles_request_def param_has_def)

subsection \<open>Properties\<close>

text \<open>C19: whatever sequence of operations the pages perform, the store keeps one entry per device, filed
  under that device's own id.\<close>

theorem store_invariant: "store_ok (snd (fold store_step ops (w, initial_vehicle_state)))"
  using store_run_ok [of "(w, initial_vehicle_state)" ops] by (simp add: store_ok_initial)

text \<open>C6: the store refines a finite map from device ids to positions. Along every sequence of operations,
  with every answer of the server, looking a device up in the store gives what the map specification gives
  for the same sequence of sightings, loads and clearings; and looking up by key and searching the list of
  vehicles for the id are the same.\<close>

theorem store_refines_fleet:
  "abs_fleet (snd (fold store_step ops (w, initial_vehicle_state))) =
     fold fleet_spec (store_events ops (w, initial_vehicle_state)) Map.empty
   \<and> (let s = snd (fold store_step ops (w, initial_vehicle_state))
      in abs_fleet s k = find (\<lambda>v. device_id v = k) (map_values (vehicles s)))"
proof -
  have "store_ok (snd (fold store_step ops (w, initial_vehicle_state)))"
    by (rule store_run_ok) (simp add: store_ok_initial)
  note find = abs_fleet_find [OF this, of k]
  show ?thesis
    unfolding Let_def by (rule conjI [OF _ find]) (use store_run_refines [of ops "(w, initial_vehicle_state)"] in simp)
qed

lemma set_all_values_distinct:
  "map_ok m \<Longrightarrow> distinct (map f xs) \<Longrightarrow> set (map fst m) \<inter> f ` set xs = {} \<Longrightarrow>
   set_all f g xs m = m @ map (\<lambda>x. (f x, g x)) xs"
proof (induction xs arbitrary: m)
  case (Cons x xs)
  then have "map_set (f x) (g x) m = m @ [(f x, g x)]"
    by (intro map_set_fresh) auto
  with Cons show ?case by (auto simp: set_all_def map_ok_def)
qed simp

lemma fleet_of_rows_distinct:
  "distinct (map row_device_id rows) \<Longrightarrow> map_values (fleet_of_rows rows) = map vehicle_of_row rows"
  by (simp add: fleet_of_rows_def set_all_values_distinct comp_def)

text \<open>A successful load replaces the fleet by the rows of the answer. With distinct device ids the
  list the pages show is the answer's rows, one by one and in order; the count is the server's total
  when it gives one, and the load is over without an error.\<close>

theorem load_shows_the_answer:
  assumes "vehicle_payload res = Inr (rows, tot)" and "status res \<noteq> 401"
    and "distinct (map row_device_id rows)"
  shows "map_values (vehicles (snd (fetchVehicles_end target (Inr res) w s))) = map vehicle_of_row rows
      \<and> totalCount (snd (fetchVehicles_end target (Inr res) w s)) =
          coalesce tot (JNum (of_nat (length rows)))
      \<and> companyId (snd (fetchVehicles_end target (Inr res) w s)) = target
      \<and> \<not> vs_loading (snd (fetchVehicles_end target (Inr res) w s))
      \<and> vs_error (snd (fetchVehicles_end target (Inr res) w s)) = vs_error s"
proof -
  have "length (fleet_of_rows rows) = length rows"
    using fleet_of_rows_distinct [OF assms(3)] by (metis length_map)
  then show ?thesis
    using assms by (simp add: fetchVehicles_end_def Let_def fleet_of_rows_distinct)
qed

theorem load_shows_the_answer_witness:
  "map_values (vehicles (snd (fetchVehicles_end (JNum 2) (Inr demo_answer) (fresh_browser offline_net)
     initial_vehicle_state))) = map vehicle_of_row demo_rows"
proof -
  have h: "status demo_answer \<noteq> 401" "distinct (map row_device_id demo_rows)"
    by (simp_all add: demo_answer_def demo_rows_def row_device_id_def coalesce_def)
  show ?thesis
    using load_shows_the_answer [OF demo_payload h, of "JNum 2" "fresh_browser offline_net"] by blast
qed



lemma fleet_values: "v \<in> set (map_values (fleet_of_rows rows)) \<Longrightarrow> \<exists>r \<in> set rows. v = vehicle_of_row r"
  using fleet_of_rows_entries by fastforce

text \<open>No position is made up. After any load, a vehicle in the store that lacks a coordinate is
  marked offline, whatever status the server sent, and its online flag is set only if the server said so.\<close>

theorem unlocated_is_offline:
  assumes "v \<in> set (map_values (fleet_of_rows rows))" and "lat v = None \<or> lng v = None"
  shows "vp_status v = Some ''offline'' \<and>
    (\<exists>r \<in> set rows. v = vehicle_of_row r \<and> (online v = Some True \<longleftrightarrow> bool_field r ''online'' = Some True))"
proof -
  obtain r where r: "r \<in> set rows" "v = vehicle_of_row r"
    using fleet_values [OF assms(1)] by blast
  with assms(2) have "vp_status v = Some ''offline''"
    "online v = Some True \<longleftrightarrow> bool_field r ''online'' = Some True"
    by (auto simp: vehicle_of_row_def Let_def split: option.splits)
  with r show ?thesis by blast
qed

theorem unlocated_is_offline_witness:
  "vp_status (vehicle_of_row (demo_rows ! 1)) = Some ''offline''"
proof -
  have h: "vehicle_of_row (demo_rows ! 1) \<in> set (map_values (fleet_of_rows demo_rows))"
    by (simp add: fleet_of_rows_def set_all_def demo_rows_def row_device_id_def coalesce_def)
  have n: "lat (vehicle_of_row (demo_rows ! 1)) = None \<or> lng (vehicle_of_row (demo_rows ! 1)) = None"
    by (simp add: vehicle_of_row_def demo_rows_def)
  show ?thesis using unlocated_is_offline [OF h n] by blast
qed

text \<open>A load that was started before the store was cleared (a logout, or a sign-in to another
  organization) still fills the store when its answer arrives: \<open>clearVehicles\<close> does not cancel it.\<close>

theorem stale_load_refills_cleared_store:
  assumes "vehicle_payload res = Inr (rows, tot)" and "status res \<noteq> 401"
  shows "vehicles (snd (fetchVehicles_end target (Inr res) w (clearVehicles (fetchVehicles_start s)))) =
           fleet_of_rows rows
      \<and> companyId (snd (fetchVehicles_end target (Inr res) w (clearVehicles (fetchVehicles_start s)))) = target"
  using assms by (simp add: fetchVehicles_end_def Let_def)

theorem stale_load_refills_cleared_store_witness:
  "length (vehicles (snd (fetchVehicles_end (JNum 2) (Inr demo_answer) (logout (demo_session offline_net))
     (clearVehicles (fetchVehicles_start initial_vehicle_state))))) = 2"
proof -
  have h: "status demo_answer \<noteq> 401" by (simp add: demo_answer_def)
  have "length (fleet_of_rows demo_rows) = 2"
    by (simp add: fleet_of_rows_def set_all_def demo_rows_def row_device_id_def coalesce_def)
  then show ?thesis
    using stale_load_refills_cleared_store [OF demo_payload h, of "JNum 2" "logout (demo_session offline_net)"]
    by simp
qed

end
