(* ===== verification/Web_Socket.thy ===== *)
theory Web_Socket
  imports Vehicle_Store
begin

section \<open>Live positions: \<open>hooks/useWebSocket.ts\<close>\<close>

text \<open>
  The message handler is a function on the store. The connection is a step relation: sockets are
  numbered in the order they were created, each remembers the token and company of the \<open>connect\<close>
  closure that made it, and a pending reconnect is an entry of \<open>timers\<close>. The steps are the events of the
  browser (a socket opens, closes or fails, a timer fires) and of React (the component mounts, its
  dependencies change, it unmounts).
\<close>

subsection \<open>Messages\<close>

definition position_of_payload :: "jsval \<Rightarrow> vehicle_position" where
  "position_of_payload p =
     \<lparr>device_id = jopt p ''device_id'', reg_number = str_field p ''reg_number'',
      vp_name = None, driver_name = None, driver_phone = None, location_name = None,
      lat = num_field p ''lat'', lng = num_field p ''lng'', speed = num_field p ''speed'',
      heading = num_field p ''heading'', ignition = bool_field p ''ignition'',
      vp_status = str_field p ''status'', online = Some True,
      timestamp = as_str (coalesce (jopt p ''timestamp'') (jopt p ''time'')),
      odometer = num_field p ''odometer'', temperature = num_field p ''temperature''\<rparr>"

definition onmessage :: "string \<Rightarrow> vehicle_state \<Rightarrow> vehicle_state" where
  "onmessage data s =
     (case JSON_parse data of
        Inl _ \<Rightarrow> s
      | Inr msg \<Rightarrow>
          (case jget msg ''type'' of
             Inl _ \<Rightarrow> s
           | Inr ty \<Rightarrow>
               if ty = JStr ''position'' \<or> jopt msg ''lat'' \<noteq> JUndef then
                 (let payload = js_or (jopt msg ''payload'') msg
                  in if as_num (jopt payload ''device_id'') = None then s
                     else updatePosition (position_of_payload payload) s)
               else s))"

subsection \<open>The connection\<close>

datatype sock_status = Connecting | Opened | Closing | Closed

text \<open>What a \<open>connect\<close> closure captured: the token and the user's company.\<close>

type_synonym creds = "jsval \<times> jsval"

record sock =
  s_url :: string
  s_creds :: creds
  s_status :: sock_status

record ws_state =
  mounted :: bool
  deps :: creds
  socks :: "sock list"
  socketRef :: "nat option"
  timers :: "creds list"
  isConnected :: bool
  outbox :: "(nat \<times> jsval) list"

definition ws_initial :: "creds \<Rightarrow> ws_state" where
  "ws_initial c = \<lparr>mounted = False, deps = c, socks = [], socketRef = None, timers = [],
     isConnected = False, outbox = []\<rparr>"

definition ws_url :: "location \<Rightarrow> creds \<Rightarrow> string" where
  "ws_url l c =
     (let proto = (if protocol l = ''https:'' then ''wss:'' else ''ws:'');
          h = (if port l \<noteq> ''8080'' \<and> hostname l = ''localhost'' then ''localhost:8080'' else host_of l);
          ps = (if truthy (fst c) then [(''token'', js_to_string (fst c))] else []) @
               (if truthy (snd c) then [(''company_id'', js_to_string (snd c))] else []);
          qs = query_string ps
      in proto @ ''//'' @ h @ ''/ws/tracking'' @ (if qs = [] then [] else ''?'' @ qs))"

definition ws_connect :: "location \<Rightarrow> creds \<Rightarrow> ws_state \<Rightarrow> ws_state" where
  "ws_connect l c s =
     s\<lparr>socks := socks s @ [\<lparr>s_url = ws_url l c, s_creds = c, s_status = Connecting\<rparr>],
       socketRef := Some (length (socks s))\<rparr>"

definition set_sock :: "nat \<Rightarrow> sock_status \<Rightarrow> ws_state \<Rightarrow> ws_state" where
  "set_sock i st s = s\<lparr>socks := (socks s)[i := (socks s ! i)\<lparr>s_status := st\<rparr>]\<rparr>"

text \<open>\<open>ws.close()\<close>: a socket that is connecting or open starts to close; the \<open>close\<close> event follows.\<close>

definition ws_close :: "nat \<Rightarrow> ws_state \<Rightarrow> ws_state" where
  "ws_close i s =
     (if i < length (socks s) \<and> s_status (socks s ! i) \<in> {Connecting, Opened} then set_sock i Closing s else s)"

text \<open>The cleanup function of the effect.\<close>

definition ws_cleanup :: "ws_state \<Rightarrow> ws_state" where
  "ws_cleanup s = (case socketRef s of None \<Rightarrow> s | Some i \<Rightarrow> ws_close i s)"

definition subscribe_all :: jsval where
  "subscribe_all = JObj [(''action'', JStr ''subscribe_all'')]"

definition onopen :: "nat \<Rightarrow> ws_state \<Rightarrow> ws_state" where
  "onopen i s = (set_sock i Opened s)\<lparr>isConnected := True, outbox := outbox s @ [(i, subscribe_all)]\<rparr>"

definition onclose :: "nat \<Rightarrow> ws_state \<Rightarrow> ws_state" where
  "onclose i s = (set_sock i Closed s)\<lparr>isConnected := False, timers := timers s @ [s_creds (socks s ! i)]\<rparr>"

definition onerror :: "nat \<Rightarrow> ws_state \<Rightarrow> ws_state" where
  "onerror i s = ws_close i s"

inductive ws_step :: "location \<Rightarrow> ws_state \<Rightarrow> ws_state \<Rightarrow> bool" for l where
  mount: "\<not> mounted s \<Longrightarrow> ws_step l s ((ws_connect l (deps s) s)\<lparr>mounted := True\<rparr>)"
| open_ev: "i < length (socks s) \<Longrightarrow> s_status (socks s ! i) = Connecting \<Longrightarrow> ws_step l s (onopen i s)"
| close_ev: "i < length (socks s) \<Longrightarrow> s_status (socks s ! i) \<noteq> Closed \<Longrightarrow> ws_step l s (onclose i s)"
| error_ev: "i < length (socks s) \<Longrightarrow> s_status (socks s ! i) \<noteq> Closed \<Longrightarrow> ws_step l s (onerror i s)"
| timer_ev: "timers s = c # cs \<Longrightarrow> ws_step l s (ws_connect l c (s\<lparr>timers := cs\<rparr>))"
| deps_ev: "mounted s \<Longrightarrow> ws_step l s (ws_connect l c ((ws_cleanup s)\<lparr>deps := c\<rparr>))"
| unmount: "mounted s \<Longrightarrow> ws_step l s ((ws_cleanup s)\<lparr>mounted := False\<rparr>)"

inductive ws_reach :: "location \<Rightarrow> creds \<Rightarrow> ws_state \<Rightarrow> bool" for l c where
  init: "ws_reach l c (ws_initial c)"
| step: "ws_reach l c s \<Longrightarrow> ws_step l s t \<Longrightarrow> ws_reach l c t"

inductive_cases ws_stepE: "ws_step l s t"

definition live :: "sock \<Rightarrow> bool" where
  "live k = (s_status k \<noteq> Closed)"

text \<open>
  Once the component has been mounted, a live socket or a pending reconnect always exists: the stream
  cannot be lost for good.
\<close>

definition keeps_trying :: "ws_state \<Rightarrow> bool" where
  "keeps_trying s \<longleftrightarrow> (mounted s \<longrightarrow> timers s \<noteq> [] \<or> (\<exists>k \<in> set (socks s). live k))"

lemma set_sock_simps [simp]:
  "mounted (set_sock i st s) = mounted s" "timers (set_sock i st s) = timers s"
  "length (socks (set_sock i st s)) = length (socks s)" "deps (set_sock i st s) = deps s"
  "outbox (set_sock i st s) = outbox s"
  by (simp_all add: set_sock_def)

lemma ws_close_frame [simp]:
  "mounted (ws_close i s) = mounted s" "timers (ws_close i s) = timers s"
  "length (socks (ws_close i s)) = length (socks s)" "outbox (ws_close i s) = outbox s"
  by (simp_all add: ws_close_def)

lemma ws_cleanup_frame [simp]:
  "mounted (ws_cleanup s) = mounted s" "timers (ws_cleanup s) = timers s"
  "outbox (ws_cleanup s) = outbox s"
  by (simp_all add: ws_cleanup_def split: option.splits)

lemma live_set_sock:
  assumes "st \<noteq> Closed" and "\<exists>k \<in> set (socks s). live k"
  shows "\<exists>k \<in> set (socks (set_sock i st s)). live k"
proof -
  obtain j where j: "j < length (socks s)" "live (socks s ! j)"
    using assms(2) by (auto simp: in_set_conv_nth)
  then have "live (socks (set_sock i st s) ! j)"
    using assms(1) by (cases "j = i") (simp_all add: set_sock_def live_def)
  with j show ?thesis by (metis nth_mem set_sock_simps(3))
qed

lemma live_ws_close:
  "\<exists>k \<in> set (socks s). live k \<Longrightarrow> \<exists>k \<in> set (socks (ws_close i s)). live k"
  by (auto simp: ws_close_def intro: live_set_sock)

lemma keeps_trying_step: "ws_step l s t \<Longrightarrow> keeps_trying s \<Longrightarrow> keeps_trying t"
proof (induction rule: ws_step.induct)
  case (open_ev i s)
  then show ?case
    using live_set_sock [of Opened s i] by (auto simp: keeps_trying_def onopen_def)
next
  case (error_ev i s)
  then show ?case
    using live_ws_close [of s i] by (auto simp: keeps_trying_def onerror_def)
qed (auto simp: keeps_trying_def ws_connect_def onclose_def live_def)

definition demo_loc :: location where
  "demo_loc = loc (fresh_browser offline_net)"

definition demo_creds :: creds where
  "demo_creds = (JStr ''tok'', JNum 2)"

definition after_mount :: ws_state where
  "after_mount = (ws_connect demo_loc demo_creds (ws_initial demo_creds))\<lparr>mounted := True\<rparr>"

definition demo_message :: jsval where
  "demo_message = JObj [(''type'', JStr ''position''), (''device_id'', JNum 5)]"

lemma after_mount_reachable: "ws_reach demo_loc demo_creds after_mount"
proof -
  have "ws_step demo_loc (ws_initial demo_creds) after_mount"
    using ws_step.mount [of "ws_initial demo_creds" demo_loc]
    by (simp add: after_mount_def ws_initial_def)
  then show ?thesis by (rule ws_reach.step [OF ws_reach.init])
qed

subsection \<open>Properties\<close>




lemma position_id [simp]: "device_id (position_of_payload p) = jopt p ''device_id''"
  by (simp add: position_of_payload_def)

lemma onmessage_cases:
  "onmessage data s = s \<or>
   (\<exists>payload x. jopt payload ''device_id'' = JNum x \<and>
      map_get (vehicles (onmessage data s)) = (map_get (vehicles s))(JNum x \<mapsto> position_of_payload payload) \<and>
      selectedDeviceId (onmessage data s) = selectedDeviceId s \<and> companyId (onmessage data s) = companyId s)"
proof -
  have upd: "\<exists>x. jopt p ''device_id'' = JNum x \<and>
      map_get (vehicles (updatePosition (position_of_payload p) s)) =
        (map_get (vehicles s))(JNum x \<mapsto> position_of_payload p) \<and>
      selectedDeviceId (updatePosition (position_of_payload p) s) = selectedDeviceId s \<and>
      companyId (updatePosition (position_of_payload p) s) = companyId s"
    if "as_num (jopt p ''device_id'') \<noteq> None" for p
    using that
    by (cases "jopt p ''device_id''") (auto simp: updatePosition_def map_get_def map_of_set fun_eq_iff)
  have "onmessage data s = s \<or>
      (\<exists>p. as_num (jopt p ''device_id'') \<noteq> None \<and> onmessage data s = updatePosition (position_of_payload p) s)"
    by (auto simp: onmessage_def Let_def split: sum.splits)
  with upd show ?thesis by metis
qed

lemma demo_message_reads: "JSON_parse (stringify demo_message) = Inr demo_message"
  by (rule JSON_parse_stringify) (simp add: demo_message_def)

text \<open>A position message that the server writes as JSON is stored under its device's id and touches
  no other vehicle: read as a finite map, the store after the message is the store before it with that one
  key set to the position, whether the position is the message itself or its \<open>payload\<close>. The same message
  of another type without coordinates changes nothing.\<close>

theorem message_updates_one_vehicle:
  assumes "json_wf msg" and "jget msg ''type'' = Inr ty" and "payload = js_or (jopt msg ''payload'') msg"
    and "jopt payload ''device_id'' = JNum x"
  shows "map_get (vehicles (onmessage (stringify msg) s)) =
           (if ty = JStr ''position'' \<or> jopt msg ''lat'' \<noteq> JUndef
            then (map_get (vehicles s))(JNum x \<mapsto> position_of_payload payload) else map_get (vehicles s))
    \<and> selectedDeviceId (onmessage (stringify msg) s) = selectedDeviceId s
    \<and> companyId (onmessage (stringify msg) s) = companyId s"
  using assms
  by (auto simp: onmessage_def JSON_parse_stringify Let_def updatePosition_def map_get_def map_of_set fun_eq_iff
      simp del: stringify.simps)

theorem message_updates_one_vehicle_witness:
  "map_get (vehicles (onmessage (stringify demo_message) initial_vehicle_state)) =
     [JNum 5 \<mapsto> position_of_payload demo_message]"
proof -
  have h: "json_wf demo_message" "jget demo_message ''type'' = Inr (JStr ''position'')"
    "demo_message = js_or (jopt demo_message ''payload'') demo_message" "jopt demo_message ''device_id'' = JNum 5"
    by (simp_all add: demo_message_def jget_def js_or_def)
  show ?thesis
    using message_updates_one_vehicle [OF h, of initial_vehicle_state]
    by (simp add: initial_vehicle_state_def map_get_def fun_eq_iff del: stringify.simps)
qed

text \<open>A live position replaces the whole entry of its vehicle, so the driver, the model name and the
  place that the last load had stored for it are gone until the next load.\<close>

theorem live_position_drops_details:
  assumes "vehicles (onmessage data s) \<noteq> vehicles s"
  shows "\<exists>x v. map_get (vehicles (onmessage data s)) (JNum x) = Some v \<and>
           driver_name v = None \<and> driver_phone v = None \<and> vp_name v = None \<and> location_name v = None"
proof -
  from assms obtain p x where "jopt p ''device_id'' = JNum x"
    "map_get (vehicles (onmessage data s)) (JNum x) = Some (position_of_payload p)"
    using onmessage_cases [of data s] by auto
  then show ?thesis by (force simp: position_of_payload_def)
qed

theorem live_position_drops_details_witness:
  "\<exists>x v. map_get (vehicles (onmessage (stringify demo_message) initial_vehicle_state)) (JNum x) = Some v \<and>
     driver_name v = None"
proof -
  have h: "vehicles (onmessage (stringify demo_message) initial_vehicle_state) \<noteq> vehicles initial_vehicle_state"
    unfolding onmessage_def demo_message_reads
    by (simp add: demo_message_def jget_def js_or_def updatePosition_def initial_vehicle_state_def)
  show ?thesis using live_position_drops_details [OF h] by blast
qed

end
