(* ===== verification/Admin_Session.thy ===== *)
theory Admin_Session
  imports Page_Kit
begin

section \<open>The superadmin console's session\<close>

text \<open>
  \<open>admin/src/utils/api.ts\<close>, the session part of \<open>admin/src/App.tsx\<close> and \<open>AdminLoginPage.tsx\<close>. The console
  keeps its token and user in the \<open>localStorage\<close> of its own origin, and accepts both in the query
  string of its address (that is how the client's login page hands a superadmin over).
\<close>

definition TOKEN_KEY :: string where "TOKEN_KEY = ''rudra_superadmin_token''"

definition USER_KEY :: string where "USER_KEY = ''rudra_superadmin_user''"

definition ADMIN_KEY :: string where "ADMIN_KEY = ''rudra_admin_token''"

lemmas key_defs = TOKEN_KEY_def USER_KEY_def ADMIN_KEY_def

subsection \<open>utils/api.ts\<close>

definition getSuperAdminToken :: "browser \<Rightarrow> js_error + string" where
  "getSuperAdminToken w =
     (case getItem w TOKEN_KEY of
        Inl e \<Rightarrow> Inl e
      | Inr a \<Rightarrow>
          if str_truthy a then Inr (the a)
          else (case getItem w ADMIN_KEY of Inl e \<Rightarrow> Inl e | Inr b \<Rightarrow> Inr (str_or b [])))"

definition getSuperAdminUser :: "browser \<Rightarrow> jsval" where
  "getSuperAdminUser w =
     (case getItem w USER_KEY of
        Inl e \<Rightarrow> JNull
      | Inr raw \<Rightarrow>
          if str_truthy raw then (case JSON_parse (the raw) of Inl e \<Rightarrow> JNull | Inr v \<Rightarrow> v) else JNull)"

definition is_superadmin :: "jsval \<Rightarrow> bool" where
  "is_superadmin u = (jopt u ''role'' = JStr ''superadmin'')"

definition isSuperAdminAuthenticated :: "browser \<Rightarrow> js_error + bool" where
  "isSuperAdminAuthenticated w =
     (case getSuperAdminToken w of
        Inl e \<Rightarrow> Inl e
      | Inr t \<Rightarrow> Inr (t \<noteq> [] \<and> is_superadmin (getSuperAdminUser w)))"

definition clearSuperAdminAuth :: "browser \<Rightarrow> browser" where
  "clearSuperAdminAuth w = remove_items [TOKEN_KEY, USER_KEY, ADMIN_KEY] w"

definition admin_request :: "browser \<Rightarrow> string \<Rightarrow> string \<Rightarrow> options \<Rightarrow> request" where
  "admin_request w token url opt =
     (let hs = new_Headers (o_headers opt);
          hs1 = (if token \<noteq> [] then header_set ''Authorization'' (''Bearer '' @ token) hs else hs)
      in \<lparr>rq_method = o_method opt, rq_base = origin_of (loc w), rq_path = url_path url,
          rq_params = url_params url, rq_headers = default_content_type opt hs1, rq_body = o_body opt\<rparr>)"

definition admin_send :: fetcher where
  "admin_send w url opt =
     (case getSuperAdminToken w of
        Inl e \<Rightarrow> (w, Inl e)
      | Inr token \<Rightarrow> fetch w (admin_request w token url opt))"

definition admin_settle :: settler where
  "admin_settle r w =
     (case r of
        Inl e \<Rightarrow> w
      | Inr res \<Rightarrow>
          if status res = 401 \<or> status res = 403
          then (clearSuperAdminAuth w)\<lparr>events := events w @ [''rudra:superadmin:auth_expired'']\<rparr>
          else w)"

definition fetchWithAdminAuth :: fetcher where
  "fetchWithAdminAuth = await_fetch admin_send admin_settle"

lemmas fetchWithAdminAuth_cases = fetchWithAdminAuth_def await_fetch_def admin_send_def admin_settle_def Let_def

interpretation admin: authorised_fetch admin_send admin_settle "\<lambda>q. True"
  by unfold_locales
    (auto simp: admin_send_def admin_settle_def clearSuperAdminAuth_def split: sum.splits)

text \<open>What one call leaves in the log: one request, whatever the answer, as long as the storage can be read.\<close>

lemma admin_fetch_log:
  assumes "\<not> ls_blocked w"
  shows "\<exists>t. sent (fst (fetchWithAdminAuth w e opt)) = sent w @ [admin_request w t e opt]"
    and "ls_blocked (fst (fetchWithAdminAuth w e opt)) = ls_blocked w" "loc (fst (fetchWithAdminAuth w e opt)) = loc w"
  using assms
  by (auto simp: fetchWithAdminAuth_cases getSuperAdminToken_def getItem_def clearSuperAdminAuth_def split_beta split: sum.splits)

text \<open>Method, path, parameters and body of a request, without the headers.\<close>

definition gist :: "request \<Rightarrow> string \<times> string \<times> (string \<times> string) list \<times> req_body" where
  "gist q = (rq_method q, rq_path q, rq_params q, rq_body q)"

definition gist_of :: "string \<Rightarrow> options \<Rightarrow> string \<times> string \<times> (string \<times> string) list \<times> req_body" where
  "gist_of e opt = (o_method opt, url_path e, url_params e, o_body opt)"

lemma admin_fetch_gist:
  "\<not> ls_blocked w \<Longrightarrow> map gist (sent (fst (fetchWithAdminAuth w e opt))) = map gist (sent w) @ [gist_of e opt]"
  using admin_fetch_log(1) [of w e opt] by (auto simp: gist_def gist_of_def admin_request_def Let_def)

subsection \<open>App.tsx: the session at start, expiry and logout\<close>

record admin_session =
  as_auth :: bool
  as_user :: jsval

definition LOGIN_URL :: string where
  "LOGIN_URL = ''http://localhost:3000/login''"

definition query_params :: "location \<Rightarrow> (string \<times> string) list" where
  "query_params l = parse_query (if prefix ''?'' (search l) then tl (search l) else search l)"

text \<open>The \<open>try\<close> block: the session taken from the address, if it has one.\<close>

definition url_session :: "browser \<Rightarrow> (browser \<times> admin_session) option" where
  "url_session w =
     (let ps = query_params (loc w); token = param_get ps ''token''; up = param_get ps ''user''
      in if str_truthy token \<and> str_truthy up then
           (case JSON_parse (the up) of
              Inl e \<Rightarrow> None
            | Inr u \<Rightarrow>
                if is_superadmin u \<and> \<not> ls_blocked w then
                  (let w1 = set_items [(TOKEN_KEY, the token), (USER_KEY, stringify u), (ADMIN_KEY, the token)] w;
                       rest = query_string (param_delete ''user'' (param_delete ''token'' ps))
                   in Some (w1\<lparr>loc := (loc w1)\<lparr>search := (if rest = [] then [] else ''?'' @ rest)\<rparr>\<rparr>,
                            \<lparr>as_auth = True, as_user = u\<rparr>))
                else None)
         else None)"

definition getInitialSuperAdminSession :: "browser \<Rightarrow> browser \<times> (js_error + admin_session)" where
  "getInitialSuperAdminSession w =
     (case url_session w of
        Some (w1, ss) \<Rightarrow> (w1, Inr ss)
      | None \<Rightarrow>
          (w, case isSuperAdminAuthenticated w of
                Inl e \<Rightarrow> Inl e
              | Inr a \<Rightarrow> Inr \<lparr>as_auth = a, as_user = getSuperAdminUser w\<rparr>))"

definition handleAuthExpired :: "browser \<Rightarrow> browser \<times> admin_session" where
  "handleAuthExpired w =
     ((clearSuperAdminAuth w)\<lparr>redirects := redirects w @ [LOGIN_URL]\<rparr>, \<lparr>as_auth = False, as_user = JNull\<rparr>)"

definition admin_handleLogout :: "browser \<Rightarrow> browser \<times> admin_session" where
  "admin_handleLogout w =
     ((clearSuperAdminAuth w)\<lparr>redirects := redirects w @ [LOGIN_URL]\<rparr>, \<lparr>as_auth = False, as_user = JNull\<rparr>)"

text \<open>What \<open>App\<close> renders: the console, or the redirect notice.\<close>

definition admin_console_shown :: "admin_session \<Rightarrow> bool" where
  "admin_console_shown ss = as_auth ss"

subsection \<open>AdminLoginPage.tsx\<close>

record login_form =
  lf_loading :: bool
  lf_error :: "string option"

definition store_superadmin :: "string \<Rightarrow> jsval \<Rightarrow> browser \<Rightarrow> js_error + browser" where
  "store_superadmin token u w =
     (if ls_blocked w then Inl storage_error
      else Inr (set_items [(TOKEN_KEY, token), (USER_KEY, stringify_item u), (ADMIN_KEY, token)] w))"

definition login_request :: "string \<Rightarrow> string \<Rightarrow> string \<Rightarrow> request" where
  "login_request base u p =
     \<lparr>rq_method = ''POST'', rq_base = base, rq_path = ''/api/v1/auth/login'', rq_params = [],
      rq_headers = [(''content-type'', ''application/json'')],
      rq_body = JsonBody (JObj [(''username'', JStr u), (''password'', JStr p)])\<rparr>"

text \<open>The answer of the login endpoint: its data, or the error thrown for it.\<close>

definition login_answer :: "string \<Rightarrow> response \<Rightarrow> js_error + jsval" where
  "login_answer dflt r =
     (case res_json r of
        Inl e \<Rightarrow> Inl e
      | Inr d \<Rightarrow>
          if \<not> res_ok r then
            (case jget d ''error'' of Inl e \<Rightarrow> Inl e | Inr m \<Rightarrow> Inl (ErrorMsg (js_to_string (js_or m (JStr dflt)))))
          else (case jget d ''success'' of
             Inl e \<Rightarrow> Inl e
           | Inr ok \<Rightarrow> if truthy ok then Inr d
                       else Inl (ErrorMsg (js_to_string (js_or (jopt d ''error'') (JStr dflt))))))"

definition denied_message :: "jsval \<Rightarrow> string \<Rightarrow> string" where
  "denied_message d u =
     ''Access Denied: Account '' @ [CHR 0x27] @
     js_to_string (js_or (jopt (jopt d ''user'') ''username'') (JStr u)) @ [CHR 0x27] @
     '' is an Organizational account ('' @
     js_to_string (js_or (jopt (jopt d ''user'') ''company_name'') (JStr ''Tenant'')) @
     ''). Organizational accounts cannot access the SuperAdmin Console.''"

definition accept_superadmin :: "string \<Rightarrow> jsval \<Rightarrow> browser \<Rightarrow> js_error + browser" where
  "accept_superadmin u d w =
     (let t = js_or (jopt d ''token'') (js_or (jopt d ''access_token'') (JStr []))
      in if \<not> truthy t then Inl (ErrorMsg ''Authentication response did not include an access token.'')
         else if \<not> is_superadmin (jopt d ''user'') then Inl (ErrorMsg (denied_message d u))
         else store_superadmin (js_to_string t) (jopt d ''user'') w)"

text \<open>\<open>handleSubmit\<close>; the result's third part is the user passed to \<open>onLoginSuccess\<close>.\<close>

definition handleSubmit ::
  "string \<Rightarrow> string \<Rightarrow> browser \<Rightarrow> login_form \<Rightarrow> browser \<times> login_form \<times> jsval option" where
  "handleSubmit username password w f =
     (if username = [] \<or> password = []
      then (w, f\<lparr>lf_error := Some ''Please enter both username and password.''\<rparr>, None)
      else (let (w1, r) = fetch w (login_request (origin_of (loc w)) username password);
                out = (case r of
                         Inl e \<Rightarrow> Inl e
                       | Inr res \<Rightarrow> (case login_answer ''Invalid credentials.'' res of
                           Inl e \<Rightarrow> Inl e
                         | Inr d \<Rightarrow> (case accept_superadmin username d w1 of
                             Inl e \<Rightarrow> Inl e
                           | Inr w2 \<Rightarrow> Inr (w2, jopt d ''user''))))
            in case out of
                 Inl e \<Rightarrow> (w1, f\<lparr>lf_loading := False,
                   lf_error := Some (if err_message e = [] then ''Authentication failed.'' else err_message e)\<rparr>, None)
               | Inr (w2, u) \<Rightarrow> (w2, f\<lparr>lf_loading := False, lf_error := None\<rparr>, Some u)))"

subsection \<open>Properties\<close>

lemma clear_no_token:
  "\<not> ls_blocked w \<Longrightarrow> isSuperAdminAuthenticated (clearSuperAdminAuth w) = Inr False"
  by (simp add: isSuperAdminAuthenticated_def getSuperAdminToken_def getItem_def clearSuperAdminAuth_def
      remove_items_def key_defs str_truthy_def)

lemma clear_no_user: "\<not> ls_blocked w \<Longrightarrow> getSuperAdminUser (clearSuperAdminAuth w) = JNull"
  by (simp add: getSuperAdminUser_def getItem_def clearSuperAdminAuth_def remove_items_def key_defs str_truthy_def)

text \<open>C23: only a superadmin gets into the console through its login form. Either the submit succeeds,
  and then the answer's user has the role \<open>superadmin\<close>, a token (any value that is not falsy) came with it and both are in
  the store under the keys the session is read from; or it fails, and then the stored session is what it
  was and an error is shown.\<close>

theorem admin_login_needs_superadmin:
  "case handleSubmit username password w f of (w', f', res) \<Rightarrow>
     (\<exists>u t. res = Some u \<and> is_superadmin u \<and> truthy t \<and> lf_error f' = None
        \<and> storage w' USER_KEY = Some (stringify_item u) \<and> storage w' TOKEN_KEY = Some (js_to_string t))
     \<or> (res = None \<and> storage w' = storage w \<and> lf_error f' \<noteq> None)"
proof -
  have acc: "accept_superadmin n d v = Inr v' \<Longrightarrow>
      is_superadmin (jopt d ''user'') \<and> storage v' USER_KEY = Some (stringify_item (jopt d ''user'')) \<and>
      (\<exists>t. truthy t \<and> storage v' TOKEN_KEY = Some (js_to_string t))" for n d v v'
    by (auto simp: accept_superadmin_def store_superadmin_def set_items_def Let_def key_defs split: if_splits)
  show ?thesis
    by (auto simp: handleSubmit_def Let_def split_beta dest: acc split: if_splits sum.splits)
qed

end
