(* ===== verification/Sign_In.thy ===== *)
theory Sign_In
  imports Admin_Session Vehicle_Store
begin

section \<open>Signing in: \<open>LoginPage.tsx\<close> and \<open>SignupPage.tsx\<close>\<close>

text \<open>
  Both pages post to the API without a session and, on success, establish one. A superadmin who signs
  in on the client is handed over to the console in a URL. Navigation inside the client changes the
  path of the address; leaving it (\<open>window.location.href\<close>) is logged in \<open>redirects\<close>.
\<close>

definition navigate :: "string \<Rightarrow> browser \<Rightarrow> browser" where
  "navigate p w = w\<lparr>loc := (loc w)\<lparr>pathname := p\<rparr>\<rparr>"

definition admin_url :: "jsval \<Rightarrow> jsval \<Rightarrow> string" where
  "admin_url token u =
     ''http://localhost:3001/?'' @ ''token'' @ ''='' @ encodeURIComponent (js_to_string token) @ ''&'' @
     ''user'' @ ''='' @ encodeURIComponent (stringify_item u)"

definition error_text :: "string \<Rightarrow> js_error \<Rightarrow> string" where
  "error_text dflt e = (if err_message e = [] then dflt else err_message e)"

subsection \<open>LoginPage.tsx\<close>

text \<open>What follows a successful answer; storage that throws leaves through the \<open>catch\<close>.\<close>

definition establish :: "jsval \<Rightarrow> browser \<Rightarrow> vehicle_state \<Rightarrow> js_error + (browser \<times> vehicle_state)" where
  "establish d w s =
     (let u = jopt d ''user''; token = jopt d ''token''
      in if ls_blocked w then Inl storage_error
         else if is_superadmin u then
           Inr ((set_items [(TOKEN_KEY, js_to_string token), (USER_KEY, stringify_item u),
                            (ADMIN_KEY, js_to_string token)] w)
                  \<lparr>redirects := redirects w @ [admin_url token u]\<rparr>, s)
         else
           (let w1 = remove_items [TOKEN_KEY, USER_KEY, ADMIN_KEY] w;
                w2 = setAuth token u w1;
                w3 = set_items [(''rudra_auth_token'', js_to_string token)] w2
            in Inr (navigate ''/live'' w3, clearVehicles s)))"

definition doLogin ::
  "string \<Rightarrow> string \<Rightarrow> browser \<Rightarrow> vehicle_state \<Rightarrow> browser \<times> vehicle_state \<times> login_form" where
  "doLogin userToAuth passToAuth w s =
     (let (w1, r) = fetch w (login_request (getApiHost w) userToAuth passToAuth);
          out = (case r of
                   Inl e \<Rightarrow> Inl e
                 | Inr res \<Rightarrow> (case login_answer ''Invalid credentials.'' res of
                     Inl e \<Rightarrow> Inl e
                   | Inr d \<Rightarrow> establish d w1 s))
      in case out of
           Inl e \<Rightarrow> (w1, s, \<lparr>lf_loading = False,
             lf_error = Some (error_text ''Login failed. Please verify credentials.'' e)\<rparr>)
         | Inr (w2, s2) \<Rightarrow> (w2, s2, \<lparr>lf_loading = False, lf_error = None\<rparr>))"

subsection \<open>SignupPage.tsx\<close>

record signup_page =
  fullName :: string
  username :: string
  email :: string
  password :: string
  confirmPassword :: string
  su_companyId :: "real option"
  companies :: "jsval list"
  loadingCompanies :: bool
  companiesError :: "string option"
  su_loading :: bool
  su_error :: "string option"

text \<open>\<open>length\<close> of a string counts UTF-16 units: one per character, two for those of four bytes.\<close>

definition js_length :: "string \<Rightarrow> nat" where
  "js_length s =
     length (filter (\<lambda>c. \<not> (128 \<le> (of_char c :: nat) \<and> (of_char c :: nat) < 192)) s) +
     length (filter (\<lambda>c. 240 \<le> (of_char c :: nat)) s)"

definition loadCompanies :: "browser \<Rightarrow> signup_page \<Rightarrow> browser \<times> signup_page" where
  "loadCompanies w p =
     (let (w1, r) = fetch w \<lparr>rq_method = ''GET'', rq_base = getApiHost w, rq_path = ''/api/v1/auth/companies'',
                             rq_params = [], rq_headers = [], rq_body = NoBody\<rparr>;
          out = (case r of
                   Inl e \<Rightarrow> Inl e
                 | Inr res \<Rightarrow>
                     (let json = json_or JNull res
                      in if \<not> res_ok res \<or> \<not> truthy (jopt json ''success'') \<or> as_arr (jopt json ''data'') = None
                         then Inl (ErrorMsg (js_to_string
                                (js_or (jopt json ''error'') (JStr ''Could not load the organization list.''))))
                         else Inr (the (as_arr (jopt json ''data'')))))
      in (w1, case out of
                Inl e \<Rightarrow> p\<lparr>companies := [], loadingCompanies := False,
                  companiesError := Some (error_text ''Could not load the organization list.'' e)\<rparr>
              | Inr rows \<Rightarrow> p\<lparr>companies := rows, loadingCompanies := False, companiesError := None\<rparr>))"

definition signup_request :: "browser \<Rightarrow> signup_page \<Rightarrow> request" where
  "signup_request w p =
     \<lparr>rq_method = ''POST'', rq_base = getApiHost w, rq_path = ''/api/v1/auth/signup'', rq_params = [],
      rq_headers = [(''content-type'', ''application/json'')],
      rq_body = JsonBody (JObj [(''username'', JStr (username p)), (''password'', JStr (password p)),
        (''full_name'', JStr (fullName p)), (''email'', JStr (email p)),
        (''company_id'', JNum (case su_companyId p of None \<Rightarrow> 0 | Some c \<Rightarrow> c))])\<rparr>"

definition signup_problem :: "signup_page \<Rightarrow> string option" where
  "signup_problem p =
     (if password p \<noteq> confirmPassword p then Some ''Passwords do not match.''
      else if js_length (password p) < 6 then Some ''Password must be at least 6 characters.''
      else if su_companyId p = None \<or> su_companyId p = Some 0 then Some ''Please select an organization.''
      else None)"

definition handleSignup ::
  "browser \<Rightarrow> vehicle_state \<Rightarrow> signup_page \<Rightarrow> browser \<times> vehicle_state \<times> signup_page" where
  "handleSignup w s p =
     (case signup_problem p of
        Some m \<Rightarrow> (w, s, p\<lparr>su_error := Some m\<rparr>)
      | None \<Rightarrow>
          (let (w1, r) = fetch w (signup_request w p);
               out = (case r of
                        Inl e \<Rightarrow> Inl e
                      | Inr res \<Rightarrow> login_answer ''Failed to create account.'' res)
           in case out of
                Inl e \<Rightarrow> (w1, s, p\<lparr>su_loading := False,
                  su_error := Some (error_text ''Signup failed. Please try again.'' e)\<rparr>)
              | Inr d \<Rightarrow> (navigate ''/live'' (setAuth (jopt d ''token'') (jopt d ''user'') w1), clearVehicles s,
                  p\<lparr>su_loading := False, su_error := None\<rparr>)))"

subsection \<open>Properties\<close>

lemma navigate_simps [simp]:
  "auth (navigate p w) = auth w" "storage (navigate p w) = storage w" "sent (navigate p w) = sent w"
  "redirects (navigate p w) = redirects w" "ls_blocked (navigate p w) = ls_blocked w"
  by (simp_all add: navigate_def)

text \<open>The console opened at an address of its own origin.\<close>

definition open_console :: "string \<Rightarrow> browser \<Rightarrow> browser" where
  "open_console url w =
     w\<lparr>loc := \<lparr>protocol = ''http:'', hostname = ''localhost'', port = ''3001'', pathname = ''/'',
               search = takeWhile (\<lambda>c. c \<noteq> CHR ''#'') (dropWhile (\<lambda>c. c \<noteq> CHR ''?'') url),
               hash = dropWhile (\<lambda>c. c \<noteq> CHR ''#'') url\<rparr>\<rparr>"

lemma admin_url_search:
  "query_params (loc (open_console (admin_url token u) w)) =
     [(''token'', js_to_string token), (''user'', stringify_item u)]"
proof -
  define q where "q = ''token'' @ ''='' @ encodeURIComponent (js_to_string token) @ ''&'' @ ''user'' @ ''='' @
            encodeURIComponent (stringify_item u)"
  have "CHR ''#'' \<notin> set q"
    using encode_safe [of "js_to_string token"] encode_safe [of "stringify_item u"] by (auto simp: q_def)
  then have "takeWhile (\<lambda>c. c \<noteq> CHR ''#'') q = q"
    by (auto simp: takeWhile_eq_all_conv)
  moreover have "dropWhile (\<lambda>c. c \<noteq> CHR ''?'') (admin_url token u) = CHR ''?'' # q"
    by (simp add: admin_url_def q_def)
  moreover have "parse_query q = [(''token'', js_to_string token), (''user'', stringify_item u)]"
    using parse_query_two [of "''token''" "''user''"] by (simp add: q_def)
  ultimately show ?thesis
    by (simp add: query_params_def open_console_def del: takeWhile_eq_all_conv)
qed

lemma console_accepts_url:
  assumes "\<not> ls_blocked w" and "t \<noteq> []" and "json_wf u" and "is_superadmin u"
  shows "\<exists>w'. getInitialSuperAdminSession (open_console (admin_url (JStr t) u) w) =
             (w', Inr \<lparr>as_auth = True, as_user = u\<rparr>)
           \<and> getSuperAdminToken w' = Inr t \<and> search (loc w') = []"
proof -
  have u: "stringify_item u = stringify u" "u \<noteq> JUndef" using assms(3) by (auto simp: stringify_item_def)
  have b: "\<not> ls_blocked (open_console (admin_url (JStr t) u) w)"
    using assms(1) by (simp add: open_console_def)
  show ?thesis
    using assms b u
    by (simp add: getInitialSuperAdminSession_def url_session_def admin_url_search Let_def param_get_def
        param_delete_def str_truthy_def stringify_nonempty JSON_parse_stringify query_string_def
        getSuperAdminToken_def getItem_def set_items_def key_defs)
qed

text \<open>C24: single sign-on works end to end. When a superadmin signs in on the client, the client leaves
  for a console address from which the console (whatever its storage held before) starts signed in as
  that user with that token, and the credentials are gone from the address bar.\<close>

theorem superadmin_single_sign_on:
  assumes "\<not> ls_blocked w" and "\<not> ls_blocked console"
    and "snd (fetch w (login_request (getApiHost w) un pw)) = Inr res"
    and "login_answer ''Invalid credentials.'' res = Inr d"
    and "jopt d ''token'' = JStr t" and "t \<noteq> []"
    and "json_wf (jopt d ''user'')" and "is_superadmin (jopt d ''user'')"
  shows "\<exists>url console'. redirects (fst (doLogin un pw w s)) = redirects w @ [url]
      \<and> getInitialSuperAdminSession (open_console url console) =
          (console', Inr \<lparr>as_auth = True, as_user = jopt d ''user''\<rparr>)
      \<and> getSuperAdminToken console' = Inr t \<and> search (loc console') = []"
proof -
  have "redirects (fst (doLogin un pw w s)) = redirects w @ [admin_url (JStr t) (jopt d ''user'')]"
    using assms by (simp add: doLogin_def establish_def Let_def split_beta)
  then show ?thesis
    using console_accepts_url [OF assms(2,6,7,8)] by auto
qed

definition demo_admin :: jsval where
  "demo_admin = JObj [(''id'', JNum 1), (''role'', JStr ''superadmin'')]"

definition demo_login :: jsval where
  "demo_login = JObj [(''success'', JBool True), (''token'', JStr ''tok''), (''user'', demo_admin)]"

theorem superadmin_single_sign_on_witness:
  "\<exists>url console'. redirects (fst (doLogin ''root'' ''pw'' (fresh_browser (answer 200 demo_login)) initial_vehicle_state)) = [url]
      \<and> getInitialSuperAdminSession (open_console url (fresh_browser offline_net)) =
          (console', Inr \<lparr>as_auth = True, as_user = demo_admin\<rparr>)"
proof -
  let ?w = "fresh_browser (answer 200 demo_login)" and ?res = "\<lparr>status = 200, statusText = ''OK'', body = Inr demo_login\<rparr> :: response"
  have h: "\<not> ls_blocked ?w" "\<not> ls_blocked (fresh_browser offline_net)"
    "snd (fetch ?w (login_request (getApiHost ?w) ''root'' ''pw'')) = Inr ?res"
    by (simp_all add: fresh_browser_def fetch_def answer_def)
  have a: "login_answer ''Invalid credentials.'' ?res = Inr demo_login"
    by (simp add: login_answer_def res_json_def res_ok_def jget_def demo_login_def)
  have u: "jopt demo_login ''token'' = JStr ''tok''" "''tok'' \<noteq> []"
    "json_wf (jopt demo_login ''user'')" "is_superadmin (jopt demo_login ''user'')"
    by (simp_all add: demo_login_def demo_admin_def is_superadmin_def)
  show ?thesis
    using superadmin_single_sign_on [OF h a u, of initial_vehicle_state]
    by (auto simp: fresh_browser_def demo_login_def)
qed

text \<open>An organization's account that signs in on the client gets a session of its own: the token and
  user of the answer, an empty fleet store, no superadmin credentials in this origin's storage, and
  the live view. After a page load the session is still there.\<close>

theorem organization_sign_in:
  assumes "\<not> ls_blocked w"
    and "snd (fetch w (login_request (getApiHost w) un pw)) = Inr res"
    and "login_answer ''Invalid credentials.'' res = Inr d"
    and "jopt d ''token'' = JStr t" and "t \<noteq> []"
    and "json_wf (jopt d ''user'')" and "\<not> is_superadmin (jopt d ''user'')"
    and "doLogin un pw w s = (w', s', f)"
  shows "auth w' = \<lparr>au_token = JStr t, au_user = jopt d ''user'', isAuthenticated = True\<rparr>
      \<and> vehicles s' = [] \<and> isSuperAdminAuthenticated w' = Inr False
      \<and> pathname (loc w') = ''/live'' \<and> lf_error f = None \<and> auth (reload w') = auth w'"
proof -
  let ?w3 = "set_items [(''rudra_auth_token'', t)] (setAuth (JStr t) (jopt d ''user'')
      (remove_items [TOKEN_KEY, USER_KEY, ADMIN_KEY] (fst (fetch w (login_request (getApiHost w) un pw)))))"
  have w': "w' = navigate ''/live'' ?w3" "s' = clearVehicles s" "lf_error f = None"
    using assms by (auto simp: doLogin_def establish_def Let_def split_beta)
  have u: "stringify_item (jopt d ''user'') = stringify (jopt d ''user'')"
    "jopt d ''user'' \<noteq> JUndef" using assms(6) by (auto simp: stringify_item_def)
  have "auth w' = \<lparr>au_token = JStr t, au_user = jopt d ''user'', isAuthenticated = True\<rparr>"
    by (simp add: w' setAuth_def)
  moreover have "isSuperAdminAuthenticated w' = Inr False"
    using assms(1)
    by (simp add: w' isSuperAdminAuthenticated_def getSuperAdminToken_def getItem_def setAuth_def set_items_def
        remove_items_def key_defs str_truthy_def)
  moreover have "getInitialAuth w' = auth w'"
    using assms(1,5,6) u
    by (simp add: w' getInitialAuth_def getItem_def setAuth_def set_items_def str_truthy_def
        stringify_nonempty JSON_parse_stringify)
  ultimately show ?thesis
    by (simp add: w' reload_def clearVehicles_def navigate_def)
qed

definition demo_org_login :: jsval where
  "demo_org_login = JObj [(''success'', JBool True), (''token'', JStr ''tok''), (''user'', demo_user)]"

theorem organization_sign_in_witness:
  "pathname (loc (fst (doLogin ''ops'' ''pw'' (fresh_browser (answer 200 demo_org_login)) initial_vehicle_state))) = ''/live''
   \<and> isSuperAdminAuthenticated (fst (doLogin ''ops'' ''pw'' (fresh_browser (answer 200 demo_org_login)) initial_vehicle_state)) = Inr False"
proof -
  let ?w = "fresh_browser (answer 200 demo_org_login)"
    and ?res = "\<lparr>status = 200, statusText = ''OK'', body = Inr demo_org_login\<rparr> :: response"
  have h: "\<not> ls_blocked ?w" "snd (fetch ?w (login_request (getApiHost ?w) ''ops'' ''pw'')) = Inr ?res"
    by (simp_all add: fresh_browser_def fetch_def answer_def)
  have a: "login_answer ''Invalid credentials.'' ?res = Inr demo_org_login"
    by (simp add: login_answer_def res_json_def res_ok_def jget_def demo_org_login_def)
  have u: "jopt demo_org_login ''token'' = JStr ''tok''" "''tok'' \<noteq> []"
    "json_wf (jopt demo_org_login ''user'')" "\<not> is_superadmin (jopt demo_org_login ''user'')"
    by (simp_all add: demo_org_login_def demo_user_def is_superadmin_def)
  obtain w' s' f where r: "doLogin ''ops'' ''pw'' ?w initial_vehicle_state = (w', s', f)"
    by (cases "doLogin ''ops'' ''pw'' ?w initial_vehicle_state")
  show ?thesis using organization_sign_in [OF h a u r] r by simp
qed

text \<open>The sign-up form posts exactly when the two passwords agree, the password has at least six
  characters and an organization is chosen; otherwise it sends nothing and says which check failed.\<close>

theorem signup_checks_before_posting:
  "sent (fst (handleSignup w s p)) =
     (if password p = confirmPassword p \<and> 6 \<le> js_length (password p) \<and>
         su_companyId p \<noteq> None \<and> su_companyId p \<noteq> Some 0
      then sent w @ [signup_request w p] else sent w)
   \<and> (signup_problem p = None \<or> su_error (snd (snd (handleSignup w s p))) = signup_problem p)"
  by (auto simp: handleSignup_def signup_problem_def setAuth_def Let_def split_beta split: sum.splits)

end
