(* ===== verification/Alerts.thy ===== *)
theory Alerts
  imports Page_Kit Client_Session
begin

section \<open>The alert ledger: \<open>AlertsPage.tsx\<close>\<close>

text \<open>
  The page's state is a record of its \<open>useState\<close> cells. \<open>alerts_op\<close> lists what a user (or the refresh
  timer) can do; a control that the page disables is a step that does nothing.
\<close>

subsection \<open>Data\<close>

record alert_row =
  al_id :: jsval
  al_type :: string
  severity :: string
  al_vehicle :: string
  al_driver :: string
  driverPhone :: string
  message :: string
  al_time :: string
  al_timestamp :: string
  acknowledged :: bool
  al_lat :: "real option"
  al_lng :: "real option"

record alert_rule =
  ru_id :: jsval
  ru_name :: string
  ru_description :: string
  isActive :: bool
  smsEnabled :: "bool option"
  emailEnabled :: "bool option"

definition text_field :: "jsval \<Rightarrow> string \<Rightarrow> string" where
  "text_field item k = str_or (str_field item k) []"

definition alert_of_row :: "jsval \<Rightarrow> alert_row" where
  "alert_of_row item =
     \<lparr>al_id = jopt item ''id'', al_type = text_field item ''type'', severity = text_field item ''severity'',
      al_vehicle = text_field item ''vehicle'', al_driver = text_field item ''driver'',
      driverPhone = text_field item ''driverPhone'', message = text_field item ''message'',
      al_time = text_field item ''time'', al_timestamp = text_field item ''timestamp'',
      acknowledged = truthy (jopt item ''acknowledged''),
      al_lat = num_field item ''lat'', al_lng = num_field item ''lng''\<rparr>"

definition rule_of_row :: "jsval \<Rightarrow> alert_rule" where
  "rule_of_row r =
     \<lparr>ru_id = jopt r ''id'', ru_name = text_field r ''name'', ru_description = text_field r ''description'',
      isActive = truthy (jopt r ''isActive''), smsEnabled = bool_field r ''smsEnabled'',
      emailEnabled = bool_field r ''emailEnabled''\<rparr>"

definition ALERT_TYPE_LABELS :: "(string \<times> string) list" where
  "ALERT_TYPE_LABELS =
     [(''overspeed'', ''Overspeed''), (''over_idle'', ''Over Idle''), (''thirty_min'', ''30 Minute Alert''),
      (''immobilizer_release'', ''Immobilizer Release''), (''sla_alert'', ''SLA Alert''),
      (''trip_start'', ''Trip Start''), (''power_cut'', ''Power cut''), (''harsh_braking'', ''Harsh Breaking''),
      (''harsh_cornering'', ''Harsh Cornering''), (''temperature'', ''Reefer Temperature''),
      (''geofence'', ''Geofence'')]"

definition ALERT_CATEGORY_ORDER :: "string list" where
  "ALERT_CATEGORY_ORDER = map fst ALERT_TYPE_LABELS"

definition alertTypeLabel :: "string \<Rightarrow> string" where
  "alertTypeLabel ty =
     (case map_of ALERT_TYPE_LABELS ty of Some l \<Rightarrow> l | None \<Rightarrow> if ty \<noteq> [] then ty else ''Alert'')"

definition severityBadgeStyle :: "string \<Rightarrow> string \<times> string" where
  "severityBadgeStyle sev =
     (let s = toLowerCase sev
      in if s = ''critical'' then (''#FEE2E2'', ''#DC2626'')
         else if s = ''warning'' then (''#FEF3C7'', ''#D97706'')
         else if s = ''info'' then (''#DBEAFE'', ''#2563EB'')
         else (''var(--bg-subtle)'', ''var(--text-secondary)''))"

text \<open>\<open>csvCell\<close>: always quoted, quotes doubled; \<open>null\<close> and \<open>undefined\<close> are the empty text.\<close>

definition alerts_csvCell :: "string \<Rightarrow> string" where
  "alerts_csvCell v = quoted_cell v"

datatype alerts_tab = Alarms | Rules

record alerts_page =
  activeTab :: alerts_tab
  selectedCategory :: string
  alerts :: "alert_row list"
  rules :: "alert_rule list"
  al_loading :: bool
  al_search :: string
  pageSize :: nat
  currentPage :: nat
  selectedIds :: "jsval list"
  al_toast :: toast

definition alerts_initial :: "alerts_tab \<Rightarrow> alerts_page" where
  "alerts_initial tab =
     \<lparr>activeTab = tab, selectedCategory = ''all'', alerts = [], rules = [], al_loading = True, al_search = [],
      pageSize = 25, currentPage = 1, selectedIds = [], al_toast = no_toast\<rparr>"

abbreviation al_say :: "string \<Rightarrow> alerts_page \<Rightarrow> alerts_page" where
  "al_say m p \<equiv> p\<lparr>al_toast := showToast m (al_toast p)\<rparr>"

subsection \<open>Loading and acknowledging\<close>

text \<open>A row that is \<open>null\<close> makes the mapping throw, which skips the rules too.\<close>

definition store_rules :: "response \<Rightarrow> alerts_page \<Rightarrow> alerts_page" where
  "store_rules r p = apply_rows [(r, \<lambda>xs p. p\<lparr>rules := map rule_of_row xs\<rparr>)] p"

definition store_alerts :: "response \<Rightarrow> response \<Rightarrow> alerts_page \<Rightarrow> alerts_page" where
  "store_alerts ra rr p =
     (case success_rows ra of
        Inl e \<Rightarrow> p
      | Inr None \<Rightarrow> store_rules rr p
      | Inr (Some xs) \<Rightarrow>
          if list_ex nullish xs then p else store_rules rr (p\<lparr>alerts := map alert_of_row xs\<rparr>))"

definition alerts_loadData :: "browser \<Rightarrow> alerts_page \<Rightarrow> browser \<times> alerts_page" where
  "alerts_loadData w p =
     (let (w1, rs) = fetch_all auth_send auth_settle w [''/api/v1/alerts'', ''/api/v1/alerts/rules'']
      in (w1, (case rs of Inr [ra, rr] \<Rightarrow> store_alerts ra rr p | _ \<Rightarrow> p)\<lparr>al_loading := False\<rparr>))"

definition ack_endpoint :: "jsval \<Rightarrow> string" where
  "ack_endpoint i = ''/api/v1/alerts/'' @ js_to_string i @ ''/acknowledge''"

definition mark :: "jsval list \<Rightarrow> alert_row list \<Rightarrow> alert_row list" where
  "mark is as = map (\<lambda>a. if al_id a \<in> set is then a\<lparr>acknowledged := True\<rparr> else a) as"

definition handleAcknowledge :: "jsval \<Rightarrow> browser \<Rightarrow> alerts_page \<Rightarrow> browser \<times> alerts_page" where
  "handleAcknowledge i w p =
     (let (w1, r) = fetchWithAuth w (ack_endpoint i) (no_body ''PUT'')
      in (w1, if accepted r
              then al_say ''Alert event marked as acknowledged in database.'' (p\<lparr>alerts := mark [i] (alerts p)\<rparr>)
              else al_say ''Failed to acknowledge alert.'' p))"

text \<open>\<open>results.filter((id) => id !== null)\<close>, for the ids and the outcomes of their requests.\<close>

definition acked_ids :: "jsval list \<Rightarrow> (js_error + response) list \<Rightarrow> jsval list" where
  "acked_ids is rs = filter (\<lambda>i. i \<noteq> JNull) (map fst (filter (\<lambda>(i, r). accepted r) (zip is rs)))"

definition handleBatchAcknowledge :: "browser \<Rightarrow> alerts_page \<Rightarrow> browser \<times> alerts_page" where
  "handleBatchAcknowledge w p =
     (if selectedIds p = [] then (w, p)
      else (let (w1, rs) = run_all auth_send auth_settle w
                             (map (\<lambda>i. (ack_endpoint i, no_body ''PUT'')) (selectedIds p));
                acked = acked_ids (selectedIds p) rs
            in (w1, al_say (''Acknowledged '' @ nat_to_string (length acked) @ '' of '' @
                       nat_to_string (length (selectedIds p)) @ '' alert events.'')
                     (p\<lparr>alerts := mark acked (alerts p), selectedIds := []\<rparr>))))"

definition toggleRule :: "jsval \<Rightarrow> bool \<Rightarrow> browser \<Rightarrow> alerts_page \<Rightarrow> browser \<times> alerts_page" where
  "toggleRule i currentActive w p =
     (let (w1, r) = fetchWithAuth w (''/api/v1/alerts/rules/'' @ js_to_string i)
                      (plain_json ''PUT'' (JObj [(''isActive'', JBool (\<not> currentActive))]))
      in (w1, case r of
                Inl e \<Rightarrow> al_say ''Failed to update rule.'' p
              | Inr res \<Rightarrow>
                  if res_ok res
                  then al_say ''Notification rule updated.''
                         (p\<lparr>rules := map (\<lambda>x. if ru_id x = i then x\<lparr>isActive := \<not> currentActive\<rparr> else x) (rules p)\<rparr>)
                  else p))"

subsection \<open>Tabs, filter, pages, export\<close>

record category_tab =
  ct_type :: string
  ct_label :: string
  ct_count :: nat

definition bump_type :: "alert_row \<Rightarrow> (string, nat) omap \<Rightarrow> (string, nat) omap" where
  "bump_type a m =
     (if al_type a \<noteq> []
      then map_set (al_type a) ((case map_get m (al_type a) of Some n \<Rightarrow> n | None \<Rightarrow> 0) + 1) m else m)"

definition type_counts :: "alert_row list \<Rightarrow> (string, nat) omap" where
  "type_counts as = fold bump_type as []"

definition tab_of :: "(string, nat) omap \<Rightarrow> string \<Rightarrow> category_tab" where
  "tab_of m ty = \<lparr>ct_type = ty, ct_label = alertTypeLabel ty,
                   ct_count = (case map_get m ty of Some n \<Rightarrow> n | None \<Rightarrow> 0)\<rparr>"

definition categoryTabs :: "alert_row list \<Rightarrow> category_tab list" where
  "categoryTabs as =
     (let m = type_counts as
      in \<lparr>ct_type = ''all'', ct_label = ''All Alarms'', ct_count = length as\<rparr> #
         map (tab_of m) ALERT_CATEGORY_ORDER @
         map (tab_of m) (filter (\<lambda>ty. ty \<notin> set ALERT_CATEGORY_ORDER) (map_keys m)))"

definition alert_matches :: "string \<Rightarrow> string \<Rightarrow> alert_row \<Rightarrow> bool" where
  "alert_matches cat query a =
     (if cat \<noteq> ''all'' \<and> al_type a \<noteq> cat then False
      else if query \<noteq> [] then
        (let q = toLowerCase query
         in str_includes (toLowerCase (al_type a)) q \<or> str_includes (toLowerCase (alertTypeLabel (al_type a))) q
            \<or> str_includes (toLowerCase (al_vehicle a)) q \<or> str_includes (toLowerCase (al_driver a)) q
            \<or> str_includes (toLowerCase (message a)) q)
      else True)"

definition filteredAlerts :: "alerts_page \<Rightarrow> alert_row list" where
  "filteredAlerts p = filter (alert_matches (selectedCategory p) (al_search p)) (alerts p)"

definition paged :: "nat \<Rightarrow> nat \<Rightarrow> 'a list \<Rightarrow> 'a list" where
  "paged sz n xs = (let start = (n - 1) * sz in slice start (start + sz) xs)"

definition pagedAlerts :: "alerts_page \<Rightarrow> alert_row list" where
  "pagedAlerts p = paged (pageSize p) (currentPage p) (filteredAlerts p)"

text \<open>\<open>Math.ceil(n / pageSize) || 1\<close>\<close>

definition alerts_pages :: "nat \<Rightarrow> nat \<Rightarrow> nat" where
  "alerts_pages sz n = (let c = js_ceil_div n sz in if c = 0 then 1 else c)"

definition totalPages :: "alerts_page \<Rightarrow> nat" where
  "totalPages p = alerts_pages (pageSize p) (length (filteredAlerts p))"

definition export_header :: "string list" where
  "export_header = [''Type'', ''Severity'', ''Vehicle'', ''Driver'', ''Message'', ''Time'', ''Timestamp'', ''Acknowledged'']"

definition export_cells :: "alert_row \<Rightarrow> string list" where
  "export_cells a =
     [al_type a, severity a, al_vehicle a, al_driver a, message a, al_time a, al_timestamp a,
      if acknowledged a then ''Yes'' else ''No'']"

definition alerts_csv :: "alerts_page \<Rightarrow> string" where
  "alerts_csv p =
     join '','' export_header @ [NL] @
     join [NL] (map (\<lambda>a. join '','' (map alerts_csvCell (export_cells a))) (filteredAlerts p))"

definition handleExportExcel :: "string \<Rightarrow> browser \<Rightarrow> alerts_page \<Rightarrow> browser \<times> alerts_page" where
  "handleExportExcel today w p =
     (w\<lparr>downloads := downloads w @ [(''rudra_alerts_'' @ today @ ''.csv'', alerts_csv p)]\<rparr>,
      al_say ''Exported alert alarms to Excel / CSV'' p)"

subsection \<open>The controls\<close>

datatype alerts_op =
    OpenTab alerts_tab
  | PickCategory string
  | PickPageSize nat
  | TypeSearch string
  | ToggleAll
  | ToggleRow jsval
  | PrevPage
  | NextPage
  | Acknowledge jsval
  | BatchAcknowledge
  | ToggleRule jsval bool
  | Refresh

fun alerts_step :: "alerts_op \<Rightarrow> browser \<times> alerts_page \<Rightarrow> browser \<times> alerts_page" where
  "alerts_step (OpenTab t) (w, p) = (w, p\<lparr>activeTab := t\<rparr>)"
| "alerts_step (PickCategory c) (w, p) = (w, p\<lparr>selectedCategory := c, currentPage := 1\<rparr>)"
| "alerts_step (PickPageSize n) (w, p) =
     (w, if n \<in> {10, 25, 50, 100} then p\<lparr>pageSize := n, currentPage := 1\<rparr> else p)"
| "alerts_step (TypeSearch q) (w, p) = (w, p\<lparr>al_search := q, currentPage := 1\<rparr>)"
| "alerts_step ToggleAll (w, p) =
     (w, p\<lparr>selectedIds := (if length (selectedIds p) = length (pagedAlerts p) then []
                           else map al_id (pagedAlerts p))\<rparr>)"
| "alerts_step (ToggleRow i) (w, p) = (w, p\<lparr>selectedIds := toggle i (selectedIds p)\<rparr>)"
| "alerts_step PrevPage (w, p) = (w, if currentPage p \<le> 1 then p else p\<lparr>currentPage := currentPage p - 1\<rparr>)"
| "alerts_step NextPage (w, p) =
     (w, if totalPages p \<le> currentPage p then p else p\<lparr>currentPage := currentPage p + 1\<rparr>)"
| "alerts_step (Acknowledge i) (w, p) =
     (if list_ex (\<lambda>a. al_id a = i \<and> \<not> acknowledged a) (pagedAlerts p) then handleAcknowledge i w p else (w, p))"
| "alerts_step BatchAcknowledge (w, p) = handleBatchAcknowledge w p"
| "alerts_step (ToggleRule i a) (w, p) = toggleRule i a w p"
| "alerts_step Refresh (w, p) = alerts_loadData w p"

subsection \<open>Facts\<close>

interpretation table: pager paged alerts_pages
  by (rule ceil_pagerI) (auto simp: paged_def slice_def alerts_pages_def Let_def)

text \<open>The counts of the map that \<open>categoryTabs\<close> builds.\<close>

definition count_in :: "(string, nat) omap \<Rightarrow> string \<Rightarrow> nat" where
  "count_in m ty = (case map_get m ty of Some n \<Rightarrow> n | None \<Rightarrow> 0)"

lemma bump_type_facts:
  assumes "map_ok m"
  shows "map_ok (bump_type a m)"
    and "count_in (bump_type a m) ty = count_in m ty + (if al_type a = ty \<and> ty \<noteq> [] then 1 else 0)"
    and "set (map_keys (bump_type a m)) = set (map_keys m) \<union> ({al_type a} - {[]})"
proof -
  have "set (map_keys (map_set k v m)) = insert k (set (map_keys m))" for k v
    using map_keys_set [of k v m] by auto
  then show "set (map_keys (bump_type a m)) = set (map_keys m) \<union> ({al_type a} - {[]})"
    by (simp add: bump_type_def)
qed (use assms in \<open>simp_all add: bump_type_def count_in_def map_get_def map_of_set split: option.splits\<close>)

lemma type_counts_facts:
  "map_ok (type_counts as) \<and>
   count_in (type_counts as) ty = (if ty = [] then 0 else length (filter (\<lambda>a. al_type a = ty) as)) \<and>
   set (map_keys (type_counts as)) = al_type ` set as - {[]}"
proof -
  have "map_ok (fold bump_type as m) \<and>
     count_in (fold bump_type as m) ty = count_in m ty + (if ty = [] then 0 else length (filter (\<lambda>a. al_type a = ty) as)) \<and>
     set (map_keys (fold bump_type as m)) = set (map_keys m) \<union> (al_type ` set as - {[]})" if "map_ok m" for m
    using that
  proof (induction as arbitrary: m)
    case (Cons a as)
    from Cons.IH [OF bump_type_facts(1) [OF Cons.prems]] show ?case
      using bump_type_facts(2,3) [OF Cons.prems] by auto
  qed simp
  from this [of "[]"] show ?thesis by (simp add: type_counts_def count_in_def map_get_def)
qed

lemma tab_of_eq: "tab_of m ty = \<lparr>ct_type = ty, ct_label = alertTypeLabel ty, ct_count = count_in m ty\<rparr>"
  by (simp add: tab_of_def count_in_def)

definition tab_types :: "alert_row list \<Rightarrow> string list" where
  "tab_types as = ALERT_CATEGORY_ORDER @ filter (\<lambda>ty. ty \<notin> set ALERT_CATEGORY_ORDER) (map_keys (type_counts as))"

lemma categoryTabs_eq:
  "categoryTabs as =
     \<lparr>ct_type = ''all'', ct_label = ''All Alarms'', ct_count = length as\<rparr> # map (tab_of (type_counts as)) (tab_types as)"
  by (simp add: categoryTabs_def tab_types_def Let_def)

lemma category_order: "distinct ALERT_CATEGORY_ORDER" "[] \<notin> set ALERT_CATEGORY_ORDER"
  by (simp_all add: ALERT_CATEGORY_ORDER_def ALERT_TYPE_LABELS_def)

lemma tab_types_facts:
  "distinct (tab_types as)" "[] \<notin> set (tab_types as)" "al_type ` set as - {[]} \<subseteq> set (tab_types as)"
  using type_counts_facts [of as] category_order by (auto simp: tab_types_def map_ok_def)

text \<open>The page size is one of those the selector offers and the page number starts at one.\<close>

definition alerts_ok :: "alerts_page \<Rightarrow> bool" where
  "alerts_ok p = (pageSize p \<in> {10, 25, 50, 100} \<and> 1 \<le> currentPage p)"

lemma store_alerts_view [simp]:
  "pageSize (store_alerts ra rr p) = pageSize p" "currentPage (store_alerts ra rr p) = currentPage p"
  by (auto simp: store_alerts_def store_rules_def split: sum.splits option.splits)

lemma load_view [simp]:
  "pageSize (snd (alerts_loadData w p)) = pageSize p" "currentPage (snd (alerts_loadData w p)) = currentPage p"
  by (auto simp: alerts_loadData_def Let_def split_beta split: sum.splits list.splits)

lemma alerts_step_ok: "alerts_ok (snd s) \<Longrightarrow> alerts_ok (snd (alerts_step ev s))"
  by (cases s; cases ev)
    (auto simp: alerts_ok_def handleAcknowledge_def handleBatchAcknowledge_def toggleRule_def Let_def split_beta
      split: sum.splits)

lemma alerts_run_ok: "alerts_ok (snd s) \<Longrightarrow> alerts_ok (snd (fold alerts_step evs s))"
  by (induction evs arbitrary: s) (simp_all add: alerts_step_ok)

definition demo_alert :: alert_row where
  "demo_alert = alert_of_row (JObj [(''id'', JNum 1), (''type'', JStr ''geofence''), (''message'', JStr (''left '' @ QUOT # ''Yard'' @ QUOT # '', late''))])"

lemma alerts_send [intro]: "adds_only tenant_request w (fst (alerts_step op (w, p)))"
proof -
  have "adds_only tenant_request w (fst (run_all auth_send auth_settle w es))" for es
    using client.send_all_extends [of w es]
    by (simp add: run_all_def split_beta Let_def adds_only_def client.fold_settle_log)
  moreover have "adds_only tenant_request w (fst (fetch_all auth_send auth_settle w es))" for es
    by (rule client.fetch_all_extends)
  ultimately show ?thesis
    by (cases op) (auto simp: alerts_loadData_def handleAcknowledge_def handleBatchAcknowledge_def toggleRule_def
        split_beta Let_def client_sends(2))
qed

subsection \<open>Properties\<close>

text \<open>Each tab of the alert page shows how many of the stored alerts have its type, the first tab shows
  how many there are, no type has two tabs, and the tabs together account for every alert that has a type.\<close>

theorem tab_counts_exact:
  "ct_count (hd (categoryTabs as)) = length as
   \<and> list_all (\<lambda>t. ct_count t = length (filter (\<lambda>a. al_type a = ct_type t) as)) (tl (categoryTabs as))
   \<and> distinct (map ct_type (tl (categoryTabs as)))
   \<and> sum_list (map ct_count (tl (categoryTabs as))) = length (filter (\<lambda>a. al_type a \<noteq> []) as)"
proof -
  have types: "map ct_type (tl (categoryTabs as)) = tab_types as"
    by (simp add: categoryTabs_eq tab_of_eq comp_def)
  have counts: "map ct_count (tl (categoryTabs as)) = map (\<lambda>ty. length (filter (\<lambda>a. al_type a = ty) as)) (tab_types as)"
    using type_counts_facts [of as] tab_types_facts(2) [of as] by (auto simp: categoryTabs_eq tab_of_eq)
  have "filter (\<lambda>a. al_type a \<in> set (tab_types as)) as = filter (\<lambda>a. al_type a \<noteq> []) as"
    using tab_types_facts(2,3) [of as] by (intro filter_cong) auto
  then have total: "sum_list (map ct_count (tl (categoryTabs as))) = length (filter (\<lambda>a. al_type a \<noteq> []) as)"
    by (simp add: counts sum_counts [OF tab_types_facts(1)])
  have each: "list_all (\<lambda>t. ct_count t = length (filter (\<lambda>a. al_type a = ct_type t) as)) (tl (categoryTabs as))"
    using type_counts_facts [of as] tab_types_facts(2) [of as]
    by (auto simp: categoryTabs_eq tab_of_eq list_all_iff)
  show ?thesis using types total each tab_types_facts(1) [of as] by (simp add: categoryTabs_eq)
qed

text \<open>C25: whatever the user does on the alert page, its pages, read one after the other, are the filtered
  list: no alert is lost between pages or shown twice, and no page is longer than the chosen size.\<close>

theorem alert_pages_partition:
  "let p = snd (fold alerts_step evs (w, alerts_initial tab))
   in concat (map (\<lambda>i. pagedAlerts (p\<lparr>currentPage := Suc i\<rparr>)) [0..<totalPages p]) = filteredAlerts p
      \<and> 1 \<le> currentPage p \<and> length (pagedAlerts p) \<le> pageSize p"
proof -
  let ?p = "snd (fold alerts_step evs (w, alerts_initial tab))"
  have ok: "alerts_ok ?p"
    by (rule alerts_run_ok) (simp add: alerts_ok_def alerts_initial_def)
  then have pos: "0 < pageSize ?p" "1 \<le> currentPage ?p" by (auto simp: alerts_ok_def)
  obtain i where i: "currentPage ?p = Suc i" using pos(2) by (cases "currentPage ?p") auto
  have cover: "concat (map (\<lambda>i. pagedAlerts (?p\<lparr>currentPage := Suc i\<rparr>)) [0..<totalPages ?p]) = filteredAlerts ?p"
    using table.pages_cover [OF pos(1), of "filteredAlerts ?p"]
    by (simp add: pagedAlerts_def totalPages_def filteredAlerts_def)
  have bound: "length (pagedAlerts ?p) \<le> pageSize ?p"
    using table.page_bound [of "pageSize ?p" i "filteredAlerts ?p"] by (simp add: pagedAlerts_def i)
  from cover bound pos(2) show ?thesis by (simp only: Let_def simp_thms)
qed

text \<open>C27: the exported file reads back: a CSV reader finds the header and, for each alert shown, its
  eight texts, whatever commas, quotes and line breaks they contain.\<close>

theorem alert_export_reads_back:
  assumes "filteredAlerts p \<noteq> []"
  shows "csv_parse (alerts_csv p) = Some (export_header # map export_cells (filteredAlerts p))"
proof -
  have h: "export_header \<noteq> []" "list_all cell_ok (map Bare export_header)"
    by (simp_all add: export_header_def QUOT_def NL_def)
  have r: "map export_cells (filteredAlerts p) \<noteq> []" "[] \<notin> set (map export_cells (filteredAlerts p))"
    using assms by (auto simp: export_cells_def)
  have c: "alerts_csvCell = quoted_cell" by (simp add: fun_eq_iff alerts_csvCell_def)
  show ?thesis
    using quoted_table_reads [OF h r] by (simp add: alerts_csv_def c comp_def)
qed

theorem alert_export_reads_back_witness:
  "let p = (alerts_initial Alarms)\<lparr>alerts := [demo_alert]\<rparr>
   in csv_parse (alerts_csv p) = Some [export_header, export_cells demo_alert]"
proof -
  have f: "filteredAlerts ((alerts_initial Alarms)\<lparr>alerts := [demo_alert]\<rparr>) = [demo_alert]"
    by (simp add: filteredAlerts_def alerts_initial_def alert_matches_def)
  then have "filteredAlerts ((alerts_initial Alarms)\<lparr>alerts := [demo_alert]\<rparr>) \<noteq> []" by simp
  from alert_export_reads_back [OF this] f show ?thesis by simp
qed

text \<open>C28: acknowledging the selection sends one request per selected alert, before any answer is
  handled; exactly the alerts whose request the server accepted become acknowledged, no other field of any
  alert changes, and the selection is empty afterwards.\<close>

theorem batch_acknowledge_exact:
  assumes "selectedIds p \<noteq> []" and "JNull \<notin> set (selectedIds p)"
  shows "let (w', p') = handleBatchAcknowledge w p;
             rs = snd (send_all auth_send w (map (\<lambda>i. (ack_endpoint i, no_body ''PUT'')) (selectedIds p)));
             ok = {i. \<exists>k < length (selectedIds p). selectedIds p ! k = i \<and> accepted (rs ! k)}
         in length rs = length (selectedIds p)
            \<and> alerts p' = map (\<lambda>a. a\<lparr>acknowledged := acknowledged a \<or> al_id a \<in> ok\<rparr>) (alerts p)
            \<and> selectedIds p' = []"
proof -
  let ?rs = "snd (send_all auth_send w (map (\<lambda>i. (ack_endpoint i, no_body ''PUT'')) (selectedIds p)))"
  have len: "length ?rs = length (selectedIds p)" by simp
  have ids: "set (acked_ids (selectedIds p) ?rs) =
      {i. \<exists>k < length (selectedIds p). selectedIds p ! k = i \<and> accepted (?rs ! k)}"
    using assms(2) len by (auto simp: acked_ids_def set_zip image_iff) (metis nth_mem)+
  have marked: "mark is (alerts p) = map (\<lambda>a. a\<lparr>acknowledged := acknowledged a \<or> al_id a \<in> set is\<rparr>) (alerts p)" for "is"
    by (auto simp: mark_def)
  show ?thesis
    using assms(1) len
    by (simp add: handleBatchAcknowledge_def run_all_def Let_def split_beta marked ids del: mem_Collect_eq)
qed

theorem batch_acknowledge_exact_witness:
  "let p = (alerts_initial Alarms)\<lparr>alerts := [demo_alert], selectedIds := [JNum 1]\<rparr>
   in selectedIds (snd (handleBatchAcknowledge (demo_session (answer 200 JNull)) p)) = []"
proof -
  let ?p = "(alerts_initial Alarms)\<lparr>alerts := [demo_alert], selectedIds := [JNum 1]\<rparr>"
  have h: "selectedIds ?p \<noteq> []" "JNull \<notin> set (selectedIds ?p)" by simp_all
  show ?thesis
    using batch_acknowledge_exact [OF h, of "demo_session (answer 200 JNull)"] by (simp only: Let_def split_beta)
qed

end
