(* ===== verification/Live_Map.thy ===== *)
theory Live_Map
  imports Vehicle_Store
begin

section \<open>The live map: \<open>components/map/LiveMap.tsx\<close>\<close>

text \<open>
  The map library is not part of the program. What the component asks of it is recorded: the layers it
  is created with, the visibility last requested for each layer, the camera targets, and for each
  marker the place and the content last set. Whether the library knows a layer (\<open>map.getLayer\<close>) is a
  parameter. The list of tile styles is shared with the playback page.
\<close>

subsection \<open>Tile styles\<close>

record map_style =
  ms_id :: string
  ms_name :: string
  ms_badge :: string
  ms_description :: string
  ms_attribution :: string
  ms_tiles :: "string list"
  ms_maxZoom :: nat

definition COPYRIGHT :: string where
  "COPYRIGHT = [CHR 0xC2, CHR 0xA9]"

definition FREE_DUBAI_MAP_STYLES :: "map_style list" where
  "FREE_DUBAI_MAP_STYLES =
     [\<lparr>ms_id = ''dubai-voyager'', ms_name = ''Dubai Daylight'', ms_badge = ''Recommended'',
       ms_description = ''High-contrast road network, exit numbers (E11, E311), and landmark labels'',
       ms_attribution = COPYRIGHT @ '' OpenStreetMap contributors, '' @ COPYRIGHT @ '' CARTO'',
       ms_tiles = [''https://tile.openstreetmap.org/{z}/{x}/{y}.png''], ms_maxZoom = 19\<rparr>,
      \<lparr>ms_id = ''dubai-satellite'', ms_name = ''Dubai Satellite Aerial'', ms_badge = ''Aerial Imagery'',
       ms_description = ''Real photographic imagery of Dubai ports, loading yards, and highways'',
       ms_attribution = ''Source: Esri, Maxar, Earthstar Geographics'',
       ms_tiles = [''https://server.arcgisonline.com/ArcGIS/rest/services/World_Imagery/MapServer/tile/{z}/{y}/{x}''],
       ms_maxZoom = 18\<rparr>,
      \<lparr>ms_id = ''dubai-osm'', ms_name = ''OpenStreetMap (Arabic & English)'', ms_badge = ''Bilingual'',
       ms_description = ''Community street map with full bilingual Arabic/English Dubai street names'',
       ms_attribution = COPYRIGHT @ '' OpenStreetMap contributors'',
       ms_tiles = [''https://tile.openstreetmap.org/{z}/{x}/{y}.png''], ms_maxZoom = 19\<rparr>]"

abbreviation style_ids :: "string list" where
  "style_ids \<equiv> map ms_id FREE_DUBAI_MAP_STYLES"

definition STYLE_KEY :: string where
  "STYLE_KEY = ''rudra_dubai_map_style''"

definition known_style :: "string option \<Rightarrow> bool" where
  "known_style saved = (str_truthy saved \<and> list_ex (\<lambda>s. ms_id s = the saved) FREE_DUBAI_MAP_STYLES)"

text \<open>The initial value of \<open>activeStyleId\<close>; a blocked \<open>localStorage\<close> makes the first render throw.\<close>

definition initialStyleId :: "browser \<Rightarrow> js_error + string" where
  "initialStyleId w =
     (case getItem w STYLE_KEY of
        Inl e \<Rightarrow> Inl e
      | Inr saved \<Rightarrow> Inr (if known_style saved then the saved else ms_id (hd FREE_DUBAI_MAP_STYLES)))"

definition syncStyleStorage :: "browser \<Rightarrow> js_error + browser" where
  "syncStyleStorage w =
     (case getItem w STYLE_KEY of
        Inl e \<Rightarrow> Inl e
      | Inr saved \<Rightarrow>
          if str_truthy saved \<and> \<not> known_style saved
          then setItem STYLE_KEY (ms_id (hd FREE_DUBAI_MAP_STYLES)) w else Inr w)"

definition currentStyle :: "string \<Rightarrow> map_style" where
  "currentStyle active =
     (case find (\<lambda>s. ms_id s = active) FREE_DUBAI_MAP_STYLES of
        Some s \<Rightarrow> s | None \<Rightarrow> hd FREE_DUBAI_MAP_STYLES)"

subsection \<open>The map and its layers\<close>

record map_layer =
  ly_id :: string
  ly_source :: string
  ly_maxzoom :: nat
  ly_visibility :: string

definition visibility_for :: "string \<Rightarrow> string \<Rightarrow> string" where
  "visibility_for active i = (if i = active then ''visible'' else ''none'')"

definition style_layers :: "string \<Rightarrow> map_layer list" where
  "style_layers active =
     map (\<lambda>s. \<lparr>ly_id = ms_id s, ly_source = ms_id s, ly_maxzoom = ms_maxZoom s,
                ly_visibility = visibility_for active (ms_id s)\<rparr>) FREE_DUBAI_MAP_STYLES"

text \<open>\<open>setLayoutProperty(id, 'visibility', v)\<close> on the layer of that id.\<close>

definition set_visibility :: "string \<Rightarrow> string \<Rightarrow> map_layer list \<Rightarrow> map_layer list" where
  "set_visibility i v ls = map (\<lambda>l. if ly_id l = i then l\<lparr>ly_visibility := v\<rparr> else l) ls"

definition switch_layers :: "(string \<Rightarrow> bool) \<Rightarrow> string \<Rightarrow> map_layer list \<Rightarrow> map_layer list" where
  "switch_layers getLayer new ls =
     fold (\<lambda>s ls. if getLayer (ms_id s) then set_visibility (ms_id s) (visibility_for new (ms_id s)) ls else ls)
       FREE_DUBAI_MAP_STYLES ls"

type_synonym lnglat = "real \<times> real"

record camera =
  cam_center :: lnglat
  cam_zoom :: "real option"
  cam_duration :: nat

record marker_view =
  mk_at :: lnglat
  mk_border :: string
  mk_scale :: string
  mk_dot :: string
  mk_reg :: string
  mk_state :: string

record live_map =
  lm_style :: string
  lm_menu :: bool
  lm_layers :: "map_layer list option"
  lm_markers :: "(jsval, marker_view) omap"
  lm_camera :: "camera list"

definition live_map_initial :: "string \<Rightarrow> live_map" where
  "live_map_initial active =
     \<lparr>lm_style = active, lm_menu = False, lm_layers = None, lm_markers = [], lm_camera = []\<rparr>"

definition DUBAI :: lnglat where
  "DUBAI = (552850 / 10000, 252150 / 10000)"

text \<open>The effect that creates the map, and its clean-up.\<close>

definition init_map :: "live_map \<Rightarrow> live_map" where
  "init_map m =
     (case lm_layers m of
        Some ls \<Rightarrow> m
      | None \<Rightarrow> m\<lparr>lm_layers := Some (style_layers (lm_style m)),
                   lm_camera := [\<lparr>cam_center = DUBAI, cam_zoom = Some (115 / 10), cam_duration = 0\<rparr>]\<rparr>)"

definition remove_map :: "live_map \<Rightarrow> live_map" where
  "remove_map m = m\<lparr>lm_layers := None\<rparr>"

text \<open>The state setter comes first, then \<open>localStorage\<close>, which may throw, then the rest.\<close>

definition switchMapStyle :: "(string \<Rightarrow> bool) \<Rightarrow> string \<Rightarrow> browser \<Rightarrow> live_map \<Rightarrow> browser \<times> live_map" where
  "switchMapStyle getLayer new w m =
     (let m1 = m\<lparr>lm_style := new\<rparr>
      in case setItem STYLE_KEY new w of
           Inl e \<Rightarrow> (w, m1)
         | Inr w1 \<Rightarrow> (w1, m1\<lparr>lm_menu := False, lm_layers := map_option (switch_layers getLayer new) (lm_layers m1)\<rparr>))"

subsection \<open>Markers\<close>

definition statusWord :: "string option \<Rightarrow> string" where
  "statusWord st = (if st = Some ''moving'' then ''Moving'' else if st = Some ''idle'' then ''Waiting'' else ''Parked'')"

definition dotColor :: "string option \<Rightarrow> string" where
  "dotColor st =
     (if st = Some ''moving'' then ''var(--good)''
      else if st = Some ''idle'' then ''var(--attention)'' else ''var(--alert)'')"

definition int_to_string :: "int \<Rightarrow> string" where
  "int_to_string i = num_to_string (of_int i)"

definition speedOrState :: "vehicle_position \<Rightarrow> string" where
  "speedOrState v =
     (if vp_status v = Some ''moving''
      then int_to_string (js_round (case speed v of None \<Rightarrow> 0 | Some x \<Rightarrow> x)) @ '' km/h''
      else statusWord (vp_status v))"

text \<open>The texts that the marker's HTML template inserts.\<close>

definition marker_for :: "jsval \<Rightarrow> vehicle_position \<Rightarrow> lnglat \<Rightarrow> marker_view" where
  "marker_for sel v xy =
     (let isSelected = (sel = device_id v)
      in \<lparr>mk_at = xy, mk_border = (if isSelected then ''var(--accent)'' else ''var(--border)''),
          mk_scale = (if isSelected then ''scale(1.08)'' else ''scale(1)''),
          mk_dot = dotColor (vp_status v),
          mk_reg = (case reg_number v of None \<Rightarrow> ''undefined'' | Some r \<Rightarrow> r),
          mk_state = speedOrState v\<rparr>)"

definition place :: "vehicle_position \<Rightarrow> lnglat option" where
  "place v = (case (lat v, lng v) of (Some y, Some x) \<Rightarrow> Some (x, y) | _ \<Rightarrow> None)"

definition drop_departed :: "(jsval, vehicle_position) omap \<Rightarrow> (jsval, marker_view) omap \<Rightarrow> (jsval, marker_view) omap" where
  "drop_departed vs ms = filter (\<lambda>(d, k). map_has vs d) ms"

definition put_marker :: "jsval \<Rightarrow> vehicle_position \<Rightarrow> (jsval, marker_view) omap \<Rightarrow> (jsval, marker_view) omap" where
  "put_marker sel v ms =
     (case place v of None \<Rightarrow> ms | Some xy \<Rightarrow> map_set (device_id v) (marker_for sel v xy) ms)"

definition sync_markers ::
  "(jsval, vehicle_position) omap \<Rightarrow> jsval \<Rightarrow> (jsval, marker_view) omap \<Rightarrow> (jsval, marker_view) omap" where
  "sync_markers vs sel ms = fold (put_marker sel) (map_values vs) (drop_departed vs ms)"

definition update_markers :: "vehicle_state \<Rightarrow> live_map \<Rightarrow> live_map" where
  "update_markers s m =
     (if lm_layers m = None then m
      else m\<lparr>lm_markers := sync_markers (vehicles s) (selectedDeviceId s) (lm_markers m)\<rparr>)"

definition pan_to_selected :: "vehicle_state \<Rightarrow> live_map \<Rightarrow> live_map" where
  "pan_to_selected s m =
     (if \<not> truthy (selectedDeviceId s) \<or> lm_layers m = None then m
      else (case map_get (vehicles s) (selectedDeviceId s) of
              None \<Rightarrow> m
            | Some v \<Rightarrow> (case place v of
                None \<Rightarrow> m
              | Some xy \<Rightarrow> m\<lparr>lm_camera := lm_camera m @ [\<lparr>cam_center = xy, cam_zoom = Some 13, cam_duration = 900\<rparr>]\<rparr>)))"

definition handleRecenter :: "live_map \<Rightarrow> live_map" where
  "handleRecenter m =
     (if lm_layers m = None then m
      else m\<lparr>lm_camera := lm_camera m @ [\<lparr>cam_center = DUBAI, cam_zoom = Some (115 / 10), cam_duration = 800\<rparr>]\<rparr>)"

subsection \<open>Facts\<close>

lemma style_ids_eval: "style_ids = [''dubai-voyager'', ''dubai-satellite'', ''dubai-osm'']"
  by (simp add: FREE_DUBAI_MAP_STYLES_def)

lemma map_of_put:
  "map_of (put_marker sel v ms) d =
     (if d = device_id v \<and> place v \<noteq> None then Some (marker_for sel v (the (place v))) else map_of ms d)"
  by (auto simp: put_marker_def map_of_set split: option.splits)

lemma map_of_puts:
  assumes "distinct (map device_id vs)"
  shows "map_of (fold (put_marker sel) vs ms) d =
     (case find (\<lambda>v. device_id v = d) vs of
        None \<Rightarrow> map_of ms d
      | Some v \<Rightarrow> (case place v of None \<Rightarrow> map_of ms d | Some xy \<Rightarrow> Some (marker_for sel v xy)))"
  using assms
proof (induction vs arbitrary: ms)
  case (Cons v vs)
  have "find (\<lambda>x. device_id x = d) vs = None" if "device_id v = d"
    using Cons.prems that unfolding find_None_iff by (metis distinct.simps(2) image_eqI list.map(2) list.set_map)
  with Cons show ?case by (auto simp: map_of_put split: option.splits)
qed simp

lemma store_values:
  assumes "store_ok s"
  shows "distinct (map device_id (map_values (vehicles s)))"
    and "find (\<lambda>v. device_id v = d) (map_values (vehicles s)) = map_get (vehicles s) d"
proof -
  have ids: "map device_id (map_values (vehicles s)) = map_keys (vehicles s)"
    using assms by (auto simp: store_ok_def)
  then show "distinct (map device_id (map_values (vehicles s)))"
    using assms by (simp only: store_ok_def map_ok_def)
  have "find (\<lambda>v. device_id v = d) (map snd kvs) = map_of kvs d" if "\<forall>(k, v) \<in> set kvs. device_id v = k" for kvs
    using that by (induction kvs) auto
  moreover have "\<forall>(k, v) \<in> set (vehicles s). device_id v = k"
    using assms by (simp add: store_ok_def)
  ultimately show "find (\<lambda>v. device_id v = d) (map_values (vehicles s)) = map_get (vehicles s) d"
    unfolding map_get_def by blast
qed

lemma map_of_departed: "map_of (drop_departed vs ms) d = (if map_of vs d = None then None else map_of ms d)"
proof -
  have has: "map_has vs k \<longleftrightarrow> map_of vs k \<noteq> None" for k
    by (simp add: map_has_def map_of_eq_None_iff)
  show ?thesis by (induction ms) (auto simp: drop_departed_def has)
qed

lemma switch_layers_all:
  "(\<And>i. i \<in> set style_ids \<Longrightarrow> getLayer i) \<Longrightarrow> set (map ly_id ls) \<subseteq> set style_ids \<Longrightarrow>
   map ly_visibility (switch_layers getLayer new ls) = map (\<lambda>l. visibility_for new (ly_id l)) ls"
  by (induction ls)
    (auto simp: switch_layers_def set_visibility_def FREE_DUBAI_MAP_STYLES_def)

definition demo_fleet :: vehicle_state where
  "demo_fleet = initial_vehicle_state\<lparr>vehicles := fleet_of_rows demo_rows\<rparr>"

subsection \<open>Properties\<close>

text \<open>C32: after the marker effect has run on a mounted map, a vehicle of the fleet with coordinates has a
  marker at exactly those coordinates, with its current state and selection; a device that left the fleet
  has none; and a vehicle whose coordinates are missing keeps whatever marker it had before.\<close>

theorem markers_follow_fleet:
  assumes "store_ok s" and "lm_layers m \<noteq> None"
  shows "map_get (lm_markers (update_markers s m)) d =
     (case map_get (vehicles s) d of
        None \<Rightarrow> None
      | Some v \<Rightarrow> (case place v of
          Some xy \<Rightarrow> Some (marker_for (selectedDeviceId s) v xy)
        | None \<Rightarrow> map_get (lm_markers m) d))"
  using assms(2) map_of_puts [OF store_values(1) [OF assms(1)]] store_values(2) [OF assms(1)]
  by (auto simp: update_markers_def sync_markers_def map_get_def map_of_departed split: option.splits)

theorem markers_follow_fleet_witness:
  "map_get (lm_markers (update_markers demo_fleet (init_map (live_map_initial ''dubai-osm'')))) (JNum 1) =
     Some (marker_for JNull (vehicle_of_row (demo_rows ! 0)) (55, 25))
   \<and> map_get (lm_markers (update_markers demo_fleet (init_map (live_map_initial ''dubai-osm'')))) (JNum 9) = None"
proof -
  have ok: "store_ok demo_fleet" by (rule store_ok_fleet) (simp add: demo_fleet_def)
  have m: "lm_layers (init_map (live_map_initial ''dubai-osm'')) \<noteq> None"
    by (simp add: init_map_def live_map_initial_def)
  have v: "vehicles demo_fleet = [(JNum 1, vehicle_of_row (demo_rows ! 0)), (JNum 9, vehicle_of_row (demo_rows ! 1))]"
    by (simp add: demo_fleet_def fleet_of_rows_def set_all_def demo_rows_def row_device_id_def coalesce_def)
  have k: "selectedDeviceId demo_fleet = JNull" "lm_markers (init_map (live_map_initial ''dubai-osm'')) = []"
    by (simp_all add: demo_fleet_def initial_vehicle_state_def init_map_def live_map_initial_def)
  have p: "place (vehicle_of_row (demo_rows ! 0)) = Some (55, 25)" "place (vehicle_of_row (demo_rows ! 1)) = None"
    by (simp_all add: place_def demo_rows_def vehicle_of_row_def Let_def)
  show ?thesis
    using markers_follow_fleet [OF ok m, of "JNum 1"] markers_follow_fleet [OF ok m, of "JNum 9"] p
    by (simp add: v k map_get_def)
qed

text \<open>Switching the tile style on a map that knows its layers leaves exactly the chosen style visible,
  and the choice is what the next page load starts with.\<close>

theorem switched_style_is_visible:
  assumes "\<not> ls_blocked w" and "new \<in> set style_ids" and "\<And>i. i \<in> set style_ids \<Longrightarrow> getLayer i"
    and "lm_layers m = Some ls" and "map ly_id ls = style_ids"
  shows "\<exists>ls'. lm_layers (snd (switchMapStyle getLayer new w m)) = Some ls'
      \<and> map ly_visibility ls' = map (visibility_for new) style_ids
      \<and> initialStyleId (fst (switchMapStyle getLayer new w m)) = Inr new"
proof -
  have "map ly_visibility (switch_layers getLayer new ls) = map (\<lambda>l. visibility_for new (ly_id l)) ls"
    using assms(3,5) by (intro switch_layers_all) auto
  then have "map ly_visibility (switch_layers getLayer new ls) = map (visibility_for new) (map ly_id ls)"
    by (simp add: comp_def)
  moreover have "known_style (Some new)"
    using assms(2) by (auto simp: known_style_def str_truthy_def FREE_DUBAI_MAP_STYLES_def)
  ultimately show ?thesis
    using assms(1,4,5)
    by (simp add: switchMapStyle_def setItem_def Let_def initialStyleId_def getItem_def)
qed

theorem switched_style_is_visible_witness:
  "initialStyleId (fst (switchMapStyle (\<lambda>i. True) ''dubai-osm'' (fresh_browser offline_net)
     (init_map (live_map_initial ''dubai-voyager'')))) = Inr ''dubai-osm''"
proof -
  have h: "\<not> ls_blocked (fresh_browser offline_net)" "''dubai-osm'' \<in> set style_ids"
    by (simp_all add: fresh_browser_def FREE_DUBAI_MAP_STYLES_def)
  have l: "lm_layers (init_map (live_map_initial ''dubai-voyager'')) = Some (style_layers ''dubai-voyager'')"
    "map ly_id (style_layers ''dubai-voyager'') = style_ids"
    by (simp_all add: init_map_def live_map_initial_def style_layers_def)
  show ?thesis
    using switched_style_is_visible [of "fresh_browser offline_net" "''dubai-osm''" "\<lambda>i. True", OF h TrueI l] by blast
qed

end
