(* ===== verification/Playback.thy ===== *)
theory Playback
  imports Live_Map
begin

section \<open>Route playback: \<open>PlaybackPage.tsx\<close>\<close>

text \<open>
  The page is a state machine driven by the user, by the interval timer, by the map's \<open>load\<close> event and
  by answers that arrive in any order. A run of the history effect is an entry of \<open>runs\<close> (the vehicle
  asked for, and the outcome its request will have); \<open>pb_current\<close> is the run whose \<open>isCancelled\<close> flag is
  still false, and \<open>delivered\<close> the runs whose promise chain is over. \<open>pb_closure\<close> is the value of
  \<open>routePoints\<close> that the effect creating the map closed over: its \<open>load\<close> handler reads that one. Errors the
  map library itself may raise on malformed coordinates are not modelled.
\<close>

subsection \<open>State\<close>

record history_point =
  hp_lat :: jsval
  hp_lng :: jsval
  hp_speed :: int
  hp_time :: string

definition point_of_row :: "jsval \<Rightarrow> history_point" where
  "point_of_row d =
     \<lparr>hp_lat = jopt d ''lat'', hp_lng = jopt d ''lng'',
      hp_speed = js_round (case num_field d ''speed'' of None \<Rightarrow> 0 | Some x \<Rightarrow> x),
      hp_time = str_or (str_field d ''time'') DASH\<rparr>"

definition coord :: "history_point \<Rightarrow> jsval \<times> jsval" where
  "coord p = (hp_lng p, hp_lat p)"

datatype map_phase = NoMap | MapLoading | MapReady

record route_marker =
  rm_at :: "jsval \<times> jsval"
  rm_shown :: bool

record playback =
  pb_selected :: string
  routePoints :: "history_point list"
  isLoadingRoute :: bool
  isPlaying :: bool
  currentIndex :: nat
  playbackSpeed :: nat
  pb_style :: string
  pb_menu :: bool
  pb_phase :: map_phase
  pb_layers :: "map_layer list"
  pb_closure :: "history_point list"
  pb_line :: "(jsval \<times> jsval) list"
  pb_marker :: "route_marker option"
  pb_camera :: "(jsval \<times> jsval) list"
  runs :: "(string \<times> (js_error + response)) list"
  pb_current :: "nat option"
  delivered :: "nat list"

definition playback_initial :: "string \<Rightarrow> playback" where
  "playback_initial style =
     \<lparr>pb_selected = [], routePoints = [], isLoadingRoute = False, isPlaying = False, currentIndex = 0,
      playbackSpeed = 1, pb_style = style, pb_menu = False, pb_phase = NoMap, pb_layers = [], pb_closure = [],
      pb_line = [], pb_marker = None, pb_camera = [], runs = [], pb_current = None, delivered = []\<rparr>"

subsection \<open>Loading a route\<close>

definition history_endpoint :: "string \<Rightarrow> string" where
  "history_endpoint v = ''/api/v1/tracking/history/'' @ v"

definition show_route :: "history_point list \<Rightarrow> playback \<Rightarrow> playback" where
  "show_route pts p =
     (let p1 = p\<lparr>routePoints := pts, currentIndex := 0, isPlaying := False\<rparr>
      in if pb_phase p = MapReady then
           (let c = coord (hd pts)
            in p1\<lparr>pb_line := map coord pts, pb_camera := pb_camera p @ [c],
                  pb_marker := map_option (\<lambda>m. m\<lparr>rm_at := c, rm_shown := True\<rparr>) (pb_marker p)\<rparr>)
         else p1)"

definition clear_route :: "playback \<Rightarrow> playback" where
  "clear_route p =
     p\<lparr>routePoints := [], currentIndex := 0, isPlaying := False,
       pb_marker := map_option (\<lambda>m. m\<lparr>rm_shown := False\<rparr>) (pb_marker p),
       pb_line := (if pb_phase p = MapReady then [] else pb_line p)\<rparr>"

text \<open>
  The second \<open>then\<close>; an exception (no JSON, a \<open>null\<close> answer or row) goes to the \<open>catch\<close>, which only logs.
\<close>

definition apply_history :: "js_error + response \<Rightarrow> playback \<Rightarrow> playback" where
  "apply_history r p =
     (case r of
        Inl e \<Rightarrow> p
      | Inr res \<Rightarrow> (case res_json res of
          Inl e \<Rightarrow> p
        | Inr json \<Rightarrow> (case jget json ''success'' of
            Inl e \<Rightarrow> p
          | Inr ok \<Rightarrow> (case (truthy ok, as_arr (jopt json ''data'')) of
              (True, Some (d # ds)) \<Rightarrow>
                if list_ex nullish (d # ds) then p else show_route (map point_of_row (d # ds)) p
            | _ \<Rightarrow> clear_route p))))"

text \<open>The clean-up of the previous run comes first; without a vehicle no new run starts.\<close>

definition setSelectedVehicle :: "string \<Rightarrow> browser \<times> playback \<Rightarrow> browser \<times> playback" where
  "setSelectedVehicle v s =
     (let (w, p) = s
      in if v = pb_selected p then (w, p)
         else if v = [] then (w, p\<lparr>pb_selected := v, pb_current := None\<rparr>)
         else (let (w1, r) = auth_send w (history_endpoint v) GET
               in (w1, p\<lparr>pb_selected := v, isLoadingRoute := True, runs := runs p @ [(v, r)],
                         pb_current := Some (length (runs p))\<rparr>)))"

definition deliver :: "nat \<Rightarrow> browser \<times> playback \<Rightarrow> browser \<times> playback" where
  "deliver k s =
     (let (w, p) = s
      in if k < length (runs p) \<and> k \<notin> set (delivered p) then
           (let r = snd (runs p ! k); p1 = p\<lparr>delivered := k # delivered p\<rparr>
            in (auth_settle r w,
                if pb_current p \<noteq> Some k then p1 else (apply_history r p1)\<lparr>isLoadingRoute := False\<rparr>))
         else (w, p))"

text \<open>The effect that runs after every render: the list of vehicles decides the selection.\<close>

definition keep_selection :: "string list \<Rightarrow> browser \<times> playback \<Rightarrow> browser \<times> playback" where
  "keep_selection regs s =
     (case regs of
        [] \<Rightarrow> s
      | r # _ \<Rightarrow> if pb_selected (snd s) \<notin> set regs \<or> pb_selected (snd s) = [] then setSelectedVehicle r s else s)"

subsection \<open>Map and controls\<close>

definition init_playback_map :: "playback \<Rightarrow> playback" where
  "init_playback_map p =
     (if pb_phase p \<noteq> NoMap then p
      else p\<lparr>pb_phase := MapLoading, pb_layers := style_layers (pb_style p), pb_closure := routePoints p,
             pb_camera := [if routePoints p \<noteq> [] then coord (hd (routePoints p)) else (JNum 0, JNum 0)]\<rparr>)"

definition playback_load :: "playback \<Rightarrow> playback" where
  "playback_load p =
     (if pb_phase p = MapLoading then
        p\<lparr>pb_phase := MapReady, pb_line := map coord (pb_closure p),
          pb_marker := Some \<lparr>rm_at = (if pb_closure p \<noteq> [] then coord (hd (pb_closure p)) else (JNum 0, JNum 0)),
                             rm_shown = (pb_closure p \<noteq> [])\<rparr>\<rparr>
      else p)"

definition switchPlaybackStyle :: "(string \<Rightarrow> bool) \<Rightarrow> string \<Rightarrow> browser \<Rightarrow> playback \<Rightarrow> browser \<times> playback" where
  "switchPlaybackStyle getLayer new w p =
     (let p1 = p\<lparr>pb_style := new\<rparr>
      in case setItem STYLE_KEY new w of
           Inl e \<Rightarrow> (w, p1)
         | Inr w1 \<Rightarrow>
             (w1, p1\<lparr>pb_menu := False,
                     pb_layers := (if pb_phase p = NoMap then pb_layers p else switch_layers getLayer new (pb_layers p))\<rparr>))"

definition move_to :: "history_point \<Rightarrow> playback \<Rightarrow> playback" where
  "move_to pt p =
     p\<lparr>pb_marker := map_option (\<lambda>m. m\<lparr>rm_at := coord pt\<rparr>) (pb_marker p),
       pb_camera := (if pb_phase p = NoMap then pb_camera p else pb_camera p @ [coord pt])\<rparr>"

text \<open>One firing of the interval, which exists while the page is playing a route.\<close>

definition tick :: "playback \<Rightarrow> playback" where
  "tick p =
     (if isPlaying p \<and> routePoints p \<noteq> [] then
        (if length (routePoints p) - 1 \<le> currentIndex p then p\<lparr>isPlaying := False\<rparr>
         else move_to (routePoints p ! Suc (currentIndex p)) (p\<lparr>currentIndex := Suc (currentIndex p)\<rparr>))
      else p)"

definition handleSliderChange :: "nat \<Rightarrow> playback \<Rightarrow> playback" where
  "handleSliderChange idx p =
     (let p1 = p\<lparr>currentIndex := idx\<rparr>
      in if idx < length (routePoints p) then move_to (routePoints p ! idx) p1 else p1)"

definition rewind :: "playback \<Rightarrow> playback" where
  "rewind p =
     (let p1 = p\<lparr>currentIndex := 0\<rparr>
      in if pb_marker p \<noteq> None \<and> routePoints p \<noteq> [] then move_to (hd (routePoints p)) p1 else p1)"

definition currentPoint :: "playback \<Rightarrow> history_point option" where
  "currentPoint p = (if currentIndex p < length (routePoints p) then Some (routePoints p ! currentIndex p) else None)"

text \<open>\<open>Point 1 of n\<close>\<close>

definition position_label :: "playback \<Rightarrow> string" where
  "position_label p =
     (if isLoadingRoute p then ''Loading route'' @ [CHR 0xE2, CHR 0x80, CHR 0xA6]
      else ''Point '' @ nat_to_string (currentIndex p + 1) @ '' of '' @ nat_to_string (length (routePoints p)))"

datatype playback_ev =
    Render "string list"
  | Choose string
  | Deliver nat
  | InitMap
  | MapLoad
  | Tick
  | Slide nat
  | Rewind
  | TogglePlay
  | Speed nat
  | Style string

text \<open>The control bar is shown only with a route; the slider's range and the disabled button are guards.\<close>

fun playback_step :: "(string \<Rightarrow> bool) \<Rightarrow> playback_ev \<Rightarrow> browser \<times> playback \<Rightarrow> browser \<times> playback" where
  "playback_step gl (Render regs) s = keep_selection regs s"
| "playback_step gl (Choose v) s = setSelectedVehicle v s"
| "playback_step gl (Deliver k) s = deliver k s"
| "playback_step gl InitMap (w, p) = (w, init_playback_map p)"
| "playback_step gl MapLoad (w, p) = (w, playback_load p)"
| "playback_step gl Tick (w, p) = (w, tick p)"
| "playback_step gl (Slide n) (w, p) =
     (w, if routePoints p \<noteq> [] \<and> n \<le> length (routePoints p) - 1 then handleSliderChange n p else p)"
| "playback_step gl Rewind (w, p) = (w, if routePoints p \<noteq> [] then rewind p else p)"
| "playback_step gl TogglePlay (w, p) =
     (w, if length (routePoints p) \<le> 1 then p else p\<lparr>isPlaying := \<not> isPlaying p\<rparr>)"
| "playback_step gl (Speed k) (w, p) =
     (w, if routePoints p \<noteq> [] \<and> k \<in> {1, 2, 5} then p\<lparr>playbackSpeed := k\<rparr> else p)"
| "playback_step gl (Style i) (w, p) = switchPlaybackStyle gl i w p"

definition playback_run :: "(string \<Rightarrow> bool) \<Rightarrow> playback_ev list \<Rightarrow> browser \<Rightarrow> string \<Rightarrow> playback" where
  "playback_run gl evs w style = snd (fold (playback_step gl) evs (w, playback_initial style))"

subsection \<open>Facts\<close>

definition run_current :: "nat option \<Rightarrow> (string \<times> (js_error + response)) list \<Rightarrow> string \<Rightarrow> bool" where
  "run_current cur rs v = (case cur of None \<Rightarrow> True | Some k \<Rightarrow> k < length rs \<and> fst (rs ! k) = v)"

definition playback_ok :: "playback \<Rightarrow> bool" where
  "playback_ok p \<longleftrightarrow>
     (if routePoints p = [] then currentIndex p = 0 \<and> \<not> isPlaying p else currentIndex p < length (routePoints p)) \<and>
     run_current (pb_current p) (runs p) (pb_selected p)"

lemma run_current_simps [simp]:
  "run_current None rs v" "run_current (Some (length rs)) (rs @ [(v, r)]) v"
  by (simp_all add: run_current_def)

lemma move_to_frame [simp]:
  "routePoints (move_to pt p) = routePoints p" "currentIndex (move_to pt p) = currentIndex p"
  "isPlaying (move_to pt p) = isPlaying p" "pb_current (move_to pt p) = pb_current p"
  "runs (move_to pt p) = runs p" "pb_selected (move_to pt p) = pb_selected p"
  by (simp_all add: move_to_def)

lemma playback_ok_choose: "playback_ok (snd s) \<Longrightarrow> playback_ok (snd (setSelectedVehicle v s))"
  by (cases s) (auto simp: setSelectedVehicle_def playback_ok_def Let_def split_beta)

lemma apply_history_ok:
  "playback_ok p \<Longrightarrow> playback_ok (apply_history r p)"
  "runs (apply_history r p) = runs p" "pb_current (apply_history r p) = pb_current p"
  "pb_selected (apply_history r p) = pb_selected p" "delivered (apply_history r p) = delivered p"
  by (auto simp: apply_history_def playback_ok_def show_route_def clear_route_def Let_def
      split: sum.splits bool.splits option.splits list.splits)

lemma playback_ok_deliver: "playback_ok (snd s) \<Longrightarrow> playback_ok (snd (deliver k s))"
proof -
  assume ok: "playback_ok (snd s)"
  have "playback_ok ((snd s)\<lparr>delivered := d\<rparr>)" for d
    using ok by (simp add: playback_ok_def)
  moreover have "playback_ok q \<Longrightarrow> playback_ok (q\<lparr>isLoadingRoute := False\<rparr>)" for q
    by (simp add: playback_ok_def)
  ultimately show ?thesis
    using ok by (auto simp: deliver_def Let_def split_beta intro: apply_history_ok(1))
qed

lemma playback_ok_local:
  assumes "playback_ok p"
  shows "playback_ok (init_playback_map p)" "playback_ok (playback_load p)" "playback_ok (tick p)"
    "playback_ok (snd (switchPlaybackStyle gl i w p))"
    "routePoints p \<noteq> [] \<Longrightarrow> playback_ok (rewind p)"
    "routePoints p \<noteq> [] \<Longrightarrow> n \<le> length (routePoints p) - 1 \<Longrightarrow> playback_ok (handleSliderChange n p)"
    "\<not> length (routePoints p) \<le> 1 \<Longrightarrow> playback_ok (p\<lparr>isPlaying := b\<rparr>)" "playback_ok (p\<lparr>playbackSpeed := m\<rparr>)"
proof -
  show "playback_ok (tick p)"
  proof (cases "isPlaying p \<and> routePoints p \<noteq> [] \<and> \<not> length (routePoints p) - 1 \<le> currentIndex p")
    case True
    then have "Suc (currentIndex p) < length (routePoints p)" by linarith
    with True assms show ?thesis by (simp add: playback_ok_def tick_def)
  next
    case False
    then have "tick p = p \<or> tick p = p\<lparr>isPlaying := False\<rparr>" by (auto simp: tick_def)
    with assms show ?thesis by (auto simp: playback_ok_def)
  qed
  show "playback_ok (handleSliderChange n p)" if "routePoints p \<noteq> []" "n \<le> length (routePoints p) - 1"
    using assms that by (cases "routePoints p") (simp_all add: playback_ok_def handleSliderChange_def Let_def)
  show "\<not> length (routePoints p) \<le> 1 \<Longrightarrow> playback_ok (p\<lparr>isPlaying := b\<rparr>)"
    using assms by (cases "routePoints p") (simp_all add: playback_ok_def)
qed (use assms in \<open>simp_all add: playback_ok_def init_playback_map_def playback_load_def rewind_def
      switchPlaybackStyle_def Let_def split: sum.splits\<close>)

lemma playback_step_ok: "playback_ok (snd s) \<Longrightarrow> playback_ok (snd (playback_step gl ev s))"
proof (cases ev)
  case (Render regs)
  then show "playback_ok (snd s) \<Longrightarrow> ?thesis"
    by (auto simp: keep_selection_def playback_ok_choose split: list.splits)
qed (cases s; simp add: playback_ok_choose playback_ok_deliver playback_ok_local)+

lemma playback_run_ok: "playback_ok (playback_run gl evs w style)"
proof -
  have "playback_ok (snd s) \<Longrightarrow> playback_ok (snd (fold (playback_step gl) evs s))" for s
    by (induction evs arbitrary: s) (simp_all add: playback_step_ok)
  moreover have "playback_ok (playback_initial style)"
    by (simp add: playback_ok_def playback_initial_def)
  ultimately show ?thesis by (simp add: playback_run_def)
qed

lemma tick_advances:
  assumes "isPlaying p" and "Suc (currentIndex p) < length (routePoints p)"
  shows "currentIndex (tick p) = Suc (currentIndex p) \<and> isPlaying (tick p) \<and> routePoints (tick p) = routePoints p"
  using assms by (auto simp: tick_def)

lemma tick_stops:
  assumes "routePoints p \<noteq> []" and "currentIndex p = length (routePoints p) - 1"
  shows "currentIndex (tick p) = currentIndex p \<and> \<not> isPlaying (tick p) \<and> routePoints (tick p) = routePoints p"
  using assms by (auto simp: tick_def)

definition demo_history :: jsval where
  "demo_history = JObj [(''success'', JBool True),
     (''data'', JArr [JObj [(''lat'', JNum 25), (''lng'', JNum 55)], JObj [(''lat'', JNum 26), (''lng'', JNum 55)]])]"

lemma playback_send [intro]: "adds_only tenant_request w (fst (playback_step gl ev (w, p)))"
proof -
  have pick: "adds_only tenant_request w (fst (setSelectedVehicle v (w, p)))" for v
    by (simp add: setSelectedVehicle_def split_beta Let_def client.send_extends)
  have "adds_only tenant_request w (fst (deliver k (w, p)))" for k
    by (simp add: deliver_def Let_def adds_only_def client.settle_log)
  moreover have "sent (fst (switchPlaybackStyle gl i w p)) = sent w" for i
    by (simp add: switchPlaybackStyle_def Let_def setItem_def)
  ultimately show ?thesis
    using pick by (cases ev) (auto simp: keep_selection_def adds_only_def split: list.splits)
qed

subsection \<open>Properties\<close>

text \<open>C33: whatever happens on the playback page, in whatever order answers arrive, the position in the
  route is always inside the route that is loaded, so the page never shows a point that does not exist,
  and it plays only when it has a route.\<close>

theorem playback_index_in_range:
  "let p = playback_run gl evs w style
   in if routePoints p = [] then currentIndex p = 0 \<and> \<not> isPlaying p \<and> currentPoint p = None
      else currentPoint p = Some (routePoints p ! currentIndex p)"
  using playback_run_ok [of gl evs w style]
  by (auto simp: Let_def playback_ok_def currentPoint_def split: if_splits)

text \<open>C34: an answer for a vehicle that is no longer selected changes nothing the page shows: only the
  answer to the latest selection does, and that request was made for the vehicle now selected.\<close>

theorem stale_history_ignored:
  assumes "p = playback_run gl evs w style"
  shows "snd (deliver k (v, p)) =
      (if k < length (runs p) \<and> k \<notin> set (delivered p) then
         (let p1 = p\<lparr>delivered := k # delivered p\<rparr>
          in if pb_current p = Some k \<and> fst (runs p ! k) = pb_selected p
             then (apply_history (snd (runs p ! k)) p1)\<lparr>isLoadingRoute := False\<rparr> else p1)
       else p)"
  using playback_run_ok [of gl evs w style] assms
  by (auto simp: deliver_def Let_def playback_ok_def run_current_def)

theorem stale_history_ignored_witness:
  "let p = playback_run (\<lambda>_. True) [Choose ''A'', Choose ''B''] (demo_session (answer 200 demo_history)) ''dubai-osm''
   in routePoints (snd (deliver 0 (fresh_browser offline_net, p))) = routePoints p"
proof -
  let ?p = "playback_run (\<lambda>_. True) [Choose ''A'', Choose ''B''] (demo_session (answer 200 demo_history)) ''dubai-osm''"
  have "pb_current ?p = Some 1"
    by (simp add: playback_run_def setSelectedVehicle_def playback_initial_def Let_def split_beta)
  then show ?thesis
    using stale_history_ignored [OF refl, of 0 "fresh_browser offline_net" "\<lambda>_. True" "[Choose ''A'', Choose ''B'']"
        "demo_session (answer 200 demo_history)" "''dubai-osm''"]
    by (simp add: Let_def)
qed

text \<open>C35: playing ends. From a page that plays, the interval moves one point at a time and, once the
  remaining points are used up, the page is paused at the last point of the same route.\<close>

theorem playback_reaches_end:
  assumes "isPlaying p" and "currentIndex p < length (routePoints p)"
  shows "let q = (tick ^^ (length (routePoints p) - currentIndex p)) p
         in \<not> isPlaying q \<and> currentIndex q = length (routePoints p) - 1 \<and> routePoints q = routePoints p"
proof -
  have "n = length (routePoints p) - currentIndex p \<Longrightarrow> isPlaying p \<Longrightarrow> currentIndex p < length (routePoints p) \<Longrightarrow>
      \<not> isPlaying ((tick ^^ n) p) \<and> currentIndex ((tick ^^ n) p) = length (routePoints p) - 1 \<and>
      routePoints ((tick ^^ n) p) = routePoints p" for n p
  proof (induction n arbitrary: p)
    case (Suc n)
    show ?case
    proof (cases "Suc (currentIndex p) < length (routePoints p)")
      case True
      note adv = tick_advances [OF Suc.prems(2) True]
      have "n = length (routePoints (tick p)) - currentIndex (tick p)" using adv Suc.prems(1) by simp
      moreover have "(tick ^^ Suc n) p = (tick ^^ n) (tick p)" by (simp add: funpow_swap1)
      ultimately show ?thesis using Suc.IH [of "tick p"] adv True by simp
    next
      case False
      with Suc.prems have last: "currentIndex p = length (routePoints p) - 1" and "n = 0" by auto
      moreover have "routePoints p \<noteq> []" using Suc.prems(3) by auto
      ultimately show ?thesis using tick_stops [of p] by simp
    qed
  qed simp
  from this [OF refl assms] show ?thesis by (simp add: Let_def)
qed

theorem playback_reaches_end_witness:
  "let p = (show_route (map point_of_row [JObj [], JObj [], JObj []]) (playback_initial ''dubai-osm''))\<lparr>isPlaying := True\<rparr>
   in currentIndex ((tick ^^ 3) p) = 2"
proof -
  let ?p = "(show_route (map point_of_row [JObj [], JObj [], JObj []]) (playback_initial ''dubai-osm''))\<lparr>isPlaying := True\<rparr>"
  have v: "isPlaying ?p" "currentIndex ?p = 0" "length (routePoints ?p) = 3"
    by (simp_all add: show_route_def playback_initial_def)
  then have "currentIndex ?p < length (routePoints ?p)" by simp
  from playback_reaches_end [OF v(1) this] v(2,3) show ?thesis by (simp add: Let_def)
qed

text \<open>A route that arrives before the map has loaded is never drawn: the map's \<open>load\<close> handler uses the
  points of the first render, so the slider moves over a route whose line is empty and whose marker is
  hidden.\<close>

theorem early_route_not_drawn:
  "let p = playback_run gl [InitMap, Choose ''A'', Deliver 0, MapLoad, TogglePlay, Tick]
             (demo_session (answer 200 demo_history)) style
   in length (routePoints p) = 2 \<and> currentIndex p = 1 \<and> pb_line p = []
      \<and> map_option rm_shown (pb_marker p) = Some False"
proof -
  let ?w = "demo_session (answer 200 demo_history)"
  let ?rows = "[JObj [(''lat'', JNum 25), (''lng'', JNum 55)], JObj [(''lat'', JNum 26), (''lng'', JNum 55)]]"
  obtain w1 where send: "auth_send ?w (history_endpoint ''A'') GET =
      (w1, Inr \<lparr>status = 200, statusText = ''OK'', body = Inr demo_history\<rparr>)"
    by (simp add: auth_send_def demo_session_def fresh_browser_def demo_user_def fetch_def answer_def Let_def)
  have shown: "apply_history (Inr \<lparr>status = 200, statusText = ''OK'', body = Inr demo_history\<rparr>) q =
      show_route (map point_of_row ?rows) q" for q
    by (simp add: apply_history_def res_json_def jget_def demo_history_def)
  show ?thesis
    by (simp add: playback_run_def playback_initial_def init_playback_map_def setSelectedVehicle_def deliver_def
        playback_load_def tick_def move_to_def send shown show_route_def Let_def)
qed

end
