(* ===== verification/Live_Tracking.thy ===== *)
theory Live_Tracking
  imports Live_Map Page_Kit "HOL-Library.Multiset"
begin

section \<open>The live tracking page: \<open>LiveTrackingPage.tsx\<close>\<close>

text \<open>
  The page's own \<open>useState\<close> cells are a record beside the vehicle store it reads. Distances use the real
  cosine and square root. How the browser reads a time stamp in its own time zone and locale is a
  parameter of \<open>formatDatabaseTime\<close>.
\<close>

subsection \<open>State\<close>

record poi_option =
  poi_name :: string
  poi_lat :: real
  poi_lng :: real

record ranked_vehicle =
  rk_vehicle :: vehicle_position
  distKm :: real
  etaMin :: "string option"

record nearest_modal =
  nm_open :: bool
  nm_vehicle :: "vehicle_position option"
  nm_pois :: "jsval list"

record find_modal =
  fm_open :: bool
  targetPoint :: string
  fm_results :: "ranked_vehicle list"

record tracking_page =
  expandedDetailsId :: jsval
  frozenMap :: "(jsval, bool) omap"
  nearestModal :: nearest_modal
  findModal :: find_modal
  poiOptions :: "poi_option list"
  isLoadingPois :: bool
  teltonikaVehicle :: "vehicle_position option"
  isTrackingActive :: bool
  tr_toast :: toast
  actionHandled :: bool

definition nearest_closed :: nearest_modal where
  "nearest_closed = \<lparr>nm_open = False, nm_vehicle = None, nm_pois = []\<rparr>"

definition find_closed :: find_modal where
  "find_closed = \<lparr>fm_open = False, targetPoint = [], fm_results = []\<rparr>"

definition tracking_initial :: tracking_page where
  "tracking_initial =
     \<lparr>expandedDetailsId = JNull, frozenMap = [], nearestModal = nearest_closed, findModal = find_closed,
      poiOptions = [], isLoadingPois = False, teltonikaVehicle = None, isTrackingActive = True,
      tr_toast = no_toast, actionHandled = False\<rparr>"

abbreviation tr_say :: "string \<Rightarrow> tracking_page \<Rightarrow> tracking_page" where
  "tr_say m p \<equiv> p\<lparr>tr_toast := showToast m (tr_toast p)\<rparr>"

subsection \<open>Freeze highlight, places, ranking\<close>

definition firstVehicleWithPosition :: "vehicle_state \<Rightarrow> vehicle_position option" where
  "firstVehicleWithPosition s = find (\<lambda>v. place v \<noteq> None) (map_values (vehicles s))"

definition is_frozen :: "jsval \<Rightarrow> tracking_page \<Rightarrow> bool" where
  "is_frozen d p = (map_get (frozenMap p) d = Some True)"

definition toggleFreeze :: "jsval \<Rightarrow> string \<Rightarrow> tracking_page \<Rightarrow> tracking_page" where
  "toggleFreeze deviceId reg p =
     (let now = (\<not> is_frozen deviceId p)
      in tr_say ((if now then ''Freeze highlight enabled for '' else ''Freeze highlight disabled for '') @ reg @ ''.'')
           (p\<lparr>frozenMap := map_set deviceId now (frozenMap p)\<rparr>))"

text \<open>\<open>const json = res.ok ? await res.json() : null; json && Array.isArray(json.data) ? json.data : []\<close>\<close>

definition data_rows :: "response \<Rightarrow> js_error + jsval list" where
  "data_rows r =
     (if \<not> res_ok r then Inr []
      else (case res_json r of
         Inl e \<Rightarrow> Inl e
       | Inr json \<Rightarrow> Inr (case as_arr (jopt json ''data'') of None \<Rightarrow> [] | Some xs \<Rightarrow> xs)))"

definition nearest_endpoint :: "lnglat \<Rightarrow> string" where
  "nearest_endpoint c =
     ''/api/v1/poi/nearest?lat='' @ num_to_string (snd c) @ ''&lng='' @ num_to_string (fst c)"

definition openNearestAmenities :: "vehicle_position \<Rightarrow> browser \<Rightarrow> tracking_page \<Rightarrow> browser \<times> tracking_page" where
  "openNearestAmenities v w p =
     (case place v of
        None \<Rightarrow> (w, p)
      | Some c \<Rightarrow>
          (let (w1, r) = fetchWithAuth w (nearest_endpoint c) GET;
               pois = (case r of Inl e \<Rightarrow> [] | Inr res \<Rightarrow> (case data_rows res of Inl e \<Rightarrow> [] | Inr xs \<Rightarrow> xs))
           in (w1, p\<lparr>nearestModal := \<lparr>nm_open = True, nm_vehicle = Some v, nm_pois = pois\<rparr>, isLoadingPois := False\<rparr>)))"

definition deg :: "real \<Rightarrow> real" where
  "deg x = x * (pi / 180)"

definition raw_distance :: "real \<Rightarrow> real \<Rightarrow> lnglat \<Rightarrow> real" where
  "raw_distance targetLat targetLng c =
     (let dLat = (snd c - targetLat) * 111; dLng = (fst c - targetLng) * 111 * cos (deg targetLat)
      in sqrt (dLat * dLat + dLng * dLng))"

definition rank_one :: "real \<Rightarrow> real \<Rightarrow> vehicle_position \<Rightarrow> ranked_vehicle" where
  "rank_one targetLat targetLng v =
     (let d = raw_distance targetLat targetLng (the (place v))
      in \<lparr>rk_vehicle = v, distKm = fixed_num 1 d,
          etaMin = (case speed v of
             Some x \<Rightarrow> if x > 0 then Some (toFixed 0 (d / x * 60)) else None
           | None \<Rightarrow> None)\<rparr>)"

definition located :: "vehicle_state \<Rightarrow> vehicle_position list" where
  "located s = filter (\<lambda>v. place v \<noteq> None) (map_values (vehicles s))"

definition rankVehiclesToTarget :: "vehicle_state \<Rightarrow> real \<Rightarrow> real \<Rightarrow> ranked_vehicle list" where
  "rankVehiclesToTarget s targetLat targetLng =
     slice 0 6 (sort_key distKm (map (rank_one targetLat targetLng) (located s)))"

text \<open>The places that pass the type checks; a \<open>null\<close> row makes the filter throw.\<close>

definition poi_of_row :: "jsval \<Rightarrow> poi_option option" where
  "poi_of_row r =
     (case (str_field r ''name'', num_field r ''lat'', num_field r ''lng'') of
        (Some n, Some y, Some x) \<Rightarrow> Some \<lparr>poi_name = n, poi_lat = y, poi_lng = x\<rparr>
      | _ \<Rightarrow> None)"

definition pois_of :: "jsval list \<Rightarrow> poi_option list" where
  "pois_of rows = (if list_ex nullish rows then [] else List.map_filter poi_of_row rows)"

definition handleOpenFindNearestVehicle :: "browser \<Rightarrow> tracking_page \<Rightarrow> browser \<times> tracking_page" where
  "handleOpenFindNearestVehicle w p =
     (let (w1, r) = fetchWithAuth w ''/api/v1/poi'' GET;
          rows = (case r of Inl e \<Rightarrow> [] | Inr res \<Rightarrow> (case data_rows res of Inl e \<Rightarrow> [] | Inr xs \<Rightarrow> xs))
      in (w1, p\<lparr>findModal := \<lparr>fm_open = True, targetPoint = [], fm_results = []\<rparr>,
                poiOptions := pois_of rows, isLoadingPois := False\<rparr>))"

definition handleSelectTargetPoint :: "string \<Rightarrow> vehicle_state \<Rightarrow> tracking_page \<Rightarrow> tracking_page" where
  "handleSelectTargetPoint target s p =
     (case find (\<lambda>q. poi_name q = target) (poiOptions p) of
        None \<Rightarrow> p\<lparr>findModal := (findModal p)\<lparr>targetPoint := target, fm_results := []\<rparr>\<rparr>
      | Some poi \<Rightarrow>
          p\<lparr>findModal := \<lparr>fm_open = True, targetPoint = target,
                          fm_results = rankVehiclesToTarget s (poi_lat poi) (poi_lng poi)\<rparr>\<rparr>)"

text \<open>The effect for \<open>initialAction\<close> and \<open>?modal=teltonika\<close>; it acts at most once.\<close>

definition run_initial_action ::
  "string option \<Rightarrow> vehicle_state \<Rightarrow> browser \<times> tracking_page \<Rightarrow> browser \<times> tracking_page" where
  "run_initial_action action s wp =
     (let (w, p) = wp; p1 = p\<lparr>actionHandled := True\<rparr>
      in if actionHandled p then (w, p)
         else if action = Some ''find-nearest'' then handleOpenFindNearestVehicle w p1
         else if action = Some ''nearest-places'' then
           (case firstVehicleWithPosition s of None \<Rightarrow> (w, p) | Some v \<Rightarrow> openNearestAmenities v w p1)
         else if str_includes (search (loc w)) ''modal=teltonika'' then
           (case firstVehicleWithPosition s of None \<Rightarrow> (w, p) | Some v \<Rightarrow> (w, p1\<lparr>teltonikaVehicle := Some v\<rparr>))
         else (w, p))"

text \<open>The load on mount and every 15 seconds, while there is a session.\<close>

definition poll :: "browser \<Rightarrow> vehicle_state \<Rightarrow> browser \<times> vehicle_state" where
  "poll w s =
     (let c = jopt (au_user (auth w)) ''company_id''
      in if truthy (au_token (auth w)) \<and> \<not> nullish c then fetchVehicles (au_token (auth w)) c w s else (w, s))"

definition formatDatabaseTime :: "(string \<Rightarrow> (nat \<times> nat \<times> nat \<times> string) option) \<Rightarrow> string option \<Rightarrow> string" where
  "formatDatabaseTime local_time ts =
     (case ts of
        None \<Rightarrow> DASH
      | Some t \<Rightarrow>
          if t = [] then DASH
          else (case local_time t of
             None \<Rightarrow> t
           | Some (day, month0, year, clock) \<Rightarrow>
               padStart2 (nat_to_string day) @ ''/'' @ padStart2 (nat_to_string (month0 + 1)) @ ''/'' @
               nat_to_string year @ '' '' @ clock))"

subsection \<open>Counts, filter, rows\<close>

record fleet_counts =
  fc_total :: nat
  fc_active :: nat
  fc_inactive :: nat
  fc_freezer :: nat
  fc_moving :: nat
  fc_waiting :: nat
  fc_parked :: nat

definition no_counts :: "nat \<Rightarrow> fleet_counts" where
  "no_counts n = \<lparr>fc_total = n, fc_active = 0, fc_inactive = 0, fc_freezer = 0, fc_moving = 0, fc_waiting = 0, fc_parked = 0\<rparr>"

definition count_one :: "vehicle_position \<Rightarrow> fleet_counts \<Rightarrow> fleet_counts" where
  "count_one v c =
     (let c1 = (if vp_status v = Some ''moving'' then c\<lparr>fc_moving := fc_moving c + 1\<rparr>
                else if vp_status v = Some ''idle'' then c\<lparr>fc_waiting := fc_waiting c + 1\<rparr>
                else if vp_status v = Some ''stopped'' \<or> vp_status v = Some ''offline'' then c\<lparr>fc_parked := fc_parked c + 1\<rparr>
                else c);
          c2 = (if temperature v \<noteq> None then c1\<lparr>fc_freezer := fc_freezer c1 + 1\<rparr> else c1)
      in if online v = Some True then c2\<lparr>fc_active := fc_active c2 + 1\<rparr> else c2\<lparr>fc_inactive := fc_inactive c2 + 1\<rparr>)"

definition tracking_counts :: "vehicle_state \<Rightarrow> fleet_counts" where
  "tracking_counts s = fold count_one (map_values (vehicles s)) (no_counts (length (vehicles s)))"

text \<open>The filter pills: their ids and the count each shows.\<close>

definition filter_pills :: "vehicle_state \<Rightarrow> (string \<times> nat) list" where
  "filter_pills s =
     (let c = tracking_counts s
      in [(''all'', fc_total c), (''active'', fc_active c), (''inactive'', fc_inactive c), (''freezer'', fc_freezer c),
          (''moving'', fc_moving c), (''stopped'', fc_parked c), (''idle'', fc_waiting c)])"

definition matches_filter :: "string \<Rightarrow> vehicle_position \<Rightarrow> bool" where
  "matches_filter f v =
     (f = ''all'' \<or> f = ''moving'' \<and> vp_status v = Some ''moving'' \<or> f = ''waiting'' \<and> vp_status v = Some ''idle''
      \<or> f = ''idle'' \<and> vp_status v = Some ''idle''
      \<or> f = ''parked'' \<and> (vp_status v = Some ''stopped'' \<or> vp_status v = Some ''offline'')
      \<or> f = ''stopped'' \<and> (vp_status v = Some ''stopped'' \<or> vp_status v = Some ''offline'')
      \<or> f = ''freezer'' \<and> temperature v \<noteq> None \<or> f = ''active'' \<and> online v = Some True
      \<or> f = ''inactive'' \<and> online v \<noteq> Some True)"

definition opt_includes :: "string option \<Rightarrow> string \<Rightarrow> bool" where
  "opt_includes x q = (case x of None \<Rightarrow> False | Some t \<Rightarrow> t \<noteq> [] \<and> str_includes (toLowerCase t) q)"

definition matches_search :: "string \<Rightarrow> vehicle_position \<Rightarrow> bool" where
  "matches_search raw v =
     (let q = toLowerCase raw
      in str_includes (toLowerCase (str_or (reg_number v) [])) q \<or> opt_includes (driver_name v) q
         \<or> opt_includes (vp_name v) q \<or> str_includes (js_to_string (device_id v)) raw)"

definition vehicleList :: "vehicle_state \<Rightarrow> vehicle_position list" where
  "vehicleList s =
     filter (\<lambda>v. matches_filter (filterStatus s) v \<and> matches_search (searchQuery s) v) (map_values (vehicles s))"

definition status_text :: "string option \<Rightarrow> string" where
  "status_text st =
     (if st = Some ''moving'' then ''Moving'' else if st = Some ''idle'' then ''Idle''
      else if st = Some ''offline'' then ''Offline'' else if st = Some ''stopped'' then ''Stopped'' else DASH)"

definition status_color :: "string option \<Rightarrow> string" where
  "status_color st =
     (if st = Some ''moving'' then ''#22C55E'' else if st = Some ''idle'' then ''#EAB308''
      else if st = Some ''offline'' then ''#94A3B8'' else if st = Some ''stopped'' then ''#EF4444''
      else ''var(--text-tertiary)'')"

record row_view =
  rv_dot :: string
  rv_status :: string
  rv_name :: string
  rv_speed :: string
  rv_driver :: string
  rv_temp :: "string option"
  rv_place :: string

definition DEGC :: string where
  "DEGC = [CHR 0xC2, CHR 0xB0, CHR ''C'']"

definition row_of_vehicle :: "vehicle_position \<Rightarrow> row_view" where
  "row_of_vehicle v =
     \<lparr>rv_dot = status_color (vp_status v), rv_status = status_text (vp_status v), rv_name = str_or (vp_name v) DASH,
      rv_speed = (case speed v of None \<Rightarrow> DASH | Some x \<Rightarrow> int_to_string (js_round x) @ '' km/h''),
      rv_driver = str_or (driver_name v) DASH,
      rv_temp = map_option (\<lambda>t. toFixed 1 t @ DEGC) (temperature v),
      rv_place = str_or (location_name v) DASH\<rparr>"

text \<open>The buttons of the drawer and the clicks on a row.\<close>

definition set_tracking :: "bool \<Rightarrow> tracking_page \<Rightarrow> tracking_page" where
  "set_tracking b p =
     tr_say (if b then ''Live tracking stream active.'' else ''Live tracking paused.'') (p\<lparr>isTrackingActive := b\<rparr>)"

definition click_row :: "jsval \<Rightarrow> vehicle_state \<times> tracking_page \<Rightarrow> vehicle_state \<times> tracking_page" where
  "click_row d sp =
     (let (s, p) = sp
      in (selectVehicle d s, p\<lparr>expandedDetailsId := (if expandedDetailsId p = d then JNull else d)\<rparr>))"

definition reset_filters :: "vehicle_state \<Rightarrow> vehicle_state" where
  "reset_filters s = setFilterStatus ''all'' (setSearchQuery [] s)"

subsection \<open>Facts\<close>

lemma matches_search_empty [simp]: "matches_search [] v"
  by (simp add: matches_search_def toLowerCase_def)

text \<open>What the counting loop adds for each pill.\<close>

lemma count_fold:
  "fc_total (fold count_one vs c) = fc_total c"
  "fc_active (fold count_one vs c) = fc_active c + length (filter (matches_filter ''active'') vs)"
  "fc_inactive (fold count_one vs c) = fc_inactive c + length (filter (matches_filter ''inactive'') vs)"
  "fc_freezer (fold count_one vs c) = fc_freezer c + length (filter (matches_filter ''freezer'') vs)"
  "fc_moving (fold count_one vs c) = fc_moving c + length (filter (matches_filter ''moving'') vs)"
  "fc_parked (fold count_one vs c) = fc_parked c + length (filter (matches_filter ''stopped'') vs)"
  "fc_waiting (fold count_one vs c) = fc_waiting c + length (filter (matches_filter ''idle'') vs)"
  by (induction vs arbitrary: c) (simp_all add: count_one_def matches_filter_def Let_def)

lemma sort_key_split:
  "\<exists>rest. mset (take n (sort_key f xs) @ rest) = mset xs
     \<and> list_all (\<lambda>a. list_all (\<lambda>b. f a \<le> f b) rest) (take n (sort_key f xs))
     \<and> length (take n (sort_key f xs)) = min n (length xs)"
proof -
  have "sorted (map f (take n (sort_key f xs)) @ map f (drop n (sort_key f xs)))"
    using sorted_sort_key [of f xs] by (simp flip: map_append)
  then have "list_all (\<lambda>a. list_all (\<lambda>b. f a \<le> f b) (drop n (sort_key f xs))) (take n (sort_key f xs))"
    by (simp add: sorted_append list_all_iff)
  moreover have "mset (take n (sort_key f xs) @ drop n (sort_key f xs)) = mset xs"
    by (simp only: append_take_drop_id mset_sort)
  ultimately show ?thesis by (intro exI [of _ "drop n (sort_key f xs)"]) simp
qed

lemma tracking_send [intro]:
  "adds_only tenant_request w (fst (openNearestAmenities v w p))"
  "adds_only tenant_request w (fst (handleOpenFindNearestVehicle w p))"
  "adds_only tenant_request w (fst (run_initial_action action s (w, p)))"
  "adds_only scoped_request w (fst (poll w s))"
proof -
  show near: "adds_only tenant_request w (fst (openNearestAmenities v w p))" for v p
    by (simp add: openNearestAmenities_def split_beta Let_def client_sends(2) split: option.splits)
  show find: "adds_only tenant_request w (fst (handleOpenFindNearestVehicle w p))" for p
    by (simp add: handleOpenFindNearestVehicle_def split_beta Let_def client_sends(2))
  show "adds_only tenant_request w (fst (run_initial_action action s (w, p)))"
    using near find by (simp add: run_initial_action_def Let_def split: option.splits)
  show "adds_only scoped_request w (fst (poll w s))" by (auto simp: poll_def Let_def)
qed

subsection \<open>Properties\<close>

text \<open>Every filter pill of the live page shows exactly how many vehicles the list would have with that
  filter and no search text, and active and inactive vehicles together are the whole fleet.\<close>

theorem pill_counts_match_list:
  "list_all (\<lambda>(f, n). n = length (vehicleList (setSearchQuery [] (setFilterStatus f s)))) (filter_pills s)
   \<and> fc_active (tracking_counts s) + fc_inactive (tracking_counts s) = fc_total (tracking_counts s)"
proof -
  have "length (filter (matches_filter ''active'') vs) + length (filter (matches_filter ''inactive'') vs) = length vs" for vs
  proof -
    have "matches_filter ''inactive'' = (\<lambda>v. \<not> matches_filter ''active'' v)"
      by (simp add: fun_eq_iff matches_filter_def)
    then show ?thesis by (simp only: length_filter_compl)
  qed
  then have "fc_active (tracking_counts s) + fc_inactive (tracking_counts s) = fc_total (tracking_counts s)"
    unfolding tracking_counts_def count_fold no_counts_def
    by (simp only: fleet_counts.simps add_0 length_map)
  moreover have "matches_filter ''all'' = (\<lambda>v. True)"
    by (simp add: fun_eq_iff matches_filter_def)
  ultimately show ?thesis
    by (simp add: filter_pills_def Let_def tracking_counts_def count_fold no_counts_def vehicleList_def
        setSearchQuery_def setFilterStatus_def comp_def)
qed

text \<open>C36: the nearest-vehicle search ranks by distance and forgets nobody: at most six results, in order of
  distance, all with a known position, and no located vehicle that was left out is closer than one shown.
  Each distance shown is within 50 metres of the computed one.\<close>

theorem nearest_vehicles_ranked:
  "let rs = rankVehiclesToTarget s y x
   in sorted (map distKm rs) \<and> length rs = min 6 (length (located s))
      \<and> list_all (\<lambda>r. \<bar>distKm r - raw_distance y x (the (place (rk_vehicle r)))\<bar> \<le> 1 / 20) rs
      \<and> (\<exists>rest. mset (rs @ rest) = mset (map (rank_one y x) (located s))
               \<and> list_all (\<lambda>a. list_all (\<lambda>b. distKm a \<le> distKm b) rest) rs)"
proof -
  let ?all = "map (rank_one y x) (located s)"
  let ?rs = "rankVehiclesToTarget s y x"
  have rs: "?rs = take 6 (sort_key distKm ?all)" by (simp add: rankVehiclesToTarget_def slice_def)
  have "sorted (map distKm ?rs)"
    unfolding rs using sorted_sort_key [of distKm ?all] by (simp add: sorted_wrt_take flip: take_map)
  moreover have "list_all (\<lambda>r. \<bar>distKm r - raw_distance y x (the (place (rk_vehicle r)))\<bar> \<le> 1 / 20) ?rs"
  proof -
    have "\<bar>distKm (rank_one y x v) - raw_distance y x (the (place (rk_vehicle (rank_one y x v))))\<bar> \<le> 1 / 20" for v
      using fixed_num_near [of "raw_distance y x (the (place v))" 1]
      by (simp add: rank_one_def Let_def raw_distance_def)
    moreover have "set ?rs \<subseteq> set ?all"
      unfolding rs by (metis set_sort set_take_subset)
    ultimately show ?thesis by (auto simp: list_all_iff)
  qed
  moreover from sort_key_split [of 6 distKm ?all]
  have "length ?rs = min 6 (length (located s)) \<and> (\<exists>rest. mset (?rs @ rest) = mset ?all
      \<and> list_all (\<lambda>a. list_all (\<lambda>b. distKm a \<le> distKm b) rest) ?rs)"
    unfolding rs by auto
  ultimately show ?thesis by (simp only: Let_def simp_thms)
qed

end
