(* ===== verification/Shell.thy ===== *)
theory Shell
  imports Sign_In
begin

section \<open>The client's shell: routes, guard, header, sidebar\<close>

text \<open>
  \<open>App.tsx\<close>, \<open>Header.tsx\<close> and \<open>Sidebar.tsx\<close>. The router library decides which entry of the route table an
  address selects; it is a parameter \<open>match\<close>, of which the theorems assume only what its documentation
  says: an address that is literally the path of an entry selects the first such entry, and with a
  catch-all entry every address selects some entry. A render follows redirects; \<open>show_screen\<close> has fuel
  for them, and three steps are proved to be enough.
\<close>

subsection \<open>App.tsx: routes\<close>

datatype page =
    LivePage "string option"
  | OverviewPage
  | ListPage
  | AlertPage string
  | ReportPage
  | FleetPageTab string
  | PlaybackView
  | GuestPage
  | GeofencePage string
  | ControlPanel
  | DevicePage
  | ComplaintPage
  | ReminderPage
  | AnalyticsView
  | SettingsView

datatype element = LoginElement | SignupElement | Guarded page | Navigate string

type_synonym route = "string \<times> element"

definition public_routes :: "route list" where
  "public_routes = [(''/login'', LoginElement), (''/signup'', SignupElement), (''/register'', SignupElement)]"

definition vehicle_routes :: "route list" where
  "vehicle_routes =
     [(''/live'', Guarded (LivePage None)), (''/home'', Guarded (LivePage None)), (''/vehicles'', Guarded (LivePage None))]"

definition overview_routes :: "route list" where
  "overview_routes =
     [(''/dashboard'', Guarded OverviewPage), (''/overview'', Guarded OverviewPage), (''/list-view'', Guarded ListPage)]"

definition alert_report_routes :: "route list" where
  "alert_report_routes =
     [(''/alert'', Guarded (AlertPage ''alarms'')), (''/alerts'', Guarded (AlertPage ''alarms'')),
      (''/report'', Guarded ReportPage), (''/reports'', Guarded ReportPage)]"

definition trip_routes :: "route list" where
  "trip_routes =
     [(''/trip-manager'', Guarded (FleetPageTab ''trips'')), (''/party-routes'', Guarded (FleetPageTab ''partyroutes'')),
      (''/playback'', Guarded PlaybackView), (''/fleet'', Guarded (FleetPageTab ''trips''))]"

definition config_routes :: "route list" where
  "config_routes =
     [(''/enable-feature'', Guarded GuestPage), (''/guest-access'', Guarded GuestPage),
      (''/geofence-manager'', Guarded (GeofencePage ''zones'')), (''/geofences'', Guarded (GeofencePage ''zones'')),
      (''/location-manager'', Guarded (GeofencePage ''places'')), (''/control-panel'', Guarded ControlPanel)]"

definition manager_routes :: "route list" where
  "manager_routes =
     [(''/asset-manager'', Guarded DevicePage), (''/devices'', Guarded DevicePage),
      (''/complaint-manager'', Guarded ComplaintPage), (''/complaints'', Guarded ComplaintPage),
      (''/driver-manager'', Guarded (FleetPageTab ''drivers'')), (''/party-manager'', Guarded (FleetPageTab ''partyroutes'')),
      (''/trailor-master'', Guarded (FleetPageTab ''tyres'')), (''/truck-master'', Guarded (FleetPageTab ''trips'')),
      (''/document-master'', Guarded ReminderPage), (''/reminders'', Guarded ReminderPage),
      (''/find-nearest-vehicle'', Guarded (LivePage (Some ''find-nearest''))),
      (''/show-nearest-places'', Guarded (LivePage (Some ''nearest-places'')))]"

definition other_routes :: "route list" where
  "other_routes =
     [(''/analytics'', Guarded AnalyticsView), (''/settings'', Guarded SettingsView),
      (''/vehicles'', Navigate ''/live''), (''/'', Navigate ''/live''), (''*'', Navigate ''/live'')]"

definition route_table :: "route list" where
  "route_table = public_routes @ vehicle_routes @ overview_routes @ alert_report_routes @ trip_routes @
     config_routes @ manager_routes @ other_routes"

lemmas route_defs = route_table_def public_routes_def vehicle_routes_def overview_routes_def
  alert_report_routes_def trip_routes_def config_routes_def manager_routes_def other_routes_def

definition routeTitles :: "(string \<times> string) list" where
  "routeTitles =
     [(''/'', ''Vehicle''), (''/home'', ''Vehicle''), (''/live'', ''Vehicle''), (''/vehicles'', ''Vehicle''),
      (''/overview'', ''Overview''), (''/dashboard'', ''Overview''), (''/list-view'', ''List View''),
      (''/alert'', ''Alert''), (''/alerts'', ''Alert''), (''/report'', ''Report''), (''/reports'', ''Report''),
      (''/playback'', ''Trip History''), (''/trip-manager'', ''Trip Manager''),
      (''/party-routes'', ''Party Routes Manager''), (''/driver-manager'', ''Driver Manager''),
      (''/trailor-master'', ''Trailor Master''), (''/truck-master'', ''Truck Master''),
      (''/party-manager'', ''Party/Company Manager''), (''/fleet'', ''Trip Manager''),
      (''/control-panel'', ''Control Panel''), (''/geofence-manager'', ''Geofence Manager''),
      (''/geofences'', ''Geofence Manager''), (''/location-manager'', ''Location Manager''),
      (''/enable-feature'', ''Enable Feature''), (''/guest-access'', ''Enable Feature''),
      (''/asset-manager'', ''Asset Manager''), (''/devices'', ''Asset Manager''),
      (''/complaint-manager'', ''Complaint Manager''), (''/complaints'', ''Complaint Manager''),
      (''/document-master'', ''Document Master''), (''/reminders'', ''Document Master''),
      (''/find-nearest-vehicle'', ''Find Nearest Vehicle''), (''/show-nearest-places'', ''Show Nearest Places''),
      (''/settings'', ''Settings''), (''/login'', ''Login''), (''/signup'', ''Create Account''),
      (''/register'', ''Create Account'')]"

definition page_title :: "string \<Rightarrow> string" where
  "page_title path = (case map_of routeTitles path of Some t \<Rightarrow> ''RudraNetra | '' @ t | None \<Rightarrow> ''RudraNetra'')"

subsection \<open>App.tsx: the guard\<close>

text \<open>\<open>token || localStorage.getItem('rudra_auth_token') || ''\<close>\<close>

definition layout_token :: "browser \<Rightarrow> js_error + jsval" where
  "layout_token w =
     (if truthy (au_token (auth w)) then Inr (au_token (auth w))
      else (case getItem w ''rudra_auth_token'' of
              Inl e \<Rightarrow> Inl e
            | Inr t \<Rightarrow> Inr (JStr (str_or t []))))"

definition layout_effect :: "browser \<Rightarrow> vehicle_state \<Rightarrow> browser \<times> vehicle_state" where
  "layout_effect w s =
     (case layout_token w of
        Inl e \<Rightarrow> (w, s)
      | Inr t \<Rightarrow>
          (let c = coalesce (jopt (au_user (auth w)) ''company_id'') JNull
           in if truthy t \<and> c \<noteq> JNull then fetchVehicles t c w s else (w, s)))"

definition layout_allows :: "browser \<Rightarrow> js_error + bool" where
  "layout_allows w = (case layout_token w of Inl e \<Rightarrow> Inl e | Inr t \<Rightarrow> Inr (isAuthenticated (auth w) \<and> truthy t))"

datatype screen = LoginScreen | SignupScreen | Inside page | Crashed js_error

fun show_screen :: "nat \<Rightarrow> (route list \<Rightarrow> string \<Rightarrow> element) \<Rightarrow> browser \<Rightarrow> string \<Rightarrow> screen option" where
  "show_screen 0 match w path = None"
| "show_screen (Suc n) match w path =
     (case match route_table path of
        LoginElement \<Rightarrow> Some LoginScreen
      | SignupElement \<Rightarrow> Some SignupScreen
      | Navigate t \<Rightarrow> show_screen n match w t
      | Guarded pg \<Rightarrow>
          (case layout_allows w of
             Inl e \<Rightarrow> Some (Crashed e)
           | Inr ok \<Rightarrow> if ok then Some (Inside pg) else show_screen n match w ''/login''))"

subsection \<open>Sidebar.tsx\<close>

definition starts_with_any :: "string list \<Rightarrow> string \<Rightarrow> bool" where
  "starts_with_any ps path = list_ex (\<lambda>p. prefix p path) ps"

definition isTripActive :: "string \<Rightarrow> bool" where
  "isTripActive path = starts_with_any [''/trip-manager'', ''/party-routes'', ''/playback'', ''/fleet''] path"

definition isConfigActive :: "string \<Rightarrow> bool" where
  "isConfigActive path =
     starts_with_any [''/control-panel'', ''/geofence-manager'', ''/location-manager'', ''/enable-feature''] path"

definition isManagerActive :: "string \<Rightarrow> bool" where
  "isManagerActive path =
     starts_with_any [''/asset-manager'', ''/complaint-manager'', ''/driver-manager'', ''/party-manager'',
       ''/trailor-master'', ''/truck-master'', ''/document-master'', ''/find-nearest-vehicle'', ''/show-nearest-places''] path"

record sidebar =
  tripOpen :: bool
  configOpen :: bool
  managerOpen :: bool

definition sidebar_initial :: "string \<Rightarrow> sidebar" where
  "sidebar_initial path =
     \<lparr>tripOpen = isTripActive path, configOpen = isConfigActive path, managerOpen = isManagerActive path\<rparr>"

definition trip_links :: "string list" where
  "trip_links = [''/trip-manager'', ''/party-routes'', ''/playback'']"

definition config_links :: "string list" where
  "config_links = [''/enable-feature'', ''/geofence-manager'', ''/location-manager'', ''/control-panel'']"

definition manager_links :: "string list" where
  "manager_links = [''/asset-manager'', ''/complaint-manager'', ''/driver-manager'', ''/find-nearest-vehicle'',
     ''/party-manager'', ''/show-nearest-places'', ''/trailor-master'', ''/truck-master'', ''/document-master'']"

definition sidebar_links :: "sidebar \<Rightarrow> string list" where
  "sidebar_links s =
     [''/live'', ''/dashboard''] @ (if tripOpen s then trip_links else []) @
     [''/alert'', ''/report'', ''/list-view''] @ (if configOpen s then config_links else []) @
     (if managerOpen s then manager_links else []) @ [''/settings'']"

subsection \<open>Header.tsx\<close>

record notification =
  nt_id :: jsval
  nt_title :: string
  nt_message :: string
  nt_time :: string
  nt_read :: bool

text \<open>How the browser shows the time of a time stamp is a parameter: \<open>None\<close> when it is no date.\<close>

definition formatAlertTime :: "(string \<Rightarrow> string option) \<Rightarrow> jsval \<Rightarrow> string" where
  "formatAlertTime clock a =
     (case str_field a ''time'' of
        Some t \<Rightarrow> if trim t \<noteq> [] then t
                  else (if truthy (jopt a ''timestamp'')
                        then (case clock (js_to_string (jopt a ''timestamp'')) of Some s \<Rightarrow> s | None \<Rightarrow> DASH) else DASH)
      | None \<Rightarrow> if truthy (jopt a ''timestamp'')
                then (case clock (js_to_string (jopt a ''timestamp'')) of Some s \<Rightarrow> s | None \<Rightarrow> DASH) else DASH)"

definition toUserNotification :: "(string \<Rightarrow> string option) \<Rightarrow> jsval \<Rightarrow> notification" where
  "toUserNotification clock a =
     \<lparr>nt_id = jopt a ''id'',
      nt_title = (if truthy (jopt a ''type'') then js_to_string (jopt a ''type'') else DASH),
      nt_message = (case str_field a ''message'' of None \<Rightarrow> DASH | Some m \<Rightarrow> m),
      nt_time = formatAlertTime clock a, nt_read = False\<rparr>"

record header =
  showNotifications :: bool
  notifications :: "notification list"
  userMenuOpen :: bool

definition header_initial :: header where
  "header_initial = \<lparr>showNotifications = False, notifications = [], userMenuOpen = False\<rparr>"

definition open_alerts :: "jsval list \<Rightarrow> jsval list" where
  "open_alerts rows = slice 0 5 (filter (\<lambda>a. \<not> truthy (jopt a ''acknowledged'')) rows)"

text \<open>A \<open>null\<close> answer, or a \<open>null\<close> row, throws before the list is set.\<close>

definition loadAlerts :: "(string \<Rightarrow> string option) \<Rightarrow> browser \<Rightarrow> header \<Rightarrow> browser \<times> header" where
  "loadAlerts clock w h =
     (let (w1, r) = fetchWithAuth w ''/api/v1/alerts'' GET
      in (w1, case r of
                Inl e \<Rightarrow> h
              | Inr res \<Rightarrow>
                  if \<not> res_ok res then h
                  else (case res_json res of
                     Inl e \<Rightarrow> h
                   | Inr json \<Rightarrow> (case jget json ''data'' of
                       Inl e \<Rightarrow> h
                     | Inr d \<Rightarrow>
                         (let rows = (case as_arr d of Some xs \<Rightarrow> xs | None \<Rightarrow> [])
                          in if list_ex nullish rows then h
                             else h\<lparr>notifications := map (toUserNotification clock) (open_alerts rows)\<rparr>)))))"

definition toggleNotifications :: "(string \<Rightarrow> string option) \<Rightarrow> browser \<Rightarrow> header \<Rightarrow> browser \<times> header" where
  "toggleNotifications clock w h =
     (let h1 = h\<lparr>showNotifications := \<not> showNotifications h\<rparr>
      in if showNotifications h1 then loadAlerts clock w h1 else (w, h1))"

definition acknowledgeAlert :: "jsval \<Rightarrow> browser \<Rightarrow> browser \<times> bool" where
  "acknowledgeAlert i w =
     (let (w1, r) = fetchWithAuth w (''/api/v1/alerts/'' @ js_to_string i @ ''/acknowledge'') (no_body ''PUT'')
      in (w1, case r of Inl e \<Rightarrow> False | Inr res \<Rightarrow> res_ok res))"

definition unreadCount :: "header \<Rightarrow> nat" where
  "unreadCount h = length (filter (\<lambda>n. \<not> nt_read n) (notifications h))"

definition markAllRead :: "browser \<Rightarrow> header \<Rightarrow> browser \<times> header" where
  "markAllRead w h =
     (let (w1, r) = fetchWithAuth w ''/api/v1/alerts/acknowledge-all'' (no_body ''POST'')
      in (w1, case r of Inl e \<Rightarrow> h | Inr res \<Rightarrow> if res_ok res then h\<lparr>notifications := []\<rparr> else h))"

definition markItemRead :: "jsval \<Rightarrow> browser \<Rightarrow> header \<Rightarrow> browser \<times> header" where
  "markItemRead i w h =
     (let (w1, ok) = acknowledgeAlert i w
      in (w1, if ok then h\<lparr>notifications := filter (\<lambda>n. nt_id n \<noteq> i) (notifications h)\<rparr> else h))"

definition handleLogout :: "browser \<times> vehicle_state \<Rightarrow> browser \<times> vehicle_state" where
  "handleLogout ws = (navigate ''/login'' (logout (fst ws)), clearVehicles (snd ws))"

text \<open>The first character of a text: a byte with its continuation bytes.\<close>

definition first_char :: "string \<Rightarrow> string" where
  "first_char s =
     (case s of
        [] \<Rightarrow> []
      | c # cs \<Rightarrow> c # takeWhile (\<lambda>d. 128 \<le> (of_char d :: nat) \<and> (of_char d :: nat) < 192) cs)"

definition userDisplayName :: "jsval \<Rightarrow> string" where
  "userDisplayName u = js_to_string (js_or (jopt u ''full_name'') (js_or (jopt u ''username'') (JStr DASH)))"

definition userInitials :: "jsval \<Rightarrow> string" where
  "userInitials u =
     (let parts = filter (\<lambda>s. s \<noteq> []) (split_on (CHR '' '') (userDisplayName u));
          t = toUpperCase (concat (take 2 (map first_char parts)))
      in if t = [] then DASH else t)"

definition userRole :: "jsval \<Rightarrow> string" where
  "userRole u =
     (case str_field u ''role'' of
        Some (c # r) \<Rightarrow> upper_char c # r
      | _ \<Rightarrow> DASH)"

subsection \<open>Facts\<close>

definition first_match :: "route list \<Rightarrow> string \<Rightarrow> element" where
  "first_match tbl path = (case map_of tbl path of Some e \<Rightarrow> e | None \<Rightarrow> the (map_of tbl ''*''))"

lemma first_match_exact: "map_of route_table p = Some e \<Longrightarrow> first_match route_table p = e"
  by (simp add: first_match_def)

lemma first_match_total: "first_match route_table path \<in> snd ` set route_table"
proof (cases "map_of route_table path")
  case None
  then show ?thesis by (simp add: first_match_def route_defs)
next
  case (Some e)
  then show ?thesis using map_of_SomeD [OF Some] by (force simp: first_match_def)
qed

lemma table_redirects: "Navigate t \<in> snd ` set route_table \<Longrightarrow> t = ''/live''"
  by (auto simp: route_defs)

lemma table_live: "map_of route_table ''/live'' = Some (Guarded (LivePage None))"
  "map_of route_table ''/login'' = Some LoginElement"
  by (simp_all add: route_defs)

lemma denied_without_session:
  "\<not> ls_blocked w \<Longrightarrow> \<not> isAuthenticated (auth w) \<Longrightarrow> layout_allows w = Inr False"
  by (simp add: layout_allows_def layout_token_def getItem_def)

lemma shell_send [intro]:
  "adds_only scoped_request w (fst (layout_effect w s))"
  "adds_only tenant_request w (fst (loadAlerts clock w h))" "adds_only tenant_request w (fst (toggleNotifications clock w h))"
  "adds_only tenant_request w (fst (markAllRead w h))" "adds_only tenant_request w (fst (markItemRead i w h))"
  "sent (fst (handleLogout (w, s))) = sent w"
proof -
  show "adds_only scoped_request w (fst (layout_effect w s))"
    by (auto simp: layout_effect_def Let_def split: sum.splits)
  show load: "adds_only tenant_request w (fst (loadAlerts clock w h))" for h
    by (simp add: loadAlerts_def split_beta Let_def client_sends(2))
  show "adds_only tenant_request w (fst (toggleNotifications clock w h))"
    by (simp add: toggleNotifications_def Let_def load)
  show "adds_only tenant_request w (fst (markAllRead w h))" "adds_only tenant_request w (fst (markItemRead i w h))"
    by (simp_all add: markAllRead_def markItemRead_def acknowledgeAlert_def split_beta Let_def client_sends(2))
  show "sent (fst (handleLogout (w, s))) = sent w" by (simp add: handleLogout_def navigate_def)
qed

subsection \<open>Properties\<close>



text \<open>C30: with a session every address leads to a page, and a listed path to the page of its first entry;
  the second entry for \<open>/vehicles\<close>, a redirect, is therefore never used.\<close>

theorem session_reaches_pages:
  assumes exact: "\<And>p e. map_of route_table p = Some e \<Longrightarrow> match route_table p = e"
    and any: "\<And>p. match route_table p \<in> snd ` set route_table"
    and allowed: "layout_allows w = Inr True"
  shows "(case map_of route_table path of
            Some (Guarded pg) \<Rightarrow> show_screen 3 match w path = Some (Inside pg)
          | _ \<Rightarrow> show_screen 3 match w path \<noteq> None)
       \<and> show_screen 3 match w ''/vehicles'' = Some (Inside (LivePage None))"
proof -
  have live: "show_screen (Suc n) match w ''/live'' = Some (Inside (LivePage None))" for n
    using exact [OF table_live(1)] allowed by simp
  have redirect: "match route_table p = Navigate t \<Longrightarrow> t = ''/live''" for p t
    using table_redirects any [of p] by metis
  have total: "show_screen 3 match w p \<noteq> None" for p
    using live redirect [of p] allowed by (cases "match route_table p") (auto simp: numeral_3_eq_3)
  have hit: "show_screen 3 match w p = Some (Inside pg)" if "map_of route_table p = Some (Guarded pg)" for p pg
    using exact [OF that] allowed by (simp add: numeral_3_eq_3)
  have "map_of route_table ''/vehicles'' = Some (Guarded (LivePage None))"
    by (simp add: route_defs)
  from hit [OF this] show ?thesis
    using total [of path] hit [of path] by (auto split: option.splits element.splits)
qed

theorem session_reaches_pages_witness:
  "show_screen 3 first_match (demo_session offline_net) ''/vehicles'' = Some (Inside (LivePage None))"
proof -
  have a: "layout_allows (demo_session offline_net) = Inr True"
    by (simp add: layout_allows_def layout_token_def demo_session_def)
  show ?thesis
    using session_reaches_pages [of first_match, OF first_match_exact first_match_total a] by blast
qed

text \<open>C31: the menu leads somewhere: every link the sidebar can show is a path of the table with a guarded
  page and a title of its own, and the group of a link is open after loading that link's page.\<close>

theorem sidebar_links_resolve:
  "list_all (\<lambda>l. (\<exists>pg. map_of route_table l = Some (Guarded pg)) \<and> map_of routeTitles l \<noteq> None) (sidebar_links sb)
   \<and> list_all (\<lambda>l. l \<in> set (sidebar_links (sidebar_initial l))) (trip_links @ config_links @ manager_links)"
proof
  show "list_all (\<lambda>l. (\<exists>pg. map_of route_table l = Some (Guarded pg)) \<and> map_of routeTitles l \<noteq> None) (sidebar_links sb)"
    by (simp add: sidebar_links_def trip_links_def config_links_def manager_links_def route_defs routeTitles_def)
  show "list_all (\<lambda>l. l \<in> set (sidebar_links (sidebar_initial l))) (trip_links @ config_links @ manager_links)"
    by (simp add: sidebar_links_def sidebar_initial_def trip_links_def config_links_def manager_links_def
        isTripActive_def isConfigActive_def isManagerActive_def starts_with_any_def)
qed

text \<open>Signing out from the header leaves nothing behind: the address is the login page, the fleet and the
  selection are empty, the guard refuses every page, and a reload finds no session.\<close>

theorem header_logout_complete:
  assumes "\<not> ls_blocked w"
  shows "let (w', s') = handleLogout (w, s)
         in pathname (loc w') = ''/login'' \<and> vehicles s' = [] \<and> selectedDeviceId s' = JNull
            \<and> layout_allows w' = Inr False \<and> auth (reload w') = signed_out"
proof -
  have "layout_allows (navigate ''/login'' (logout w)) = Inr False"
    by (rule denied_without_session) (use assms in \<open>simp_all add: navigate_def\<close>)
  moreover have "storage (navigate ''/login'' (logout w)) = storage (logout w)" by (simp add: navigate_def)
  ultimately show ?thesis
    using assms logout_storage [OF assms]
    by (simp add: handleLogout_def navigate_def clearVehicles_def reload_def getInitialAuth_def getItem_def
        str_truthy_def)
qed

theorem header_logout_complete_witness:
  "layout_allows (fst (handleLogout (demo_session offline_net, initial_vehicle_state))) = Inr False"
proof -
  have "\<not> ls_blocked (demo_session offline_net)" by (simp add: demo_session_def fresh_browser_def)
  from header_logout_complete [OF this, of initial_vehicle_state] show ?thesis by (simp add: split_beta Let_def)
qed

end
