(* ===== verification/Js_Date.thy ===== *)
theory Js_Date
  imports Js_Prelude
begin

section \<open>Dates\<close>

text \<open>
  A \<open>Date\<close> is its time value: milliseconds since 1970 in UTC, an \<open>int\<close>. The calendar is computed by
  counting: 400 years always have 146097 days, and inside such a cycle the years and then the months are
  walked through. \<open>toISOString\<close> and the parser for the ISO format are inverse to each other. For any other
  text \<open>new Date(text)\<close> is up to the JavaScript engine and its time zone: that part is a parameter.
\<close>

subsection \<open>Walking through intervals\<close>

text \<open>The interval that contains the \<open>d\<close>-th unit, and the offset inside it.\<close>

fun locate :: "nat list \<Rightarrow> nat \<Rightarrow> nat \<times> nat" where
  "locate [] d = (0, d)"
| "locate (l # ls) d = (if d < l then (0, d) else let (i, r) = locate ls (d - l) in (Suc i, r))"

lemma locate_sound:
  "d < sum_list ls \<Longrightarrow> case locate ls d of (i, r) \<Rightarrow> i < length ls \<and> r < ls ! i \<and> sum_list (take i ls) + r = d"
proof (induction ls arbitrary: d)
  case (Cons l ls)
  show ?case
  proof (cases "d < l")
    case False
    then have "d - l < sum_list ls" using Cons.prems by simp
    from Cons.IH [OF this] False show ?thesis by (auto simp: split_beta Let_def)
  qed simp
qed simp

lemma locate_unique: "i < length ls \<Longrightarrow> r < ls ! i \<Longrightarrow> locate ls (sum_list (take i ls) + r) = (i, r)"
  by (induction ls arbitrary: i) (auto simp: less_Suc_eq_0_disj split: prod.splits)

subsection \<open>The calendar\<close>

definition leap :: "int \<Rightarrow> bool" where
  "leap y = (y mod 4 = 0 \<and> y mod 100 \<noteq> 0 \<or> y mod 400 = 0)"

definition year_days :: "int \<Rightarrow> nat" where
  "year_days y = (if leap y then 366 else 365)"

definition month_days :: "int \<Rightarrow> nat list" where
  "month_days y = [31, if leap y then 29 else 28, 31, 30, 31, 30, 31, 31, 30, 31, 30, 31]"

definition cycle_years :: "nat list" where
  "cycle_years = map (\<lambda>i. year_days (1970 + int i)) [0..<400]"

definition CYCLE :: nat where
  "CYCLE = 146097"

definition civil_of_days :: "int \<Rightarrow> int \<times> nat \<times> nat" where
  "civil_of_days d =
     (let c = d div int CYCLE;
          (yi, doy) = locate cycle_years (nat (d mod int CYCLE));
          y = 1970 + 400 * c + int yi;
          (mi, dm) = locate (month_days y) doy
      in (y, mi + 1, dm + 1))"

definition days_of_civil :: "int \<Rightarrow> nat \<Rightarrow> nat \<Rightarrow> int" where
  "days_of_civil y m d =
     (let c = (y - 1970) div 400; yi = nat ((y - 1970) mod 400)
      in int CYCLE * c + int (sum_list (take yi cycle_years) + sum_list (take (m - 1) (month_days y)) + (d - 1)))"

lemma length_cycle_years [simp]: "length cycle_years = 400"
  by (simp add: cycle_years_def)

lemma length_month_days [simp]: "length (month_days y) = 12"
  by (simp add: month_days_def)

text \<open>Leap years before \<open>y\<close>; a closed form for the day count of consecutive years.\<close>

definition leaps_before :: "int \<Rightarrow> int" where
  "leaps_before y = (y - 1) div 4 - (y - 1) div 100 + (y - 1) div 400"

lemma div_step:
  fixes y k :: int
  assumes "0 < k"
  shows "y div k = (y - 1) div k + (if y mod k = 0 then 1 else 0)"
proof -
  define q r where "q = (y - 1) div k" and "r = (y - 1) mod k"
  have "y - 1 = k * q + r" by (simp add: q_def r_def)
  then have y: "y = k * q + (r + 1)" and r: "0 \<le> r" "r < k" using assms by (simp_all add: r_def)
  show ?thesis
  proof (cases "r + 1 = k")
    case True
    then have "y = k * (q + 1)" using y by (simp add: algebra_simps)
    then have "y div k = q + 1" "y mod k = 0" using assms by simp_all
    then show ?thesis by (simp add: q_def)
  next
    case False
    then have "y div k = q" "y mod k = r + 1"
      using y r by (simp_all add: div_pos_pos_trivial mod_pos_pos_trivial)
    with r show ?thesis by (simp add: q_def)
  qed
qed

lemma leaps_step: "leaps_before (y + 1) = leaps_before y + (if leap y then 1 else 0)"
proof -
  let ?i = "\<lambda>k. if y mod k = 0 then 1 else (0::int)"
  have imp: "y mod 4 = 0" if "y mod 100 = 0"
    using that mod_mod_cancel [of 4 100 y] by simp
  have imp': "y mod 100 = 0" if "y mod 400 = 0"
    using that mod_mod_cancel [of 100 400 y] by simp
  have sums: "?i 4 - ?i 100 + ?i 400 = (if leap y then 1 else 0)"
    unfolding leap_def using imp imp' by (cases "y mod 4 = 0"; cases "y mod 100 = 0"; cases "y mod 400 = 0") simp_all
  have split: "(a + i) - (b + j) + (c + k) = (a - b + c) + (i - j + k)" for a b c i j k :: int by simp
  have "leaps_before (y + 1) = y div 4 - y div 100 + y div 400"
    by (simp add: leaps_before_def)
  also have "\<dots> = ((y - 1) div 4 + ?i 4) - ((y - 1) div 100 + ?i 100) + ((y - 1) div 400 + ?i 400)"
    by (subst div_step [of 4 y], simp, subst div_step [of 100 y], simp, subst div_step [of 400 y], simp, rule refl)
  finally show ?thesis unfolding split sums leaps_before_def .
qed

lemma sum_years:
  "int (sum_list (map (\<lambda>i. year_days (y + int i)) [0..<n])) = 365 * int n + leaps_before (y + int n) - leaps_before y"
proof (induction n)
  case (Suc n)
  have "y + int (Suc n) = (y + int n) + 1" by simp
  then have "leaps_before (y + int (Suc n)) = leaps_before (y + int n) + (if leap (y + int n) then 1 else 0)"
    using leaps_step [of "y + int n"] by (simp only:)
  with Suc show ?case by (simp add: year_days_def)
qed simp

lemma sum_cycle_years: "sum_list cycle_years = CYCLE"
proof -
  have "int (sum_list cycle_years) = int CYCLE"
    unfolding cycle_years_def sum_years by (simp add: leaps_before_def CYCLE_def)
  then show ?thesis by (simp only: of_nat_eq_iff)
qed

lemma sum_month_days: "sum_list (month_days y) = year_days y"
  by (simp add: month_days_def year_days_def)

lemma leap_period: "leap (y + 400 * c) = leap y"
proof -
  have "(y + 400 * c) mod 4 = y mod 4" "(y + 400 * c) mod 100 = y mod 100" "(y + 400 * c) mod 400 = y mod 400"
    using mod_mult_self1 [of y "100 * c" 4] mod_mult_self1 [of y "4 * c" 100] by (simp_all add: mult.assoc)
  then show ?thesis by (simp add: leap_def)
qed

lemma cycle_nth: "i < 400 \<Longrightarrow> cycle_years ! i = year_days (1970 + 400 * c + int i)"
  using leap_period [of "1970 + int i" c] by (simp add: cycle_years_def year_days_def add.assoc add.commute add.left_commute)

text \<open>The civil date of a day is a real date, and counting its days gives the day back.\<close>

lemma civil_of_days_sound:
  assumes "civil_of_days d = (y, m, dm)"
  shows "1 \<le> m \<and> m \<le> 12 \<and> 1 \<le> dm \<and> dm \<le> month_days y ! (m - 1) \<and> days_of_civil y m dm = d"
proof -
  define c where "c = d div int CYCLE"
  define r where "r = nat (d mod int CYCLE)"
  have pos: "0 < int CYCLE" by (simp add: CYCLE_def)
  have r: "r < sum_list cycle_years" "int r = d mod int CYCLE"
    using pos by (simp_all add: r_def sum_cycle_years nat_less_iff)
  obtain yi doy where yl: "locate cycle_years r = (yi, doy)" by fastforce
  with locate_sound [OF r(1)] have yi: "yi < 400" "doy < cycle_years ! yi" "sum_list (take yi cycle_years) + doy = r"
    by auto
  have y: "y = 1970 + 400 * c + int yi" and ml: "locate (month_days y) doy = (m - 1, dm - 1)" and p: "1 \<le> m" "1 \<le> dm"
    using assms yl by (auto simp: civil_of_days_def Let_def c_def r_def split: prod.splits)
  have "doy < sum_list (month_days y)"
    using yi(1,2) cycle_nth [OF yi(1), of c] by (simp add: sum_month_days y)
  from locate_sound [OF this] ml
  have mi: "m - 1 < 12" "dm - 1 < month_days y ! (m - 1)" "sum_list (take (m - 1) (month_days y)) + (dm - 1) = doy"
    by auto
  have cy: "(y - 1970) div 400 = c" "(y - 1970) mod 400 = int yi"
    using yi(1) by (simp_all add: y)
  have "days_of_civil y m dm = int CYCLE * c + int (sum_list (take yi cycle_years) + doy)"
    using mi(3) by (simp add: days_of_civil_def Let_def cy)
  also have "\<dots> = int CYCLE * c + d mod int CYCLE" using yi(3) r(2) by simp
  also have "\<dots> = d" by (simp add: c_def)
  finally show ?thesis using p mi by auto
qed

text \<open>And every real date is the civil date of its day count.\<close>

lemma civil_of_days_of:
  assumes "1 \<le> m" "m \<le> 12" "1 \<le> dm" "dm \<le> month_days y ! (m - 1)"
  shows "civil_of_days (days_of_civil y m dm) = (y, m, dm)"
proof -
  define c where "c = (y - 1970) div 400"
  define yi where "yi = nat ((y - 1970) mod 400)"
  define doy where "doy = sum_list (take (m - 1) (month_days y)) + (dm - 1)"
  have yi: "yi < 400" "y = 1970 + 400 * c + int yi"
    using pos_mod_bound [of 400 "y - 1970"] by (auto simp: yi_def c_def nat_less_iff)
  have ml: "locate (month_days y) doy = (m - 1, dm - 1)"
    unfolding doy_def by (rule locate_unique) (use assms in auto)
  have "doy < sum_list (month_days y)"
  proof -
    have "sum_list (month_days y) = sum_list (take (m - 1) (month_days y)) + sum_list (drop (m - 1) (month_days y))"
      by (metis append_take_drop_id sum_list_append)
    moreover have "month_days y ! (m - 1) \<le> sum_list (drop (m - 1) (month_days y))"
      using assms(2) by (subst Cons_nth_drop_Suc [symmetric]) auto
    ultimately show ?thesis using assms(3,4) by (simp add: doy_def)
  qed
  then have doy: "doy < cycle_years ! yi" using cycle_nth [OF yi(1), of c] by (simp add: sum_month_days yi(2))
  have yl: "locate cycle_years (sum_list (take yi cycle_years) + doy) = (yi, doy)"
    by (rule locate_unique) (use yi(1) doy in auto)
  have "sum_list (take yi cycle_years) + doy < CYCLE"
  proof -
    have "sum_list cycle_years = sum_list (take yi cycle_years) + sum_list (drop yi cycle_years)"
      by (metis append_take_drop_id sum_list_append)
    moreover have "cycle_years ! yi \<le> sum_list (drop yi cycle_years)"
      using yi(1) by (subst Cons_nth_drop_Suc [symmetric]) auto
    ultimately show ?thesis using doy by (simp add: sum_cycle_years)
  qed
  then have "(int CYCLE * c + int (sum_list (take yi cycle_years) + doy)) div int CYCLE = c"
    "nat ((int CYCLE * c + int (sum_list (take yi cycle_years) + doy)) mod int CYCLE) = sum_list (take yi cycle_years) + doy"
    by (simp_all add: CYCLE_def)
  moreover have "days_of_civil y m dm = int CYCLE * c + int (sum_list (take yi cycle_years) + doy)"
    by (simp add: days_of_civil_def Let_def c_def yi_def doy_def)
  ultimately show ?thesis
    using yl ml assms by (simp add: civil_of_days_def Let_def flip: yi(2))
qed

lemma days_closed:
  assumes "1970 \<le> y" "y < 2370"
  shows "days_of_civil y m d =
    365 * (y - 1970) + leaps_before y - leaps_before 1970 + int (sum_list (take (m - 1) (month_days y)) + (d - 1))"
proof -
  have c: "(y - 1970) div 400 = 0" "(y - 1970) mod 400 = y - 1970"
    using assms by (simp_all add: div_pos_pos_trivial mod_pos_pos_trivial)
  have "take (nat (y - 1970)) cycle_years = map (\<lambda>i. year_days (1970 + int i)) [0..<nat (y - 1970)]"
    using assms by (simp add: cycle_years_def take_map)
  then have "int (sum_list (take (nat (y - 1970)) cycle_years)) = 365 * (y - 1970) + leaps_before y - leaps_before 1970"
    using sum_years [of 1970 "nat (y - 1970)"] assms by simp
  then show ?thesis by (simp add: days_of_civil_def Let_def c)
qed

lemma civil_19675: "civil_of_days 19675 = (2023, 11, 14)"
proof -
  have "days_of_civil 2023 11 14 = 19675"
    by (simp add: days_closed leaps_before_def month_days_def leap_def eval_nat_numeral)
  then show ?thesis using civil_of_days_of [of 11 14 2023] by (simp add: month_days_def eval_nat_numeral)
qed

subsection \<open>ISO texts\<close>

definition DAY_MS :: int where
  "DAY_MS = 86400000"

definition pad :: "nat \<Rightarrow> nat \<Rightarrow> string" where
  "pad k n = padStart0 k (nat_to_string n)"

definition year_text :: "int \<Rightarrow> string" where
  "year_text y =
     (if 0 \<le> y \<and> y \<le> 9999 then pad 4 (nat y) else (if y < 0 then ''-'' else ''+'') @ pad 6 (nat \<bar>y\<bar>))"

definition time_of_day :: "int \<Rightarrow> nat" where
  "time_of_day ms = nat (ms mod DAY_MS)"

definition getUTCHours :: "int \<Rightarrow> nat" where
  "getUTCHours ms = time_of_day ms div 3600000"

definition getUTCMinutes :: "int \<Rightarrow> nat" where
  "getUTCMinutes ms = time_of_day ms div 60000 mod 60"

definition getUTCSeconds :: "int \<Rightarrow> nat" where
  "getUTCSeconds ms = time_of_day ms div 1000 mod 60"

definition iso_date :: "int \<Rightarrow> string" where
  "iso_date ms = (let (y, m, d) = civil_of_days (ms div DAY_MS) in year_text y @ ''-'' @ pad 2 m @ ''-'' @ pad 2 d)"

definition iso_time :: "int \<Rightarrow> string" where
  "iso_time ms = pad 2 (getUTCHours ms) @ '':'' @ pad 2 (getUTCMinutes ms) @ '':'' @ pad 2 (getUTCSeconds ms)"

definition toISOString :: "int \<Rightarrow> string" where
  "toISOString ms = iso_date ms @ ''T'' @ iso_time ms @ ''.'' @ pad 3 (time_of_day ms mod 1000) @ ''Z''"

fun iso_ymd :: "string \<Rightarrow> ((nat \<times> nat \<times> nat) \<times> string) option" where
  "iso_ymd (a # b # c # d # x # e # f # y # g # h # rest) =
     (if list_all is_digit [a, b, c, d, e, f, g, h] \<and> x = CHR ''-'' \<and> y = CHR ''-''
      then Some ((digits_val [a, b, c, d], digits_val [e, f], digits_val [g, h]), rest) else None)"
| "iso_ymd _ = None"

fun iso_hms :: "string \<Rightarrow> ((nat \<times> nat \<times> nat) \<times> string) option" where
  "iso_hms (a # b # x # c # d # y # e # f # rest) =
     (if list_all is_digit [a, b, c, d, e, f] \<and> x = CHR '':'' \<and> y = CHR '':''
      then Some ((digits_val [a, b], digits_val [c, d], digits_val [e, f]), rest) else None)"
| "iso_hms _ = None"

definition iso_fraction :: "string \<Rightarrow> nat \<times> string" where
  "iso_fraction s =
     (if prefix ''.'' s \<and> takeWhile is_digit (tl s) \<noteq> []
      then (digits_val (take 3 (takeWhile is_digit (tl s) @ ''000'')), dropWhile is_digit (tl s)) else (0, s))"

text \<open>The offset in minutes of \<open>Z\<close>, \<open>+hh:mm\<close> and \<open>-hh:mm\<close>.\<close>

definition iso_zone :: "string \<Rightarrow> int option" where
  "iso_zone s =
     (case s of
        [z] \<Rightarrow> if z = CHR ''Z'' then Some 0 else None
      | [g, a, b, x, c, d] \<Rightarrow>
          if (g = CHR ''+'' \<or> g = CHR ''-'') \<and> x = CHR '':'' \<and> list_all is_digit [a, b, c, d]
          then Some ((if g = CHR ''-'' then - 1 else 1) * int (60 * digits_val [a, b] + digits_val [c, d])) else None
      | _ \<Rightarrow> None)"

definition date_ok :: "nat \<Rightarrow> nat \<Rightarrow> nat \<Rightarrow> bool" where
  "date_ok y m d = (1 \<le> m \<and> m \<le> 12 \<and> 1 \<le> d \<and> d \<le> month_days (int y) ! (m - 1))"

definition iso_parse :: "string \<Rightarrow> int option" where
  "iso_parse s =
     (case iso_ymd s of
        None \<Rightarrow> None
      | Some ((y, m, d), rest) \<Rightarrow>
          if \<not> date_ok y m d then None
          else (let day = days_of_civil (int y) m d * DAY_MS
                in case rest of
                     [] \<Rightarrow> Some day
                   | t # r \<Rightarrow>
                       if t \<noteq> CHR ''T'' then None
                       else (case iso_hms r of
                          None \<Rightarrow> None
                        | Some ((h, mi, sec), r') \<Rightarrow>
                            if 24 \<le> h \<or> 60 \<le> mi \<or> 60 \<le> sec then None
                            else (let (ms, z) = iso_fraction r'
                                  in map_option (\<lambda>off. day + int (((h * 60 + mi) * 60 + sec) * 1000 + ms) - off * 60000)
                                       (iso_zone z)))))"

text \<open>\<open>new Date(text).getTime()\<close>, with what the engine makes of other texts as a parameter (\<open>None\<close> is NaN).\<close>

definition Date_parse :: "(string \<Rightarrow> int option) \<Rightarrow> string \<Rightarrow> int option" where
  "Date_parse other s = (case iso_parse s of Some ms \<Rightarrow> Some ms | None \<Rightarrow> other s)"

lemma pad_list:
  assumes "n < 10 ^ k" "0 < k"
  shows "length (pad k n) = k" "list_all is_digit (pad k n)" "digits_val (pad k n) = n"
  using assms by (simp_all add: pad_def length_pad pad_digits)

lemma pad2_eq: "n < 100 \<Longrightarrow> \<exists>a b. pad 2 n = [a, b] \<and> is_digit a \<and> is_digit b \<and> digits_val [a, b] = n"
  using pad_list [of n 2] by (auto simp: length_Suc_conv numeral_2_eq_2)

lemma pad3_eq: "n < 1000 \<Longrightarrow> \<exists>a b c. pad 3 n = [a, b, c] \<and> is_digit a \<and> is_digit b \<and> is_digit c \<and> digits_val [a, b, c] = n"
  using pad_list [of n 3] by (auto simp: length_Suc_conv numeral_3_eq_3)

lemma pad4_eq:
  "n < 10000 \<Longrightarrow>
   \<exists>a b c d. pad 4 n = [a, b, c, d] \<and> is_digit a \<and> is_digit b \<and> is_digit c \<and> is_digit d \<and> digits_val [a, b, c, d] = n"
proof -
  assume "n < 10000"
  then have p: "length (pad 4 n) = 4" "list_all is_digit (pad 4 n)" "digits_val (pad 4 n) = n"
    using pad_list [of n 4] by simp_all
  then obtain a b c d where "pad 4 n = [a, b, c, d]"
    by (cases "pad 4 n" rule: list.exhaust; cases "tl (pad 4 n)"; cases "tl (tl (pad 4 n))"; cases "tl (tl (tl (pad 4 n)))") auto
  with p show ?thesis by auto
qed

lemma iso_ymd_text:
  assumes "y < 10000" "m < 100" "d < 100"
  shows "iso_ymd (pad 4 y @ ''-'' @ pad 2 m @ ''-'' @ pad 2 d @ rest) = Some ((y, m, d), rest)"
proof -
  obtain a b c e where "pad 4 y = [a, b, c, e]" "is_digit a" "is_digit b" "is_digit c" "is_digit e"
    "digits_val [a, b, c, e] = y" using pad4_eq [OF assms(1)] by blast
  moreover obtain f g where "pad 2 m = [f, g]" "is_digit f" "is_digit g" "digits_val [f, g] = m"
    using pad2_eq [OF assms(2)] by blast
  moreover obtain h i where "pad 2 d = [h, i]" "is_digit h" "is_digit i" "digits_val [h, i] = d"
    using pad2_eq [OF assms(3)] by blast
  ultimately show ?thesis by simp
qed

lemma iso_hms_text:
  assumes "h < 100" "m < 100" "s < 100"
  shows "iso_hms (pad 2 h @ '':'' @ pad 2 m @ '':'' @ pad 2 s @ rest) = Some ((h, m, s), rest)"
proof -
  obtain a b where "pad 2 h = [a, b]" "is_digit a" "is_digit b" "digits_val [a, b] = h"
    using pad2_eq [OF assms(1)] by blast
  moreover obtain f g where "pad 2 m = [f, g]" "is_digit f" "is_digit g" "digits_val [f, g] = m"
    using pad2_eq [OF assms(2)] by blast
  moreover obtain e i where "pad 2 s = [e, i]" "is_digit e" "is_digit i" "digits_val [e, i] = s"
    using pad2_eq [OF assms(3)] by blast
  ultimately show ?thesis by simp
qed

lemma iso_fraction_text: "n < 1000 \<Longrightarrow> iso_fraction (''.'' @ pad 3 n @ ''Z'') = (n, ''Z'')"
  using pad3_eq [of n] by (auto simp: iso_fraction_def is_digit_def)

lemma time_parts:
  "getUTCHours ms < 24" "getUTCMinutes ms < 60" "getUTCSeconds ms < 60" "time_of_day ms mod 1000 < 1000"
  "((getUTCHours ms * 60 + getUTCMinutes ms) * 60 + getUTCSeconds ms) * 1000 + time_of_day ms mod 1000 = time_of_day ms"
proof -
  have "time_of_day ms < 86400000"
    using pos_mod_bound [of DAY_MS ms] by (simp add: time_of_day_def DAY_MS_def nat_less_iff)
  then show "getUTCHours ms < 24" by (simp add: getUTCHours_def less_mult_imp_div_less)
  show "getUTCMinutes ms < 60" "getUTCSeconds ms < 60" "time_of_day ms mod 1000 < 1000"
    by (simp_all add: getUTCMinutes_def getUTCSeconds_def)
  define t where "t = time_of_day ms"
  have "t div 60000 = t div 1000 div 60" "t div 3600000 = t div 60000 div 60"
    by (simp_all add: div_mult2_eq [symmetric])
  then have "(t div 3600000 * 60 + t div 60000 mod 60) = t div 60000" "t div 60000 * 60 + t div 1000 mod 60 = t div 1000"
    by simp_all
  then show "((getUTCHours ms * 60 + getUTCMinutes ms) * 60 + getUTCSeconds ms) * 1000 + time_of_day ms mod 1000 = time_of_day ms"
    by (simp add: getUTCHours_def getUTCMinutes_def getUTCSeconds_def flip: t_def)
qed

definition year_of :: "int \<Rightarrow> int" where
  "year_of ms = fst (civil_of_days (ms div DAY_MS))"

text \<open>The ISO text of a time reads back as that time, and its date and time parts as the whole second.\<close>

lemma iso_roundtrip:
  assumes "0 \<le> year_of ms" "year_of ms \<le> 9999"
  shows "iso_parse (toISOString ms) = Some ms"
    and "iso_parse (iso_date ms @ ''T'' @ iso_time ms @ ''Z'') = Some (ms - ms mod 1000)"
    and "length (iso_date ms) = 10" and "length (iso_time ms) = 8"
proof -
  obtain y m d where c: "civil_of_days (ms div DAY_MS) = (y, m, d)" by (metis prod_cases3)
  from civil_of_days_sound [OF c]
  have md: "1 \<le> m" "m \<le> 12" "1 \<le> d" "d \<le> month_days y ! (m - 1)" "days_of_civil y m d = ms div DAY_MS" by auto
  have y: "0 \<le> y" "y \<le> 9999" using assms c by (simp_all add: year_of_def)
  have "month_days y ! (m - 1) \<le> 31"
  proof -
    have "month_days y ! (m - 1) \<in> set (month_days y)" using md(1,2) by (intro nth_mem) simp
    then show ?thesis by (auto simp: month_days_def split: if_splits)
  qed
  then have d: "d < 100" using md(4) by simp
  have ok: "date_ok (nat y) m d" using md y by (simp add: date_ok_def)
  have date: "iso_date ms = pad 4 (nat y) @ ''-'' @ pad 2 m @ ''-'' @ pad 2 d"
    using y by (simp add: iso_date_def c year_text_def)
  have ymd: "iso_ymd (iso_date ms @ rest) = Some ((nat y, m, d), rest)" for rest
    using iso_ymd_text [of "nat y" m d rest] y md d by (simp add: date)
  have hms: "iso_hms (iso_time ms @ rest) = Some ((getUTCHours ms, getUTCMinutes ms, getUTCSeconds ms), rest)" for rest
    using iso_hms_text [of "getUTCHours ms" "getUTCMinutes ms" "getUTCSeconds ms" rest] time_parts(1-3) [of ms]
    by (simp add: iso_time_def)
  have day: "ms div DAY_MS * DAY_MS + int (time_of_day ms) = ms"
    by (simp add: time_of_day_def DAY_MS_def)
  have sec: "int (time_of_day ms mod 1000) = ms mod 1000"
  proof -
    have "int (time_of_day ms) mod 1000 = ms mod DAY_MS mod 1000" by (simp add: time_of_day_def DAY_MS_def)
    also have "\<dots> = ms mod 1000" by (rule mod_mod_cancel) (simp add: DAY_MS_def)
    finally show ?thesis by (simp add: zmod_int)
  qed
  note t = time_parts [of ms]
  have nt: "\<not> (24 \<le> getUTCHours ms \<or> 60 \<le> getUTCMinutes ms \<or> 60 \<le> getUTCSeconds ms)" using t(1-3) by auto
  have tod: "int (((getUTCHours ms * 60 + getUTCMinutes ms) * 60 + getUTCSeconds ms) * 1000 + time_of_day ms mod 1000)
      = int (time_of_day ms)" by (simp only: t(5))
  show "iso_parse (toISOString ms) = Some ms"
    unfolding toISOString_def iso_parse_def ymd using ok nt md(5) y iso_fraction_text [OF t(4)] hms tod day
    by (simp add: iso_zone_def Let_def)
  have "int (((getUTCHours ms * 60 + getUTCMinutes ms) * 60 + getUTCSeconds ms) * 1000)
      = int (time_of_day ms) - ms mod 1000" using tod sec by linarith
  moreover have "iso_fraction ''Z'' = (0, ''Z'')" by (simp add: iso_fraction_def)
  ultimately show "iso_parse (iso_date ms @ ''T'' @ iso_time ms @ ''Z'') = Some (ms - ms mod 1000)"
    unfolding iso_parse_def ymd using ok nt md(5) y hms day
    by (simp add: iso_zone_def Let_def)
  show "length (iso_date ms) = 10" "length (iso_time ms) = 8"
    using y md d t(1-3) pad_list(1) [of "nat y" 4] pad_list(1) [of _ 2] by (simp_all add: date iso_time_def)
qed

end
