(* ===== verification/Telemetry.thy ===== *)
theory Telemetry
  imports Page_Kit Vehicle_Store Js_Date
begin

section \<open>The telemetry modal: \<open>TeltonikaDetailsModal.tsx\<close>\<close>

text \<open>
  The vehicle passed to the modal is untyped in the source and is a \<open>jsval\<close> here. The engine's reading
  of non-ISO dates (\<open>other\<close>), the clock (\<open>now\<close>) and the locale's number and date texts are parameters.
\<close>

subsection \<open>Reading values\<close>

definition LOGS_POLL_MS :: nat where "LOGS_POLL_MS = 60000"

definition MIN_LOGS_LIMIT :: nat where "MIN_LOGS_LIMIT = 60"

definition numOrNull :: "jsval \<Rightarrow> real option" where
  "numOrNull v =
     (case v of
        JNum x \<Rightarrow> Some x
      | JStr s \<Rightarrow> if trim s \<noteq> [] then (case toNumber s of Fin x \<Rightarrow> Some x | _ \<Rightarrow> None) else None
      | _ \<Rightarrow> None)"

definition textOrNull :: "jsval \<Rightarrow> string option" where
  "textOrNull v = (case v of JStr s \<Rightarrow> if trim s \<noteq> [] then Some s else None | _ \<Rightarrow> None)"

text \<open>\<open>x % k\<close> for a non-negative \<open>x\<close>.\<close>

definition js_rem :: "real \<Rightarrow> nat \<Rightarrow> real" where
  "js_rem x k = x - of_nat k * of_int \<lfloor>x / of_nat k\<rfloor>"

definition formatIntervalDuration :: "real \<Rightarrow> string" where
  "formatIntervalDuration sec =
     (if sec \<le> 0 then ''0s''
      else if sec < 60 then ''+'' @ num_to_string sec @ ''s''
      else if sec < 3600 then
        (let m = \<lfloor>sec / 60\<rfloor>; s = js_rem sec 60
         in if s = 0 then ''+'' @ num_to_string (of_int m) @ ''m''
            else ''+'' @ num_to_string (of_int m) @ ''m '' @ padStart2 (num_to_string s) @ ''s'')
      else (let h = \<lfloor>sec / 3600\<rfloor>; m = \<lfloor>js_rem sec 3600 / 60\<rfloor>
            in ''+'' @ num_to_string (of_int h) @ ''h '' @ padStart2 (num_to_string (of_int m)) @ ''m''))"

definition formatDateTime :: "(string \<Rightarrow> int option) \<Rightarrow> (int \<Rightarrow> string) \<Rightarrow> string option \<Rightarrow> string" where
  "formatDateTime other locale_text v =
     (case v of
        None \<Rightarrow> DASH
      | Some t \<Rightarrow> if t = [] then DASH
                  else (case Date_parse other t of None \<Rightarrow> t | Some ms \<Rightarrow> locale_text ms))"

definition formatOdometer :: "(real \<Rightarrow> string) \<Rightarrow> real option \<Rightarrow> string" where
  "formatOdometer locale_num v = (case v of None \<Rightarrow> DASH | Some x \<Rightarrow> locale_num x @ '' km'')"

definition formatTemperature :: "real option \<Rightarrow> string" where
  "formatTemperature v = (case v of None \<Rightarrow> DASH | Some x \<Rightarrow> num_to_string x @ [CHR 0xC2, CHR 0xB0, CHR ''C''])"

definition formatVoltage :: "real option \<Rightarrow> string" where
  "formatVoltage v = (case v of None \<Rightarrow> DASH | Some x \<Rightarrow> num_to_string x @ '' V'')"

subsection \<open>Rows\<close>

record log_record =
  lg_id :: real
  timeStr :: "string option"
  dateStr :: "string option"
  intervalStr :: "string option"
  deltaSeconds :: "real option"
  lg_speed :: "real option"
  lg_temp :: "real option"
  fuelPct :: "real option"
  fuelLiters :: "real option"
  extBattery :: "real option"
  backupBattery :: "real option"
  lg_ignition :: "string option"
  door :: "string option"
  lg_lat :: "real option"
  lg_lng :: "real option"
  altitude :: "real option"
  satellites :: "real option"
  lg_heading :: "real option"
  lg_odometer :: "real option"
  trigger :: "string option"

record vehicle_meta =
  vm_reg :: "string option"
  vm_make :: "string option"
  vm_model :: "string option"
  fuel_capacity :: "real option"
  max_speed :: "real option"

record device_meta =
  dm_id :: "real option"
  dm_imei :: "string option"
  device_type :: "string option"
  sim_no :: "string option"
  sim_operator :: "string option"
  dm_port :: jsval
  firmware :: "string option"
  dm_status :: "string option"
  last_heartbeat :: "string option"

record thresholds =
  speedThresholdKmh :: "real option"
  idleThresholdMinutes :: "real option"

definition row_ignition :: "jsval \<Rightarrow> string option" where
  "row_ignition v =
     (if v = JStr ''ON'' \<or> v = JBool True then Some ''ON''
      else if v = JStr ''OFF'' \<or> v = JBool False then Some ''OFF'' else None)"

text \<open>A text that is missing is filled from the raw time, if that is a date.\<close>

definition fill_from :: "string option \<Rightarrow> int option \<Rightarrow> (int \<Rightarrow> string) \<Rightarrow> string option" where
  "fill_from t ms f = (case t of Some s \<Rightarrow> Some s | None \<Rightarrow> map_option f ms)"

definition mapApiLog :: "(string \<Rightarrow> int option) \<Rightarrow> nat \<Rightarrow> jsval \<Rightarrow> log_record" where
  "mapApiLog other idx item =
     (let get = jopt item; num = (\<lambda>k. numOrNull (get k)); txt_of = (\<lambda>k. textOrNull (get k));
          delta = num ''delta_seconds'';
          parsed = Option.bind (txt_of ''time'') (Date_parse other)
      in \<lparr>lg_id = (case num ''id'' of Some x \<Rightarrow> x | None \<Rightarrow> of_nat idx),
          timeStr = fill_from (txt_of ''time_str'') parsed (\<lambda>ms. slice 11 19 (toISOString ms)),
          dateStr = fill_from (txt_of ''date_str'') parsed (\<lambda>ms. slice 0 10 (toISOString ms)),
          intervalStr = (case txt_of ''interval_str'' of
             Some s \<Rightarrow> Some s | None \<Rightarrow> map_option formatIntervalDuration delta),
          deltaSeconds = delta, lg_speed = num ''speed'', lg_temp = num ''temp'', fuelPct = num ''fuel_pct'',
          fuelLiters = num ''fuel_liters'', extBattery = num ''ext_battery'', backupBattery = num ''backup_battery'',
          lg_ignition = row_ignition (get ''ignition''), door = txt_of ''door'', lg_lat = num ''lat'', lg_lng = num ''lng'',
          altitude = num ''altitude'', satellites = num ''satellites'', lg_heading = num ''heading'',
          lg_odometer = num ''odometer'', trigger = txt_of ''trigger''\<rparr>)"

definition mapLogsVehicle :: "jsval \<Rightarrow> vehicle_meta" where
  "mapLogsVehicle raw =
     \<lparr>vm_reg = textOrNull (jopt raw ''reg_number''), vm_make = textOrNull (jopt raw ''make''),
      vm_model = textOrNull (jopt raw ''model''), fuel_capacity = numOrNull (jopt raw ''fuel_capacity''),
      max_speed = numOrNull (jopt raw ''max_speed'')\<rparr>"

definition mapLogsDevice :: "jsval \<Rightarrow> device_meta" where
  "mapLogsDevice raw =
     \<lparr>dm_id = numOrNull (jopt raw ''id''), dm_imei = textOrNull (jopt raw ''imei''),
      device_type = textOrNull (jopt raw ''device_type''), sim_no = textOrNull (jopt raw ''sim_no''),
      sim_operator = textOrNull (jopt raw ''sim_operator''), dm_port = coalesce (jopt raw ''port'') JNull,
      firmware = textOrNull (jopt raw ''firmware''), dm_status = textOrNull (jopt raw ''status''),
      last_heartbeat = textOrNull (jopt raw ''last_heartbeat'')\<rparr>"

subsection \<open>State and loading\<close>

record modal =
  md_tab :: string
  logFilterQuery :: string
  selectedIntervalRange :: nat
  dbLogs :: "log_record list"
  isLoadingLogs :: bool
  logsError :: "string option"
  logDataSource :: string
  vehicleMeta :: "vehicle_meta option"
  deviceMeta :: "device_meta option"
  md_thresholds :: thresholds

definition modal_initial :: "string \<Rightarrow> modal" where
  "modal_initial tab =
     \<lparr>md_tab = tab, logFilterQuery = [], selectedIntervalRange = 60, dbLogs = [], isLoadingLogs = True,
      logsError = None, logDataSource = ''database'', vehicleMeta = None, deviceMeta = None,
      md_thresholds = \<lparr>speedThresholdKmh = None, idleThresholdMinutes = None\<rparr>\<rparr>"

definition logs_endpoint :: "jsval \<Rightarrow> nat \<Rightarrow> string" where
  "logs_endpoint vehicle rng =
     (let targetId = js_or (jopt vehicle ''id'') (js_or (jopt vehicle ''device_id'') (jopt vehicle ''reg_number''))
      in ''/api/v1/vehicles/'' @ js_to_string targetId @ ''/logs?limit='' @ nat_to_string (max rng MIN_LOGS_LIMIT))"

definition logs_payload :: "response \<Rightarrow> js_error + (jsval list \<times> jsval \<times> jsval)" where
  "logs_payload res =
     (if \<not> res_ok res then Inl (ErrorMsg (''Failed to fetch logs: '' @ statusText res))
      else (case res_json res of
         Inl e \<Rightarrow> Inl e
       | Inr json \<Rightarrow>
           (case (truthy (jopt json ''success''), as_arr (jopt json ''data'')) of
              (True, Some xs) \<Rightarrow> Inr (xs, jopt json ''vehicle'', jopt json ''device'')
            | _ \<Rightarrow> Inl (ErrorMsg (js_to_string (js_or (jopt json ''error'') (JStr ''Invalid telemetry payload''))))))) "

definition map_rows :: "(string \<Rightarrow> int option) \<Rightarrow> jsval list \<Rightarrow> log_record list" where
  "map_rows other xs = map (\<lambda>(i, x). mapApiLog other i x) (enumerate 0 xs)"

definition loadLogsFromDb ::
  "(string \<Rightarrow> int option) \<Rightarrow> jsval \<Rightarrow> browser \<Rightarrow> modal \<Rightarrow> browser \<times> modal" where
  "loadLogsFromDb other vehicle w m =
     (if \<not> truthy vehicle then (w, m)
      else (let (w1, r) = fetchWithAuth w (logs_endpoint vehicle (selectedIntervalRange m)) GET;
                m1 = m\<lparr>logsError := None\<rparr>;
                out = (case r of Inl e \<Rightarrow> Inl e | Inr res \<Rightarrow> logs_payload res)
            in (w1, (case out of
                  Inl e \<Rightarrow> m1\<lparr>logsError := Some (if err_message e = [] then ''Failed to load telemetry records'' else err_message e)\<rparr>
                | Inr (xs, v, d) \<Rightarrow>
                    m1\<lparr>dbLogs := map_rows other xs, logDataSource := ''database'',
                       vehicleMeta := (if truthy v then Some (mapLogsVehicle v) else None),
                       deviceMeta := (if truthy d then Some (mapLogsDevice d) else None)\<rparr>)\<lparr>isLoadingLogs := False\<rparr>)))"

text \<open>The effect that reads the thresholds; \<open>cancelled\<close> is its flag when the answer arrives.\<close>

definition loadThresholds :: "bool \<Rightarrow> browser \<Rightarrow> modal \<Rightarrow> browser \<times> modal" where
  "loadThresholds cancelled w m =
     (let (w1, r) = fetchWithAuth w ''/api/v1/settings'' GET
      in (w1, case r of
                Inl e \<Rightarrow> m
              | Inr res \<Rightarrow>
                  if \<not> res_ok res then m
                  else (case res_json res of
                     Inl e \<Rightarrow> m
                   | Inr json \<Rightarrow>
                       (let st = jopt (jopt json ''data'') ''settings''
                        in if cancelled \<or> \<not> truthy st then m
                           else m\<lparr>md_thresholds := \<lparr>speedThresholdKmh = numOrNull (jopt st ''speedThresholdKmh''),
                                                    idleThresholdMinutes = numOrNull (jopt st ''idleThresholdMinutes'')\<rparr>\<rparr>))))"

subsection \<open>Live rows\<close>

definition live_delta :: "(string \<Rightarrow> int option) \<Rightarrow> int \<Rightarrow> log_record option \<Rightarrow> real option" where
  "live_delta other ms latest =
     (case latest of
        None \<Rightarrow> None
      | Some r \<Rightarrow>
          (case (timeStr r, dateStr r) of
             (Some t, Some d) \<Rightarrow>
               if t \<noteq> [] \<and> d \<noteq> [] then
                 map_option (\<lambda>prev. max 0 (of_int (js_round (of_int (ms - prev) / 1000)))) (Date_parse other (d @ ''T'' @ t @ ''Z''))
               else None
           | _ \<Rightarrow> None))"

definition live_time :: "int \<Rightarrow> string" where
  "live_time ms =
     padStart2 (nat_to_string (getUTCHours ms)) @ '':'' @ padStart2 (nat_to_string (getUTCMinutes ms)) @ '':'' @
     padStart2 (nat_to_string (getUTCSeconds ms))"

definition live_record ::
  "(string \<Rightarrow> int option) \<Rightarrow> nat \<Rightarrow> int \<Rightarrow> vehicle_position \<Rightarrow> log_record option \<Rightarrow> log_record" where
  "live_record other now ms v latest =
     \<lparr>lg_id = of_nat now, timeStr = Some (live_time ms), dateStr = Some (slice 0 10 (toISOString ms)),
      intervalStr = map_option formatIntervalDuration (live_delta other ms latest),
      deltaSeconds = live_delta other ms latest, lg_speed = speed v, lg_temp = temperature v,
      fuelPct = None, fuelLiters = None, extBattery = None, backupBattery = None,
      lg_ignition = map_option (\<lambda>b. if b then ''ON'' else ''OFF'') (ignition v), door = None,
      lg_lat = lat v, lg_lng = lng v, altitude = None, satellites = None,
      lg_heading = heading v, lg_odometer = odometer v, trigger = None\<rparr>"

definition same_time :: "int \<Rightarrow> log_record \<Rightarrow> bool" where
  "same_time ms r = (timeStr r = Some (live_time ms) \<and> dateStr r = Some (slice 0 10 (toISOString ms)))"

definition append_live ::
  "(string \<Rightarrow> int option) \<Rightarrow> nat \<Rightarrow> int \<Rightarrow> vehicle_position \<Rightarrow> log_record list \<Rightarrow> log_record list" where
  "append_live other now ms v prev =
     (let latest = (case prev of [] \<Rightarrow> None | r # _ \<Rightarrow> Some r)
      in if (case latest of None \<Rightarrow> False | Some r \<Rightarrow> same_time ms r) then prev
         else slice 0 200 (live_record other now ms v latest # prev))"

text \<open>The effect on every change of the store.\<close>

definition live_effect ::
  "(string \<Rightarrow> int option) \<Rightarrow> nat \<Rightarrow> jsval \<Rightarrow> vehicle_state \<Rightarrow> modal \<Rightarrow> modal" where
  "live_effect other now vehicle s m =
     (let deviceId = jopt vehicle ''device_id''
      in if \<not> truthy deviceId then m
         else (case map_get (vehicles s) deviceId of
            None \<Rightarrow> m
          | Some v \<Rightarrow>
              if \<not> str_truthy (timestamp v) then m
              else (case Date_parse other (the (timestamp v)) of
                 None \<Rightarrow> m
               | Some ms \<Rightarrow> m\<lparr>dbLogs := append_live other now ms v (dbLogs m), logDataSource := ''device''\<rparr>)))"

subsection \<open>What is shown\<close>

definition slicedLogs :: "modal \<Rightarrow> log_record list" where
  "slicedLogs m = slice 0 (selectedIntervalRange m) (dbLogs m)"

definition latestRecord :: "modal \<Rightarrow> log_record option" where
  "latestRecord m = (case slicedLogs m of [] \<Rightarrow> None | r # _ \<Rightarrow> Some r)"

definition or_else :: "'a option \<Rightarrow> 'a option \<Rightarrow> 'a option" where
  "or_else a b = (case a of None \<Rightarrow> b | Some x \<Rightarrow> Some x)"

definition latestSpeed :: "jsval \<Rightarrow> modal \<Rightarrow> real option" where
  "latestSpeed vehicle m = or_else (Option.bind (latestRecord m) lg_speed) (numOrNull (jopt vehicle ''speed''))"

definition latestTemp :: "jsval \<Rightarrow> modal \<Rightarrow> real option" where
  "latestTemp vehicle m = or_else (Option.bind (latestRecord m) lg_temp) (numOrNull (jopt vehicle ''temperature''))"

definition latestIgnition :: "jsval \<Rightarrow> modal \<Rightarrow> string option" where
  "latestIgnition vehicle m =
     or_else (Option.bind (latestRecord m) lg_ignition)
       (map_option (\<lambda>b. if b then ''ON'' else ''OFF'') (bool_field vehicle ''ignition''))"

definition isOverspeed :: "modal \<Rightarrow> real option \<Rightarrow> bool" where
  "isOverspeed m sp =
     (case (sp, speedThresholdKmh (md_thresholds m)) of (Some x, Some limit) \<Rightarrow> x > limit | _ \<Rightarrow> False)"

definition haystack :: "log_record \<Rightarrow> string option list" where
  "haystack r = [timeStr r, dateStr r, intervalStr r, trigger r, lg_ignition r, door r,
                 map_option num_to_string (lg_speed r), map_option num_to_string (lg_temp r)]"

definition log_matches :: "string \<Rightarrow> log_record \<Rightarrow> bool" where
  "log_matches query r =
     (trim query = [] \<or>
      list_ex (\<lambda>x. case x of None \<Rightarrow> False | Some t \<Rightarrow> str_includes (toLowerCase t) (toLowerCase query)) (haystack r))"

definition filteredLogs :: "modal \<Rightarrow> log_record list" where
  "filteredLogs m = filter (log_matches (logFilterQuery m)) (slicedLogs m)"

text \<open>The known values of a column, and the statistics over them.\<close>

definition known :: "(log_record \<Rightarrow> real option) \<Rightarrow> modal \<Rightarrow> real list" where
  "known f m = List.map_filter f (slicedLogs m)"

definition js_avg :: "real list \<Rightarrow> int option" where
  "js_avg xs = (if xs = [] then None else Some (js_round (foldl (+) 0 xs / of_nat (length xs))))"

definition js_max :: "real list \<Rightarrow> real option" where
  "js_max xs = (case xs of [] \<Rightarrow> None | y # ys \<Rightarrow> Some (fold max ys y))"

definition js_min :: "real list \<Rightarrow> real option" where
  "js_min xs = (case xs of [] \<Rightarrow> None | y # ys \<Rightarrow> Some (fold min ys y))"

definition avgSpeed :: "modal \<Rightarrow> int option" where "avgSpeed m = js_avg (known lg_speed m)"

definition maxSpeed :: "modal \<Rightarrow> real option" where "maxSpeed m = js_max (known lg_speed m)"

definition minTemp :: "modal \<Rightarrow> real option" where "minTemp m = js_min (known lg_temp m)"

definition maxTemp :: "modal \<Rightarrow> real option" where "maxTemp m = js_max (known lg_temp m)"

definition avgDeltaSec :: "modal \<Rightarrow> int option" where
  "avgDeltaSec m = js_avg (filter (\<lambda>x. x > 0) (known deltaSeconds m))"

definition minExtBattery :: "modal \<Rightarrow> real option" where "minExtBattery m = js_min (known extBattery m)"

definition maxExtBattery :: "modal \<Rightarrow> real option" where "maxExtBattery m = js_max (known extBattery m)"

definition ignitionOnCount :: "modal \<Rightarrow> nat" where
  "ignitionOnCount m = length (filter (\<lambda>r. lg_ignition r = Some ''ON'') (slicedLogs m))"

definition vehicleName :: "jsval \<Rightarrow> modal \<Rightarrow> string" where
  "vehicleName vehicle m =
     (let parts = (case vehicleMeta m of None \<Rightarrow> [] | Some v \<Rightarrow> List.map_filter id [vm_make v, vm_model v]);
          t = join '' '' parts
      in if t \<noteq> [] then t else js_to_string (js_or (jopt vehicle ''name'') (JStr DASH)))"

definition devicePort :: "modal \<Rightarrow> string" where
  "devicePort m =
     (case deviceMeta m of None \<Rightarrow> DASH | Some d \<Rightarrow> if nullish (dm_port d) then DASH else js_to_string (dm_port d))"

subsection \<open>Export\<close>

definition csv_special :: "string \<Rightarrow> bool" where
  "csv_special t = list_ex (\<lambda>c. c = QUOT \<or> c = CHR '','' \<or> c = NL) t"

definition log_csvCell :: "string option \<Rightarrow> string" where
  "log_csvCell v = (case v of None \<Rightarrow> DASH | Some t \<Rightarrow> if csv_special t then quoted_cell t else t)"

definition log_headers :: "string list" where
  "log_headers =
     [''Interval'', ''Time_HHmmss'', ''Date'', ''Speed_KMH'', ''Reefer_Temp_C'', ''Fuel_Pct'', ''Fuel_Liters'',
      ''Ext_Battery_V'', ''Backup_Battery_V'', ''Ignition_DIN1'', ''Door_DIN2'', ''Latitude'', ''Longitude'',
      ''Teltonika_AVL_Trigger_Event'']"

definition log_cells :: "log_record \<Rightarrow> string option list" where
  "log_cells r =
     (let num = map_option num_to_string
      in [intervalStr r, timeStr r, dateStr r, num (lg_speed r), num (lg_temp r), num (fuelPct r), num (fuelLiters r),
          num (extBattery r), num (backupBattery r), lg_ignition r, door r,
          map_option (toFixed 6) (lg_lat r), map_option (toFixed 6) (lg_lng r), trigger r])"

definition logs_csv :: "modal \<Rightarrow> string" where
  "logs_csv m = join [NL] (join '','' log_headers # map (\<lambda>r. join '','' (map log_csvCell (log_cells r))) (slicedLogs m))"

text \<open>\<open>encodeURI\<close> leaves the reserved characters and \<open>#\<close> alone.\<close>

definition encodeURI_char :: "char \<Rightarrow> string" where
  "encodeURI_char c =
     (if unreserved c \<or> c \<in> set '';/?:@&=+$,#'' then [c]
      else [CHR ''%'', hex_char (of_char c div 16), hex_char (of_char c mod 16)])"

definition encodeURI :: "string \<Rightarrow> string" where
  "encodeURI s = concat (map encodeURI_char s)"

definition DATA_PREFIX :: string where
  "DATA_PREFIX = ''data:text/csv;charset=utf-8,''"

definition handleExportCSV :: "jsval \<Rightarrow> modal \<Rightarrow> browser \<Rightarrow> browser" where
  "handleExportCSV vehicle m w =
     (let name = ''Teltonika_Telemetry_Logs_'' @ js_to_string (js_or (jopt vehicle ''reg_number'') (JStr ''vehicle'')) @ ''_'' @
                 (case slicedLogs m of [] \<Rightarrow> ''export'' | r # _ \<Rightarrow> (case dateStr r of None \<Rightarrow> ''export'' | Some d \<Rightarrow> d)) @ ''.csv''
      in w\<lparr>downloads := downloads w @ [(name, encodeURI (DATA_PREFIX @ logs_csv m))]\<rparr>)"

text \<open>What the browser saves for a \<open>data:\<close> address: the part before a fragment, percent-decoded.\<close>

fun percent_decode :: "string \<Rightarrow> string" where
  "percent_decode [] = []"
| "percent_decode (c # r) =
     (if c = CHR ''%'' then
        (case r of
           a # b # r' \<Rightarrow>
             if radix_val a < 16 \<and> radix_val b < 16
             then char_of (16 * radix_val a + radix_val b) # percent_decode r'
             else c # percent_decode r
         | _ \<Rightarrow> c # percent_decode r)
      else c # percent_decode r)"

definition data_url_body :: "string \<Rightarrow> string" where
  "data_url_body u = percent_decode (takeWhile (\<lambda>c. c \<noteq> CHR ''#'') (tl (dropWhile (\<lambda>c. c \<noteq> CHR '','') u)))"

subsection \<open>Facts\<close>

lemma js_rem_nat: "0 < k \<Longrightarrow> js_rem (of_nat n) k = of_nat (n mod k)"
proof -
  assume "0 < k"
  have "js_rem (of_nat n) k = of_nat n - of_nat k * of_nat (n div k)"
    by (simp add: js_rem_def floor_divide_of_nat_eq)
  also have "\<dots> = of_nat (n mod k)"
    by (metis add_diff_cancel_left' mult_div_mod_eq of_nat_add of_nat_mult)
  finally show ?thesis .
qed

lemma floor_nat_div: "\<lfloor>(of_nat n :: real) / of_nat k\<rfloor> = int (n div k)"
  by (simp add: floor_divide_of_nat_eq)

lemma num_int_nat: "num_to_string (of_int (int n)) = nat_to_string n"
  using num_to_string_nat [of n] by simp

text \<open>The interval text in whole-number arithmetic.\<close>

definition interval_text :: "nat \<Rightarrow> string" where
  "interval_text n =
     (if n = 0 then ''0s''
      else if n < 60 then ''+'' @ nat_to_string n @ ''s''
      else if n < 3600 then
        ''+'' @ nat_to_string (n div 60) @ ''m'' @
        (if n mod 60 = 0 then [] else '' '' @ padStart2 (nat_to_string (n mod 60)) @ ''s'')
      else ''+'' @ nat_to_string (n div 3600) @ ''h '' @ padStart2 (nat_to_string (n mod 3600 div 60)) @ ''m'')"

lemma padStart2_pad: "padStart2 (nat_to_string n) = pad 2 n"
  by (simp add: padStart2_def pad_def padStart0_def)

lemma live_time_iso: "live_time ms = iso_time ms"
  by (simp add: live_time_def iso_time_def padStart2_pad)

lemma iso_slices:
  assumes "0 \<le> year_of ms" "year_of ms \<le> 9999"
  shows "slice 0 10 (toISOString ms) = iso_date ms" and "slice 11 19 (toISOString ms) = iso_time ms"
  using iso_roundtrip(3,4) [OF assms] by (simp_all add: slice_def toISOString_def)

lemma append_live_head:
  "\<exists>r rest. append_live other now ms v prev = r # rest \<and> same_time ms r"
  by (cases prev) (auto simp: append_live_def slice_def same_time_def live_record_def Let_def)

lemma live_delta_iso:
  assumes "0 \<le> year_of t" "year_of t \<le> 9999" and "same_time t r"
  shows "live_delta other ms (Some r) = Some (max 0 (of_int (js_round (of_int (ms - (t - t mod 1000)) / 1000))))"
proof -
  have r: "timeStr r = Some (iso_time t)" "dateStr r = Some (iso_date t)"
    using assms(3) iso_slices(1) [OF assms(1,2)] by (simp_all add: same_time_def live_time_iso)
  have ne: "iso_time t \<noteq> []" "iso_date t \<noteq> []"
    using iso_roundtrip(3,4) [OF assms(1,2)] by auto
  show ?thesis
    using ne iso_roundtrip(2) [OF assms(1,2)] by (simp add: live_delta_def r Date_parse_def)
qed

lemma same_second:
  assumes "0 \<le> year_of t" "year_of t \<le> 9999" "0 \<le> year_of u" "year_of u \<le> 9999"
    and "same_time t r" "same_time u r"
  shows "t - t mod 1000 = u - u mod 1000"
proof -
  have "iso_date t @ ''T'' @ iso_time t @ ''Z'' = iso_date u @ ''T'' @ iso_time u @ ''Z''"
    using assms(5,6) iso_slices(1) [OF assms(1,2)] iso_slices(1) [OF assms(3,4)] by (simp add: same_time_def live_time_iso)
  then have "Some (t - t mod 1000) = Some (u - u mod 1000)"
    by (metis iso_roundtrip(2) [OF assms(1,2)] iso_roundtrip(2) [OF assms(3,4)])
  then show ?thesis by simp
qed

lemma fold_max_spec: "fold max ys (y::real) \<in> set (y # ys) \<and> (\<forall>x \<in> set (y # ys). x \<le> fold max ys y)"
proof (induction ys arbitrary: y)
  case (Cons a ys)
  have "a \<le> max a y" "y \<le> max a y" "max a y = a \<or> max a y = y" by auto
  with Cons [of "max a y"] show ?case by (auto intro: order_trans)
qed simp

lemma fold_min_spec: "fold min ys (y::real) \<in> set (y # ys) \<and> (\<forall>x \<in> set (y # ys). fold min ys y \<le> x)"
proof (induction ys arbitrary: y)
  case (Cons a ys)
  have "min a y \<le> a" "min a y \<le> y" "min a y = a \<or> min a y = y" by auto
  with Cons [of "min a y"] show ?case by (auto intro: order_trans)
qed simp

lemma js_max_spec: "xs \<noteq> [] \<Longrightarrow> \<exists>b. js_max xs = Some b \<and> b \<in> set xs \<and> list_all (\<lambda>x. x \<le> b) xs"
  using fold_max_spec by (cases xs) (auto simp: js_max_def list_all_iff)

lemma js_min_spec: "xs \<noteq> [] \<Longrightarrow> \<exists>a. js_min xs = Some a \<and> a \<in> set xs \<and> list_all (\<lambda>x. a \<le> x) xs"
  using fold_min_spec by (cases xs) (auto simp: js_min_def list_all_iff)

lemma sum_bounds:
  "list_all (\<lambda>x. (a::real) \<le> x \<and> x \<le> b) xs \<Longrightarrow>
   of_nat (length xs) * a \<le> foldl (+) 0 xs \<and> foldl (+) 0 xs \<le> of_nat (length xs) * b"
proof (induction xs rule: rev_induct)
  case (snoc x xs)
  then show ?case by (auto simp: algebra_simps)
qed simp

lemma js_avg_between:
  assumes "xs \<noteq> []" and "list_all (\<lambda>x. a \<le> x \<and> x \<le> b) xs"
  shows "\<exists>v. js_avg xs = Some v \<and> js_round a \<le> v \<and> v \<le> js_round b"
proof -
  have n: "0 < (of_nat (length xs) :: real)" using assms(1) by simp
  from sum_bounds [OF assms(2)] n
  have "a \<le> foldl (+) 0 xs / of_nat (length xs)" "foldl (+) 0 xs / of_nat (length xs) \<le> b"
    by (simp_all add: field_simps)
  then show ?thesis using assms(1) by (auto simp: js_avg_def intro: js_round_mono)
qed

text \<open>Cells and their reading.\<close>

definition log_cell :: "string option \<Rightarrow> csv_cell" where
  "log_cell v = (case v of None \<Rightarrow> Bare DASH | Some t \<Rightarrow> if csv_special t then Quoted t else Bare t)"

definition log_shown :: "string option \<Rightarrow> string" where
  "log_shown v = (case v of None \<Rightarrow> DASH | Some t \<Rightarrow> t)"

lemma log_cell_facts [simp]:
  "cell_text (log_cell v) = log_csvCell v" "cell_shown (log_cell v) = log_shown v" "cell_ok (log_cell v)"
  by (auto simp: log_cell_def log_csvCell_def log_shown_def csv_special_def list_ex_iff DASH_def QUOT_def NL_def
      split: option.splits)

lemma percent_encodeURI_char: "percent_decode (encodeURI_char c @ t) = c # percent_decode t"
proof (cases "unreserved c \<or> c \<in> set '';/?:@&=+$,#''")
  case True
  then have "c \<noteq> CHR ''%''" by (auto simp: unreserved_def is_digit_def)
  with True show ?thesis by (simp add: encodeURI_char_def)
next
  case False
  have b: "(of_char c :: nat) < 256" by (rule of_char_bound)
  then have "radix_val (hex_char (of_char c div 16)) = of_char c div 16"
    "radix_val (hex_char (of_char c mod 16)) = of_char c mod 16"
    by (simp_all add: radix_val_hex_char less_mult_imp_div_less)
  moreover have "(of_char c :: nat) div 16 < 16" using b by (simp add: less_mult_imp_div_less)
  ultimately show ?thesis using False by (simp add: encodeURI_char_def mult.commute [of 16])
qed

lemma encodeURI_char_hash: "c \<noteq> CHR ''#'' \<Longrightarrow> CHR ''#'' \<notin> set (encodeURI_char c)"
proof -
  assume c: "c \<noteq> CHR ''#''"
  have b: "(of_char c :: nat) < 256" by (rule of_char_bound)
  then have "hex_char (of_char c div 16) \<noteq> CHR ''#''" "hex_char (of_char c mod 16) \<noteq> CHR ''#''"
    using hex_char_safe [of "of_char c div 16"] hex_char_safe [of "of_char c mod 16"]
    by (auto simp: less_mult_imp_div_less)
  then show ?thesis using c by (auto simp: encodeURI_char_def)
qed

lemma percent_encodeURI: "percent_decode (encodeURI s) = s"
  by (induction s) (simp_all add: encodeURI_def percent_encodeURI_char)

lemma encodeURI_before_hash:
  "takeWhile (\<lambda>c. c \<noteq> CHR ''#'') (encodeURI s) = encodeURI (takeWhile (\<lambda>c. c \<noteq> CHR ''#'') s)"
proof (induction s)
  case (Cons c s)
  show ?case
  proof (cases "c = CHR ''#''")
    case True
    then show ?thesis by (simp add: encodeURI_def encodeURI_char_def)
  next
    case False
    then have "takeWhile (\<lambda>d. d \<noteq> CHR ''#'') (encodeURI_char c @ t) = encodeURI_char c @ takeWhile (\<lambda>d. d \<noteq> CHR ''#'') t" for t
      using encodeURI_char_hash [OF False] by (intro takeWhile_append2) auto
    with False Cons show ?thesis by (simp add: encodeURI_def)
  qed
qed (simp add: encodeURI_def)

lemma data_url_saved: "data_url_body (encodeURI (DATA_PREFIX @ s)) = takeWhile (\<lambda>c. c \<noteq> CHR ''#'') s"
proof -
  have "encodeURI (DATA_PREFIX @ s) = DATA_PREFIX @ encodeURI s"
    by (simp add: encodeURI_def DATA_PREFIX_def encodeURI_char_def unreserved_def is_digit_def)
  then have "tl (dropWhile (\<lambda>c. c \<noteq> CHR '','') (encodeURI (DATA_PREFIX @ s))) = encodeURI s"
    by (simp add: DATA_PREFIX_def)
  then show ?thesis by (simp add: data_url_body_def encodeURI_before_hash percent_encodeURI)
qed

definition demo_pos :: vehicle_position where
  "demo_pos = vehicle_of_row (JObj [(''id'', JNum 1)])"

lemma modal_send [intro]:
  "adds_only tenant_request w (fst (loadLogsFromDb other vehicle w m))"
  "adds_only tenant_request w (fst (loadThresholds cancelled w m))"
  by (simp_all add: loadLogsFromDb_def loadThresholds_def split_beta Let_def client_sends(2))

subsection \<open>Properties\<close>

text \<open>The interval column computed with floating-point division and remainder is the one whole-number
  arithmetic gives: hours, minutes below 60 and seconds below 60 of the number of seconds.\<close>

theorem interval_text_exact: "formatIntervalDuration (of_nat n) = interval_text n"
proof -
  have f60: "\<lfloor>real n / 60\<rfloor> = int (n div 60)" and f3600: "\<lfloor>real n / 3600\<rfloor> = int (n div 3600)"
    using floor_nat_div [of n 60] floor_nat_div [of n 3600] by simp_all
  have r60: "js_rem (real n) 60 = real (n mod 60)" and r3600: "js_rem (real n) 3600 = real (n mod 3600)"
    by (simp_all add: js_rem_nat)
  have "\<lfloor>real (n mod 3600) / 60\<rfloor> = int (n mod 3600 div 60)" using floor_nat_div [of "n mod 3600" 60] by simp
  moreover have "(real n \<le> 0) = (n = 0)" "(real n < 60) = (n < 60)" "(real n < 3600) = (n < 3600)" by linarith+
  ultimately show ?thesis
    unfolding formatIntervalDuration_def interval_text_def Let_def f60 f3600 r60 r3600
    by (simp add: num_int_nat del: of_nat_mod of_int_of_nat_eq)
qed

text \<open>Live rows never pile up: handling the same live position again changes nothing, and the list is
  at most 200 rows long after a row was added.\<close>

theorem live_append_idempotent:
  "let l = append_live other now ms v prev
   in append_live other now' ms v l = l \<and> (l = prev \<or> length l \<le> 200)"
proof -
  obtain r rest where r: "append_live other now ms v prev = r # rest" "same_time ms r"
    using append_live_head by blast
  then have "append_live other now' ms v (append_live other now ms v prev) = append_live other now ms v prev"
    by (simp add: append_live_def [of other now'])
  then show ?thesis by (auto simp: Let_def append_live_def [of other now])
qed

text \<open>The interval shown for a live row is the time that passed: two positions in different seconds give
  a row whose delta is the difference of their times, the earlier one cut to whole seconds, rounded to
  seconds.\<close>

theorem live_interval_measured:
  assumes "0 \<le> year_of t1" "year_of t1 \<le> 9999" "0 \<le> year_of t2" "year_of t2 \<le> 9999" and "t1 div 1000 < t2 div 1000"
  shows "let l = append_live other n2 t2 v2 (append_live other n1 t1 v1 prev)
         in l \<noteq> [] \<and> same_time t2 (hd l) \<and>
            deltaSeconds (hd l) = Some (of_int (js_round (of_int (t2 - t1 + t1 mod 1000) / 1000)))"
proof -
  obtain r rest where r: "append_live other n1 t1 v1 prev = r # rest" "same_time t1 r"
    using append_live_head by blast
  have diff: "\<not> same_time t2 r"
  proof
    assume "same_time t2 r"
    from same_second [OF assms(1-4) r(2) this] have "t1 div 1000 * 1000 = t2 div 1000 * 1000"
      by (simp add: minus_mod_eq_div_mult)
    with assms(5) show False by simp
  qed
  have "t1 - t1 mod 1000 = t1 div 1000 * 1000" "t2 div 1000 * 1000 \<le> t2"
    by (simp_all add: minus_mod_eq_div_mult div_times_less_eq_dividend)
  with assms(5) have "0 \<le> t2 - (t1 - t1 mod 1000)" by linarith
  then have "0 \<le> js_round (of_int (t2 - (t1 - t1 mod 1000)) / 1000)"
    unfolding js_round_def by (simp add: le_floor_iff)
  then have "live_delta other t2 (Some r) = Some (of_int (js_round (of_int (t2 - t1 + t1 mod 1000) / 1000)))"
    using live_delta_iso [OF assms(1,2) r(2), of other t2] by (simp add: algebra_simps)
  moreover have "same_time t2 (live_record other n2 t2 v2 (Some r))"
    "deltaSeconds (live_record other n2 t2 v2 (Some r)) = live_delta other t2 (Some r)"
    by (simp_all add: live_record_def same_time_def)
  ultimately show ?thesis
    using r(1) diff by (simp add: append_live_def [of other n2] slice_def Let_def)
qed

theorem live_interval_measured_witness:
  "year_of 1700000000000 = 2023 \<and>
   deltaSeconds (hd (append_live (\<lambda>_. None) 2 1700000030000 demo_pos
     (append_live (\<lambda>_. None) 1 1700000000000 demo_pos []))) = Some 30"
proof -
  have y: "year_of 1700000000000 = 2023" "year_of 1700000030000 = 2023"
    by (simp_all add: year_of_def DAY_MS_def civil_19675)
  have h: "0 \<le> year_of 1700000000000" "year_of 1700000000000 \<le> 9999" "0 \<le> year_of 1700000030000"
    "year_of 1700000030000 \<le> 9999" "(1700000000000::int) div 1000 < 1700000030000 div 1000"
    by (simp_all add: y)
  have "js_round 30 = 30" using js_round_int [of 30] by simp
  then show ?thesis
    using y live_interval_measured [OF h, of "\<lambda>_. None" 2 demo_pos 1 demo_pos "[]"] by (simp add: Let_def)
qed

text \<open>The statistics stay inside the data: the greatest speed is one of the shown speeds and none is
  greater, and the rounded average lies between the rounded smallest and greatest speed.\<close>

theorem speed_statistics_bounded:
  assumes "known lg_speed m \<noteq> []"
  shows "\<exists>a b v. js_min (known lg_speed m) = Some a \<and> maxSpeed m = Some b \<and> avgSpeed m = Some v
      \<and> b \<in> set (known lg_speed m) \<and> list_all (\<lambda>x. a \<le> x \<and> x \<le> b) (known lg_speed m)
      \<and> js_round a \<le> v \<and> v \<le> js_round b"
proof -
  obtain b where b: "js_max (known lg_speed m) = Some b" "b \<in> set (known lg_speed m)" "list_all (\<lambda>x. x \<le> b) (known lg_speed m)"
    using js_max_spec [OF assms] by blast
  obtain a where a: "js_min (known lg_speed m) = Some a" "list_all (\<lambda>x. a \<le> x) (known lg_speed m)"
    using js_min_spec [OF assms] by blast
  have "list_all (\<lambda>x. a \<le> x \<and> x \<le> b) (known lg_speed m)" using a(2) b(3) by (simp add: list_all_iff)
  with js_avg_between [OF assms this] a(1) b(1,2) show ?thesis by (auto simp: maxSpeed_def avgSpeed_def)
qed

theorem speed_statistics_bounded_witness:
  "let m = (modal_initial ''logs'')\<lparr>dbLogs := [mapApiLog (\<lambda>_. None) 0 (JObj [(''speed'', JNum 40)])]\<rparr>
   in maxSpeed m = Some 40"
proof -
  let ?m = "(modal_initial ''logs'')\<lparr>dbLogs := [mapApiLog (\<lambda>_. None) 0 (JObj [(''speed'', JNum 40)])]\<rparr>"
  have k: "known lg_speed ?m = [40]"
    by (simp add: known_def slicedLogs_def modal_initial_def slice_def mapApiLog_def numOrNull_def List.map_filter_def Let_def)
  then have "known lg_speed ?m \<noteq> []" by simp
  from speed_statistics_bounded [OF this] k show ?thesis by (auto simp: Let_def)
qed

text \<open>C37: the exported table reads back, with the dash for a missing value, for any texts in the rows; but
  the file that is saved is only the part before the first \<open>#\<close>, because the address is built with
  \<open>encodeURI\<close>, which leaves that character alone.\<close>

theorem telemetry_export:
  "csv_parse (logs_csv m) = Some (log_headers # map (\<lambda>r. map log_shown (log_cells r)) (slicedLogs m))
   \<and> data_url_body (snd (last (downloads (handleExportCSV vehicle m w)))) = takeWhile (\<lambda>c. c \<noteq> CHR ''#'') (logs_csv m)"
proof -
  let ?t = "map Bare log_headers # map (\<lambda>r. map log_cell (log_cells r)) (slicedLogs m)"
  have ok: "?t \<noteq> []" "[] \<notin> set ?t" "list_all (list_all cell_ok) ?t"
    by (auto simp: log_headers_def log_cells_def list_all_iff QUOT_def NL_def Let_def)
  have "logs_csv m = join [NL] (map (\<lambda>cs. join '','' (map cell_text cs)) ?t)"
    by (simp add: logs_csv_def comp_def)
  then have "csv_parse (logs_csv m) = Some (map (map cell_shown) ?t)"
    using sheet.table_reads [OF ok] by (simp only:)
  moreover have "map (map cell_shown) ?t = log_headers # map (\<lambda>r. map log_shown (log_cells r)) (slicedLogs m)"
    by (simp add: comp_def)
  ultimately show ?thesis by (simp add: handleExportCSV_def Let_def data_url_saved)
qed

end
