(* ===== verification/View_Kit.thy ===== *)
theory View_Kit
  imports Page_Kit
begin

section \<open>What the markup of the pages has in common\<close>

text \<open>
  The \<open>_View\<close> theories hold what a page shows: texts, the colours that depend on the data, and the conditions under
  which a part is there. Here are the pieces they share: the body of a table, how React prints a value, and the
  dialogs. The browser checks the fields of a \<open><form>\<close> (\<open>required\<close>, \<open>min\<close>, \<open>max\<close>, \<open>step\<close>, the type of an input)
  before it calls the page's \<open>onSubmit\<close>; that check is modelled (\<open>valid_form\<close>), and the locale \<open>browser_form\<close> states
  when it covers the page's own check.
\<close>

subsection \<open>Texts\<close>

datatype 'a table_body = Loading string | Failure string | Nothing string | Rows "'a list"

fun rows_of :: "'a table_body \<Rightarrow> 'a list" where
  "rows_of (Rows rs) = rs"
| "rows_of b = []"

text \<open>What React prints for a value: nothing for \<open>null\<close>, \<open>undefined\<close> and booleans.\<close>

definition shown :: "jsval \<Rightarrow> string" where
  "shown v = (case v of JStr s \<Rightarrow> s | JNum x \<Rightarrow> num_to_string x | _ \<Rightarrow> [])"

definition or_dash :: "string option \<Rightarrow> string" where
  "or_dash v = (case v of None \<Rightarrow> DASH | Some s \<Rightarrow> s)"

definition num_unit :: "real option \<Rightarrow> string \<Rightarrow> string" where
  "num_unit v u = (case v of None \<Rightarrow> DASH | Some x \<Rightarrow> num_to_string x @ u)"

definition int_unit :: "int option \<Rightarrow> string \<Rightarrow> string" where
  "int_unit v u = (case v of None \<Rightarrow> DASH | Some x \<Rightarrow> num_to_string (of_int x) @ u)"

definition rounded_unit :: "real option \<Rightarrow> string \<Rightarrow> string" where
  "rounded_unit v u = (case v of None \<Rightarrow> DASH | Some x \<Rightarrow> num_to_string (of_int (js_round x)) @ u)"

definition BULLET :: string where
  "BULLET = [CHR '' '', CHR 0xE2, CHR 0x80, CHR 0xA2, CHR '' '']"

definition EN_DASH :: string where
  "EN_DASH = [CHR '' '', CHR 0xE2, CHR 0x80, CHR 0x93, CHR '' '']"

definition DEGREE :: string where
  "DEGREE = [CHR 0xC2, CHR 0xB0]"

definition ELLIPSIS :: string where
  "ELLIPSIS = [CHR 0xE2, CHR 0x80, CHR 0xA6]"

text \<open>\<open>v != null ? text : dash\<close> of a field, and \<open>v || dash\<close> of a text.\<close>

definition unit_dash :: "jsval \<Rightarrow> string \<Rightarrow> string" where
  "unit_dash v u = (if nullish v then DASH else js_to_string v @ u)"

definition text_dash :: "jsval \<Rightarrow> string" where
  "text_dash v = (if truthy v then shown v else DASH)"

subsection \<open>Fields of a form and the browser's check\<close>

text \<open>
  An input keeps its text; a number input keeps the empty text or a number. A check box keeps no text. The step of
  a number counts from its minimum: without one it counts from the value React writes into the markup, which is the
  input's own, and nothing is refused.
\<close>

datatype input_kind =
    Text_box | Text_area | Password_box | Email_box | Date_box
  | Check_box bool
  | Number_box "real option" "real option" real
  | Choice "(string \<times> string) list"

record form_field =
  ff_label :: string
  ff_kind :: input_kind
  ff_value :: string
  ff_required :: bool

definition needed :: "string \<Rightarrow> input_kind \<Rightarrow> string \<Rightarrow> form_field" where
  "needed l k v = \<lparr>ff_label = l, ff_kind = k, ff_value = v, ff_required = True\<rparr>"

definition optional :: "string \<Rightarrow> input_kind \<Rightarrow> string \<Rightarrow> form_field" where
  "optional l k v = \<lparr>ff_label = l, ff_kind = k, ff_value = v, ff_required = False\<rparr>"

definition tick_box :: "string \<Rightarrow> bool \<Rightarrow> form_field" where
  "tick_box l b = \<lparr>ff_label = l, ff_kind = Check_box b, ff_value = [], ff_required = False\<rparr>"

definition is_letter_digit :: "char \<Rightarrow> bool" where
  "is_letter_digit c =
     (let n = of_char c :: nat in 48 \<le> n \<and> n \<le> 57 \<or> 65 \<le> n \<and> n \<le> 90 \<or> 97 \<le> n \<and> n \<le> 122)"

text \<open>The pattern of an address in the HTML standard: a local part, an at sign, and labels between dots.\<close>

definition mail_label :: "string \<Rightarrow> bool" where
  "mail_label l =
     (l \<noteq> [] \<and> length l \<le> 63 \<and> is_letter_digit (hd l) \<and> is_letter_digit (last l) \<and>
      list_all (\<lambda>c. is_letter_digit c \<or> c = CHR ''-'') l)"

definition valid_mail :: "string \<Rightarrow> bool" where
  "valid_mail s =
     (case split_on (CHR ''@'') s of
        [name, host] \<Rightarrow>
          name \<noteq> [] \<and> list_all (\<lambda>c. is_letter_digit c \<or> c \<in> set ''.!#$%&*+/=?^_{|}~-'' \<or> c = CHR 0x27 \<or> c = CHR 0x60) name \<and>
          list_all mail_label (split_on (CHR ''.'') host)
      | _ \<Rightarrow> False)"

definition number_ok :: "real option \<Rightarrow> real option \<Rightarrow> real \<Rightarrow> real \<Rightarrow> bool" where
  "number_ok lo hi st x =
     ((case lo of None \<Rightarrow> True | Some a \<Rightarrow> a \<le> x \<and> of_int \<lfloor>(x - a) / st\<rfloor> = (x - a) / st) \<and>
      (case hi of None \<Rightarrow> True | Some b \<Rightarrow> x \<le> b))"

fun kind_ok :: "input_kind \<Rightarrow> string \<Rightarrow> bool" where
  "kind_ok (Number_box lo hi st) v = (v = [] \<or> (case toNumber v of Fin x \<Rightarrow> number_ok lo hi st x | _ \<Rightarrow> False))"
| "kind_ok Email_box v = (v = [] \<or> valid_mail v)"
| "kind_ok k v = True"

definition valid_field :: "form_field \<Rightarrow> bool" where
  "valid_field f = ((ff_required f \<longrightarrow> ff_value f \<noteq> []) \<and> kind_ok (ff_kind f) (ff_value f))"

definition valid_form :: "form_field list \<Rightarrow> bool" where
  "valid_form fs = list_all valid_field fs"

text \<open>A control of a page: the field as it is drawn, and what a change of it writes.\<close>

type_synonym 'p control = "form_field \<times> (string \<Rightarrow> 'p \<Rightarrow> 'p)"

text \<open>The submit button of a form: the browser calls the handler when its own check finds nothing.\<close>

definition press :: "('p \<Rightarrow> 'p control list) \<Rightarrow> (browser \<Rightarrow> 'p \<Rightarrow> browser \<times> 'p) \<Rightarrow> browser \<Rightarrow> 'p \<Rightarrow> browser \<times> 'p" where
  "press controls submit w p = (if valid_form (map fst (controls p)) then submit w p else (w, p))"

text \<open>Typing a text into any control changes what that control shows to the text, and no other control.\<close>

definition typed :: "('p \<Rightarrow> 'p control list) \<Rightarrow> 'p \<Rightarrow> string list" where
  "typed controls p = map (\<lambda>c. ff_value (fst c)) (controls p)"

definition wired :: "('p \<Rightarrow> 'p control list) \<Rightarrow> string \<Rightarrow> 'p \<Rightarrow> bool" where
  "wired controls v p =
     list_all (\<lambda>i. typed controls (snd (controls p ! i) v p) = (typed controls p)[i := v]) [0..<length (controls p)]"

named_theorems form_simps

lemma valid_form_simps [form_simps]:
  "valid_form [] = True" "valid_form (f # fs) = (valid_field f \<and> valid_form fs)"
  "valid_form (fs @ gs) = (valid_form fs \<and> valid_form gs)"
  by (simp_all add: valid_form_def)

lemma field_values [form_simps]:
  "ff_value (needed l k v) = v" "ff_value (optional l k v) = v"
  by (simp_all add: needed_def optional_def)

lemma valid_field_simps [form_simps]:
  "valid_field (needed l k v) = (v \<noteq> [] \<and> kind_ok k v)"
  "valid_field (optional l k v) = kind_ok k v"
  "valid_field (tick_box l b) = True"
  by (simp_all add: valid_field_def needed_def optional_def tick_box_def)

text \<open>A number that is there and passes the browser is a number of the page, at least the minimum.\<close>

lemma number_box_value:
  assumes "kind_ok (Number_box (Some a) hi st) v" and "v \<noteq> []"
  obtains x where "toNumber v = Fin x" and "a \<le> x"
  using assms by (auto simp: number_ok_def split: jsnum.splits)

text \<open>
  A form whose own check asks for no more than the browser does: the page is never left complaining about an input
  that the browser has let through.
\<close>

locale browser_form = create_form +
  fixes controls :: "'p \<Rightarrow> 'p control list"
  assumes fields_valid: "valid_form (map fst (controls p)) \<Longrightarrow> valid p"
begin

lemma pressed_is_valid: "press controls submit w p \<noteq> (w, p) \<Longrightarrow> valid p"
  using fields_valid by (auto simp: press_def split: if_splits)

lemma press_outcome:
  "press controls submit w p = (w, p)
   \<or> form (snd (press controls submit w p)) = blank \<and> accepted_by good (snd (afetch w endpoint (opt p)))
   \<or> form (snd (press controls submit w p)) = form p \<and> fst (press controls submit w p) = fst (afetch w endpoint (opt p))
     \<and> said (snd (press controls submit w p)) \<noteq> None"
  using fields_valid [of p] refused [of p w] taken [of p w] by (auto simp: press_def)

end

end
