(* ===== verification/Telemetry_View.thy ===== *)
theory Telemetry_View
  imports Telemetry View_Kit
begin

section \<open>What the telemetry modal shows: the markup of \<open>TeltonikaDetailsModal.tsx\<close>\<close>

text \<open>
  The texts of the modal, with the colours that depend on the data and the conditions under which a part is
  there; layout and fixed styles are left out.
\<close>

subsection \<open>Header and ribbon\<close>

definition statusColor :: "jsval \<Rightarrow> string" where
  "statusColor vehicle =
     (if str_field vehicle ''status'' = Some ''moving'' then ''#22C55E''
      else if str_field vehicle ''status'' = Some ''idle'' then ''#EAB308''
      else ''#EF4444'')"

definition statusBackground :: "jsval \<Rightarrow> string" where
  "statusBackground vehicle =
     (if str_field vehicle ''status'' = Some ''moving'' then ''rgba(34, 197, 94, 0.12)''
      else if str_field vehicle ''status'' = Some ''idle'' then ''rgba(234, 179, 8, 0.12)''
      else ''rgba(239, 68, 68, 0.12)'')"

definition status_badge :: "jsval \<Rightarrow> string" where
  "status_badge vehicle = (if str_truthy (str_field vehicle ''status'') then toUpperCase (the (str_field vehicle ''status'')) else DASH)"

definition deviceType :: "modal \<Rightarrow> string" where
  "deviceType m = or_dash (Option.bind (deviceMeta m) device_type)"

definition modal_firmware :: "modal \<Rightarrow> string" where
  "modal_firmware m = or_dash (Option.bind (deviceMeta m) firmware)"

definition modal_header :: "jsval \<Rightarrow> modal \<Rightarrow> string list" where
  "modal_header vehicle m =
     [shown (jopt vehicle ''reg_number''), status_badge vehicle, deviceType m, vehicleName vehicle m,
      ''Driver: '' @ str_or (str_field vehicle ''driver_name'') DASH,
      ''IMEI: '' @ or_dash (Option.bind (deviceMeta m) dm_imei), ''Firmware: '' @ modal_firmware m]"

definition latest_num :: "(log_record \<Rightarrow> real option) \<Rightarrow> modal \<Rightarrow> real option" where
  "latest_num f m = Option.bind (latestRecord m) f"

definition ribbon_fuel :: "modal \<Rightarrow> string" where
  "ribbon_fuel m =
     (case latest_num fuelPct m of
        None \<Rightarrow> DASH
      | Some p \<Rightarrow> num_to_string p @ ''% '' @
          (case latest_num fuelLiters m of None \<Rightarrow> [] | Some l \<Rightarrow> ''('' @ num_to_string l @ '' L)''))"

definition ribbon_power :: "modal \<Rightarrow> string" where
  "ribbon_power m =
     (if latest_num extBattery m = None \<and> latest_num backupBattery m = None then DASH
      else formatVoltage (latest_num extBattery m) @ '' / '' @ formatVoltage (latest_num backupBattery m))"

definition ignitionColor :: "string option \<Rightarrow> string" where
  "ignitionColor i =
     (case i of None \<Rightarrow> ''var(--text-tertiary)'' | Some t \<Rightarrow> if t = ''OFF'' then ''#DC2626'' else ''#16A34A'')"

definition ribbon :: "jsval \<Rightarrow> modal \<Rightarrow> (string \<times> string) list" where
  "ribbon vehicle m =
     [(''Speed (AVL 24)'', rounded_unit (latestSpeed vehicle m) [] @ '' km/h''),
      (''Reefer Temp'', formatTemperature (latestTemp vehicle m)),
      (''Fuel Level (LLS RS485)'', ribbon_fuel m),
      (''Ext / Backup Power'', ribbon_power m),
      (''Ignition (DIN1)'', or_dash (latestIgnition vehicle m)),
      (''GNSS Sats'', num_unit (latest_num satellites m) '' Sats'')]"

subsection \<open>Tabs, limits, search\<close>

definition setActiveTab :: "string \<Rightarrow> modal \<Rightarrow> modal" where
  "setActiveTab t m = m\<lparr> md_tab := t \<rparr>"

definition modal_tabs :: "modal \<Rightarrow> (string \<times> string \<times> bool) list" where
  "modal_tabs m =
     [(''Device Telemetry Logs (Actual DB Intervals)'', nat_to_string (length (slicedLogs m)) @ '' records'', md_tab m = ''logs''),
      (''Teltonika Device Telemetry & Configurable Parameters'', ''Telemetry'', md_tab m = ''parameters'')]"

definition limit_choices :: "nat list" where
  "limit_choices = [15, 30, 60, 100]"

definition limit_buttons :: "modal \<Rightarrow> (nat \<times> bool) list" where
  "limit_buttons m =
     (if md_tab m = ''logs'' then map (\<lambda>v. (v, selectedIntervalRange m = v)) limit_choices else [])"

definition setSelectedIntervalRange :: "nat \<Rightarrow> modal \<Rightarrow> modal" where
  "setSelectedIntervalRange v m = m\<lparr> selectedIntervalRange := v \<rparr>"

definition setLogFilterQuery :: "string \<Rightarrow> modal \<Rightarrow> modal" where
  "setLogFilterQuery q m = m\<lparr> logFilterQuery := q \<rparr>"

definition clear_search_shown :: "modal \<Rightarrow> bool" where
  "clear_search_shown m = (logFilterQuery m \<noteq> [])"

text \<open>The banner over rows that are still there after a failed load.\<close>

definition error_banner :: "modal \<Rightarrow> string option" where
  "error_banner m = (if str_truthy (logsError m) \<and> slicedLogs m \<noteq> [] then logsError m else None)"

definition logs_stats :: "modal \<Rightarrow> (string \<times> string) list" where
  "logs_stats m =
     [(''Window:'', ''Last '' @ nat_to_string (length (slicedLogs m)) @ '' Records'')] @
     (case avgDeltaSec m of None \<Rightarrow> [] | Some d \<Rightarrow> [(''Avg Interval:'', formatIntervalDuration (of_int d))]) @
     [(''Avg / Max Speed:'', int_unit (avgSpeed m) '' km/h'' @ '' / '' @ num_unit (maxSpeed m) '' km/h''),
      (''Temp Range:'', formatTemperature (minTemp m) @ '' to '' @ formatTemperature (maxTemp m))]"

definition logs_source :: "modal \<Rightarrow> string \<times> string \<times> string" where
  "logs_source m =
     (if logDataSource m = ''device'' then ''#16A34A'' else ''var(--accent)'',
      if logDataSource m = ''device'' then ''Live Teltonika Device'' else ''PostgreSQL'',
      ''('' @ nat_to_string (length (slicedLogs m)) @ '' records'' @
      (case latestRecord m of
         None \<Rightarrow> []
       | Some r \<Rightarrow> '' '' @ MIDDOT @ '' '' @ or_dash (dateStr r) @ '' '' @ or_dash (timeStr r)) @ '')'')"

definition refresh_button :: "modal \<Rightarrow> string \<times> bool" where
  "refresh_button m = (if isLoadingLogs m then ''Loading...'' else ''Refresh'', isLoadingLogs m)"

subsection \<open>The log table\<close>

definition log_columns :: "string list" where
  "log_columns =
     [''TIME & ACTUAL INTERVAL DELTA'', ''SPEED'', ''REEFER TEMP'', ''FUEL (LLS)'', ''EXT BATT'', ''IGNITION'',
      ''CARGO DOOR'', ''COORDINATES'', ''TELTONIKA AVL TRIGGER / EVENT'']"

text \<open>A cell is its text and the colour that depends on the data.\<close>

type_synonym tinted = "string \<times> string"

definition interval_tint :: "nat \<Rightarrow> log_record \<Rightarrow> string" where
  "interval_tint idx r =
     (if idx = 0 then ''#16A34A''
      else if (case deltaSeconds r of None \<Rightarrow> False | Some d \<Rightarrow> d \<le> 15) then ''#0284C7''
      else ''var(--text-secondary)'')"

definition interval_title :: "nat \<Rightarrow> log_record \<Rightarrow> string" where
  "interval_title idx r =
     (case deltaSeconds r of
        Some d \<Rightarrow> ''Actual database interval: '' @ num_to_string d @ ''s''
      | None \<Rightarrow> if idx = 0 then ''Latest recorded ping'' else ''Interval not reported'')"

definition speed_cell :: "modal \<Rightarrow> log_record \<Rightarrow> tinted" where
  "speed_cell m r =
     (rounded_unit (lg_speed r) '' km/h'',
      if isOverspeed m (lg_speed r) then ''#DC2626''
      else if (case lg_speed r of None \<Rightarrow> False | Some x \<Rightarrow> x > 0) then ''var(--text-primary)''
      else ''var(--text-tertiary)'')"

definition temp_cell :: "log_record \<Rightarrow> tinted" where
  "temp_cell r =
     (case lg_temp r of
        None \<Rightarrow> (DASH, ''var(--text-tertiary)'')
      | Some x \<Rightarrow> (formatTemperature (Some x), if x < - 15 then ''#0284C7'' else ''#DC2626''))"

definition fuel_cell :: "log_record \<Rightarrow> tinted" where
  "fuel_cell r =
     ((case fuelPct r of None \<Rightarrow> DASH | Some x \<Rightarrow> num_to_string x @ ''%'') @
      (case fuelLiters r of None \<Rightarrow> [] | Some l \<Rightarrow> ''('' @ num_to_string l @ ''L)''),
      if fuelPct r = None then ''var(--text-tertiary)'' else ''var(--text-primary)'')"

definition ext_battery_cell :: "log_record \<Rightarrow> tinted" where
  "ext_battery_cell r = (num_unit (extBattery r) ''V'', [])"

definition ignition_cell :: "log_record \<Rightarrow> tinted" where
  "ignition_cell r =
     (case lg_ignition r of
        None \<Rightarrow> (DASH, ''var(--text-tertiary)'')
      | Some i \<Rightarrow> (i, if i = ''ON'' then ''#16A34A'' else ''#DC2626''))"

definition door_cell :: "log_record \<Rightarrow> tinted" where
  "door_cell r =
     (case door r of
        None \<Rightarrow> (DASH, ''var(--text-tertiary)'')
      | Some d \<Rightarrow> (d, if d = ''Closed'' then ''var(--text-secondary)'' else ''#B45309''))"

definition coords_cell :: "log_record \<Rightarrow> tinted" where
  "coords_cell r =
     (case (lg_lat r, lg_lng r) of
        (Some a, Some b) \<Rightarrow> (toFixed 5 a @ '', '' @ toFixed 5 b, [])
      | _ \<Rightarrow> (DASH, []))"

definition trigger_cell :: "modal \<Rightarrow> log_record \<Rightarrow> tinted" where
  "trigger_cell m r =
     (or_dash (trigger r), if isOverspeed m (lg_speed r) then ''#DC2626'' else ''var(--text-primary)'')"

record log_row =
  lr_key :: real
  lr_background :: string
  lr_time :: "string list"
  lr_title :: string
  lr_tint :: string
  lr_cells :: "tinted list"

text \<open>An overspeed row is red; the others alternate.\<close>

definition log_row_background :: "modal \<Rightarrow> nat \<Rightarrow> log_record \<Rightarrow> string" where
  "log_row_background m idx r =
     (if isOverspeed m (lg_speed r) then ''rgba(239, 68, 68, 0.05)''
      else if idx mod 2 = 0 then ''var(--bg-card)'' else ''var(--bg-subtle)'')"

definition log_row_of :: "modal \<Rightarrow> nat \<Rightarrow> log_record \<Rightarrow> log_row" where
  "log_row_of m idx r =
     \<lparr> lr_key = lg_id r, lr_background = log_row_background m idx r,
       lr_time = [or_dash (timeStr r), or_dash (intervalStr r), or_dash (dateStr r)],
       lr_title = interval_title idx r, lr_tint = interval_tint idx r,
       lr_cells = [speed_cell m r, temp_cell r, fuel_cell r, ext_battery_cell r, ignition_cell r, door_cell r,
                   coords_cell r, trigger_cell m r] \<rparr>"

definition logs_body :: "modal \<Rightarrow> log_row table_body" where
  "logs_body m =
     (if isLoadingLogs m \<and> slicedLogs m = [] then Loading ''Loading telemetry records...''
      else if str_truthy (logsError m) \<and> slicedLogs m = [] then Failure (the (logsError m))
      else if slicedLogs m = [] then Nothing ''No telemetry records for this vehicle''
      else if filteredLogs m = [] then Nothing (''No records matching query \"'' @ logFilterQuery m @ ''\"'')
      else Rows (map (\<lambda>(i, r). log_row_of m i r) (enumerate 0 (filteredLogs m))))"

definition trigger_icon :: "modal \<Rightarrow> log_record \<Rightarrow> string" where
  "trigger_icon m r = (if isOverspeed m (lg_speed r) then ''AlertTriangle'' else ''CheckCircle2'')"

subsection \<open>The parameter tab\<close>

text \<open>A row of a panel: label, value, and the colour of the value where one is set.\<close>

definition ParamRow :: "string \<Rightarrow> string \<Rightarrow> string option \<Rightarrow> string \<times> string \<times> string" where
  "ParamRow label value valueColor = (label, value, str_or valueColor ''var(--text-primary)'')"

definition device_line :: "modal \<Rightarrow> string \<times> string" where
  "device_line m =
     (let d = deviceMeta m; txt_of = (\<lambda>f. or_dash (Option.bind d f)) in
      (''Device: '' @ deviceType m @ BULLET @ ''IMEI: '' @ txt_of dm_imei @ BULLET @ ''Status: '' @ txt_of dm_status,
       ''SIM: '' @ txt_of sim_no @ '' ('' @ txt_of sim_operator @ '')'' @ BULLET @ ''TCP Port: '' @ devicePort m @ BULLET @
       ''Firmware: '' @ modal_firmware m))"

definition speed_panel :: "(real \<Rightarrow> string) \<Rightarrow> jsval \<Rightarrow> modal \<Rightarrow> (string \<times> string \<times> string) list" where
  "speed_panel locale_num vehicle m =
     [ParamRow ''Current GNSS Speed (AVL ID 24):'' (rounded_unit (latestSpeed vehicle m) '' km/h'') None,
      ParamRow ''Overspeeding Threshold:'' (num_unit (speedThresholdKmh (md_thresholds m)) '' km/h'')
        (if speedThresholdKmh (md_thresholds m) \<noteq> None then Some ''#D97706'' else None),
      ParamRow ''Average Speed (window):'' (int_unit (avgSpeed m) '' km/h'') None,
      ParamRow ''Maximum Speed (window):'' (num_unit (maxSpeed m) '' km/h'') None,
      ParamRow ''Configured Max Speed:'' (num_unit (Option.bind (vehicleMeta m) max_speed) '' km/h'') None,
      ParamRow ''Excessive Idling Threshold:'' (num_unit (idleThresholdMinutes (md_thresholds m)) '' minutes threshold'') None,
      ParamRow ''Total Virtual Odometer (AVL 16):'' (formatOdometer locale_num (latest_num lg_odometer m)) None]"

definition temperature_panel :: "jsval \<Rightarrow> modal \<Rightarrow> (string \<times> string \<times> string) list" where
  "temperature_panel vehicle m =
     [ParamRow ''Latest Recorded Temperature:'' (formatTemperature (latestTemp vehicle m)) (Some ''#0284C7''),
      ParamRow ''Minimum Temperature (window):'' (formatTemperature (minTemp m)) (Some ''#0284C7''),
      ParamRow ''Maximum Temperature (window):'' (formatTemperature (maxTemp m)) (Some ''#0284C7''),
      ParamRow ''Temperature Readings (window):'' (nat_to_string (length (known lg_temp m))) None]"

definition fuel_panel :: "modal \<Rightarrow> (string \<times> string \<times> string) list" where
  "fuel_panel m =
     [ParamRow ''Fuel Level Percentage (latest record):'' (num_unit (latest_num fuelPct m) ''%'') None,
      ParamRow ''Fuel Volume (latest record):'' (num_unit (latest_num fuelLiters m) '' L'') None,
      ParamRow ''Configured Tank Capacity:'' (num_unit (Option.bind (vehicleMeta m) fuel_capacity) '' L'') None]"

definition power_panel :: "modal \<Rightarrow> (string \<times> string \<times> string) list" where
  "power_panel m =
     [ParamRow ''External Vehicle Battery (latest record):'' (formatVoltage (latest_num extBattery m)) None,
      ParamRow ''Internal Backup Battery (latest record):'' (formatVoltage (latest_num backupBattery m)) (Some ''#16A34A''),
      ParamRow ''External Battery Range (window):''
        (if minExtBattery m \<noteq> None \<and> maxExtBattery m \<noteq> None
         then formatVoltage (minExtBattery m) @ EN_DASH @ formatVoltage (maxExtBattery m) else DASH) None]"

definition io_panel :: "modal \<Rightarrow> (string \<times> string \<times> string) list" where
  "io_panel m =
     (let ign = Option.bind (latestRecord m) lg_ignition; dr = Option.bind (latestRecord m) door in
      [ParamRow ''DIN1 - Ignition State (latest record):'' (or_dash ign)
         (if ign = Some ''OFF'' then Some ''#DC2626'' else if ign = Some ''ON'' then Some ''#16A34A'' else None),
       ParamRow ''DIN2 - Cargo Door Contact (latest record):'' (or_dash dr)
         (if str_truthy dr \<and> dr \<noteq> Some ''Closed'' then Some ''#B45309'' else None),
       ParamRow ''Records with Ignition ON (window):''
         (if slicedLogs m \<noteq> []
          then nat_to_string (ignitionOnCount m) @ '' of '' @ nat_to_string (length (slicedLogs m)) else DASH) None])"

definition uplink_panel ::
  "(string \<Rightarrow> int option) \<Rightarrow> (int \<Rightarrow> string) \<Rightarrow> modal \<Rightarrow> (string \<times> string \<times> string) list" where
  "uplink_panel other locale_text m =
     [ParamRow ''Satellites (latest record):'' (num_unit (latest_num satellites m) []) None,
      ParamRow ''GNSS Heading (latest record):'' (num_unit (latest_num lg_heading m) DEGREE) None,
      ParamRow ''Altitude (latest record):'' (num_unit (latest_num altitude m) '' m'') None,
      ParamRow ''Latest Transmission Interval:'' (or_dash (Option.bind (latestRecord m) intervalStr)) None,
      ParamRow ''Last Heartbeat:'' (formatDateTime other locale_text (Option.bind (deviceMeta m) last_heartbeat)) None,
      ParamRow ''Records in Window:'' (nat_to_string (length (slicedLogs m))) None]"

definition modal_footer :: "(string \<Rightarrow> int option) \<Rightarrow> (int \<Rightarrow> string) \<Rightarrow> modal \<Rightarrow> string" where
  "modal_footer other locale_text m =
     ''Device Telemetry'' @ BULLET @ ''Firmware '' @ modal_firmware m @ BULLET @ ''Last Heartbeat '' @
     formatDateTime other locale_text (Option.bind (deviceMeta m) last_heartbeat)"

subsection \<open>Facts\<close>

lemma rows_of_logs: "length (rows_of (logs_body m)) = length (filteredLogs m)"
  by (auto simp: logs_body_def filteredLogs_def)

text \<open>
  Rows that were loaded stay on screen when a later load fails or is on its way: the table shows them, and the
  error is in the banner.
\<close>

theorem failed_refresh_keeps_rows:
  assumes "slicedLogs m \<noteq> []" and "filteredLogs m \<noteq> []"
  shows "length (rows_of (logs_body (m\<lparr> isLoadingLogs := l, logsError := e \<rparr>))) = length (filteredLogs m)
    \<and> error_banner (m\<lparr> isLoadingLogs := l, logsError := e \<rparr>) = (if str_truthy e then e else None)"
proof -
  have "slicedLogs (m\<lparr> isLoadingLogs := l, logsError := e \<rparr>) = slicedLogs m"
    "filteredLogs (m\<lparr> isLoadingLogs := l, logsError := e \<rparr>) = filteredLogs m"
    by (simp_all add: slicedLogs_def filteredLogs_def)
  then show ?thesis
    using assms rows_of_logs [of "m\<lparr> isLoadingLogs := l, logsError := e \<rparr>"] by (auto simp: error_banner_def)
qed

definition demo_modal :: modal where
  "demo_modal = (modal_initial ''logs'')\<lparr> dbLogs := [mapApiLog (\<lambda>_. None) 0 (JObj [(''speed'', JNum 40)])] \<rparr>"

lemma demo_modal_rows: "slicedLogs demo_modal = dbLogs demo_modal" "filteredLogs demo_modal = dbLogs demo_modal"
  "dbLogs demo_modal \<noteq> []"
  by (simp_all add: demo_modal_def slicedLogs_def filteredLogs_def modal_initial_def slice_def log_matches_def trim_def)

theorem failed_refresh_keeps_rows_witness:
  "length (rows_of (logs_body (demo_modal\<lparr> isLoadingLogs := False, logsError := Some ''offline'' \<rparr>))) = length (filteredLogs demo_modal)
    \<and> error_banner (demo_modal\<lparr> isLoadingLogs := False, logsError := Some ''offline'' \<rparr>) = (if str_truthy (Some ''offline'') then Some ''offline'' else None)"
  by (rule failed_refresh_keeps_rows) (simp_all add: demo_modal_rows)

text \<open>
  Ribbon, parameter tab and the first row of the table tell the same speed when nothing is searched for and the latest
  record has one.
\<close>

theorem latest_speed_agrees:
  assumes "trim (logFilterQuery m) = []" and "latestRecord m = Some r" and "lg_speed r = Some x"
  shows "map fst (lr_cells (hd (rows_of (logs_body m)))) ! 0 = snd (ribbon vehicle m ! 0)
    \<and> fst (snd (speed_panel locale_num vehicle m ! 0)) = snd (ribbon vehicle m ! 0)"
proof -
  obtain rest where sl: "slicedLogs m = r # rest"
    using assms(2) by (auto simp: latestRecord_def split: list.splits)
  have "filteredLogs m = slicedLogs m"
    using assms(1) by (simp add: filteredLogs_def log_matches_def)
  then have "rows_of (logs_body m) = log_row_of m 0 r # map (\<lambda>(i, r). log_row_of m i r) (enumerate 1 rest)"
    by (simp add: logs_body_def sl)
  then show ?thesis
    using assms(2,3)
    by (simp add: log_row_of_def speed_cell_def ribbon_def speed_panel_def ParamRow_def rounded_unit_def latestSpeed_def or_else_def)
qed

text \<open>The row that a search leaves first is titled as the latest one, whichever it is.\<close>

lemma first_match_called_latest:
  assumes "filteredLogs m = r # rs" and "deltaSeconds r = None"
  shows "lr_title (hd (rows_of (logs_body m))) = ''Latest recorded ping''"
proof -
  have "slicedLogs m \<noteq> []"
    using assms(1) by (auto simp: filteredLogs_def)
  then show ?thesis
    using assms by (simp add: logs_body_def log_row_of_def interval_title_def)
qed

text \<open>The export takes the whole window: typing a search changes the table, not the file.\<close>

lemma export_ignores_search: "logs_csv (setLogFilterQuery q m) = logs_csv m"
  by (simp add: logs_csv_def slicedLogs_def setLogFilterQuery_def)

end
