(* ===== verification/Fleet.thy ===== *)
theory Fleet
  imports Page_Kit Client_Session
begin

section \<open>The fleet manager: \<open>FleetPage.tsx\<close>\<close>

text \<open>
  Ten lists loaded together and three forms. The lists are stored as the server sent them (\<open>jsval\<close> rows):
  the page checks only that each answer is a list. Every form is an interpretation of \<open>create_form\<close>.
\<close>

subsection \<open>State\<close>

record trip_form =
  tf_vehicleId :: string
  driver1Name :: string
  driver2Name :: string
  tf_partyName :: string
  tf_source :: string
  tf_destination :: string
  freightAmount :: string
  advanceAmount :: string

record tyre_form =
  ty_vehicleId :: string
  tyreNumber :: string
  axlePosition :: string
  ty_brand :: string
  ty_model :: string
  ty_size :: string
  treadDepthMm :: string
  plyRating :: string
  lifeKmLimit :: string

record voucher_form =
  vo_tripId :: string
  voucherType :: string
  vo_amount :: string
  billNo :: string
  vo_notes :: string

definition blank_trip :: trip_form where
  "blank_trip = \<lparr>tf_vehicleId = [], driver1Name = [], driver2Name = [], tf_partyName = [], tf_source = [],
                 tf_destination = [], freightAmount = [], advanceAmount = []\<rparr>"

definition blank_tyre :: tyre_form where
  "blank_tyre = \<lparr>ty_vehicleId = [], tyreNumber = [], axlePosition = [], ty_brand = [], ty_model = [], ty_size = [],
                 treadDepthMm = [], plyRating = [], lifeKmLimit = []\<rparr>"

definition blank_voucher :: voucher_form where
  "blank_voucher = \<lparr>vo_tripId = [], voucherType = [], vo_amount = [], billNo = [], vo_notes = []\<rparr>"

record fleet_page =
  fl_tab :: string
  fl_loading :: bool
  fl_toast :: toast
  trips :: "jsval list"
  gatePasses :: "jsval list"
  lrs :: "jsval list"
  tyres :: "jsval list"
  vouchers :: "jsval list"
  partyRoutes :: "jsval list"
  drivers :: "jsval list"
  tyreBrands :: "jsval list"
  axlePositions :: "jsval list"
  voucherCategories :: "jsval list"
  isTripModalOpen :: bool
  isTyreModalOpen :: bool
  isVoucherModalOpen :: bool
  newTrip :: trip_form
  newTyre :: tyre_form
  newVoucher :: voucher_form

definition fleet_initial :: "string \<Rightarrow> fleet_page" where
  "fleet_initial tab =
     \<lparr>fl_tab = tab, fl_loading = True, fl_toast = no_toast, trips = [], gatePasses = [], lrs = [], tyres = [],
      vouchers = [], partyRoutes = [], drivers = [], tyreBrands = [], axlePositions = [], voucherCategories = [],
      isTripModalOpen = False, isTyreModalOpen = False, isVoucherModalOpen = False,
      newTrip = blank_trip, newTyre = blank_tyre, newVoucher = blank_voucher\<rparr>"

definition fl_say :: "string \<Rightarrow> fleet_page \<Rightarrow> fleet_page" where
  "fl_say m p = p\<lparr>fl_toast := showToast m (fl_toast p)\<rparr>"

definition FLEET_TABS :: "string list" where
  "FLEET_TABS = [''trips'', ''gatepasses'', ''lr'', ''tyres'', ''vouchers'', ''partyroutes'', ''drivers'']"

definition fleet_tab_effect :: "string \<Rightarrow> string \<Rightarrow> fleet_page \<Rightarrow> fleet_page" where
  "fleet_tab_effect query initialTab p =
     (let q = param_get (parse_query (if prefix ''?'' query then tl query else query)) ''tab''
      in case q of
           Some t \<Rightarrow> if t \<noteq> [] \<and> t \<in> set FLEET_TABS then p\<lparr>fl_tab := t\<rparr>
                     else if initialTab \<noteq> [] then p\<lparr>fl_tab := initialTab\<rparr> else p
         | None \<Rightarrow> if initialTab \<noteq> [] then p\<lparr>fl_tab := initialTab\<rparr> else p)"

subsection \<open>Loading\<close>

definition fleet_lists :: "(string \<times> (jsval list \<Rightarrow> fleet_page \<Rightarrow> fleet_page)) list" where
  "fleet_lists =
     [(''/api/v1/fleet/trips'', \<lambda>xs p. p\<lparr>trips := xs\<rparr>),
      (''/api/v1/fleet/gate-passes'', \<lambda>xs p. p\<lparr>gatePasses := xs\<rparr>),
      (''/api/v1/fleet/lr'', \<lambda>xs p. p\<lparr>lrs := xs\<rparr>),
      (''/api/v1/fleet/tyres'', \<lambda>xs p. p\<lparr>tyres := xs\<rparr>),
      (''/api/v1/fleet/vouchers'', \<lambda>xs p. p\<lparr>vouchers := xs\<rparr>),
      (''/api/v1/fleet/party-routes'', \<lambda>xs p. p\<lparr>partyRoutes := xs\<rparr>),
      (''/api/v1/drivers'', \<lambda>xs p. p\<lparr>drivers := xs\<rparr>),
      (''/api/v1/masters/tyre-brands'', \<lambda>xs p. p\<lparr>tyreBrands := xs\<rparr>),
      (''/api/v1/masters/axle-positions'', \<lambda>xs p. p\<lparr>axlePositions := xs\<rparr>),
      (''/api/v1/masters/voucher-categories'', \<lambda>xs p. p\<lparr>voucherCategories := xs\<rparr>)]"

definition fleet_loadData :: "browser \<times> fleet_page \<Rightarrow> browser \<times> fleet_page" where
  "fleet_loadData wp =
     (let (w1, p1) = load_all auth_send auth_settle fleet_lists (fst wp) ((snd wp)\<lparr>fl_loading := True\<rparr>)
      in (w1, p1\<lparr>fl_loading := False\<rparr>))"

subsection \<open>Forms\<close>

definition trip_body :: "trip_form \<Rightarrow> jsval" where
  "trip_body t =
     JObj ([(''vehicleId'', num_body (tf_vehicleId t)), (''driver1Name'', JStr (trim (driver1Name t))),
            (''driver2Name'', JStr (trim (driver2Name t))), (''partyName'', JStr (trim (tf_partyName t))),
            (''source'', JStr (trim (tf_source t))), (''destination'', JStr (trim (tf_destination t)))] @
           opt_num ''freightAmount'' (freightAmount t) @ opt_num ''advanceAmount'' (advanceAmount t))"

definition trip_problem :: "fleet_page \<Rightarrow> string option" where
  "trip_problem p = (if tf_vehicleId (newTrip p) = [] then Some ''Please select a vehicle'' else None)"

definition handleCreateTrip :: "browser \<Rightarrow> fleet_page \<Rightarrow> browser \<times> fleet_page" where
  "handleCreateTrip w p =
     (case trip_problem p of
        Some m \<Rightarrow> (w, fl_say m p)
      | None \<Rightarrow>
          submit_form res_ok fetchWithAuth ''/api/v1/fleet/trips'' (send_json ''POST'' (trip_body (newTrip p)))
            (\<lambda>(w1, q). fleet_loadData (w1, (fl_say ''Fleet trip created and dispatched'' q)
                          \<lparr>isTripModalOpen := False, newTrip := blank_trip\<rparr>))
            fl_say ''Failed to dispatch trip'' ''Error dispatching trip'' w p)"

definition tyre_body :: "tyre_form \<Rightarrow> jsval" where
  "tyre_body t =
     JObj ([(''vehicleId'', num_body (ty_vehicleId t)), (''tyreNumber'', JStr (trim (tyreNumber t)))] @
           opt_text ''axlePosition'' (axlePosition t) @ opt_text ''brand'' (ty_brand t) @
           opt_text ''model'' (trim (ty_model t)) @ opt_text ''size'' (trim (ty_size t)) @
           opt_num ''treadDepthMm'' (treadDepthMm t) @ opt_num ''plyRating'' (plyRating t) @
           opt_num ''lifeKmLimit'' (lifeKmLimit t))"

definition tyre_problem :: "fleet_page \<Rightarrow> string option" where
  "tyre_problem p =
     (if ty_vehicleId (newTyre p) = [] then Some ''Please select the vehicle the tyre is mounted on'' else None)"

definition handleCreateTyre :: "browser \<Rightarrow> fleet_page \<Rightarrow> browser \<times> fleet_page" where
  "handleCreateTyre w p =
     (case tyre_problem p of
        Some m \<Rightarrow> (w, fl_say m p)
      | None \<Rightarrow>
          submit_form res_ok fetchWithAuth ''/api/v1/fleet/tyres'' (send_json ''POST'' (tyre_body (newTyre p)))
            (\<lambda>(w1, q). fleet_loadData (w1, (fl_say ''Tyre serial registered in asset registry'' q)
                          \<lparr>isTyreModalOpen := False, newTyre := blank_tyre\<rparr>))
            fl_say ''Failed to register tyre'' ''Error registering tyre'' w p)"

definition voucher_body :: "voucher_form \<Rightarrow> jsval" where
  "voucher_body v =
     JObj ([(''tripId'', num_body (vo_tripId v)), (''voucherType'', JStr (voucherType v)),
            (''amount'', num_body (vo_amount v))] @
           opt_text ''billNo'' (trim (billNo v)) @ opt_text ''notes'' (trim (vo_notes v)))"

definition voucher_problem :: "fleet_page \<Rightarrow> string option" where
  "voucher_problem p =
     (let v = newVoucher p
      in if vo_tripId v = [] \<or> voucherType v = [] \<or> \<not> num_gt0 (toNumber (vo_amount v))
         then Some ''Select a trip, voucher type and enter the amount'' else None)"

definition handleCreateVoucher :: "browser \<Rightarrow> fleet_page \<Rightarrow> browser \<times> fleet_page" where
  "handleCreateVoucher w p =
     (case voucher_problem p of
        Some m \<Rightarrow> (w, fl_say m p)
      | None \<Rightarrow>
          submit_form res_ok fetchWithAuth ''/api/v1/fleet/vouchers'' (send_json ''POST'' (voucher_body (newVoucher p)))
            (\<lambda>(w1, q). fleet_loadData (w1, (fl_say ''Expense voucher added and balance updated'' q)
                          \<lparr>isVoucherModalOpen := False, newVoucher := blank_voucher\<rparr>))
            fl_say ''Failed to submit voucher'' ''Error submitting voucher'' w p)"

text \<open>\<open>dash(value)\<close>\<close>

definition dash :: "jsval \<Rightarrow> string" where
  "dash v = (if nullish v \<or> v = JStr [] then DASH else js_to_string v)"

definition numberDash :: "(real \<Rightarrow> string) \<Rightarrow> jsval \<Rightarrow> string" where
  "numberDash locale_num v = (case as_num v of None \<Rightarrow> DASH | Some x \<Rightarrow> locale_num x)"

subsection \<open>Facts\<close>

text \<open>Loading leaves the forms and the toast alone.\<close>

lemma fleet_load_frame [simp]:
  "newTrip (snd (fleet_loadData wp)) = newTrip (snd wp)"
  "newTyre (snd (fleet_loadData wp)) = newTyre (snd wp)"
  "newVoucher (snd (fleet_loadData wp)) = newVoucher (snd wp)"
  "fl_toast (snd (fleet_loadData wp)) = fl_toast (snd wp)"
  "\<not> fl_loading (snd (fleet_loadData wp))"
proof -
  have keep: "g (snd (load_all auth_send auth_settle fleet_lists w (p\<lparr>fl_loading := True\<rparr>))) = g (p\<lparr>fl_loading := True\<rparr>)"
    if "list_all (\<lambda>(e, u). \<forall>xs q. g (u xs q) = g q) fleet_lists" for g :: "fleet_page \<Rightarrow> 'a" and w p
    by (rule load_all_keeps [OF that])
  show "newTrip (snd (fleet_loadData wp)) = newTrip (snd wp)" "newTyre (snd (fleet_loadData wp)) = newTyre (snd wp)"
    "newVoucher (snd (fleet_loadData wp)) = newVoucher (snd wp)" "fl_toast (snd (fleet_loadData wp)) = fl_toast (snd wp)"
    "\<not> fl_loading (snd (fleet_loadData wp))"
    using keep [of newTrip] keep [of newTyre] keep [of newVoucher] keep [of fl_toast]
    by (simp_all add: fleet_loadData_def Let_def split_beta fleet_lists_def)
qed

lemma fl_say_simps [simp]:
  "newTrip (fl_say m p) = newTrip p" "newTyre (fl_say m p) = newTyre p" "newVoucher (fl_say m p) = newVoucher p"
  "t_msg (fl_toast (fl_say m p)) = Some m"
  by (simp_all add: fl_say_def)

abbreviation fl_said :: "fleet_page \<Rightarrow> string option" where
  "fl_said p \<equiv> t_msg (fl_toast p)"

interpretation trip: explained_form handleCreateTrip "\<lambda>p. trip_problem p = None" res_ok fetchWithAuth "''/api/v1/fleet/trips''"
  "\<lambda>p. send_json ''POST'' (trip_body (newTrip p))" newTrip blank_trip fl_said trip_problem
  by (rule explained_formI [OF handleCreateTrip_def]) (simp_all add: split_beta)

interpretation tyre: explained_form handleCreateTyre "\<lambda>p. tyre_problem p = None" res_ok fetchWithAuth "''/api/v1/fleet/tyres''"
  "\<lambda>p. send_json ''POST'' (tyre_body (newTyre p))" newTyre blank_tyre fl_said tyre_problem
  by (rule explained_formI [OF handleCreateTyre_def]) (simp_all add: split_beta)

interpretation voucher: explained_form handleCreateVoucher "\<lambda>p. voucher_problem p = None" res_ok fetchWithAuth "''/api/v1/fleet/vouchers''"
  "\<lambda>p. send_json ''POST'' (voucher_body (newVoucher p))" newVoucher blank_voucher fl_said voucher_problem
  by (rule explained_formI [OF handleCreateVoucher_def]) (simp_all add: split_beta)

lemma fleet_send [intro]:
  "adds_only tenant_request w (fst (fleet_loadData (w, p)))" "adds_only tenant_request w (fst (handleCreateTrip w p))"
  "adds_only tenant_request w (fst (handleCreateTyre w p))" "adds_only tenant_request w (fst (handleCreateVoucher w p))"
proof -
  have load: "adds_only tenant_request u (fst (fleet_loadData (u, q)))" for u q
    by (simp add: fleet_loadData_def split_beta client_sends(1))
  then show "adds_only tenant_request w (fst (fleet_loadData (w, p)))" .
  show "adds_only tenant_request w (fst (handleCreateTrip w p))" "adds_only tenant_request w (fst (handleCreateTyre w p))"
    "adds_only tenant_request w (fst (handleCreateVoucher w p))"
    unfolding handleCreateTrip_def handleCreateTyre_def handleCreateVoucher_def
    by (auto simp: split_beta load split: option.splits intro!: client_sends(4))
qed

subsection \<open>Properties\<close>

text \<open>The fleet page never loses what was typed into one of its three forms: after a submit the form is
  unchanged and a message is shown, or it is empty and the server accepted the request; and a form that
  fails its check sends nothing.\<close>

theorem fleet_forms_keep_input:
  "(newTrip (snd (handleCreateTrip w p)) = newTrip p \<and> t_msg (fl_toast (snd (handleCreateTrip w p))) \<noteq> None
     \<or> newTrip (snd (handleCreateTrip w p)) = blank_trip \<and> tf_vehicleId (newTrip p) \<noteq> [])
   \<and> (newTyre (snd (handleCreateTyre w p)) = newTyre p \<and> t_msg (fl_toast (snd (handleCreateTyre w p))) \<noteq> None
     \<or> newTyre (snd (handleCreateTyre w p)) = blank_tyre \<and> ty_vehicleId (newTyre p) \<noteq> [])
   \<and> (newVoucher (snd (handleCreateVoucher w p)) = newVoucher p \<and> t_msg (fl_toast (snd (handleCreateVoucher w p))) \<noteq> None
     \<or> newVoucher (snd (handleCreateVoucher w p)) = blank_voucher \<and> num_gt0 (toNumber (vo_amount (newVoucher p))))
   \<and> (if trip_problem p = None then True else fst (handleCreateTrip w p) = w)
   \<and> (if tyre_problem p = None then True else fst (handleCreateTyre w p) = w)
   \<and> (if voucher_problem p = None then True else fst (handleCreateVoucher w p) = w)"
proof -
  have pr: "trip_problem p = None \<Longrightarrow> tf_vehicleId (newTrip p) \<noteq> []" "tyre_problem p = None \<Longrightarrow> ty_vehicleId (newTyre p) \<noteq> []"
    "voucher_problem p = None \<Longrightarrow> num_gt0 (toNumber (vo_amount (newVoucher p)))"
    by (auto simp: trip_problem_def tyre_problem_def voucher_problem_def Let_def split: if_splits)
  show ?thesis
    using trip.input_never_lost [of w p] tyre.input_never_lost [of w p] voucher.input_never_lost [of w p] pr
      trip.problem_sends_nothing [of p w] tyre.problem_sends_nothing [of p w] voucher.problem_sends_nothing [of p w]
    by (simp only: split: if_split) blast
qed

text \<open>When all ten requests of the fleet page are answered with good lists, each list of the page is the
  rows of its own answer and the spinner is off.\<close>

theorem fleet_load_complete:
  assumes "fetch_all auth_send auth_settle w (map fst fleet_lists) = (w1, Inr rs)"
    and "list_all2 (\<lambda>r xs. success_rows r = Inr (Some xs)) rs [a, b, c, d, e, f, g, h, i, j]"
  shows "let p' = snd (fleet_loadData (w, p))
         in trips p' = a \<and> gatePasses p' = b \<and> lrs p' = c \<and> tyres p' = d \<and> vouchers p' = e \<and> partyRoutes p' = f
            \<and> drivers p' = g \<and> tyreBrands p' = h \<and> axlePositions p' = i \<and> voucherCategories p' = j
            \<and> \<not> fl_loading p'"
proof -
  have "length rs = length (map snd fleet_lists)"
    using list_all2_lengthD [OF assms(2)] by (simp add: fleet_lists_def)
  from apply_rows_all [OF this assms(2)]
  have "snd (fleet_loadData (w, p)) =
      (fold (\<lambda>(u, xs). u xs) (zip (map snd fleet_lists) [a, b, c, d, e, f, g, h, i, j]) (p\<lparr>fl_loading := True\<rparr>))\<lparr>fl_loading := False\<rparr>"
    by (simp add: fleet_loadData_def load_all_def assms(1))
  then show ?thesis by (simp add: fleet_lists_def Let_def)
qed

theorem fleet_load_complete_witness:
  "trips (snd (fleet_loadData (demo_session (answer 200 (JObj [(''success'', JBool True), (''data'', JArr [JNull])])),
     fleet_initial ''trips''))) = [JNull]"
proof -
  let ?v = "JObj [(''success'', JBool True), (''data'', JArr [JNull])]"
  let ?r = "\<lparr>status = 200, statusText = ''OK'', body = Inr ?v\<rparr> :: response"
  obtain w1 where f: "fetch_all auth_send auth_settle (demo_session (answer 200 ?v)) (map fst fleet_lists) =
      (w1, Inr (replicate (length (map fst fleet_lists)) ?r))"
    using fetch_all_answer [OF demo_has_session] by blast
  have ok: "success_rows ?r = Inr (Some [JNull])"
    by (simp add: success_rows_def res_ok_def res_json_def jget_def)
  have "list_all2 (\<lambda>r xs. success_rows r = Inr (Some xs)) (replicate (length (map fst fleet_lists)) ?r)
      [[JNull], [JNull], [JNull], [JNull], [JNull], [JNull], [JNull], [JNull], [JNull], [JNull]]"
    using ok by (simp add: fleet_lists_def)
  from fleet_load_complete [OF f this] show ?thesis by (simp add: Let_def)
qed

end
