(* ===== verification/Fleet_View.thy ===== *)
theory Fleet_View
  imports Fleet View_Kit Vehicle_Store
begin

section \<open>What the fleet manager shows: the markup of \<open>FleetPage.tsx\<close>\<close>

text \<open>
  Title, buttons, tabs, the seven tables and the three dialogs. The rows come from the server as they are; their
  fields are taken to have the types the page declares. \<open>locale_num\<close> is \<open>toLocaleString\<close>.
\<close>

subsection \<open>Head of the page\<close>

definition fleet_title :: "string \<Rightarrow> fleet_page \<Rightarrow> string" where
  "fleet_title path p =
     (if str_includes path ''/driver-manager'' \<or> fl_tab p = ''drivers'' then ''Driver Manager''
      else if str_includes path ''/party-manager'' then ''Party/Company Manager''
      else if str_includes path ''/party-routes'' \<or> fl_tab p = ''partyroutes'' then ''Party Routes Manager''
      else if str_includes path ''/trailor-master'' \<or> fl_tab p = ''tyres'' then ''Trailor Master''
      else if str_includes path ''/truck-master'' then ''Truck Master''
      else ''Trip Manager'')"

text \<open>The button of the tab, if it has one, and the dialog it opens.\<close>

definition fleet_button :: "fleet_page \<Rightarrow> (string \<times> fleet_page) option" where
  "fleet_button p =
     (if fl_tab p = ''trips'' then Some (''Dispatch New Trip'', p\<lparr>isTripModalOpen := True\<rparr>)
      else if fl_tab p = ''tyres'' then Some (''Register Tyre Serial'', p\<lparr>isTyreModalOpen := True\<rparr>)
      else if fl_tab p = ''vouchers'' then Some (''Record Trip Expense'', p\<lparr>isVoucherModalOpen := True\<rparr>)
      else None)"

definition fleet_notice :: "fleet_page \<Rightarrow> string option" where
  "fleet_notice p = (if fl_loading p then Some ''Syncing fleet operations telemetry...'' else None)"

text \<open>A tab: key, label, number of rows, whether it is the open one.\<close>

definition fleet_tabs :: "fleet_page \<Rightarrow> (string \<times> string \<times> nat \<times> bool) list" where
  "fleet_tabs p =
     map (\<lambda>(key, label, n). (key, label, n, fl_tab p = key))
       [(''trips'', ''Trip Manager'', length (trips p)),
        (''partyroutes'', ''Party Routes Manager'', length (partyRoutes p)),
        (''drivers'', ''Driver Manager'', length (drivers p)),
        (''tyres'', ''Trailor & Tyre Master'', length (tyres p)),
        (''vouchers'', ''Trip Vouchers'', length (vouchers p)),
        (''gatepasses'', ''Gate Passes'', length (gatePasses p)),
        (''lr'', ''Loading Receipts'', length (lrs p))]"

definition fleet_setActiveTab :: "string \<Rightarrow> fleet_page \<Rightarrow> fleet_page" where
  "fleet_setActiveTab key p = p\<lparr>fl_tab := key\<rparr>"

subsection \<open>Rows\<close>

text \<open>A row is a list of cells, a cell a list of lines.\<close>

type_synonym cells = "string list list"

abbreviation dash_of :: "jsval \<Rightarrow> string \<Rightarrow> string" where
  "dash_of r k \<equiv> dash (jopt r k)"

definition trip_row :: "(real \<Rightarrow> string) \<Rightarrow> jsval \<Rightarrow> cells" where
  "trip_row locale_num t =
     (let money = (\<lambda>k. numberDash locale_num (jopt t k)) in
      [[dash_of t ''tripNo''], [dash_of t ''vehicleReg''],
       dash_of t ''driver1'' # (if truthy (jopt t ''driver2'') then [''Co-driver: '' @ shown (jopt t ''driver2'')] else []),
       [dash_of t ''partyName'', dash_of t ''source'' @ DASH @ dash_of t ''destination''],
       [''Freight: AED '' @ money ''freightAmount'',
        ''Adv: '' @ money ''advanceAmount'' @ BULLET @ ''Exp: '' @ money ''expenseAmount'' @ BULLET @
        ''Bal: AED '' @ money ''balanceAmount''],
       [dash_of t ''status'']])"

text \<open>Background and colour of the status of a trip.\<close>

definition trip_tint :: "jsval \<Rightarrow> string \<times> string" where
  "trip_tint t =
     (if str_field t ''status'' = Some ''In Transit'' then (''var(--accent-light)'', ''var(--accent)'')
      else if str_field t ''status'' = Some ''Delivered'' then (''var(--good-bg)'', ''var(--good)'')
      else (''var(--bg-subtle)'', ''var(--text-secondary)''))"

definition below :: "jsval \<Rightarrow> string \<Rightarrow> real \<Rightarrow> bool" where
  "below r k x = (case num_field r k of None \<Rightarrow> False | Some y \<Rightarrow> y < x)"

definition worn :: "jsval \<Rightarrow> bool" where
  "worn ty = below ty ''treadDepthMm'' 5"

definition tyre_name :: "jsval \<Rightarrow> string" where
  "tyre_name ty =
     (if truthy (jopt ty ''brand'') \<or> truthy (jopt ty ''model'')
      then trim (str_or (str_field ty ''brand'') [] @ '' '' @ str_or (str_field ty ''model'') []) else DASH)"

definition tyre_row :: "(real \<Rightarrow> string) \<Rightarrow> jsval \<Rightarrow> cells" where
  "tyre_row locale_num ty =
     [[dash_of ty ''tyreNumber''], [dash_of ty ''vehicleReg'', dash_of ty ''axlePosition''],
      [tyre_name ty, dash_of ty ''size'' @ BULLET @ unit_dash (jopt ty ''plyRating'') '' PR''],
      unit_dash (jopt ty ''treadDepthMm'') '' mm'' # (if worn ty then [''Replace / Retread''] else []),
      [numberDash locale_num (jopt ty ''currentKm'') @ '' / '' @ numberDash locale_num (jopt ty ''lifeKmLimit'') @ '' KM'',
       unit_dash (jopt ty ''healthPct'') ''%''],
      [unit_dash (jopt ty ''retreadingCount'') '' times'']]"

text \<open>The bar under the mileage: its width in percent and its colour.\<close>

definition health_bar :: "jsval \<Rightarrow> string \<times> string" where
  "health_bar ty =
     (js_to_string (js_or (jopt ty ''healthPct'') (JNum 0)) @ ''%'',
      if below ty ''healthPct'' 30 then ''#DC2626''
      else if below ty ''healthPct'' 60 then ''var(--attention)'' else ''var(--good)'')"

definition voucher_row :: "jsval \<Rightarrow> cells" where
  "voucher_row v =
     [[dash_of v ''tripNo''], [dash_of v ''voucherType''],
      [case num_field v ''amount'' of None \<Rightarrow> DASH | Some x \<Rightarrow> ''AED '' @ toFixed 2 x],
      [text_dash (jopt v ''billNo'')], [text_dash (jopt v ''notes'')], [dash_of v ''date'']]"

definition party_row :: "(real \<Rightarrow> string) \<Rightarrow> jsval \<Rightarrow> cells" where
  "party_row locale_num r =
     [[dash_of r ''partyName''], [dash_of r ''source''], [dash_of r ''destination''],
      [if nullish (jopt r ''standardKm'') then DASH else numberDash locale_num (jopt r ''standardKm'') @ '' KM''],
      [''AED '' @ numberDash locale_num (jopt r ''billingRate'')]]"

definition pass_row :: "jsval \<Rightarrow> cells" where
  "pass_row g = map (\<lambda>k. [dash_of g k]) [''passNo'', ''vehicle'', ''driver'', ''destination'', ''issuedAt'', ''status'']"

definition receipt_row :: "(real \<Rightarrow> string) \<Rightarrow> jsval \<Rightarrow> cells" where
  "receipt_row locale_num l =
     [[dash_of l ''lrNo''], [dash_of l ''party''], [dash_of l ''vehicle''],
      [if nullish (jopt l ''weightKg'') then DASH else numberDash locale_num (jopt l ''weightKg'') @ '' kg''],
      [''AED '' @ numberDash locale_num (jopt l ''freightAmt'')], [dash_of l ''status'']]"

definition driver_row :: "jsval \<Rightarrow> cells" where
  "driver_row d = map (\<lambda>k. [dash_of d k]) [''name'', ''phone'', ''licenseNo'', ''assignedVehicle'', ''status'']"

definition trip_columns :: "string list" where
  "trip_columns = [''Trip #'', ''Vehicle Plate'', ''Drivers'', ''Party & Route'', ''Financial Ledger'', ''Status'']"

definition tyre_columns :: "string list" where
  "tyre_columns =
     [''Tyre Serial'', ''Vehicle & Axle'', ''Brand & Model'', ''Tread Depth (mm)'', ''Lifecycle Health'', ''Retread Count'']"

definition voucher_columns :: "string list" where
  "voucher_columns = [''Trip Reference'', ''Expense Category'', ''Amount'', ''Bill / Invoice #'', ''Notes'', ''Date'']"

definition party_columns :: "string list" where
  "party_columns = [''Party Name'', ''Origin Point'', ''Destination Hub'', ''Standard Distance'', ''Freight Billing Rate'']"

definition pass_columns :: "string list" where
  "pass_columns = [''Pass #'', ''Vehicle'', ''Driver'', ''Destination'', ''Issued'', ''Status'']"

definition receipt_columns :: "string list" where
  "receipt_columns = [''LR #'', ''Consignor / Party'', ''Assigned Vehicle'', ''Weight'', ''Freight Total'', ''Status'']"

definition driver_columns :: "string list" where
  "driver_columns = [''Driver Name'', ''Mobile Number'', ''License #'', ''Assigned Vehicle'', ''Duty Status'']"

text \<open>The table of the open tab.\<close>

definition fleet_table :: "(real \<Rightarrow> string) \<Rightarrow> fleet_page \<Rightarrow> string list \<times> cells list" where
  "fleet_table locale_num p =
     (if fl_tab p = ''trips'' then (trip_columns, map (trip_row locale_num) (trips p))
      else if fl_tab p = ''tyres'' then (tyre_columns, map (tyre_row locale_num) (tyres p))
      else if fl_tab p = ''vouchers'' then (voucher_columns, map voucher_row (vouchers p))
      else if fl_tab p = ''partyroutes'' then (party_columns, map (party_row locale_num) (partyRoutes p))
      else if fl_tab p = ''gatepasses'' then (pass_columns, map pass_row (gatePasses p))
      else if fl_tab p = ''lr'' then (receipt_columns, map (receipt_row locale_num) (lrs p))
      else if fl_tab p = ''drivers'' then (driver_columns, map driver_row (drivers p))
      else ([], []))"

subsection \<open>Dialogs\<close>

text \<open>The choice of a vehicle, and of a name from a lookup table, which says so when it is empty.\<close>

definition vehicle_label :: "vehicle_position \<Rightarrow> string" where
  "vehicle_label v = str_or (reg_number v) (str_or (vp_name v) (js_to_string (device_id v)))"

definition vehicle_choice :: "vehicle_position list \<Rightarrow> input_kind" where
  "vehicle_choice vs =
     Choice (([], ''Select vehicle...'') # map (\<lambda>v. (js_to_string (device_id v), vehicle_label v)) vs)"

definition lookup_choice :: "string \<Rightarrow> string \<Rightarrow> jsval list \<Rightarrow> input_kind" where
  "lookup_choice prompt none rows =
     Choice (([], prompt) #
       (if rows = [] then [([], none)] else map (\<lambda>m. (shown (jopt m ''name''), shown (jopt m ''name''))) rows))"

definition trip_choice :: "jsval list \<Rightarrow> input_kind" where
  "trip_choice ts =
     Choice (([], ''Select trip...'') #
       (if ts = [] then [([], ''No trips available'')]
        else map (\<lambda>t. (js_to_string (jopt t ''id''),
               dash_of t ''tripNo'' @ '' ('' @ dash_of t ''vehicleReg'' @ '' - '' @ dash_of t ''destination'' @ '')'')) ts))"

definition setNewTrip :: "(trip_form \<Rightarrow> trip_form) \<Rightarrow> fleet_page \<Rightarrow> fleet_page" where
  "setNewTrip f p = p\<lparr>newTrip := f (newTrip p)\<rparr>"

definition setNewTyre :: "(tyre_form \<Rightarrow> tyre_form) \<Rightarrow> fleet_page \<Rightarrow> fleet_page" where
  "setNewTyre f p = p\<lparr>newTyre := f (newTyre p)\<rparr>"

definition setNewVoucher :: "(voucher_form \<Rightarrow> voucher_form) \<Rightarrow> fleet_page \<Rightarrow> fleet_page" where
  "setNewVoucher f p = p\<lparr>newVoucher := f (newVoucher p)\<rparr>"

definition trip_controls :: "vehicle_position list \<Rightarrow> fleet_page \<Rightarrow> fleet_page control list" where
  "trip_controls vs p =
     (let t = newTrip p; money = Number_box (Some 0) None 1 in
      [(needed ''Vehicle Plate'' (vehicle_choice vs) (tf_vehicleId t), \<lambda>v. setNewTrip (tf_vehicleId_update (\<lambda>_. v))),
       (needed ''Primary Driver'' Text_box (driver1Name t), \<lambda>v. setNewTrip (driver1Name_update (\<lambda>_. v))),
       (optional ''Co-Driver (Optional)'' Text_box (driver2Name t), \<lambda>v. setNewTrip (driver2Name_update (\<lambda>_. v))),
       (needed ''Consignor / Party Name'' Text_box (tf_partyName t), \<lambda>v. setNewTrip (tf_partyName_update (\<lambda>_. v))),
       (needed ''Origin (Source)'' Text_box (tf_source t), \<lambda>v. setNewTrip (tf_source_update (\<lambda>_. v))),
       (needed ''Destination'' Text_box (tf_destination t), \<lambda>v. setNewTrip (tf_destination_update (\<lambda>_. v))),
       (optional ''Freight Rate (AED)'' money (freightAmount t), \<lambda>v. setNewTrip (freightAmount_update (\<lambda>_. v))),
       (optional ''Advance Cash (AED)'' money (advanceAmount t), \<lambda>v. setNewTrip (advanceAmount_update (\<lambda>_. v)))])"

definition tyre_controls :: "vehicle_position list \<Rightarrow> fleet_page \<Rightarrow> fleet_page control list" where
  "tyre_controls vs p =
     (let t = newTyre p in
      [(needed ''Tyre Serial Barcode #'' Text_box (tyreNumber t), \<lambda>v. setNewTyre (tyreNumber_update (\<lambda>_. v))),
       (needed ''Mount Vehicle'' (vehicle_choice vs) (ty_vehicleId t), \<lambda>v. setNewTyre (ty_vehicleId_update (\<lambda>_. v))),
       (optional ''Axle Position''
          (lookup_choice ''Select axle position...'' ''No axle positions configured'' (axlePositions p)) (axlePosition t),
        \<lambda>v. setNewTyre (axlePosition_update (\<lambda>_. v))),
       (optional ''Brand'' (lookup_choice ''Select brand...'' ''No tyre brands configured'' (tyreBrands p)) (ty_brand t),
        \<lambda>v. setNewTyre (ty_brand_update (\<lambda>_. v))),
       (optional ''Model'' Text_box (ty_model t), \<lambda>v. setNewTyre (ty_model_update (\<lambda>_. v))),
       (optional ''Tyre Size'' Text_box (ty_size t), \<lambda>v. setNewTyre (ty_size_update (\<lambda>_. v))),
       (optional ''Current Tread Depth (mm)'' (Number_box (Some 0) None (1 / 10)) (treadDepthMm t),
        \<lambda>v. setNewTyre (treadDepthMm_update (\<lambda>_. v))),
       (optional ''Ply Rating'' (Number_box (Some 0) None 1) (plyRating t), \<lambda>v. setNewTyre (plyRating_update (\<lambda>_. v))),
       (optional ''Life Limit (KM)'' (Number_box (Some 0) None 1) (lifeKmLimit t),
        \<lambda>v. setNewTyre (lifeKmLimit_update (\<lambda>_. v)))])"

definition voucher_controls :: "fleet_page \<Rightarrow> fleet_page control list" where
  "voucher_controls p =
     (let u = newVoucher p in
      [(needed ''Trip Reference'' (trip_choice (trips p)) (vo_tripId u), \<lambda>v. setNewVoucher (vo_tripId_update (\<lambda>_. v))),
       (needed ''Voucher Type''
          (lookup_choice ''Select voucher type...'' ''No voucher categories configured'' (voucherCategories p)) (voucherType u),
        \<lambda>v. setNewVoucher (voucherType_update (\<lambda>_. v))),
       (needed ''Amount (AED)'' (Number_box (Some 0) None (1 / 100)) (vo_amount u),
        \<lambda>v. setNewVoucher (vo_amount_update (\<lambda>_. v))),
       (optional ''Bill / Invoice #'' Text_box (billNo u), \<lambda>v. setNewVoucher (billNo_update (\<lambda>_. v)))])"

subsection \<open>Facts\<close>

text \<open>The number on a tab is the number of rows of its table, and every row has a cell for each column.\<close>

lemma table_fits_columns: "list_all (\<lambda>r. length r = length (fst (fleet_table n p))) (snd (fleet_table n p))"
  by (simp add: fleet_table_def list_all_length trip_row_def tyre_row_def voucher_row_def party_row_def pass_row_def
      receipt_row_def driver_row_def trip_columns_def tyre_columns_def voucher_columns_def party_columns_def pass_columns_def
      receipt_columns_def driver_columns_def Let_def)

theorem tab_counts_rows:
  "list_all (\<lambda>(key, label, n, open_tab). length (snd (fleet_table locale_num (fleet_setActiveTab key p))) = n) (fleet_tabs p)"
  by (simp add: fleet_tabs_def fleet_table_def fleet_setActiveTab_def)

lemma fleet_wired:
  "wired (trip_controls vs) v p" "wired (tyre_controls vs) v p" "wired voucher_controls v p"
  by (simp_all add: wired_def typed_def trip_controls_def tyre_controls_def voucher_controls_def Let_def form_simps
      setNewTrip_def setNewTyre_def setNewVoucher_def upt_rec numeral_eq_Suc)

interpretation trip_dialog: browser_form handleCreateTrip "\<lambda>p. trip_problem p = None" res_ok fetchWithAuth "''/api/v1/fleet/trips''"
  "\<lambda>p. send_json ''POST'' (trip_body (newTrip p))" newTrip blank_trip fl_said "trip_controls vs" for vs
  by (intro browser_form.intro trip.create_form_axioms browser_form_axioms.intro)
     (simp add: trip_controls_def trip_problem_def Let_def form_simps)

interpretation tyre_dialog: browser_form handleCreateTyre "\<lambda>p. tyre_problem p = None" res_ok fetchWithAuth "''/api/v1/fleet/tyres''"
  "\<lambda>p. send_json ''POST'' (tyre_body (newTyre p))" newTyre blank_tyre fl_said "tyre_controls vs" for vs
  by (intro browser_form.intro tyre.create_form_axioms browser_form_axioms.intro)
     (simp add: tyre_controls_def tyre_problem_def Let_def form_simps)

text \<open>The voucher dialog lets an amount of zero through; it is the only thing its handler still refuses.\<close>

lemma voucher_gap:
  assumes "valid_form (map fst (voucher_controls p))"
  shows "voucher_problem p = None \<longleftrightarrow> toNumber (vo_amount (newVoucher p)) \<noteq> Fin 0"
proof -
  have "kind_ok (Number_box (Some 0) None (1 / 100)) (vo_amount (newVoucher p))" "vo_amount (newVoucher p) \<noteq> []"
    and ids: "vo_tripId (newVoucher p) \<noteq> []" "voucherType (newVoucher p) \<noteq> []"
    using assms by (auto simp: voucher_controls_def Let_def form_simps)
  then obtain x where "toNumber (vo_amount (newVoucher p)) = Fin x" "0 \<le> x"
    by (blast elim: number_box_value)
  with ids show ?thesis by (auto simp: voucher_problem_def Let_def)
qed

end
