(* ===== verification/Geofences.thy ===== *)
theory Geofences
  imports Page_Kit Client_Session
begin

section \<open>Geofences and saved places: \<open>GeofencesPage.tsx\<close>\<close>

text \<open>
  Two lists loaded together, the form that draws a zone from typed coordinates, and the deletion of a
  zone. The form is a \<open>create_form\<close> (an empty name is passed over without a message), the deletion a
  \<open>row_removal\<close>.
\<close>

subsection \<open>State\<close>

record zone_form =
  zf_name :: string
  zf_speedLimit :: string
  alertOnEnter :: bool
  alertOnExit :: bool
  zf_coordinates :: string

definition blank_zone :: zone_form where
  "blank_zone = \<lparr>zf_name = [], zf_speedLimit = [], alertOnEnter = False, alertOnExit = False, zf_coordinates = []\<rparr>"

record geofences_page =
  zones :: "jsval list"
  places :: "jsval list"
  gf_loading :: bool
  gf_tab :: string
  isCreateModalOpen :: bool
  gf_toast :: toast
  newZone :: zone_form

definition geofences_initial :: "string \<Rightarrow> geofences_page" where
  "geofences_initial tab =
     \<lparr>zones = [], places = [], gf_loading = True, gf_tab = tab, isCreateModalOpen = False, gf_toast = no_toast,
      newZone = blank_zone\<rparr>"

definition gf_say :: "string \<Rightarrow> geofences_page \<Rightarrow> geofences_page" where
  "gf_say m p = p\<lparr>gf_toast := showToast m (gf_toast p)\<rparr>"

definition geofences_tab_effect :: "string \<Rightarrow> string \<Rightarrow> geofences_page \<Rightarrow> geofences_page" where
  "geofences_tab_effect query initialTab p =
     (let q = param_get (parse_query (if prefix ''?'' query then tl query else query)) ''tab''
      in if q = Some ''zones'' \<or> q = Some ''places'' then p\<lparr>gf_tab := the q\<rparr>
         else if initialTab \<noteq> [] then p\<lparr>gf_tab := initialTab\<rparr> else p)"

subsection \<open>Operations\<close>

text \<open>One vertex per line; a line that is not two numbers is left out.\<close>

definition line_point :: "string \<Rightarrow> (real \<times> real) list" where
  "line_point l =
     (case map (\<lambda>part. toNumber (trim part)) (split_on (CHR '','') l) of
        [Fin x, Fin y] \<Rightarrow> [(x, y)]
      | _ \<Rightarrow> [])"

definition parseCoordinateLines :: "string \<Rightarrow> (real \<times> real) list" where
  "parseCoordinateLines raw = concat (map line_point (split_on NL raw))"

definition geofences_lists :: "(string \<times> (jsval list \<Rightarrow> geofences_page \<Rightarrow> geofences_page)) list" where
  "geofences_lists = [(''/api/v1/geofences'', \<lambda>xs p. p\<lparr>zones := xs\<rparr>), (''/api/v1/poi'', \<lambda>xs p. p\<lparr>places := xs\<rparr>)]"

definition geofences_loadData :: "browser \<times> geofences_page \<Rightarrow> browser \<times> geofences_page" where
  "geofences_loadData wp =
     (let (w1, p1) = load_all auth_send auth_settle geofences_lists (fst wp) ((snd wp)\<lparr>gf_loading := True\<rparr>)
      in (w1, p1\<lparr>gf_loading := False\<rparr>))"

definition zone_speed_limit :: "string \<Rightarrow> (string \<times> jsval) list" where
  "zone_speed_limit t =
     (case toNumber t of
        Fin x \<Rightarrow> if trim t \<noteq> [] \<and> x > 0 then [(''speedLimit'', JNum x)] else []
      | _ \<Rightarrow> [])"

definition zone_body :: "zone_form \<Rightarrow> jsval" where
  "zone_body z =
     JObj ([(''name'', JStr (zf_name z)),
            (''coordinates'', JArr (map (\<lambda>(x, y). JArr [JNum x, JNum y]) (parseCoordinateLines (zf_coordinates z)))),
            (''alertOnEnter'', JBool (alertOnEnter z)), (''alertOnExit'', JBool (alertOnExit z))] @
           zone_speed_limit (zf_speedLimit z))"

definition zone_ok :: "zone_form \<Rightarrow> bool" where
  "zone_ok z = (zf_name z \<noteq> [] \<and> 3 \<le> length (parseCoordinateLines (zf_coordinates z)))"

definition BOUNDARY_HINT :: string where
  "BOUNDARY_HINT =
     ''Enter at least 3 boundary points as '' @ [QUOT] @ ''longitude, latitude'' @ [QUOT] @ '' (one per line).''"

definition post_zone :: "browser \<Rightarrow> geofences_page \<Rightarrow> browser \<times> geofences_page" where
  "post_zone w p =
     submit_form not_refused fetchWithAuth ''/api/v1/geofences'' (plain_json ''POST'' (zone_body (newZone p)))
       (\<lambda>(w1, q). geofences_loadData
          (w1, (gf_say (''Zone '' @ [QUOT] @ zf_name (newZone q) @ [QUOT] @ '' created successfully in database.'') q)
             \<lparr>isCreateModalOpen := False, newZone := blank_zone\<rparr>))
       gf_say ''Failed to create zone.'' ''Error creating zone in database.'' w p"

definition handleCreateZone :: "browser \<Rightarrow> geofences_page \<Rightarrow> browser \<times> geofences_page" where
  "handleCreateZone w p =
     (if zf_name (newZone p) = [] then (w, p)
      else if length (parseCoordinateLines (zf_coordinates (newZone p))) < 3 then (w, gf_say BOUNDARY_HINT p)
      else post_zone w p)"

definition zone_endpoint :: "jsval \<Rightarrow> string" where
  "zone_endpoint i = ''/api/v1/geofences/'' @ js_to_string i"

definition handleDeleteZone :: "string \<Rightarrow> jsval \<Rightarrow> browser \<Rightarrow> geofences_page \<Rightarrow> browser \<times> geofences_page" where
  "handleDeleteZone nm i w p =
     row_request fetchWithAuth (zone_endpoint i) (no_body ''DELETE'')
       (\<lambda>(w1, q). (w1, gf_say (''Zone '' @ [QUOT] @ nm @ [QUOT] @ '' removed.'')
                          (q\<lparr>zones := filter (\<lambda>z. jopt z ''id'' \<noteq> i) (zones q)\<rparr>)))
       (gf_say ''Failed to delete zone.'') w p"

subsection \<open>Facts\<close>

lemma gf_say_simps [simp]:
  "newZone (gf_say m p) = newZone p" "zones (gf_say m p) = zones p" "t_msg (gf_toast (gf_say m p)) = Some m"
  by (simp_all add: gf_say_def)

lemma geofences_load_form [simp]: "newZone (snd (geofences_loadData wp)) = newZone (snd wp)"
  using load_all_keeps [of newZone geofences_lists auth_send auth_settle "fst wp" "(snd wp)\<lparr>gf_loading := True\<rparr>"]
  by (simp add: geofences_loadData_def geofences_lists_def split_beta)

interpretation zone: create_form handleCreateZone "\<lambda>p. zone_ok (newZone p)" not_refused fetchWithAuth
  "''/api/v1/geofences''" "\<lambda>p. plain_json ''POST'' (zone_body (newZone p))" newZone blank_zone
  "\<lambda>p. t_msg (gf_toast p)"
  by (rule create_formI [OF post_zone_def]) (auto simp: handleCreateZone_def zone_ok_def split_beta)

interpretation zone_rows: row_removal "handleDeleteZone nm" fetchWithAuth zone_endpoint zones "\<lambda>z. jopt z ''id''"
  for nm
  by (rule row_removalI [OF handleDeleteZone_def]) simp_all

text \<open>A vertex as it is usually typed.\<close>

definition vertex_text :: "nat \<Rightarrow> real \<times> real \<Rightarrow> string" where
  "vertex_text f v = toFixed f (fst v) @ '', '' @ toFixed f (snd v)"

lemma vertex_reads: "line_point (vertex_text f (x, y)) = [(fixed_num f x, fixed_num f y)]"
proof -
  have c: "CHR '','' \<notin> set (toFixed f a)" for a using fixed_clean [of f a] by (auto simp: list_all_iff)
  have t: "trim (toFixed f a) = toFixed f a" "trim (CHR '' '' # toFixed f a) = toFixed f a" for a
  proof -
    show *: "trim (toFixed f a) = toFixed f a"
      using fixed_clean [of f a] by (intro trim_clean) (auto simp: list_all_iff)
    then show "trim (CHR '' '' # toFixed f a) = toFixed f a" by (simp add: trim_def is_ws_def)
  qed
  have "split_on (CHR '','') (vertex_text f (x, y)) = [toFixed f x, CHR '' '' # toFixed f y]"
    using c by (simp add: vertex_text_def split_on_append split_on_no_sep)
  then show ?thesis by (simp add: line_point_def t toNumber_toFixed)
qed

lemma line_point_no_comma: "CHR '','' \<notin> set l \<Longrightarrow> line_point l = []"
  by (simp add: line_point_def split_on_no_sep split: jsnum.splits)

lemma vertex_one_line: "NL \<notin> set (vertex_text f v)"
  using fixed_clean [of f "fst v"] fixed_clean [of f "snd v"]
  by (auto simp: vertex_text_def list_all_iff NL_def)

lemma boundary_reads:
  "parseCoordinateLines (join [NL] (map (vertex_text f) vs)) = map (\<lambda>(x, y). (fixed_num f x, fixed_num f y)) vs"
proof (cases "vs = []")
  case True
  then show ?thesis by (simp add: parseCoordinateLines_def line_point_no_comma)
next
  case False
  then have "split_on NL (join [NL] (map (vertex_text f) vs)) = map (vertex_text f) vs"
    by (intro split_on_join) (auto simp: vertex_one_line)
  moreover have "concat (map (line_point \<circ> vertex_text f) vs) = map (\<lambda>(x, y). (fixed_num f x, fixed_num f y)) vs"
    by (induction vs) (auto simp: vertex_reads)
  ultimately show ?thesis by (simp add: parseCoordinateLines_def)
qed

lemma geofences_sends [intro]:
  "adds_only tenant_request w (fst (geofences_loadData (w, p)))"
  "adds_only tenant_request w (fst (handleCreateZone w p))"
  "adds_only tenant_request w (fst (handleDeleteZone nm i w p))"
proof -
  have load: "adds_only tenant_request (fst wp) (fst (geofences_loadData wp))" for wp
    using client.logged.load_all_run [of "fst wp" geofences_lists "(snd wp)\<lparr>gf_loading := True\<rparr>"]
    by (simp add: geofences_loadData_def split_beta)
  show "adds_only tenant_request w (fst (geofences_loadData (w, p)))" using load [of "(w, p)"] by simp
  show "adds_only tenant_request w (fst (handleDeleteZone nm i w p))"
    unfolding handleDeleteZone_def by (rule client_sends(5)) (simp add: split_beta)
  have "adds_only tenant_request w (fst (post_zone w p))"
    unfolding post_zone_def using load by (intro client_sends(4)) (fastforce simp: split_beta)
  then show "adds_only tenant_request w (fst (handleCreateZone w p))" by (simp add: handleCreateZone_def)
qed

definition demo_zone_page :: geofences_page where
  "demo_zone_page = (geofences_initial ''zones'')
     \<lparr>newZone := blank_zone\<lparr>zf_name := ''Depot'', zf_coordinates := join [NL] (map (vertex_text 4) [(55.27, 25.2), (55.28, 25.2), (55.28, 25.3)])\<rparr>\<rparr>"

subsection \<open>Properties\<close>

text \<open>C38: a boundary typed with any fixed number of decimals reaches the server as it was typed: the first
  request of a submit with a name and at least three vertices, one per line, longitude first, is the creation
  of a zone whose coordinates are exactly those vertices in that order.\<close>

theorem zone_boundary_posted:
  assumes "has_session w" and "zf_name (newZone p) \<noteq> []"
    and "zf_coordinates (newZone p) = join [NL] (map (vertex_text f) vs)" and "3 \<le> length vs"
  shows "\<exists>q qs. sent (fst (handleCreateZone w p)) = sent w @ q # qs
    \<and> rq_method q = ''POST'' \<and> rq_path q = ''/api/v1/geofences'' \<and> rq_body q = JsonBody (zone_body (newZone p))
    \<and> jopt (zone_body (newZone p)) ''coordinates'' =
        JArr (map (\<lambda>(x, y). JArr [JNum (fixed_num f x), JNum (fixed_num f y)]) vs)"
proof -
  have pts: "parseCoordinateLines (zf_coordinates (newZone p)) = map (\<lambda>(x, y). (fixed_num f x, fixed_num f y)) vs"
    by (simp add: assms(3) boundary_reads)
  with assms(2,4) have "handleCreateZone w p = post_zone w p" by (simp add: handleCreateZone_def)
  moreover have "\<exists>qs. sent (fst (post_zone w p)) = sent w @ auth_request w (au_token (auth w))
      (jopt (au_user (auth w)) ''company_id'') ''/api/v1/geofences'' (plain_json ''POST'' (zone_body (newZone p))) # qs"
    unfolding post_zone_def
    by (rule submit_first_request [OF assms(1), where P = tenant_request]) (auto simp: split_beta)
  ultimately show ?thesis
    using pts by (fastforce simp: auth_request_def plain_json_def url_path_def Let_def zone_body_def case_prod_unfold comp_def)
qed

theorem zone_boundary_posted_witness:
  "\<exists>q qs. sent (fst (handleCreateZone (demo_session offline_net) demo_zone_page)) = q # qs
    \<and> rq_method q = ''POST'' \<and> rq_body q = JsonBody (zone_body (newZone demo_zone_page))"
proof -
  have h: "has_session (demo_session offline_net)" "zf_name (newZone demo_zone_page) \<noteq> []"
    "zf_coordinates (newZone demo_zone_page) = join [NL] (map (vertex_text 4) [(55.27, 25.2), (55.28, 25.2), (55.28, 25.3)])"
    "3 \<le> length [(55.27, 25.2), (55.28, 25.2), (55.28::real, 25.3::real)]"
    by (simp_all add: demo_has_session demo_zone_page_def)
  have "sent (demo_session offline_net) = []" by (simp add: demo_session_def fresh_browser_def)
  then show ?thesis using zone_boundary_posted [OF h] by auto
qed

text \<open>A line with a comma and nothing else counts as a vertex, the point with longitude and latitude 0,
  because the empty text converts to the number 0; three such lines pass the check of the form, and every
  other line without a comma, or with more than one, is left out without a message.\<close>

theorem blank_vertex_is_origin:
  "parseCoordinateLines (join [NL] ['','', '','', '','']) = [(0, 0), (0, 0), (0, 0)]
   \<and> (if zf_name z = [] then True else zone_ok (z\<lparr>zf_coordinates := join [NL] ['','', '','', '','']\<rparr>))
   \<and> (if CHR '','' \<in> set l then True else line_point l = [])"
proof -
  have p: "parseCoordinateLines (join [NL] ['','', '','', '','']) = [(0, 0), (0, 0), (0, 0)]"
    by (simp add: parseCoordinateLines_def line_point_def NL_def trim_def toNumber_def)
  then show ?thesis by (simp add: zone_ok_def line_point_no_comma del: join.simps)
qed

end
