(* ===== verification/Registers.thy ===== *)
theory Registers
  imports Vehicle_Store
begin

section \<open>Reminders, tickets, guest links, trackers\<close>

text \<open>
  Four pages of one shape, \<open>RemindersPage.tsx\<close>, \<open>ComplaintsPage.tsx\<close>, \<open>GuestAccessPage.tsx\<close> and
  \<open>DevicesPage.tsx\<close>: a list (some with a list of categories), a form that adds a row, buttons that act on
  a row, a filter. The loaders of one list are \<open>list_loader\<close>s, the forms \<open>explained_form\<close>s (the tracker
  form passes over an empty IMEI in silence, so it is a \<open>create_form\<close>), the deletion of a tracker a
  \<open>row_removal\<close>.
\<close>

subsection \<open>Reminders\<close>

record reminder_form =
  rf_vehicleId :: string
  reminderType :: string
  dueDate :: string
  dueKm :: string
  alertBeforeDays :: string
  rf_notes :: string

definition blank_reminder :: reminder_form where
  "blank_reminder = \<lparr>rf_vehicleId = [], reminderType = [], dueDate = [], dueKm = [], alertBeforeDays = [], rf_notes = []\<rparr>"

record reminders_page =
  reminders :: "jsval list"
  rm_loading :: bool
  filterType :: string
  rm_filterStatus :: string
  rm_modal :: bool
  rm_toast :: toast
  newReminder :: reminder_form

definition reminders_initial :: reminders_page where
  "reminders_initial = \<lparr>reminders = [], rm_loading = True, filterType = ''all'', rm_filterStatus = ''all'',
     rm_modal = False, rm_toast = no_toast, newReminder = blank_reminder\<rparr>"

definition rm_say :: "string \<Rightarrow> reminders_page \<Rightarrow> reminders_page" where
  "rm_say m p = p\<lparr>rm_toast := showToast m (rm_toast p)\<rparr>"

definition optionalNumber :: "string \<Rightarrow> real option" where
  "optionalNumber value =
     (let trimmed = trim value
      in if trimmed = [] then None else (case toNumber trimmed of Fin x \<Rightarrow> Some x | _ \<Rightarrow> None))"

definition loadReminders :: "browser \<times> reminders_page \<Rightarrow> browser \<times> reminders_page" where
  "loadReminders wp =
     (let (w1, p1) = load_one fetchWithAuth ''/api/v1/reminders'' (\<lambda>xs p. p\<lparr>reminders := xs\<rparr>)
                       (fst wp) ((snd wp)\<lparr>rm_loading := True\<rparr>)
      in (w1, p1\<lparr>rm_loading := False\<rparr>))"

definition reminder_problem :: "reminders_page \<Rightarrow> string option" where
  "reminder_problem p =
     (if rf_vehicleId (newReminder p) = [] \<or> dueDate (newReminder p) = []
      then Some ''Please select a vehicle and due date''
      else if reminderType (newReminder p) = [] then Some ''Please select a reminder category'' else None)"

definition reminder_body :: "reminder_form \<Rightarrow> jsval" where
  "reminder_body r =
     JObj ([(''vehicleId'', num_body (rf_vehicleId r)), (''reminderType'', JStr (reminderType r)),
            (''dueDate'', JStr (dueDate r))] @
           num_entry ''dueKm'' (optionalNumber (dueKm r)) @
           num_entry ''alertBeforeDays'' (optionalNumber (alertBeforeDays r)) @
           opt_text ''notes'' (trim (rf_notes r)))"

definition handleCreateReminder :: "browser \<Rightarrow> reminders_page \<Rightarrow> browser \<times> reminders_page" where
  "handleCreateReminder w p =
     (case reminder_problem p of
        Some m \<Rightarrow> (w, rm_say m p)
      | None \<Rightarrow>
          submit_form not_refused fetchWithAuth ''/api/v1/reminders'' (send_json ''POST'' (reminder_body (newReminder p)))
            (\<lambda>(w1, q). loadReminders (w1, (rm_say ''Compliance reminder scheduled successfully'' q)
                          \<lparr>rm_modal := False, newReminder := blank_reminder\<rparr>))
            rm_say ''Error scheduling reminder'' ''Error scheduling reminder'' w p)"

definition reminder_endpoint :: "jsval \<Rightarrow> string" where
  "reminder_endpoint i = ''/api/v1/reminders/'' @ js_to_string i"

definition acknowledgeReminder :: "jsval \<Rightarrow> browser \<Rightarrow> reminders_page \<Rightarrow> browser \<times> reminders_page" where
  "acknowledgeReminder i w p =
     row_request fetchWithAuth (reminder_endpoint i) (send_json ''PUT'' (JObj [(''isAcknowledged'', JBool True)]))
       (\<lambda>(w1, q). loadReminders (w1, rm_say ''Reminder acknowledged'' q)) (\<lambda>q. q) w p"

definition deleteReminder :: "jsval \<Rightarrow> browser \<Rightarrow> reminders_page \<Rightarrow> browser \<times> reminders_page" where
  "deleteReminder i w p =
     row_request fetchWithAuth (reminder_endpoint i) (no_body ''DELETE'')
       (\<lambda>(w1, q). loadReminders (w1, rm_say ''Reminder removed'' q)) (\<lambda>q. q) w p"

definition lower_field :: "jsval \<Rightarrow> string \<Rightarrow> string" where
  "lower_field r k = toLowerCase (str_or (str_field r k) [])"

definition filteredReminders :: "reminders_page \<Rightarrow> jsval list" where
  "filteredReminders p =
     filter (\<lambda>r. (filterType p = ''all'' \<or> str_includes (lower_field r ''reminderType'') (toLowerCase (filterType p))) \<and>
                 (rm_filterStatus p = ''all'' \<or> lower_field r ''status'' = toLowerCase (rm_filterStatus p)))
       (reminders p)"

definition status_count :: "string \<Rightarrow> reminders_page \<Rightarrow> nat" where
  "status_count s p = length (filter (\<lambda>r. jopt r ''status'' = JStr s) (reminders p))"

definition expiredCount :: "reminders_page \<Rightarrow> nat" where
  "expiredCount = status_count ''Expired''"

definition dueSoonCount :: "reminders_page \<Rightarrow> nat" where
  "dueSoonCount = status_count ''Due Soon''"

definition validCount :: "reminders_page \<Rightarrow> nat" where
  "validCount = status_count ''Valid''"

subsection \<open>Support tickets\<close>

record ticket_form =
  ti_vehicleId :: string
  ti_title :: string
  ti_category :: string
  priority :: string
  ti_description :: string

definition blank_ticket :: ticket_form where
  "blank_ticket = \<lparr>ti_vehicleId = [], ti_title = [], ti_category = [], priority = ''Medium'', ti_description = []\<rparr>"

record complaints_page =
  complaints :: "jsval list"
  complaintCategories :: "jsval list"
  co_loading :: bool
  filterCategory :: string
  co_filterStatus :: string
  co_modal :: bool
  co_toast :: toast
  newTicket :: ticket_form

definition complaints_initial :: complaints_page where
  "complaints_initial = \<lparr>complaints = [], complaintCategories = [], co_loading = True, filterCategory = ''all'',
     co_filterStatus = ''all'', co_modal = False, co_toast = no_toast, newTicket = blank_ticket\<rparr>"

definition co_say :: "string \<Rightarrow> complaints_page \<Rightarrow> complaints_page" where
  "co_say m p = p\<lparr>co_toast := showToast m (co_toast p)\<rparr>"

definition complaints_lists :: "(string \<times> (jsval list \<Rightarrow> complaints_page \<Rightarrow> complaints_page)) list" where
  "complaints_lists =
     [(''/api/v1/complaints'', \<lambda>xs p. p\<lparr>complaints := xs\<rparr>),
      (''/api/v1/masters/complaint-categories'', \<lambda>xs p. p\<lparr>complaintCategories := xs\<rparr>)]"

definition loadComplaints :: "browser \<times> complaints_page \<Rightarrow> browser \<times> complaints_page" where
  "loadComplaints wp =
     (let (w1, p1) = load_all auth_send auth_settle complaints_lists (fst wp) ((snd wp)\<lparr>co_loading := True\<rparr>)
      in (w1, p1\<lparr>co_loading := False\<rparr>))"

definition ticket_problem :: "complaints_page \<Rightarrow> string option" where
  "ticket_problem p =
     (if trim (ti_title (newTicket p)) = [] then Some ''Please provide a ticket title''
      else if ti_category (newTicket p) = [] then Some ''Please select an issue category'' else None)"

definition ticket_body :: "ticket_form \<Rightarrow> jsval" where
  "ticket_body t =
     JObj ([(''title'', JStr (trim (ti_title t))), (''category'', JStr (ti_category t)), (''priority'', JStr (priority t))] @
           (if ti_vehicleId t = [] then [] else [(''vehicleId'', num_body (ti_vehicleId t))]))"

definition handleCreateTicket :: "browser \<Rightarrow> complaints_page \<Rightarrow> browser \<times> complaints_page" where
  "handleCreateTicket w p =
     (case ticket_problem p of
        Some m \<Rightarrow> (w, co_say m p)
      | None \<Rightarrow>
          submit_form not_refused fetchWithAuth ''/api/v1/complaints'' (send_json ''POST'' (ticket_body (newTicket p)))
            (\<lambda>(w1, q). loadComplaints (w1, (co_say ''Support ticket registered.'' q)
                          \<lparr>co_modal := False, newTicket := blank_ticket\<rparr>))
            co_say ''Failed to submit ticket'' ''Failed to submit ticket'' w p)"

definition filteredTickets :: "complaints_page \<Rightarrow> jsval list" where
  "filteredTickets p =
     filter (\<lambda>t. (filterCategory p = ''all'' \<or> str_includes (lower_field t ''category'') (toLowerCase (filterCategory p))) \<and>
                 (co_filterStatus p = ''all'' \<or> lower_field t ''status'' = toLowerCase (co_filterStatus p)))
       (complaints p)"

subsection \<open>Guest links\<close>

record guest_form =
  guestName :: string
  durationHours :: nat
  selectedVehicles :: "string list"

definition blank_guest :: guest_form where
  "blank_guest = \<lparr>guestName = [], durationHours = 24, selectedVehicles = []\<rparr>"

record guests_page =
  tempUsers :: "jsval list"
  gu_loading :: bool
  gu_modal :: bool
  gu_toast :: toast
  newGuest :: guest_form

definition guests_initial :: guests_page where
  "guests_initial = \<lparr>tempUsers = [], gu_loading = True, gu_modal = False, gu_toast = no_toast, newGuest = blank_guest\<rparr>"

definition gu_say :: "string \<Rightarrow> guests_page \<Rightarrow> guests_page" where
  "gu_say m p = p\<lparr>gu_toast := showToast m (gu_toast p)\<rparr>"

definition loadTempUsers :: "browser \<times> guests_page \<Rightarrow> browser \<times> guests_page" where
  "loadTempUsers wp =
     (let (w1, p1) = load_one fetchWithAuth ''/api/v1/temp-users'' (\<lambda>xs p. p\<lparr>tempUsers := xs\<rparr>)
                       (fst wp) ((snd wp)\<lparr>gu_loading := True\<rparr>)
      in (w1, p1\<lparr>gu_loading := False\<rparr>))"

definition guest_problem :: "guests_page \<Rightarrow> string option" where
  "guest_problem p =
     (if guestName (newGuest p) = [] then Some ''Please enter a recipient name or company'' else None)"

definition guest_body :: "guest_form \<Rightarrow> jsval" where
  "guest_body g =
     JObj [(''guestName'', JStr (guestName g)), (''durationHours'', JNum (of_nat (durationHours g))),
           (''vehicleIds'', JArr (map JStr (selectedVehicles g)))]"

definition handleCreateGuest :: "browser \<Rightarrow> guests_page \<Rightarrow> browser \<times> guests_page" where
  "handleCreateGuest w p =
     (case guest_problem p of
        Some m \<Rightarrow> (w, gu_say m p)
      | None \<Rightarrow>
          submit_form not_refused fetchWithAuth ''/api/v1/temp-users'' (send_json ''POST'' (guest_body (newGuest p)))
            (\<lambda>(w1, q). loadTempUsers (w1, (gu_say ''Guest tracking link generated'' q)
                          \<lparr>gu_modal := False, newGuest := blank_guest\<rparr>))
            gu_say ''Failed to generate tracking link'' ''Failed to generate tracking link'' w p)"

definition handleRevoke :: "jsval \<Rightarrow> browser \<Rightarrow> guests_page \<Rightarrow> browser \<times> guests_page" where
  "handleRevoke i w p =
     row_request fetchWithAuth (''/api/v1/temp-users/'' @ js_to_string i) (no_body ''DELETE'')
       (\<lambda>(w1, q). loadTempUsers (w1, gu_say ''Guest link revoked immediately'' q)) (\<lambda>q. q) w p"

definition copyToClipboard :: "string option \<Rightarrow> browser \<Rightarrow> guests_page \<Rightarrow> browser \<times> guests_page" where
  "copyToClipboard link w p =
     (if \<not> str_truthy link then (w, p)
      else (let fullUrl = (if prefix ''http'' (the link) then the link else origin_of (loc w) @ the link)
            in (w\<lparr>clipboard := clipboard w @ [fullUrl]\<rparr>, gu_say ''Secure tracking link copied to clipboard'' p)))"

text \<open>The check boxes: a vehicle is listed by its plate, or by its device id when it has none.\<close>

definition plate_of :: "vehicle_position \<Rightarrow> string" where
  "plate_of v = str_or (reg_number v) (js_to_string (device_id v))"

definition toggleVehicleSelect :: "string \<Rightarrow> guests_page \<Rightarrow> guests_page" where
  "toggleVehicleSelect plate p =
     p\<lparr>newGuest := (newGuest p)\<lparr>selectedVehicles := toggle plate (selectedVehicles (newGuest p))\<rparr>\<rparr>"

subsection \<open>Trackers\<close>

record tracker_form =
  tk_imei :: string
  tk_protocol :: string
  tk_simNo :: string
  tk_port :: string
  assignedVehicle :: string

definition blank_tracker :: tracker_form where
  "blank_tracker = \<lparr>tk_imei = [], tk_protocol = [], tk_simNo = [], tk_port = [], assignedVehicle = []\<rparr>"

record devices_page =
  devices :: "jsval list"
  deviceModels :: "jsval list"
  de_loading :: bool
  searchTerm :: string
  de_modal :: bool
  de_toast :: toast
  newTracker :: tracker_form

definition devices_initial :: devices_page where
  "devices_initial = \<lparr>devices = [], deviceModels = [], de_loading = True, searchTerm = [], de_modal = False,
     de_toast = no_toast, newTracker = blank_tracker\<rparr>"

definition de_say :: "string \<Rightarrow> devices_page \<Rightarrow> devices_page" where
  "de_say m p = p\<lparr>de_toast := showToast m (de_toast p)\<rparr>"

definition devices_lists :: "(string \<times> (jsval list \<Rightarrow> devices_page \<Rightarrow> devices_page)) list" where
  "devices_lists =
     [(''/api/v1/devices'', \<lambda>xs p. p\<lparr>devices := xs\<rparr>),
      (''/api/v1/masters/device-models'', \<lambda>xs p. p\<lparr>deviceModels := xs\<rparr>)]"

definition loadDevices :: "browser \<times> devices_page \<Rightarrow> browser \<times> devices_page" where
  "loadDevices wp =
     (let (w1, p1) = load_all auth_send auth_settle devices_lists (fst wp) ((snd wp)\<lparr>de_loading := True\<rparr>)
      in (w1, p1\<lparr>de_loading := False\<rparr>))"

definition tracker_port :: "string \<Rightarrow> (string \<times> jsval) list" where
  "tracker_port t =
     (case toNumber t of Fin x \<Rightarrow> if t \<noteq> [] \<and> x > 0 then [(''port'', JNum x)] else [] | _ \<Rightarrow> [])"

definition tracker_body :: "tracker_form \<Rightarrow> jsval" where
  "tracker_body t =
     JObj ([(''imei'', JStr (trim (tk_imei t)))] @ opt_text ''protocol'' (tk_protocol t) @
           opt_text ''simNo'' (trim (tk_simNo t)) @ opt_text ''assignedVehicle'' (trim (assignedVehicle t)) @
           tracker_port (tk_port t))"

definition post_tracker :: "browser \<Rightarrow> devices_page \<Rightarrow> browser \<times> devices_page" where
  "post_tracker w p =
     submit_form confirmed fetchWithAuth ''/api/v1/devices'' (plain_json ''POST'' (tracker_body (newTracker p)))
       (\<lambda>(w1, q). loadDevices
          (w1, (de_say (''Tracker IMEI '' @ trim (tk_imei (newTracker q)) @ '' registered successfully in database.'') q)
             \<lparr>de_modal := False, newTracker := blank_tracker\<rparr>))
       de_say ''Failed to register device.'' ''Error registering tracker.'' w p"

definition handleRegisterSubmit :: "browser \<Rightarrow> devices_page \<Rightarrow> browser \<times> devices_page" where
  "handleRegisterSubmit w p = (if trim (tk_imei (newTracker p)) = [] then (w, p) else post_tracker w p)"

definition device_endpoint :: "jsval \<Rightarrow> string" where
  "device_endpoint i = ''/api/v1/devices/'' @ js_to_string i"

definition handleDeleteDevice :: "string option \<Rightarrow> jsval \<Rightarrow> browser \<Rightarrow> devices_page \<Rightarrow> browser \<times> devices_page" where
  "handleDeleteDevice imei i w p =
     row_request fetchWithAuth (device_endpoint i) (no_body ''DELETE'')
       (\<lambda>(w1, q). (w1, de_say (''Tracker IMEI '' @ str_or imei (js_to_string i) @ '' deleted.'')
                          (q\<lparr>devices := filter (\<lambda>d. jopt d ''id'' \<noteq> i) (devices q)\<rparr>)))
       (de_say ''Failed to delete device.'') w p"

definition filteredDevices :: "devices_page \<Rightarrow> jsval list" where
  "filteredDevices p =
     filter (\<lambda>d. str_includes (str_or (str_field d ''imei'') []) (searchTerm p) \<or>
                 str_includes (lower_field d ''assignedVehicle'') (toLowerCase (searchTerm p)))
       (devices p)"

definition assignedCount :: "devices_page \<Rightarrow> nat" where
  "assignedCount p = length (filter (\<lambda>d. truthy (jopt d ''assignedVehicle'')) (devices p))"

text \<open>\<open>Array.from(new Set(xs))\<close> keeps the first of equal elements.\<close>

definition configuredPorts :: "devices_page \<Rightarrow> real list" where
  "configuredPorts p =
     rev (remdups (rev (List.map_filter
       (\<lambda>d. case num_field d ''port'' of Some x \<Rightarrow> if x > 0 then Some x else None | None \<Rightarrow> None) (devices p))))"

subsection \<open>Facts\<close>

lemma rm_say_simps [simp]:
  "newReminder (rm_say m p) = newReminder p" "t_msg (rm_toast (rm_say m p)) = Some m" "reminders (rm_say m p) = reminders p"
  by (simp_all add: rm_say_def)

lemma co_say_simps [simp]: "newTicket (co_say m p) = newTicket p" "t_msg (co_toast (co_say m p)) = Some m"
  by (simp_all add: co_say_def)

lemma gu_say_simps [simp]:
  "newGuest (gu_say m p) = newGuest p" "t_msg (gu_toast (gu_say m p)) = Some m" "tempUsers (gu_say m p) = tempUsers p"
  by (simp_all add: gu_say_def)

lemma de_say_simps [simp]:
  "newTracker (de_say m p) = newTracker p" "t_msg (de_toast (de_say m p)) = Some m" "devices (de_say m p) = devices p"
  by (simp_all add: de_say_def)

lemma loadReminders_form [simp]: "newReminder (snd (loadReminders wp)) = newReminder (snd wp)"
  by (simp add: loadReminders_def load_one_eq split_beta split: option.splits)

lemma loadTempUsers_form [simp]: "newGuest (snd (loadTempUsers wp)) = newGuest (snd wp)"
  by (simp add: loadTempUsers_def load_one_eq split_beta split: option.splits)

lemma loadComplaints_form [simp]: "newTicket (snd (loadComplaints wp)) = newTicket (snd wp)"
  using load_all_keeps [of newTicket complaints_lists auth_send auth_settle "fst wp" "(snd wp)\<lparr>co_loading := True\<rparr>"]
  by (simp add: loadComplaints_def complaints_lists_def split_beta)

lemma loadDevices_form [simp]: "newTracker (snd (loadDevices wp)) = newTracker (snd wp)"
  using load_all_keeps [of newTracker devices_lists auth_send auth_settle "fst wp" "(snd wp)\<lparr>de_loading := True\<rparr>"]
  by (simp add: loadDevices_def devices_lists_def split_beta)

interpretation reminder_list: list_loader "\<lambda>w p. loadReminders (w, p)" fetchWithAuth "''/api/v1/reminders''"
  "\<lambda>x. x" reminders rm_loading
  by unfold_locales (auto simp: loadReminders_def load_one_eq split_beta split: option.splits)

interpretation guest_list: list_loader "\<lambda>w p. loadTempUsers (w, p)" fetchWithAuth "''/api/v1/temp-users''"
  "\<lambda>x. x" tempUsers gu_loading
  by unfold_locales (auto simp: loadTempUsers_def load_one_eq split_beta split: option.splits)

interpretation reminder: explained_form handleCreateReminder "\<lambda>p. reminder_problem p = None" not_refused fetchWithAuth
  "''/api/v1/reminders''" "\<lambda>p. send_json ''POST'' (reminder_body (newReminder p))" newReminder blank_reminder
  "\<lambda>p. t_msg (rm_toast p)" reminder_problem
  by (rule explained_formI [OF handleCreateReminder_def]) (simp_all add: split_beta)

interpretation ticket: explained_form handleCreateTicket "\<lambda>p. ticket_problem p = None" not_refused fetchWithAuth
  "''/api/v1/complaints''" "\<lambda>p. send_json ''POST'' (ticket_body (newTicket p))" newTicket blank_ticket
  "\<lambda>p. t_msg (co_toast p)" ticket_problem
  by (rule explained_formI [OF handleCreateTicket_def]) (simp_all add: split_beta)

interpretation guest: explained_form handleCreateGuest "\<lambda>p. guest_problem p = None" not_refused fetchWithAuth
  "''/api/v1/temp-users''" "\<lambda>p. send_json ''POST'' (guest_body (newGuest p))" newGuest blank_guest
  "\<lambda>p. t_msg (gu_toast p)" guest_problem
  by (rule explained_formI [OF handleCreateGuest_def]) (simp_all add: split_beta)

interpretation tracker: create_form handleRegisterSubmit "\<lambda>p. trim (tk_imei (newTracker p)) \<noteq> []" confirmed fetchWithAuth
  "''/api/v1/devices''" "\<lambda>p. plain_json ''POST'' (tracker_body (newTracker p))" newTracker blank_tracker
  "\<lambda>p. t_msg (de_toast p)"
  by (rule create_formI [OF post_tracker_def]) (simp_all add: handleRegisterSubmit_def split_beta)

interpretation tracker_rows: row_removal "handleDeleteDevice imei" fetchWithAuth device_endpoint devices
  "\<lambda>d. jopt d ''id''" for imei
  by (rule row_removalI [OF handleDeleteDevice_def]) simp_all

lemma loads_send:
  "adds_only tenant_request (fst wr) (fst (loadReminders wr))"
  "adds_only tenant_request (fst wc) (fst (loadComplaints wc))"
  "adds_only tenant_request (fst wg) (fst (loadTempUsers wg))"
  "adds_only tenant_request (fst wd) (fst (loadDevices wd))"
  by (simp_all add: loadReminders_def loadComplaints_def loadTempUsers_def loadDevices_def split_beta client_sends)

lemma registers_send [intro]:
  "adds_only tenant_request w (fst (handleCreateReminder w pr))"
  "adds_only tenant_request w (fst (acknowledgeReminder i w pr))"
  "adds_only tenant_request w (fst (deleteReminder i w pr))"
  "adds_only tenant_request w (fst (handleCreateTicket w pc))"
  "adds_only tenant_request w (fst (handleCreateGuest w pg))"
  "adds_only tenant_request w (fst (handleRevoke i w pg))"
  "adds_only tenant_request w (fst (handleRegisterSubmit w pd))"
  "adds_only tenant_request w (fst (handleDeleteDevice imei i w pd))"
  unfolding handleCreateReminder_def acknowledgeReminder_def deleteReminder_def handleCreateTicket_def
    handleCreateGuest_def handleRevoke_def handleRegisterSubmit_def post_tracker_def handleDeleteDevice_def
  using loads_send(1) [of "(u, q)" for u q] loads_send(2) [of "(u, q)" for u q] loads_send(3) [of "(u, q)" for u q]
    loads_send(4) [of "(u, q)" for u q]
  by (auto simp: split_beta split: option.splits intro!: client_sends(4,5))

text \<open>Statuses as the reminder service writes them.\<close>

definition known_status :: "jsval \<Rightarrow> bool" where
  "known_status r =
     (str_field r ''status'' \<in> {None, Some ''Expired'', Some ''Due Soon'', Some ''Valid''})"

lemma status_text: "known_status r \<Longrightarrow> s \<in> {''Expired'', ''Due Soon'', ''Valid''} \<Longrightarrow>
    (lower_field r ''status'' = toLowerCase s) = (jopt r ''status'' = JStr s)"
  by (cases "jopt r ''status''") (auto simp: known_status_def lower_field_def toLowerCase_def lower_char_def)

lemma status_filter_count:
  assumes "list_all known_status (reminders p)" and "s \<in> {''Expired'', ''Due Soon'', ''Valid''}"
  shows "length (filteredReminders (p\<lparr>filterType := ''all'', rm_filterStatus := toLowerCase s\<rparr>)) = status_count s p"
proof -
  have "toLowerCase (toLowerCase s) = toLowerCase s" "toLowerCase s \<noteq> ''all''"
    using assms(2) by (auto simp: toLowerCase_def lower_char_def)
  moreover have "filter (\<lambda>r. lower_field r ''status'' = toLowerCase s) (reminders p) =
      filter (\<lambda>r. jopt r ''status'' = JStr s) (reminders p)"
    using assms by (intro filter_cong) (auto simp: list_all_iff status_text)
  ultimately show ?thesis by (simp add: filteredReminders_def status_count_def)
qed

definition demo_reminders :: reminders_page where
  "demo_reminders = reminders_initial\<lparr>reminders :=
     [JObj [(''id'', JNum 1), (''status'', JStr ''Expired'')], JObj [(''id'', JNum 2), (''status'', JStr ''Valid'')],
      JObj [(''id'', JNum 3), (''status'', JNull)]]\<rparr>"

definition demo_ticket :: complaints_page where
  "demo_ticket = complaints_initial\<lparr>newTicket := blank_ticket
     \<lparr>ti_title := ''No signal'', ti_category := ''Device'', ti_description := ''Since Monday''\<rparr>\<rparr>"

subsection \<open>Properties\<close>

text \<open>The three cards above the reminder table agree with the table: choosing a status in the filter
  lists as many reminders as the card of that status counts, and no reminder is counted on two cards.\<close>

theorem reminder_cards_match_filter:
  assumes "list_all known_status (reminders p)"
  shows "length (filteredReminders (p\<lparr>filterType := ''all'', rm_filterStatus := ''expired''\<rparr>)) = expiredCount p
    \<and> length (filteredReminders (p\<lparr>filterType := ''all'', rm_filterStatus := ''due soon''\<rparr>)) = dueSoonCount p
    \<and> length (filteredReminders (p\<lparr>filterType := ''all'', rm_filterStatus := ''valid''\<rparr>)) = validCount p
    \<and> expiredCount p + dueSoonCount p + validCount p \<le> length (reminders p)"
proof -
  have low: "toLowerCase ''Expired'' = ''expired''" "toLowerCase ''Due Soon'' = ''due soon''" "toLowerCase ''Valid'' = ''valid''"
    by code_simp+
  have "status_count ''Expired'' p + status_count ''Due Soon'' p + status_count ''Valid'' p =
      length (filter (\<lambda>r. jopt r ''status'' \<in> set (map JStr [''Expired'', ''Due Soon'', ''Valid''])) (reminders p))"
    using sum_counts [of "map JStr [''Expired'', ''Due Soon'', ''Valid'']" "\<lambda>r. jopt r ''status''" "reminders p"]
    by (simp add: status_count_def)
  also have "\<dots> \<le> length (reminders p)" by (rule length_filter_le)
  finally show ?thesis
    using status_filter_count [OF assms, of "''Expired''"] status_filter_count [OF assms, of "''Due Soon''"]
      status_filter_count [OF assms, of "''Valid''"]
    by (simp add: low expiredCount_def dueSoonCount_def validCount_def)
qed

theorem reminder_cards_match_filter_witness:
  "length (filteredReminders (demo_reminders\<lparr>filterType := ''all'', rm_filterStatus := ''expired''\<rparr>)) = 1"
proof -
  have h: "list_all known_status (reminders demo_reminders)"
    by (simp add: demo_reminders_def known_status_def)
  have "expiredCount demo_reminders = 1" by (simp add: expiredCount_def status_count_def demo_reminders_def)
  then show ?thesis using reminder_cards_match_filter [OF h] by simp
qed

text \<open>The port card of the tracker page lists every configured port once: the positive ports of the
  registered devices, without repetition.\<close>

theorem configured_ports_exact:
  "distinct (configuredPorts p)
   \<and> set (configuredPorts p) = {x. 0 < x \<and> (\<exists>d \<in> set (devices p). jopt d ''port'' = JNum x)}"
proof -
  have num: "as_num v = Some x \<longleftrightarrow> v = JNum x" for v x by (cases v) auto
  have "set (List.map_filter (\<lambda>d. case num_field d ''port'' of Some x \<Rightarrow> if x > 0 then Some x else None | None \<Rightarrow> None) ds) =
      {x. 0 < x \<and> (\<exists>d \<in> set ds. jopt d ''port'' = JNum x)}" for ds
    by (induction ds) (auto simp: List.map_filter_simps num split: option.splits)
  then show ?thesis by (simp add: configuredPorts_def)
qed

text \<open>The description a user types into a support ticket is never sent: the request does not depend on
  it, and an accepted ticket clears it from the form.\<close>

theorem ticket_description_lost:
  assumes "ticket_problem p = None"
    and "accepted_by not_refused (snd (fetchWithAuth w ''/api/v1/complaints'' (send_json ''POST'' (ticket_body (newTicket p)))))"
  shows "ti_description (newTicket (snd (handleCreateTicket w p))) = []
    \<and> ticket_body ((newTicket p)\<lparr>ti_description := d\<rparr>) = ticket_body (newTicket p)"
  using ticket.taken [OF assms] by (simp add: blank_ticket_def ticket_body_def)

theorem ticket_description_lost_witness:
  "ti_description (newTicket (snd (handleCreateTicket (demo_session (answer 201 JNull)) demo_ticket))) = []
   \<and> ti_description (newTicket demo_ticket) = ''Since Monday''"
proof -
  have h: "ticket_problem demo_ticket = None"
    "accepted_by not_refused (snd (fetchWithAuth (demo_session (answer 201 JNull)) ''/api/v1/complaints''
       (send_json ''POST'' (ticket_body (newTicket demo_ticket)))))"
    by (simp_all add: ticket_problem_def demo_ticket_def trim_def is_ws_def accepted_by_def not_refused_def
        fetchWithAuth_session [OF demo_has_session(1)] demo_has_session(2) answer_def Let_def res_ok_def json_or_def)
  show ?thesis using ticket_description_lost [OF h] by (simp add: demo_ticket_def)
qed

end
