(* ===== verification/Register_View.thy ===== *)
theory Register_View
  imports Registers Fleet_View
begin

section \<open>What the register pages show\<close>

text \<open>
  Counters, filters, tables and dialogs of \<open>RemindersPage.tsx\<close>, \<open>ComplaintsPage.tsx\<close>, \<open>GuestAccessPage.tsx\<close> and
  \<open>DevicesPage.tsx\<close>. A table is a \<open>table_body\<close>; a tint is the background and the colour of a status.
\<close>

text \<open>The choice of a vehicle that also shows its status (undefined is not printed).\<close>

definition status_choice :: "string \<Rightarrow> vehicle_position list \<Rightarrow> input_kind" where
  "status_choice prompt vs =
     Choice (([], prompt) #
       map (\<lambda>v. (js_to_string (device_id v), vehicle_label v @ '' ('' @ str_or (vp_status v) [] @ '')'')) vs)"

subsection \<open>Reminders\<close>

definition reminder_cards :: "reminders_page \<Rightarrow> (string \<times> nat) list" where
  "reminder_cards p =
     [(''Expired / Overdue'', expiredCount p), (''Due Soon'', dueSoonCount p), (''Fully Compliant'', validCount p)]"

definition reminder_filters :: "(string \<times> string) list" where
  "reminder_filters =
     [(''all'', ''All Reminder Types''), (''insurance'', ''Insurance Renewal''), (''fitness'', ''RTA Fitness Inspection''),
      (''service'', ''Oil & Engine Service''), (''puc'', ''PUC Emission Certificate''), (''permit'', ''Hazmat / Road Permit'')]"

definition reminder_statuses :: "(string \<times> string) list" where
  "reminder_statuses = [(''all'', ''All Statuses''), (''due soon'', ''Due Soon''), (''expired'', ''Expired''), (''valid'', ''Valid'')]"

definition setFilterType :: "string \<Rightarrow> reminders_page \<Rightarrow> reminders_page" where
  "setFilterType v p = p\<lparr>filterType := v\<rparr>"

definition rm_setFilterStatus :: "string \<Rightarrow> reminders_page \<Rightarrow> reminders_page" where
  "rm_setFilterStatus v p = p\<lparr>rm_filterStatus := v\<rparr>"

definition reminder_count_line :: "reminders_page \<Rightarrow> string" where
  "reminder_count_line p = ''Showing '' @ nat_to_string (length (filteredReminders p)) @ '' reminder records''"

definition reminder_columns :: "string list" where
  "reminder_columns =
     [''Vehicle'', ''Reminder Category'', ''Due Date'', ''Threshold'', ''Status'', ''Notes'', ''Actions'']"

definition days_line :: "jsval \<Rightarrow> string" where
  "days_line r =
     (case num_field r ''daysRemaining'' of
        None \<Rightarrow> DASH
      | Some d \<Rightarrow> if d < 0 then num_to_string \<bar>d\<bar> @ '' days overdue''
                  else if d = 0 then ''Expires Today'' else num_to_string d @ '' days left'')"

definition threshold_line :: "(real \<Rightarrow> string) \<Rightarrow> jsval \<Rightarrow> string" where
  "threshold_line locale_num r =
     (let parts =
        (if truthy (jopt r ''alertBeforeDays'') then [js_to_string (jopt r ''alertBeforeDays'') @ '' days prior''] else []) @
        (case num_field r ''dueKm'' of Some k \<Rightarrow> if k > 0 then [locale_num k @ '' KM''] else [] | None \<Rightarrow> [])
      in if parts = [] then DASH else join '' | '' parts)"

definition reminder_tint :: "jsval \<Rightarrow> string \<times> string" where
  "reminder_tint r =
     (if str_field r ''status'' = Some ''Expired'' then (''#FEE2E2'', ''#DC2626'')
      else if str_field r ''status'' = Some ''Due Soon'' then (''var(--attention-bg)'', ''var(--attention)'')
      else (''var(--good-bg)'', ''var(--good)''))"

text \<open>The buttons of a row: an acknowledged reminder has no button for it.\<close>

definition reminder_buttons :: "jsval \<Rightarrow> string list" where
  "reminder_buttons r = (if truthy (jopt r ''isAcknowledged'') then [] else [''Ack'']) @ [''Delete reminder'']"

definition reminder_row :: "(real \<Rightarrow> string) \<Rightarrow> jsval \<Rightarrow> cells" where
  "reminder_row locale_num r =
     [[dash_of r ''vehicleReg''], [dash_of r ''reminderType''], [dash_of r ''dueDate'', days_line r],
      [threshold_line locale_num r], [dash_of r ''status''], [text_dash (jopt r ''notes'')], reminder_buttons r]"

definition reminder_table :: "(real \<Rightarrow> string) \<Rightarrow> reminders_page \<Rightarrow> cells table_body" where
  "reminder_table locale_num p =
     (if rm_loading p then Loading ''Loading fleet compliance schedule...''
      else if filteredReminders p = [] then Nothing ''No reminders found matching your selected filters.''
      else Rows (map (reminder_row locale_num) (filteredReminders p)))"

definition reminder_categories :: "string list" where
  "reminder_categories =
     [''Insurance Policy Renewal'', ''RTA Vehicle Fitness Inspection'', ''PUC Emission Certificate'',
      ''Engine Oil & Filter Service'', ''Road Tax & Registration (Mulkiya)'', ''Civil Defence Hazmat Permit'',
      ''Driver Commercial License Renewal'']"

definition setNewReminder :: "(reminder_form \<Rightarrow> reminder_form) \<Rightarrow> reminders_page \<Rightarrow> reminders_page" where
  "setNewReminder f p = p\<lparr>newReminder := f (newReminder p)\<rparr>"

definition reminder_controls :: "vehicle_position list \<Rightarrow> reminders_page \<Rightarrow> reminders_page control list" where
  "reminder_controls vs p =
     (let r = newReminder p in
      [(needed ''Target Vehicle *'' (status_choice ''Select vehicle plate...'' vs) (rf_vehicleId r),
        \<lambda>v. setNewReminder (rf_vehicleId_update (\<lambda>_. v))),
       (needed ''Reminder Category *''
          (Choice (([], ''Select reminder category...'') # map (\<lambda>c. (c, c)) reminder_categories)) (reminderType r),
        \<lambda>v. setNewReminder (reminderType_update (\<lambda>_. v))),
       (needed ''Due Expiry Date *'' Date_box (dueDate r), \<lambda>v. setNewReminder (dueDate_update (\<lambda>_. v))),
       (optional ''Alert Before (Days)'' (Number_box (Some 1) (Some 90) 1) (alertBeforeDays r),
        \<lambda>v. setNewReminder (alertBeforeDays_update (\<lambda>_. v))),
       (optional ''Target Odometer KM (Optional for Oil Changes)'' (Number_box (Some 0) None 1) (dueKm r),
        \<lambda>v. setNewReminder (dueKm_update (\<lambda>_. v))),
       (optional ''Policy # / Inspection Center / Notes'' Text_area (rf_notes r),
        \<lambda>v. setNewReminder (rf_notes_update (\<lambda>_. v)))])"

subsection \<open>Support tickets\<close>

definition ticket_filters :: "complaints_page \<Rightarrow> (string \<times> string) list" where
  "ticket_filters p =
     (''all'', ''All Issue Categories'') # map (\<lambda>m. (shown (jopt m ''name''), shown (jopt m ''name''))) (complaintCategories p)"

definition ticket_statuses :: "(string \<times> string) list" where
  "ticket_statuses =
     [(''all'', ''All Statuses''), (''open'', ''Open''), (''in progress'', ''In Progress''), (''resolved'', ''Resolved'')]"

definition setFilterCategory :: "string \<Rightarrow> complaints_page \<Rightarrow> complaints_page" where
  "setFilterCategory v p = p\<lparr>filterCategory := v\<rparr>"

definition co_setFilterStatus :: "string \<Rightarrow> complaints_page \<Rightarrow> complaints_page" where
  "co_setFilterStatus v p = p\<lparr>co_filterStatus := v\<rparr>"

definition ticket_count_line :: "complaints_page \<Rightarrow> string" where
  "ticket_count_line p = ''Showing '' @ nat_to_string (length (filteredTickets p)) @ '' active tickets''"

definition ticket_columns :: "string list" where
  "ticket_columns =
     [''Ticket #'', ''Vehicle Plate'', ''Issue Title & Category'', ''Priority'', ''Status'', ''Technician Assigned'', ''Remarks'']"

definition priority_tint :: "jsval \<Rightarrow> string \<times> string" where
  "priority_tint t =
     (if str_field t ''priority'' = Some ''Critical'' then (''#FEE2E2'', ''#DC2626'')
      else if str_field t ''priority'' = Some ''High'' then (''var(--attention-bg)'', ''var(--attention)'')
      else (''var(--bg-subtle)'', ''var(--text-secondary)''))"

definition ticket_tint :: "jsval \<Rightarrow> string \<times> string" where
  "ticket_tint t =
     (if str_field t ''status'' = Some ''Resolved'' then (''var(--good-bg)'', ''var(--good)'')
      else if str_field t ''status'' = Some ''In Progress'' then (''var(--attention-bg)'', ''var(--attention)'')
      else (''#FEE2E2'', ''#DC2626''))"

definition ticket_row :: "jsval \<Rightarrow> cells" where
  "ticket_row t =
     [[dash_of t ''ticketNo''], [dash_of t ''vehicleReg''],
      [dash_of t ''title'', dash_of t ''category'' @ BULLET @ dash_of t ''createdAt''],
      [dash_of t ''priority''], [dash_of t ''status''], [dash_of t ''technicianAssigned''], [dash_of t ''resolutionNotes'']]"

definition ticket_table :: "complaints_page \<Rightarrow> cells table_body" where
  "ticket_table p =
     (if co_loading p then Loading ''Loading support tickets...''
      else if filteredTickets p = [] then Nothing ''No open complaints or support tickets found.''
      else Rows (map ticket_row (filteredTickets p)))"

definition ticket_priorities :: "(string \<times> string) list" where
  "ticket_priorities =
     [(''Low'', ''Low (General)''), (''Medium'', ''Medium (Inspection)''), (''High'', ''High (Fuel/Temp anomaly)''),
      (''Critical'', ''Critical (Vehicle Stalled)'')]"

definition setNewTicket :: "(ticket_form \<Rightarrow> ticket_form) \<Rightarrow> complaints_page \<Rightarrow> complaints_page" where
  "setNewTicket f p = p\<lparr>newTicket := f (newTicket p)\<rparr>"

definition ticket_controls :: "vehicle_position list \<Rightarrow> complaints_page \<Rightarrow> complaints_page control list" where
  "ticket_controls vs p =
     (let t = newTicket p in
      [(optional ''Target Vehicle (Optional if fleet wide)'' (status_choice ''Fleet Wide / General Question'' vs) (ti_vehicleId t),
        \<lambda>v. setNewTicket (ti_vehicleId_update (\<lambda>_. v))),
       (needed ''Issue Summary / Title *'' Text_box (ti_title t), \<lambda>v. setNewTicket (ti_title_update (\<lambda>_. v))),
       (needed ''Issue Category''
          (lookup_choice ''Select category...'' ''No issue categories configured'' (complaintCategories p)) (ti_category t),
        \<lambda>v. setNewTicket (ti_category_update (\<lambda>_. v))),
       (optional ''Priority Severity'' (Choice ticket_priorities) (priority t), \<lambda>v. setNewTicket (priority_update (\<lambda>_. v))),
       (optional ''Detailed Symptoms & Location of Vehicle'' Text_area (ti_description t),
        \<lambda>v. setNewTicket (ti_description_update (\<lambda>_. v)))])"

subsection \<open>Guest links\<close>

definition expired_link :: "jsval \<Rightarrow> bool" where
  "expired_link u = (str_field u ''status'' = Some ''Expired'')"

text \<open>The plates of a link, without quotes; a link without a list has none.\<close>

definition link_plates :: "jsval \<Rightarrow> string list" where
  "link_plates u =
     (case as_arr (jopt u ''vehicleIds'') of
        None \<Rightarrow> [DASH]
      | Some vs \<Rightarrow> if vs = [] then [DASH] else map (\<lambda>v. filter (\<lambda>c. c \<noteq> QUOT \<and> c \<noteq> CHR 0x27) (shown v)) vs)"

definition link_tint :: "jsval \<Rightarrow> string \<times> string" where
  "link_tint u = (if expired_link u then (''#FEE2E2'', ''#DC2626'') else (''var(--good-bg)'', ''var(--good)''))"

definition link_buttons :: "jsval \<Rightarrow> string list" where
  "link_buttons u = (if \<not> expired_link u \<and> truthy (jopt u ''shareLink'') then [''Copy Link''] else []) @ [''Revoke access'']"

definition guest_columns :: "string list" where
  "guest_columns = [''Recipient / Client'', ''Allowed Vehicles'', ''Generated Date'', ''Expires At'', ''Status'', ''Actions'']"

definition guest_row :: "jsval \<Rightarrow> cells" where
  "guest_row u =
     [[dash_of u ''guestName'', ''Token: '' @ dash_of u ''accessToken''], link_plates u, [dash_of u ''createdAt''],
      [dash_of u ''expiresAt''], [dash_of u ''status''], link_buttons u]"

definition guest_table :: "guests_page \<Rightarrow> cells table_body" where
  "guest_table p =
     (if gu_loading p then Loading ''Loading guest access tokens...''
      else if tempUsers p = [] then Nothing ''No active temporary guest share links.''
      else Rows (map guest_row (tempUsers p)))"

definition guest_durations :: "(nat \<times> string) list" where
  "guest_durations =
     [(2, ''2 Hours (Single delivery trip)''), (6, ''6 Hours (Half day dispatch)''), (24, ''24 Hours (Full day tracking)''),
      (72, ''3 Days (Long haul transit)''), (168, ''7 Days (Weekly lease)'')]"

definition setNewGuest :: "(guest_form \<Rightarrow> guest_form) \<Rightarrow> guests_page \<Rightarrow> guests_page" where
  "setNewGuest f p = p\<lparr>newGuest := f (newGuest p)\<rparr>"

definition setDuration :: "nat \<Rightarrow> guests_page \<Rightarrow> guests_page" where
  "setDuration h = setNewGuest (durationHours_update (\<lambda>_. h))"

text \<open>The one field the browser checks; durations and vehicles are chosen, not typed.\<close>

definition guest_controls :: "guests_page \<Rightarrow> guests_page control list" where
  "guest_controls p =
     [(needed ''Client / Consignee / Auditor Name *'' Text_box (guestName (newGuest p)),
       \<lambda>v. setNewGuest (guestName_update (\<lambda>_. v)))]"

text \<open>A check box for each vehicle of the fleet: its label and whether it is ticked.\<close>

definition guest_vehicle_boxes :: "vehicle_position list \<Rightarrow> guests_page \<Rightarrow> (string \<times> bool) list" where
  "guest_vehicle_boxes vs p =
     map (\<lambda>v. (plate_of v @ '' '' @ (if str_truthy (vp_name v) then MIDDOT @ '' '' @ the (vp_name v) else []),
               plate_of v \<in> set (selectedVehicles (newGuest p)))) vs"

subsection \<open>Trackers\<close>

text \<open>The three cards: label, figure, and the line below.\<close>

definition device_cards :: "devices_page \<Rightarrow> (string \<times> string \<times> string) list" where
  "device_cards p =
     [(''Total Hardware Units'', nat_to_string (length (devices p)),
       if devices p = [] then ''No devices registered'' else nat_to_string (assignedCount p) @ '' assigned to a vehicle''),
      (''Configured TCP Ports'',
       if configuredPorts p = [] then DASH else join '', '' (map (\<lambda>x. CHR '':'' # num_to_string x) (configuredPorts p)),
       ''Ports stored on registered devices''),
      (''Device Models'', case deviceModels p of [] \<Rightarrow> DASH | m # ms \<Rightarrow> text_dash (jopt m ''name''),
       if deviceModels p = [] then ''No device models configured''
       else nat_to_string (length (deviceModels p)) @ '' model(s) configured'')]"

definition setSearchTerm :: "string \<Rightarrow> devices_page \<Rightarrow> devices_page" where
  "setSearchTerm v p = p\<lparr>searchTerm := v\<rparr>"

text \<open>\<open>/active|online|connected/i.test(d.status || '')\<close>\<close>

definition isOnline :: "jsval \<Rightarrow> bool" where
  "isOnline d = list_ex (str_includes (lower_field d ''status'')) [''active'', ''online'', ''connected'']"

definition device_tint :: "jsval \<Rightarrow> string \<times> string" where
  "device_tint d =
     (if isOnline d then (''rgba(16,185,129,0.15)'', ''#10b981'') else (''rgba(148,163,184,0.15)'', ''var(--text-muted)''))"

definition device_columns :: "string list" where
  "device_columns =
     [''Device ID'', ''IMEI Number'', ''Protocol'', ''SIM Card'', ''TCP Port'', ''Linked Vehicle'', ''Status'', ''Warranty'', ''Action'']"

definition device_row :: "jsval \<Rightarrow> cells" where
  "device_row d =
     [[shown (jopt d ''id'')], [dash_of d ''imei''], [dash_of d ''protocol''], [text_dash (jopt d ''simNo'')],
      [if truthy (jopt d ''port'') then CHR '':'' # js_to_string (jopt d ''port'') else DASH],
      [text_dash (jopt d ''assignedVehicle'')],
      [if truthy (jopt d ''status'') then toUpperCase (shown (jopt d ''status'')) else DASH],
      [dash_of d ''warrantyEnd''], [''Delete tracker'']]"

definition device_table :: "devices_page \<Rightarrow> cells table_body" where
  "device_table p =
     (if de_loading p then Loading (''Loading hardware trackers from database'' @ ELLIPSIS)
      else if filteredDevices p = [] then Nothing ''No telematics devices found for this organization.''
      else Rows (map device_row (filteredDevices p)))"

definition setNewTracker :: "(tracker_form \<Rightarrow> tracker_form) \<Rightarrow> devices_page \<Rightarrow> devices_page" where
  "setNewTracker f p = p\<lparr>newTracker := f (newTracker p)\<rparr>"

text \<open>A model is offered under its code, or its name when it has none.\<close>

definition model_choice :: "jsval list \<Rightarrow> input_kind" where
  "model_choice ms =
     Choice (([], ''Select device model...'') #
       (if ms = [] then [([], ''No device models configured'')]
        else map (\<lambda>m. (shown (js_or (jopt m ''code'') (jopt m ''name'')), shown (jopt m ''name''))) ms))"

definition tracker_controls :: "devices_page \<Rightarrow> devices_page control list" where
  "tracker_controls p =
     (let t = newTracker p in
      [(needed ''15-Digit IMEI Identifier *'' Text_box (tk_imei t), \<lambda>v. setNewTracker (tk_imei_update (\<lambda>_. v))),
       (optional ''Protocol / Hardware Model'' (model_choice (deviceModels p)) (tk_protocol t),
        \<lambda>v. setNewTracker (tk_protocol_update (\<lambda>_. v))),
       (optional ''TCP Listener Port'' (Number_box (Some 1) None 1) (tk_port t), \<lambda>v. setNewTracker (tk_port_update (\<lambda>_. v))),
       (optional ''M2M SIM Card Number'' Text_box (tk_simNo t), \<lambda>v. setNewTracker (tk_simNo_update (\<lambda>_. v))),
       (optional ''Assigned Vehicle Plate'' Text_box (assignedVehicle t),
        \<lambda>v. setNewTracker (assignedVehicle_update (\<lambda>_. v)))])"

subsection \<open>Facts\<close>

lemma register_wired:
  "wired (reminder_controls vs) v p" "wired (ticket_controls vs) v q" "wired guest_controls v g" "wired tracker_controls v d"
  by (simp_all add: wired_def typed_def reminder_controls_def ticket_controls_def guest_controls_def tracker_controls_def Let_def
      form_simps setNewReminder_def setNewTicket_def setNewGuest_def setNewTracker_def upt_rec numeral_eq_Suc)

text \<open>The browser's check covers the check of the page for reminders and guest links.\<close>

interpretation reminder_dialog: browser_form handleCreateReminder "\<lambda>p. reminder_problem p = None" not_refused fetchWithAuth
  "''/api/v1/reminders''" "\<lambda>p. send_json ''POST'' (reminder_body (newReminder p))" newReminder blank_reminder
  "\<lambda>p. t_msg (rm_toast p)" "reminder_controls vs" for vs
  by (intro browser_form.intro reminder.create_form_axioms browser_form_axioms.intro)
     (auto simp: reminder_controls_def reminder_problem_def Let_def form_simps)

interpretation guest_dialog: browser_form handleCreateGuest "\<lambda>p. guest_problem p = None" not_refused fetchWithAuth
  "''/api/v1/temp-users''" "\<lambda>p. send_json ''POST'' (guest_body (newGuest p))" newGuest blank_guest
  "\<lambda>p. t_msg (gu_toast p)" guest_controls
  by (intro browser_form.intro guest.create_form_axioms browser_form_axioms.intro)
     (auto simp: guest_controls_def guest_problem_def form_simps)

text \<open>The other two let one thing through that the page refuses: a text of blanks.\<close>

lemma ticket_gap:
  "valid_form (map fst (ticket_controls vs p)) \<Longrightarrow> ticket_problem p = None \<longleftrightarrow> trim (ti_title (newTicket p)) \<noteq> []"
  by (auto simp: ticket_controls_def ticket_problem_def Let_def form_simps)

lemma blank_imei_ignored:
  "trim (tk_imei (newTracker p)) = [] \<Longrightarrow> press tracker_controls handleRegisterSubmit w p = (w, p)"
  by (simp add: press_def handleRegisterSubmit_def)

text \<open>Each choice of the reminder filter but the first picks exactly one of the categories the dialog offers.\<close>

lemma filters_pick_one:
  "list_all (\<lambda>(key, label). length (filter (\<lambda>c. str_includes (toLowerCase c) key) reminder_categories) = 1) (tl reminder_filters)"
  by code_simp

text \<open>An inactive or disconnected tracker is drawn as one that is online: the pattern also matches inside a word.\<close>

lemma inactive_looks_online:
  "isOnline (JObj [(''status'', JStr ''Inactive'')])" "isOnline (JObj [(''status'', JStr ''Disconnected'')])"
  by code_simp+

text \<open>The rows on screen are the rows that pass the filter, one each; while a load is running there are none.\<close>

theorem register_tables_complete:
  "length (rows_of (reminder_table locale_num p)) = (if rm_loading p then 0 else length (filteredReminders p))
   \<and> length (rows_of (ticket_table q)) = (if co_loading q then 0 else length (filteredTickets q))
   \<and> length (rows_of (guest_table g)) = (if gu_loading g then 0 else length (tempUsers g))
   \<and> length (rows_of (device_table d)) = (if de_loading d then 0 else length (filteredDevices d))"
  by (simp add: reminder_table_def ticket_table_def guest_table_def device_table_def)

end
