(* ===== verification/Control_Panel.thy ===== *)
theory Control_Panel
  imports Vehicle_Store
begin

section \<open>Remote commands: \<open>ControlPanelPage.tsx\<close>\<close>

text \<open>
  Four buttons send a command to the selected unit; cutting the engine first opens a dialog for the PIN.
  \<open>panel_op\<close> lists what the user, the ten-second timer and the fleet store can do to the page, and
  \<open>panel_step\<close> runs one of them; a disabled control does nothing.
\<close>

subsection \<open>State and operations\<close>

record pending_action =
  pa_command :: string
  pa_title :: string
  pa_desc :: string

record panel_page =
  selectedVehicleId :: string
  commandLogs :: "jsval list"
  cp_loading :: bool
  logsLoading :: bool
  cp_toast :: toast
  isPinModalOpen :: bool
  pendingAction :: "pending_action option"
  enteredPin :: string
  pinError :: string

definition panel_initial :: panel_page where
  "panel_initial = \<lparr>selectedVehicleId = [], commandLogs = [], cp_loading = False, logsLoading = True, cp_toast = no_toast,
     isPinModalOpen = False, pendingAction = None, enteredPin = [], pinError = []\<rparr>"

definition cp_say :: "string \<Rightarrow> panel_page \<Rightarrow> panel_page" where
  "cp_say m p = p\<lparr>cp_toast := showToast_for 4000 m (cp_toast p)\<rparr>"

definition loadCommandLogs :: "browser \<times> panel_page \<Rightarrow> browser \<times> panel_page" where
  "loadCommandLogs wp =
     (let (w1, p1) = load_one fetchWithAuth ''/api/v1/commands/logs'' (\<lambda>xs p. p\<lparr>commandLogs := xs\<rparr>)
                       (fst wp) ((snd wp)\<lparr>logsLoading := True\<rparr>)
      in (w1, p1\<lparr>logsLoading := False\<rparr>))"

text \<open>The effect that selects the first vehicle once the fleet is there.\<close>

definition select_first :: "vehicle_position list \<Rightarrow> panel_page \<Rightarrow> panel_page" where
  "select_first vehicleList p =
     (case vehicleList of
        v # _ \<Rightarrow> if selectedVehicleId p = [] then p\<lparr>selectedVehicleId := js_to_string (device_id v)\<rparr> else p
      | [] \<Rightarrow> p)"

definition command_endpoint :: "panel_page \<Rightarrow> string" where
  "command_endpoint p = ''/api/v1/devices/'' @ selectedVehicleId p @ ''/commands''"

definition command_body :: "string \<Rightarrow> string \<Rightarrow> jsval" where
  "command_body commandType pin =
     JObj [(''commandType'', JStr commandType), (''pin'', JStr pin),
           (''notes'', JStr ''Dispatched from Control Panel interface'')]"

text \<open>What the answer to a command does: \<open>json.success\<close> of a body that is \<open>null\<close> throws, into the \<open>catch\<close>.\<close>

definition command_answer ::
  "string \<Rightarrow> bool \<Rightarrow> js_error + response \<Rightarrow> browser \<times> panel_page \<Rightarrow> browser \<times> panel_page" where
  "command_answer commandType modal_open r wp =
     (let broken = (fst wp, cp_say ''Network error dispatching command to gateway'' (snd wp))
      in case r of
           Inl e \<Rightarrow> broken
         | Inr res \<Rightarrow>
             (case res_json res of
                Inl e \<Rightarrow> broken
              | Inr json \<Rightarrow>
                  if nullish json then broken
                  else if res_ok res \<and> truthy (jopt json ''success'') then
                    loadCommandLogs (fst wp,
                      (cp_say (js_to_string (js_or (jopt json ''message'')
                         (JStr (''Command '' @ commandType @ '' transmitted successfully'')))) (snd wp))
                        \<lparr>isPinModalOpen := False\<rparr>)
                  else (let p1 = (snd wp)\<lparr>pinError := js_to_string (js_or (jopt json ''error'') (JStr ''Failed to dispatch command''))\<rparr>
                        in (fst wp, if modal_open then p1
                              else cp_say (js_to_string (js_or (jopt json ''error'') (JStr ''Command dispatch failed''))) p1))))"

definition executeCommand :: "string \<Rightarrow> string \<Rightarrow> browser \<Rightarrow> panel_page \<Rightarrow> browser \<times> panel_page" where
  "executeCommand commandType pin w p =
     (let (w1, r) = fetchWithAuth w (command_endpoint p) (send_json ''POST'' (command_body commandType pin));
          (w2, p2) = command_answer commandType (isPinModalOpen p) r (w1, p\<lparr>cp_loading := True\<rparr>)
      in (w2, p2\<lparr>cp_loading := False\<rparr>))"

definition initiateCommand ::
  "string \<Rightarrow> string \<Rightarrow> string \<Rightarrow> bool \<Rightarrow> browser \<Rightarrow> panel_page \<Rightarrow> browser \<times> panel_page" where
  "initiateCommand command title desc requirePin w p =
     (if requirePin then
        (w, p\<lparr>pendingAction := Some \<lparr>pa_command = command, pa_title = title, pa_desc = desc\<rparr>,
              enteredPin := [], pinError := [], isPinModalOpen := True\<rparr>)
      else executeCommand command [] w p)"

definition handlePinSubmit :: "browser \<Rightarrow> panel_page \<Rightarrow> browser \<times> panel_page" where
  "handlePinSubmit w p =
     (if enteredPin p = [] then (w, p\<lparr>pinError := ''Security PIN required''\<rparr>)
      else (case pendingAction p of
              Some a \<Rightarrow> executeCommand (pa_command a) (enteredPin p) w p
            | None \<Rightarrow> (w, p)))"

text \<open>The command cards.\<close>

definition command_cards :: "(string \<times> string \<times> string \<times> bool) list" where
  "command_cards =
     [(''IEngineOff'', ''Cut Vehicle Engine Relay'',
         ''This will safely disable fuel ignition when vehicle drops below safe speed.'', True),
      (''IEngineOn'', ''Resume Engine Ignition'', ''Restores starter circuit relay to operational position.'', False),
      (''SirenHooter'', ''Sound Alarm Hooter'', ''Audible horn burst'', False),
      (''IAcOff'', ''Disable AC Compressor'', ''Shuts off auxiliary AC line'', False)]"

datatype panel_op =
    PressCard nat
  | TypePin string
  | SubmitPin
  | CancelPin
  | PickVehicle string
  | PollLogs
  | FleetSeen "vehicle_position list"

fun panel_step :: "panel_op \<Rightarrow> browser \<times> panel_page \<Rightarrow> browser \<times> panel_page" where
  "panel_step (PressCard k) (w, p) =
     (if k < length command_cards \<and> \<not> cp_loading p
      then (case command_cards ! k of (c, t, d, pin) \<Rightarrow> initiateCommand c t d pin w p) else (w, p))"
| "panel_step (TypePin s) (w, p) =
     (w, if isPinModalOpen p \<and> length s \<le> 6 then p\<lparr>enteredPin := s, pinError := []\<rparr> else p)"
| "panel_step SubmitPin (w, p) = (if isPinModalOpen p \<and> \<not> cp_loading p then handlePinSubmit w p else (w, p))"
| "panel_step CancelPin (w, p) = (w, if cp_loading p then p else p\<lparr>isPinModalOpen := False\<rparr>)"
| "panel_step (PickVehicle v) (w, p) = (w, p\<lparr>selectedVehicleId := v\<rparr>)"
| "panel_step PollLogs (w, p) = loadCommandLogs (w, p)"
| "panel_step (FleetSeen vs) (w, p) = (w, select_first vs p)"

subsection \<open>Facts\<close>

lemma cp_say_simps [simp]: "enteredPin (cp_say m p) = enteredPin p" "commandLogs (cp_say m p) = commandLogs p"
  by (simp_all add: cp_say_def)

interpretation log_list: list_loader "\<lambda>w p. loadCommandLogs (w, p)" fetchWithAuth "''/api/v1/commands/logs''"
  "\<lambda>x. x" commandLogs logsLoading
  by unfold_locales (auto simp: loadCommandLogs_def load_one_eq split_beta split: option.splits)

lemma loadCommandLogs_pin [simp]: "enteredPin (snd (loadCommandLogs wp)) = enteredPin (snd wp)"
  by (simp add: loadCommandLogs_def load_one_eq split_beta split: option.splits)

lemma command_answer_pin [simp]: "enteredPin (snd (command_answer c m r wp)) = enteredPin (snd wp)"
  by (auto simp: command_answer_def Let_def split: sum.splits)

lemma executeCommand_pin [simp]: "enteredPin (snd (executeCommand c pin w p)) = enteredPin p"
  by (simp add: executeCommand_def split_beta Let_def)

text \<open>A request that cuts an engine carries a PIN.\<close>

definition pin_checked :: "request \<Rightarrow> bool" where
  "pin_checked q =
     (case rq_body q of
        JsonBody b \<Rightarrow>
          if jopt b ''commandType'' = JStr ''IEngineOff''
          then (case jopt b ''pin'' of JStr s \<Rightarrow> s \<noteq> [] \<and> length s \<le> 6 | _ \<Rightarrow> False) else True
      | _ \<Rightarrow> True)"

lemma logs_pin_checked: "adds_only pin_checked (fst wp) (fst (loadCommandLogs wp))"
proof -
  have "fst (loadCommandLogs wp) = fst (fetchWithAuth (fst wp) ''/api/v1/commands/logs'' GET)"
    by (simp add: loadCommandLogs_def load_one_eq split_beta)
  then show ?thesis
    using adds_mono [OF fetch_sends_options [of GET "fst wp" "''/api/v1/commands/logs''"], of pin_checked]
    by (simp add: GET_def pin_checked_def)
qed

lemma answer_pin_checked: "adds_only pin_checked (fst wp) (fst (command_answer c m r wp))"
  using logs_pin_checked [of "(fst wp, q)" for q] by (auto simp: command_answer_def Let_def split: sum.splits)

lemma execute_pin_checked:
  assumes "c = ''IEngineOff'' \<Longrightarrow> pin \<noteq> [] \<and> length pin \<le> 6"
  shows "adds_only pin_checked w (fst (executeCommand c pin w p))"
proof -
  let ?opt = "send_json ''POST'' (command_body c pin)"
  have "pin_checked q" if "rq_body q = o_body ?opt" for q
    using that assms by (simp add: pin_checked_def send_json_def command_body_def)
  then have "adds_only pin_checked w (fst (fetchWithAuth w (command_endpoint p) ?opt))"
    by (intro adds_mono [OF fetch_sends_options]) simp
  with answer_pin_checked [of "(fst (fetchWithAuth w (command_endpoint p) ?opt), p\<lparr>cp_loading := True\<rparr>)"]
  show ?thesis by (auto simp: executeCommand_def split_beta Let_def intro: adds_trans)
qed

lemma panel_step_pin:
  assumes "length (enteredPin p) \<le> 6"
  shows "length (enteredPin (snd (panel_step op (w, p)))) \<le> 6 \<and> adds_only pin_checked w (fst (panel_step op (w, p)))"
proof (cases op)
  case (PressCard k)
  have "c \<noteq> ''IEngineOff''" if "k < length command_cards" "command_cards ! k = (c, t, d, False)" for c t d
    using that by (auto simp: command_cards_def less_Suc_eq nth_Cons')
  then show ?thesis
    using assms by (auto simp: PressCard initiateCommand_def split: prod.splits if_splits intro!: execute_pin_checked)
next
  case SubmitPin
  then show ?thesis
    using assms by (auto simp: handlePinSubmit_def split: option.splits intro!: execute_pin_checked)
next
  case PollLogs
  then show ?thesis using assms logs_pin_checked [of "(w, p)"] by simp
qed (use assms in \<open>auto simp: select_first_def split: list.splits\<close>)

lemma panel_run_pin:
  "length (enteredPin (snd wp)) \<le> 6 \<Longrightarrow> adds_only pin_checked (fst wp) (fst (fold panel_step ops wp))"
proof (induction ops arbitrary: wp)
  case (Cons op ops)
  obtain w p where wp: "wp = (w, p)" by fastforce
  from Cons.prems panel_step_pin [of p op w] Cons.IH [of "panel_step op wp"] show ?case
    by (auto simp: wp intro: adds_trans)
qed simp

text \<open>A card acts on the empty selection too: the request then names no unit.\<close>

lemma command_without_unit:
  assumes "has_session w"
  shows "\<exists>q qs. sent (fst (panel_step (PressCard 1) (w, panel_initial))) = sent w @ q # qs
    \<and> rq_path q = ''/api/v1/devices//commands'' \<and> rq_body q = JsonBody (command_body ''IEngineOn'' [])"
proof -
  let ?f = "fetchWithAuth w (command_endpoint panel_initial) (send_json ''POST'' (command_body ''IEngineOn'' []))"
  have "panel_step (PressCard 1) (w, panel_initial) = executeCommand ''IEngineOn'' [] w panel_initial"
    by (simp add: command_cards_def initiateCommand_def panel_initial_def)
  moreover have "\<exists>qs. sent (fst (executeCommand ''IEngineOn'' [] w panel_initial)) = sent (fst ?f) @ qs"
    using answer_pin_checked [of "(fst ?f, panel_initial\<lparr>cp_loading := True\<rparr>)" "''IEngineOn''" "isPinModalOpen panel_initial" "snd ?f"]
    by (auto simp: executeCommand_def split_beta Let_def adds_only_def)
  ultimately show ?thesis
    using fetch_session_log [OF assms, of "command_endpoint panel_initial" "send_json ''POST'' (command_body ''IEngineOn'' [])"]
    by (fastforce simp: auth_request_def Let_def send_json_def command_endpoint_def panel_initial_def url_path_def)
qed

subsection \<open>Properties\<close>


end
