(* ===== verification/Settings.thy ===== *)
theory Settings
  imports Client_Session Js_Date
begin

section \<open>Organization settings: \<open>SettingsPage.tsx\<close>\<close>

text \<open>
  The form of the company profile, the list of trackers, the form that registers one, and the health line
  derived from the trackers' heartbeats. Numbers are edited as text. The clock (\<open>now\<close>) and the engine's
  reading of non-ISO dates (\<open>other\<close>) are parameters.
\<close>

subsection \<open>State\<close>

record settings_form =
  companyName :: string
  contactPerson :: string
  contactEmail :: string
  contactPhone :: string
  se_city :: string
  se_address :: string
  idleThresholdMinutes :: string
  speedThresholdKmh :: string
  timezone :: string
  language :: string
  vatPercent :: string

definition EMPTY_SETTINGS :: settings_form where
  "EMPTY_SETTINGS = \<lparr>companyName = [], contactPerson = [], contactEmail = [], contactPhone = [], se_city = [],
     se_address = [], idleThresholdMinutes = [], speedThresholdKmh = [], timezone = [], language = [], vatPercent = []\<rparr>"

record settings_usage =
  us_devices :: "real option"
  us_users :: "real option"
  us_vehicles :: "real option"

record device_item =
  di_id :: jsval
  di_imei :: jsval
  di_vehicle :: string
  di_type :: string
  di_status :: string
  di_sim :: string
  lastHeartbeat :: "string option"

record device_form =
  df_imei :: string
  vehiclePlate :: string
  simNumber :: string

definition blank_device :: device_form where
  "blank_device = \<lparr>df_imei = [], vehiclePlate = [], simNumber = []\<rparr>"

record settings_page =
  saved :: bool
  saved_timers :: "nat list"
  loadError :: "string option"
  saveError :: "string option"
  isSaving :: bool
  showTechnicalDetails :: bool
  isAddDeviceOpen :: bool
  settings :: settings_form
  usage :: settings_usage
  se_devices :: "device_item list"
  loadingDevices :: bool
  deviceError :: "string option"
  registerError :: "string option"
  newDevice :: device_form

definition settings_initial :: settings_page where
  "settings_initial = \<lparr>saved = False, saved_timers = [], loadError = None, saveError = None, isSaving = False,
     showTechnicalDetails = False, isAddDeviceOpen = False, settings = EMPTY_SETTINGS,
     usage = \<lparr>us_devices = None, us_users = None, us_vehicles = None\<rparr>, se_devices = [], loadingDevices = True,
     deviceError = None, registerError = None, newDevice = blank_device\<rparr>"

subsection \<open>Loading\<close>

definition settings_text :: "jsval \<Rightarrow> string" where
  "settings_text v = (if nullish v then [] else js_to_string v)"

definition shownNumber :: "jsval \<Rightarrow> string" where
  "shownNumber v = (case js_Number v of Fin x \<Rightarrow> if x \<noteq> 0 then num_to_string x else [] | _ \<Rightarrow> [])"

text \<open>\<open>throw new Error(json?.error || text)\<close>, shown by the \<open>catch\<close> as \<open>err?.message || text\<close>.\<close>

definition thrown :: "string \<Rightarrow> jsval \<Rightarrow> string" where
  "thrown dflt json = (let m = js_to_string (js_or (jopt json ''error'') (JStr dflt)) in if m = [] then dflt else m)"

definition or_default :: "string \<Rightarrow> js_error \<Rightarrow> string" where
  "or_default dflt e = (if err_message e = [] then dflt else err_message e)"

definition form_of_data :: "jsval \<Rightarrow> settings_form" where
  "form_of_data data =
     (let company = js_or (jopt data ''company'') (JObj []); stored = js_or (jopt data ''settings'') (JObj [])
      in \<lparr>companyName = settings_text (jopt company ''name''), contactPerson = settings_text (jopt company ''contactPerson''),
          contactEmail = settings_text (jopt company ''contactEmail''), contactPhone = settings_text (jopt company ''contactPhone''),
          se_city = settings_text (jopt company ''city''), se_address = settings_text (jopt company ''address''),
          idleThresholdMinutes = shownNumber (jopt stored ''idleThresholdMinutes''),
          speedThresholdKmh = shownNumber (jopt stored ''speedThresholdKmh''),
          timezone = settings_text (jopt stored ''timezone''), language = settings_text (jopt stored ''language''),
          vatPercent = shownNumber (jopt stored ''vatPercent'')\<rparr>)"

definition usage_of_data :: "jsval \<Rightarrow> settings_usage" where
  "usage_of_data data =
     (let counts = js_or (jopt data ''usage'') (JObj [])
      in \<lparr>us_devices = num_field counts ''devices'', us_users = num_field counts ''users'',
          us_vehicles = num_field counts ''vehicles''\<rparr>)"

definition loadSettings :: "browser \<times> settings_page \<Rightarrow> browser \<times> settings_page" where
  "loadSettings wp =
     (let (w1, r) = fetchWithAuth (fst wp) ''/api/v1/settings'' GET; p = snd wp;
          dflt = ''Failed to load organization settings.''
      in (w1, case r of
           Inl e \<Rightarrow> p\<lparr>loadError := Some (or_default dflt e)\<rparr>
         | Inr res \<Rightarrow>
             (let json = json_or JNull res
              in if \<not> res_ok res \<or> \<not> truthy (jopt json ''success'') \<or> \<not> truthy (jopt json ''data'')
                 then p\<lparr>loadError := Some (thrown dflt json)\<rparr>
                 else p\<lparr>settings := form_of_data (jopt json ''data''), usage := usage_of_data (jopt json ''data''),
                        loadError := None\<rparr>)))"

definition device_of_row :: "jsval \<Rightarrow> device_item" where
  "device_of_row d =
     \<lparr>di_id = jopt d ''id'', di_imei = coalesce (jopt d ''imei'') JNull, di_vehicle = str_or (str_field d ''assignedVehicle'') DASH,
      di_type = str_or (str_field d ''protocol'') DASH, di_status = str_or (str_field d ''status'') DASH,
      di_sim = str_or (str_field d ''simNo'') DASH,
      lastHeartbeat = (if str_truthy (str_field d ''lastHeartbeat'') then str_field d ''lastHeartbeat'' else None)\<rparr>"

text \<open>A row that is \<open>null\<close> makes the mapping throw.\<close>

definition null_row :: js_error where
  "null_row = TypeError ''Cannot read properties of null (reading id)''"

definition settings_loadDevices :: "browser \<times> settings_page \<Rightarrow> browser \<times> settings_page" where
  "settings_loadDevices wp =
     (let (w1, r) = fetchWithAuth (fst wp) ''/api/v1/devices'' GET;
          p = (snd wp)\<lparr>loadingDevices := True, deviceError := None\<rparr>;
          dflt = ''Failed to load tracking devices.'';
          failed = (\<lambda>m. p\<lparr>deviceError := Some m, se_devices := [], loadingDevices := False\<rparr>)
      in (w1, case r of
           Inl e \<Rightarrow> failed (or_default dflt e)
         | Inr res \<Rightarrow>
             (let json = json_or JNull res
              in case (res_ok res \<and> truthy (jopt json ''success''), as_arr (jopt json ''data'')) of
                   (True, Some rows) \<Rightarrow>
                     if list_ex nullish rows then failed (or_default dflt null_row)
                     else p\<lparr>se_devices := map device_of_row rows, loadingDevices := False\<rparr>
                 | _ \<Rightarrow> failed (thrown dflt json))))"

subsection \<open>Saving\<close>

text \<open>\<open>Number(text) || 0\<close>\<close>

definition num_or_zero :: "string \<Rightarrow> jsval" where
  "num_or_zero t = json_of_num (num_or0 (toNumber t))"

definition settings_body :: "settings_form \<Rightarrow> jsval" where
  "settings_body s =
     JObj [(''companyName'', JStr (companyName s)), (''contactPerson'', JStr (contactPerson s)),
           (''contactEmail'', JStr (contactEmail s)), (''contactPhone'', JStr (contactPhone s)),
           (''city'', JStr (se_city s)), (''address'', JStr (se_address s)),
           (''idleThresholdMinutes'', num_or_zero (idleThresholdMinutes s)),
           (''speedThresholdKmh'', num_or_zero (speedThresholdKmh s)),
           (''timezone'', JStr (timezone s)), (''language'', JStr (language s)),
           (''vatPercent'', num_or_zero (vatPercent s))]"

definition show_saved :: "settings_page \<Rightarrow> settings_page" where
  "show_saved p = p\<lparr>saved := True, saved_timers := saved_timers p @ [3000]\<rparr>"

definition handleSave :: "browser \<Rightarrow> settings_page \<Rightarrow> browser \<times> settings_page" where
  "handleSave w p =
     (let (w1, r) = fetchWithAuth w ''/api/v1/settings'' (plain_json ''PUT'' (settings_body (settings p)));
          p1 = p\<lparr>isSaving := True, saveError := None\<rparr>; dflt = ''Failed to save settings.'';
          (w2, p2) = (case r of
             Inl e \<Rightarrow> (w1, p1\<lparr>saveError := Some (or_default dflt e)\<rparr>)
           | Inr res \<Rightarrow> if confirmed res then loadSettings (w1, show_saved p1)
                        else (w1, p1\<lparr>saveError := Some (thrown dflt (json_or JNull res))\<rparr>))
      in (w2, p2\<lparr>isSaving := False\<rparr>))"

definition device_body :: "device_form \<Rightarrow> jsval" where
  "device_body d =
     JObj ([(''imei'', JStr (trim (df_imei d)))] @ opt_text ''assignedVehicle'' (trim (vehiclePlate d)) @
           opt_text ''simNo'' (trim (simNumber d)))"

definition handleAddDevice :: "browser \<Rightarrow> settings_page \<Rightarrow> browser \<times> settings_page" where
  "handleAddDevice w p =
     (if trim (df_imei (newDevice p)) = []
      then (w, p\<lparr>registerError := Some ''Enter the tracker IMEI to register a device.''\<rparr>)
      else (let (w1, r) = fetchWithAuth w ''/api/v1/devices'' (plain_json ''POST'' (device_body (newDevice p)));
                p1 = p\<lparr>registerError := None\<rparr>; dflt = ''Failed to register device.''
            in case r of
                 Inl e \<Rightarrow> (w1, p1\<lparr>registerError := Some (or_default dflt e)\<rparr>)
               | Inr res \<Rightarrow>
                   if confirmed res
                   then settings_loadDevices (w1, show_saved (p1\<lparr>newDevice := blank_device, isAddDeviceOpen := False\<rparr>))
                   else (w1, p1\<lparr>registerError := Some (thrown dflt (json_or JNull res))\<rparr>)))"

subsection \<open>Health line\<close>

definition heartbeatCutoff :: "int \<Rightarrow> int" where
  "heartbeatCutoff now = now - 24 * 60 * 60 * 1000"

definition reportingDevices :: "(string \<Rightarrow> int option) \<Rightarrow> int \<Rightarrow> settings_page \<Rightarrow> device_item list" where
  "reportingDevices other now p =
     filter (\<lambda>d. case lastHeartbeat d of
                   None \<Rightarrow> False
                 | Some t \<Rightarrow> (case Date_parse other t of None \<Rightarrow> False | Some ms \<Rightarrow> heartbeatCutoff now \<le> ms))
       (se_devices p)"

definition healthHealthy :: "(string \<Rightarrow> int option) \<Rightarrow> int \<Rightarrow> settings_page \<Rightarrow> bool" where
  "healthHealthy other now p = (0 < length (reportingDevices other now p))"

definition healthHeadline :: "(string \<Rightarrow> int option) \<Rightarrow> int \<Rightarrow> settings_page \<Rightarrow> string" where
  "healthHeadline other now p =
     (if length (se_devices p) = 0 then ''No tracking units registered''
      else nat_to_string (length (reportingDevices other now p)) @ '' of '' @ nat_to_string (length (se_devices p)) @
           '' tracking units reported in the last 24 hours'')"

definition healthDetail :: "settings_page \<Rightarrow> string" where
  "healthDetail p =
     (let u = usage p; sh = (\<lambda>x. case x of None \<Rightarrow> DASH | Some n \<Rightarrow> num_to_string n)
      in if us_devices u = None \<and> us_vehicles u = None \<and> us_users u = None
         then ''Usage counters are not available from the settings API.''
         else sh (us_devices u) @ '' devices '' @ MIDDOT @ '' '' @ sh (us_vehicles u) @ '' vehicles '' @ MIDDOT @ '' '' @
              sh (us_users u) @ '' users registered in this organization.'')"

subsection \<open>Facts\<close>

lemma show_saved_simps [simp]:
  "newDevice (show_saved p) = newDevice p" "settings (show_saved p) = settings p" "registerError (show_saved p) = registerError p"
  by (simp_all add: show_saved_def)

lemma devices_load_form [simp]: "newDevice (snd (settings_loadDevices wp)) = newDevice (snd wp)"
  by (auto simp: settings_loadDevices_def Let_def split_beta split: sum.splits option.splits bool.splits)

interpretation device: create_form handleAddDevice "\<lambda>p. trim (df_imei (newDevice p)) \<noteq> []" confirmed fetchWithAuth
  "''/api/v1/devices''" "\<lambda>p. plain_json ''POST'' (device_body (newDevice p))" newDevice blank_device registerError
  by unfold_locales (auto simp: handleAddDevice_def accepted_by_def split_beta Let_def split: sum.splits)

lemma settings_loads_send:
  "adds_only tenant_request (fst wp) (fst (loadSettings wp))"
  "adds_only tenant_request (fst wp) (fst (settings_loadDevices wp))"
  by (simp_all add: loadSettings_def settings_loadDevices_def Let_def split_beta client_sends(2))

lemma settings_send [intro]:
  "adds_only tenant_request w (fst (handleSave w p))" "adds_only tenant_request w (fst (handleAddDevice w p))"
proof -
  have then_send: "adds_only tenant_request w (fst (g (fst (fetchWithAuth w e opt))))"
    if "\<And>u. adds_only tenant_request u (fst (g u))" for e opt and g :: "browser \<Rightarrow> browser \<times> settings_page"
    by (rule adds_trans [OF client_sends(2) that])
  have load: "adds_only tenant_request u (fst (loadSettings (u, q)))" "adds_only tenant_request u (fst (settings_loadDevices (u, q)))" for u q
    using settings_loads_send [of "(u, q)"] by simp_all
  show "adds_only tenant_request w (fst (handleSave w p))"
    by (auto simp: handleSave_def split_beta Let_def load split: sum.split intro!: then_send)
  show "adds_only tenant_request w (fst (handleAddDevice w p))"
    by (auto simp: handleAddDevice_def split_beta Let_def load split: sum.split intro!: then_send client_sends(2))
qed

text \<open>The values the settings service stores: texts, and whole numbers.\<close>

definition text_setting :: "jsval \<Rightarrow> bool" where
  "text_setting v = (case v of JStr s \<Rightarrow> True | _ \<Rightarrow> nullish v)"

definition number_setting :: "jsval \<Rightarrow> bool" where
  "number_setting v = (case v of JNum x \<Rightarrow> x \<in> range real | _ \<Rightarrow> nullish v)"

lemma text_back: "text_setting v \<Longrightarrow> JStr (settings_text v) = coalesce v (JStr [])"
  by (cases v) (auto simp: text_setting_def settings_text_def coalesce_def)

lemma number_back: "number_setting v \<Longrightarrow> num_or_zero (shownNumber v) = coalesce v (JNum 0)"
  by (cases v) (auto simp: number_setting_def shownNumber_def num_or_zero_def js_Number_def coalesce_def toNumber_blank trim_def)

definition demo_settings :: jsval where
  "demo_settings = JObj [(''success'', JBool True), (''data'', JObj
     [(''company'', JObj [(''name'', JStr ''Rudra''), (''city'', JNull)]),
      (''settings'', JObj [(''idleThresholdMinutes'', JNum 15), (''timezone'', JStr ''Asia/Dubai'')])])]"

definition demo_beats :: settings_page where
  "demo_beats = settings_initial\<lparr>se_devices :=
     [\<lparr>di_id = JNum 1, di_imei = JStr ''3521'', di_vehicle = DASH, di_type = DASH, di_status = DASH, di_sim = DASH,
       lastHeartbeat = Some (toISOString 1700000000000)\<rparr>,
      \<lparr>di_id = JNum 2, di_imei = JStr ''3522'', di_vehicle = DASH, di_type = DASH, di_status = DASH, di_sim = DASH,
       lastHeartbeat = None\<rparr>]\<rparr>"

subsection \<open>Properties\<close>

text \<open>C40: opening the settings page and saving without an edit changes nothing: for texts and whole numbers
  the request that saves what the form shows carries, for every field, the value the server had sent, with
  the empty text or 0 where it had sent none. The numbers pass through their text on the way.\<close>

theorem settings_roundtrip:
  assumes "snd (fetchWithAuth w ''/api/v1/settings'' GET) = Inr res" and "res_ok res" and "body res = Inr json"
    and "truthy (jopt json ''success'')" and "jopt json ''data'' = JObj data"
    and "jopt (JObj data) ''company'' = JObj company" and "jopt (JObj data) ''settings'' = JObj stored"
    and "list_all (\<lambda>k. text_setting (jopt (JObj company) k)) [''name'', ''contactPerson'', ''contactEmail'', ''contactPhone'', ''city'', ''address'']"
    and "list_all (\<lambda>k. text_setting (jopt (JObj stored) k)) [''timezone'', ''language'']"
    and "list_all (\<lambda>k. number_setting (jopt (JObj stored) k)) [''idleThresholdMinutes'', ''speedThresholdKmh'', ''vatPercent'']"
  shows "settings_body (settings (snd (loadSettings (w, p)))) =
     JObj (map (\<lambda>(k, src). (k, coalesce (jopt (JObj company) src) (JStr [])))
             [(''companyName'', ''name''), (''contactPerson'', ''contactPerson''), (''contactEmail'', ''contactEmail''),
              (''contactPhone'', ''contactPhone''), (''city'', ''city''), (''address'', ''address'')] @
           map (\<lambda>(k, d). (k, coalesce (jopt (JObj stored) k) d))
             [(''idleThresholdMinutes'', JNum 0), (''speedThresholdKmh'', JNum 0), (''timezone'', JStr []),
              (''language'', JStr []), (''vatPercent'', JNum 0)])"
proof -
  have "settings (snd (loadSettings (w, p))) = form_of_data (JObj data)"
    using assms(1-5) by (simp add: loadSettings_def split_beta Let_def json_or_def)
  moreover have "settings_body (form_of_data (JObj data)) =
     JObj (map (\<lambda>(k, src). (k, coalesce (jopt (JObj company) src) (JStr [])))
             [(''companyName'', ''name''), (''contactPerson'', ''contactPerson''), (''contactEmail'', ''contactEmail''),
              (''contactPhone'', ''contactPhone''), (''city'', ''city''), (''address'', ''address'')] @
           map (\<lambda>(k, d). (k, coalesce (jopt (JObj stored) k) d))
             [(''idleThresholdMinutes'', JNum 0), (''speedThresholdKmh'', JNum 0), (''timezone'', JStr []),
              (''language'', JStr []), (''vatPercent'', JNum 0)])"
    using assms(8-10)
    by (simp add: form_of_data_def settings_body_def js_or_def Let_def assms(6,7) text_back number_back del: jopt.simps)
  ultimately show ?thesis by simp
qed

theorem settings_roundtrip_witness:
  "jopt (settings_body (settings (snd (loadSettings (demo_session (answer 200 demo_settings), settings_initial))))) ''idleThresholdMinutes'' = JNum 15
   \<and> jopt (settings_body (settings (snd (loadSettings (demo_session (answer 200 demo_settings), settings_initial))))) ''vatPercent'' = JNum 0"
proof -
  let ?w = "demo_session (answer 200 demo_settings)"
  have n: "(15::real) \<in> range real" by (rule image_eqI [of _ _ 15]) simp_all
  have r: "snd (fetchWithAuth ?w ''/api/v1/settings'' GET) = Inr \<lparr>status = 200, statusText = ''OK'', body = Inr demo_settings\<rparr>"
    by (simp add: fetchWithAuth_session [OF demo_has_session(1)] demo_has_session(2) answer_def Let_def)
  show ?thesis
    using settings_roundtrip [OF r, of demo_settings _ "[(''name'', JStr ''Rudra''), (''city'', JNull)]"
        "[(''idleThresholdMinutes'', JNum 15), (''timezone'', JStr ''Asia/Dubai'')]" settings_initial] n
    by (simp add: demo_settings_def res_ok_def text_setting_def number_setting_def coalesce_def)
qed

text \<open>The health line counts a tracker exactly when its last heartbeat, written as an ISO time, is at
  most 24 hours old; a tracker without a heartbeat is never counted, and the page is green exactly when one
  tracker counts.\<close>

theorem heartbeat_window:
  assumes "list_all (\<lambda>d. case lastHeartbeat d of None \<Rightarrow> True | Some t \<Rightarrow> t = toISOString (beat d) \<and> 0 \<le> year_of (beat d) \<and> year_of (beat d) \<le> 9999) (se_devices p)"
  shows "reportingDevices other now p = filter (\<lambda>d. lastHeartbeat d \<noteq> None \<and> now - beat d \<le> 86400000) (se_devices p)
    \<and> healthHealthy other now p = list_ex (\<lambda>d. lastHeartbeat d \<noteq> None \<and> now - beat d \<le> 86400000) (se_devices p)"
proof -
  have "reportingDevices other now p = filter (\<lambda>d. lastHeartbeat d \<noteq> None \<and> now - beat d \<le> 86400000) (se_devices p)"
    unfolding reportingDevices_def
    using assms by (intro filter_cong) (auto simp: list_all_iff Date_parse_def iso_roundtrip(1) heartbeatCutoff_def split: option.splits)
  moreover have "0 < length (filter P xs) \<longleftrightarrow> list_ex P xs" for P :: "device_item \<Rightarrow> bool" and xs
    by (induction xs) auto
  ultimately show ?thesis by (simp add: healthHealthy_def)
qed

theorem heartbeat_window_witness:
  "healthHealthy (\<lambda>_. None) 1700086400000 demo_beats \<and> \<not> healthHealthy (\<lambda>_. None) 1700086400001 demo_beats"
proof -
  have "year_of 1700000000000 = 2023" by (simp add: year_of_def DAY_MS_def civil_19675)
  then have h: "list_all (\<lambda>d. case lastHeartbeat d of None \<Rightarrow> True | Some t \<Rightarrow> t = toISOString ((\<lambda>_. 1700000000000) d)
      \<and> 0 \<le> year_of ((\<lambda>_. 1700000000000) d) \<and> year_of ((\<lambda>_. 1700000000000) d) \<le> 9999) (se_devices demo_beats)"
    by (simp add: demo_beats_def)
  show ?thesis
    using heartbeat_window [OF h, of "\<lambda>_. None" 1700086400000] heartbeat_window [OF h, of "\<lambda>_. None" 1700086400001]
    by (simp add: demo_beats_def)
qed

end
