(* ===== verification/Dashboard.thy ===== *)
theory Dashboard
  imports Vehicle_Store Js_Date
begin

section \<open>The dashboard: \<open>DashboardPage.tsx\<close>\<close>

text \<open>
  Counters (from the summary endpoint, or counted from the fleet store until it has answered), the alerts
  that need attention, the gate-pass form and the CSV export. The page reads the fleet store. Texts that
  depend on the locale (\<open>locale_text\<close>) and the engine's reading of non-ISO dates (\<open>other\<close>) are parameters.
\<close>

subsection \<open>State\<close>

record dispatch_form =
  di_vehicle_reg :: string
  di_destination :: string
  di_purpose :: string

definition blank_dispatch :: dispatch_form where
  "blank_dispatch = \<lparr>di_vehicle_reg = [], di_destination = [], di_purpose = []\<rparr>"

record dashboard =
  summary :: jsval
  db_alerts :: "jsval list"
  db_gatePasses :: "jsval list"
  isDispatchModalOpen :: bool
  db_toast :: toast
  submitting :: bool
  dispatchForm :: dispatch_form

definition dashboard_initial :: dashboard where
  "dashboard_initial = \<lparr>summary = JNull, db_alerts = [], db_gatePasses = [], isDispatchModalOpen = False,
     db_toast = no_toast, submitting = False, dispatchForm = blank_dispatch\<rparr>"

definition db_say :: "string \<Rightarrow> dashboard \<Rightarrow> dashboard" where
  "db_say m p = p\<lparr>db_toast := showToast m (db_toast p)\<rparr>"

definition statusLabel :: "string option \<Rightarrow> string" where
  "statusLabel st =
     (if st = Some ''moving'' then ''Moving'' else if st = Some ''idle'' then ''Waiting''
      else if st = Some ''stopped'' then ''Parked'' else if st = Some ''offline'' then ''Offline'' else str_or st DASH)"

definition db_formatDateTime :: "(string \<Rightarrow> int option) \<Rightarrow> (int \<Rightarrow> string) \<Rightarrow> string option \<Rightarrow> string" where
  "db_formatDateTime other locale_text value =
     (if \<not> str_truthy value then DASH
      else (case Date_parse other (the value) of None \<Rightarrow> DASH | Some ms \<Rightarrow> locale_text ms))"

subsection \<open>Loading\<close>

definition loadSummary :: "browser \<times> dashboard \<Rightarrow> browser \<times> dashboard" where
  "loadSummary wp =
     (let (w1, r) = fetchWithAuth (fst wp) ''/api/v1/dashboard/summary'' GET; p = snd wp
      in (w1, case r of
           Inl e \<Rightarrow> p
         | Inr res \<Rightarrow>
             if \<not> res_ok res then p
             else (case res_json res of
                     Inl e \<Rightarrow> p
                   | Inr json \<Rightarrow>
                       if truthy (jopt json ''success'') \<and> truthy (jopt json ''data'')
                       then p\<lparr>summary := jopt json ''data''\<rparr> else p)))"

definition db_loadAlerts :: "browser \<times> dashboard \<Rightarrow> browser \<times> dashboard" where
  "db_loadAlerts wp = load_one fetchWithAuth ''/api/v1/alerts'' (\<lambda>xs p. p\<lparr>db_alerts := xs\<rparr>) (fst wp) (snd wp)"

definition loadGatePasses :: "browser \<times> dashboard \<Rightarrow> browser \<times> dashboard" where
  "loadGatePasses wp =
     load_one fetchWithAuth ''/api/v1/fleet/gate-passes'' (\<lambda>xs p. p\<lparr>db_gatePasses := xs\<rparr>) (fst wp) (snd wp)"

text \<open>The effect of the page: the store and the three lists.\<close>

definition dashboard_effect :: "browser \<Rightarrow> vehicle_state \<Rightarrow> dashboard \<Rightarrow> browser \<times> vehicle_state \<times> dashboard" where
  "dashboard_effect w s p =
     (let token = (if truthy (au_token (auth w)) then au_token (auth w) else JUndef);
          (w1, s1) = fetchVehicles token (jopt (au_user (auth w)) ''company_id'') w s;
          (w2, p2) = loadGatePasses (db_loadAlerts (loadSummary (w1, p)))
      in (w2, s1, p2))"

subsection \<open>Counters and alerts\<close>

definition count_status :: "string list \<Rightarrow> vehicle_position list \<Rightarrow> nat" where
  "count_status ss vs = length (filter (\<lambda>v. vp_status v \<in> Some ` set ss) vs)"

definition movingCount :: "vehicle_position list \<Rightarrow> dashboard \<Rightarrow> jsval" where
  "movingCount vs p = coalesce (jopt (summary p) ''moving'') (JNum (of_nat (count_status [''moving''] vs)))"

definition waitingCount :: "vehicle_position list \<Rightarrow> dashboard \<Rightarrow> jsval" where
  "waitingCount vs p = coalesce (jopt (summary p) ''idle'') (JNum (of_nat (count_status [''idle''] vs)))"

text \<open>\<open>summary.stopped + summary.offline\<close> is NaN when one of the two numbers is missing.\<close>

definition parkedCount :: "vehicle_position list \<Rightarrow> dashboard \<Rightarrow> jsnum" where
  "parkedCount vs p =
     (if truthy (summary p) then
        (case (num_field (summary p) ''stopped'', num_field (summary p) ''offline'') of
           (Some a, Some b) \<Rightarrow> Fin (a + b)
         | _ \<Rightarrow> NaN)
      else Fin (of_nat (count_status [''stopped'', ''offline''] vs)))"

definition db_totalCount :: "vehicle_position list \<Rightarrow> dashboard \<Rightarrow> jsval" where
  "db_totalCount vs p = coalesce (jopt (summary p) ''totalVehicles'') (JNum (of_nat (length vs)))"

definition needs_attention :: "jsval \<Rightarrow> bool" where
  "needs_attention a =
     (\<not> truthy (jopt a ''acknowledged'') \<and> (jopt a ''severity'' = JStr ''critical'' \<or> jopt a ''severity'' = JStr ''warning''))"

definition attentionAlerts :: "dashboard \<Rightarrow> jsval list" where
  "attentionAlerts p = filter needs_attention (db_alerts p)"

definition shownAlerts :: "dashboard \<Rightarrow> jsval list" where
  "shownAlerts p = slice 0 5 (attentionAlerts p)"

definition alert_ack_endpoint :: "jsval \<Rightarrow> string" where
  "alert_ack_endpoint i = ''/api/v1/alerts/'' @ js_to_string i @ ''/acknowledge''"

definition handleAcknowledgeAlert :: "jsval \<Rightarrow> browser \<Rightarrow> dashboard \<Rightarrow> browser \<times> dashboard" where
  "handleAcknowledgeAlert i w p =
     (let (w1, r) = fetchWithAuth w (alert_ack_endpoint i) (no_body ''PUT'')
      in (w1, if accepted r
              then db_say ''Alert acknowledged.''
                     (p\<lparr>db_alerts := map (\<lambda>a. if jopt a ''id'' = i then with_field ''acknowledged'' (JBool True) a else a) (db_alerts p)\<rparr>)
              else db_say ''Failed to acknowledge alert.'' p))"

subsection \<open>Export\<close>

definition summary_header :: "string list" where
  "summary_header = [''Vehicle Plate'', ''Vehicle Model'', ''Driver'', ''Status'', ''Speed'', ''Current Location'',
     ''Total Distance (km)'', ''Last Checked'']"

text \<open>An undefined plate prints as \<open>undefined\<close>.\<close>

definition summary_cells :: "(string \<Rightarrow> int option) \<Rightarrow> (int \<Rightarrow> string) \<Rightarrow> vehicle_position \<Rightarrow> csv_cell list" where
  "summary_cells other locale_text v =
     [Raw (case reg_number v of Some r \<Rightarrow> r | None \<Rightarrow> ''undefined''), Raw (str_or (vp_name v) DASH),
      Raw (str_or (driver_name v) DASH), Raw (statusLabel (vp_status v)),
      Bare (case speed v of Some x \<Rightarrow> num_to_string (of_int (js_round x)) @ '' km/h'' | None \<Rightarrow> DASH),
      Raw (str_or (location_name v) DASH),
      Bare (case odometer v of Some x \<Rightarrow> num_to_string x | None \<Rightarrow> DASH),
      Raw (db_formatDateTime other locale_text (timestamp v))]"

definition summary_csv :: "(string \<Rightarrow> int option) \<Rightarrow> (int \<Rightarrow> string) \<Rightarrow> vehicle_position list \<Rightarrow> string" where
  "summary_csv other locale_text vs = sheet_text summary_header (map (summary_cells other locale_text) vs)"

definition handleExportSummary ::
  "(string \<Rightarrow> int option) \<Rightarrow> (int \<Rightarrow> string) \<Rightarrow> int \<Rightarrow> vehicle_position list \<Rightarrow> browser \<times> dashboard \<Rightarrow> browser \<times> dashboard" where
  "handleExportSummary other locale_text now vs wp =
     ((fst wp)\<lparr>downloads := downloads (fst wp) @
        [(''fleet_summary_'' @ slice 0 10 (toISOString now) @ ''.csv'', summary_csv other locale_text vs)]\<rparr>,
      db_say ''Fleet trip summary downloaded (.csv)'' (snd wp))"

subsection \<open>Gate passes\<close>

definition dispatch_body :: "vehicle_position list \<Rightarrow> dispatch_form \<Rightarrow> jsval" where
  "dispatch_body vs f =
     (let driver = (case find (\<lambda>v. reg_number v = Some (di_vehicle_reg f)) vs of
                      Some v \<Rightarrow> str_or (driver_name v) [] | None \<Rightarrow> [])
      in JObj [(''vehicle'', JStr (di_vehicle_reg f)), (''driver'', JStr driver),
               (''destination'', JStr (di_destination f)), (''purpose'', JStr (di_purpose f))])"

definition post_dispatch :: "vehicle_position list \<Rightarrow> browser \<Rightarrow> dashboard \<Rightarrow> browser \<times> dashboard" where
  "post_dispatch vs w p =
     submit_form confirmed fetchWithAuth ''/api/v1/fleet/gate-passes'' (plain_json ''POST'' (dispatch_body vs (dispatchForm p)))
       (\<lambda>(w1, q). let q1 = db_say (''Gate pass created for '' @ di_vehicle_reg (dispatchForm q) @ '' to '' @ di_destination (dispatchForm q))
                              (q\<lparr>isDispatchModalOpen := False\<rparr>)
                   in loadGatePasses (w1, q1\<lparr>dispatchForm := blank_dispatch, submitting := False\<rparr>))
       (\<lambda>m q. (db_say m q)\<lparr>submitting := False\<rparr>)
       ''Failed to create gate pass.'' ''Failed to create gate pass.'' w p"

definition handleDispatchSubmit :: "vehicle_position list \<Rightarrow> browser \<Rightarrow> dashboard \<Rightarrow> browser \<times> dashboard" where
  "handleDispatchSubmit vs w p =
     (if di_vehicle_reg (dispatchForm p) = [] then (w, db_say ''Select a vehicle first.'' p) else post_dispatch vs w p)"

subsection \<open>Facts\<close>

lemma db_say_simps [simp]:
  "dispatchForm (db_say m p) = dispatchForm p" "db_alerts (db_say m p) = db_alerts p" "t_msg (db_toast (db_say m p)) = Some m"
  by (simp_all add: db_say_def)

lemma loadGatePasses_form [simp]: "dispatchForm (snd (loadGatePasses wp)) = dispatchForm (snd wp)"
  by (simp add: loadGatePasses_def load_one_eq split: option.splits)

interpretation alert_list: list_loader "\<lambda>w p. db_loadAlerts (w, p)" fetchWithAuth "''/api/v1/alerts''" "\<lambda>x. x" db_alerts
  "\<lambda>_. False"
  by unfold_locales (auto simp: db_loadAlerts_def load_one_eq split: option.splits)

interpretation pass_list: list_loader "\<lambda>w p. loadGatePasses (w, p)" fetchWithAuth "''/api/v1/fleet/gate-passes''" "\<lambda>x. x"
  db_gatePasses "\<lambda>_. False"
  by unfold_locales (auto simp: loadGatePasses_def load_one_eq split: option.splits)

interpretation dispatch: create_form "handleDispatchSubmit vs" "\<lambda>p. di_vehicle_reg (dispatchForm p) \<noteq> []" confirmed fetchWithAuth
  "''/api/v1/fleet/gate-passes''" "\<lambda>p. plain_json ''POST'' (dispatch_body vs (dispatchForm p))" dispatchForm blank_dispatch
  "\<lambda>p. t_msg (db_toast p)" for vs
  by (rule create_formI [OF post_dispatch_def]) (simp_all add: handleDispatchSubmit_def split_beta Let_def)

lemma dashboard_send [intro]:
  "adds_only tenant_request w (fst (handleAcknowledgeAlert i w p))"
  "adds_only tenant_request w (fst (handleDispatchSubmit vs w p))"
proof -
  show "adds_only tenant_request w (fst (handleAcknowledgeAlert i w p))"
    by (simp add: handleAcknowledgeAlert_def split_beta Let_def client_sends(2))
  have "adds_only tenant_request w (fst (post_dispatch vs w p))"
    unfolding post_dispatch_def
    by (rule client_sends(4)) (simp add: split_beta Let_def loadGatePasses_def client_sends(3))
  then show "adds_only tenant_request w (fst (handleDispatchSubmit vs w p))" by (simp add: handleDispatchSubmit_def)
qed

text \<open>Cells that need no quotes.\<close>

lemma bare_number: "cell_ok (Bare (num_to_string x))" "cell_ok (Bare (num_to_string x @ '' km/h''))" "cell_ok (Bare DASH)"
proof -
  have "c \<noteq> QUOT \<and> c \<noteq> CHR '','' \<and> c \<noteq> NL" if "is_digit c \<or> c = CHR ''.'' \<or> c = CHR ''-''" for c
    using that by (auto simp: is_digit_def QUOT_def NL_def)
  then have n: "QUOT \<notin> set (num_to_string x) \<and> CHR '','' \<notin> set (num_to_string x) \<and> NL \<notin> set (num_to_string x)"
    using num_text_chars [of _ x] by blast
  then show "cell_ok (Bare (num_to_string x))" by simp
  from n show "cell_ok (Bare (num_to_string x @ '' km/h''))" by (simp add: QUOT_def NL_def)
  show "cell_ok (Bare DASH)" by (simp add: DASH_def QUOT_def NL_def)
qed

text \<open>Once the summary has answered, the counters no longer follow the live fleet.\<close>

lemma counters_ignore_live:
  assumes "\<not> nullish (jopt (summary p) ''moving'')" and "\<not> nullish (jopt (summary p) ''idle'')" and "truthy (summary p)"
  shows "movingCount vs p = movingCount vs' p \<and> waitingCount vs p = waitingCount vs' p \<and> parkedCount vs p = parkedCount vs' p"
  using assms by (simp add: movingCount_def waitingCount_def parkedCount_def coalesce_def)

definition quoted_driver :: vehicle_position where
  "quoted_driver = \<lparr>device_id = JNum 1, reg_number = Some ''D1'', vp_name = None, driver_name = Some (''J '' @ [QUOT] @ ''R'' @ [QUOT] @ '' D''),
     driver_phone = None, location_name = None, lat = None, lng = None, speed = Some 5, heading = None, ignition = None,
     vp_status = Some ''offline'', online = Some False, timestamp = None, odometer = None, temperature = None\<rparr>"

text \<open>A quote in a name makes the exported file unreadable.\<close>

lemma quote_breaks_export: "csv_parse (summary_csv other locale_text [quoted_driver]) = None"
proof -
  have n: "num_to_string (of_int (js_round 5)) = ''5''"
    using num_to_string_nat [of 5] js_round_int [of 5] by (simp add: nat_to_string.simps digit_char_eval)
  show ?thesis
    unfolding csv_parse_def
    by (simp add: summary_csv_def sheet_text_def summary_cells_def quoted_driver_def summary_header_def n db_formatDateTime_def
        str_truthy_def statusLabel_def csv_field_def csv_stop_def QUOT_def NL_def DASH_def)
qed

definition demo_vehicle :: vehicle_position where
  "demo_vehicle = quoted_driver\<lparr>driver_name := Some ''J. Doe''\<rparr>"

subsection \<open>Properties\<close>

text \<open>Acknowledging an alert on the dashboard takes exactly that alert out of the list that needs
  attention, keeping the order of the others, and only when the server accepted the request; at most five
  alerts are shown.\<close>

theorem acknowledged_leaves_attention:
  "attentionAlerts (snd (handleAcknowledgeAlert i w p)) =
     (if accepted (snd (fetchWithAuth w (alert_ack_endpoint i) (no_body ''PUT'')))
      then filter (\<lambda>a. jopt a ''id'' \<noteq> i) (attentionAlerts p) else attentionAlerts p)
   \<and> length (shownAlerts p) = min 5 (length (attentionAlerts p))"
proof -
  have ack: "\<not> needs_attention (with_field ''acknowledged'' (JBool True) a)" for a
    by (cases a) (simp_all add: needs_attention_def map_of_set)
  have "filter needs_attention (map (\<lambda>a. if jopt a ''id'' = i then with_field ''acknowledged'' (JBool True) a else a) as) =
      filter (\<lambda>a. jopt a ''id'' \<noteq> i) (filter needs_attention as)" for as
    by (induction as) (auto simp: ack)
  then show ?thesis
    by (simp add: attentionAlerts_def shownAlerts_def handleAcknowledgeAlert_def split_beta Let_def)
qed

text \<open>Until the summary has answered, the three counters of the dashboard share the fleet out: when every
  vehicle has one of the four statuses, moving, waiting and parked vehicles add up to the fleet.\<close>

theorem counters_cover_fleet:
  assumes "summary p = JNull"
    and "list_all (\<lambda>v. vp_status v \<in> Some ` {''moving'', ''idle'', ''stopped'', ''offline''}) vs"
  shows "\<exists>a b c. movingCount vs p = JNum (of_nat a) \<and> waitingCount vs p = JNum (of_nat b) \<and> parkedCount vs p = Fin (of_nat c)
    \<and> db_totalCount vs p = JNum (of_nat (a + b + c)) \<and> a + b + c = length vs"
proof -
  let ?n = "\<lambda>ss. count_status ss vs"
  have "?n [''moving''] + (?n [''idle''] + ?n [''stopped'', ''offline'']) = length (filter (\<lambda>v. vp_status v \<in> Some ` {''moving'', ''idle'', ''stopped'', ''offline''}) vs)"
    by (simp add: count_status_def length_filter_disj [symmetric])
  also have "\<dots> = length vs" using assms(2) by (simp add: list_all_iff filter_id_conv)
  finally have "?n [''moving''] + ?n [''idle''] + ?n [''stopped'', ''offline''] = length vs" by simp
  then show ?thesis
    using assms(1)
    by (intro exI [of _ "?n [''moving'']"] exI [of _ "?n [''idle'']"] exI [of _ "?n [''stopped'', ''offline'']"])
      (simp add: movingCount_def waitingCount_def parkedCount_def db_totalCount_def coalesce_def)
qed

theorem counters_cover_fleet_witness:
  "\<exists>a b c. movingCount [demo_vehicle] dashboard_initial = JNum (of_nat a) \<and> a + b + c = 1"
proof -
  have h: "summary dashboard_initial = JNull"
    "list_all (\<lambda>v. vp_status v \<in> Some ` {''moving'', ''idle'', ''stopped'', ''offline''}) [demo_vehicle]"
    by (simp_all add: dashboard_initial_def demo_vehicle_def quoted_driver_def)
  show ?thesis using counters_cover_fleet [OF h] by auto
qed

text \<open>The exported fleet summary reads back: when no text of a vehicle contains a double quote, a reader
  of comma-separated files finds the header and, for each vehicle, its eight cells.\<close>

theorem summary_export_reads:
  assumes "vs \<noteq> []" and "list_all (\<lambda>v. list_all (\<lambda>c. QUOT \<notin> set (cell_shown c)) (summary_cells other locale_text v)) vs"
  shows "csv_parse (summary_csv other locale_text vs) =
    Some (summary_header # map (\<lambda>v. map cell_shown (summary_cells other locale_text v)) vs)"
proof -
  have "list_all cell_ok (map Bare summary_header)" by (simp add: summary_header_def QUOT_def NL_def)
  moreover have "list_all cell_ok (summary_cells other locale_text v)" if "v \<in> set vs" for v
    using assms(2) that bare_number by (simp add: summary_cells_def list_all_iff split: option.splits)
  ultimately show ?thesis
    unfolding summary_csv_def using assms(1)
    by (subst sheet_text_reads) (auto simp: summary_header_def summary_cells_def list_all_iff)
qed

theorem summary_export_reads_witness:
  "\<exists>row. csv_parse (summary_csv (\<lambda>_. None) (\<lambda>_. []) [demo_vehicle]) = Some [summary_header, row] \<and> row ! 2 = ''J. Doe''"
proof -
  have n: "num_to_string (of_int (js_round 5)) = ''5''"
    using num_to_string_nat [of 5] js_round_int [of 5] by (simp add: nat_to_string.simps digit_char_eval)
  have h: "[demo_vehicle] \<noteq> []"
    "list_all (\<lambda>v. list_all (\<lambda>c. QUOT \<notin> set (cell_shown c)) (summary_cells (\<lambda>_. None) (\<lambda>_. []) v)) [demo_vehicle]"
    by (simp_all add: demo_vehicle_def quoted_driver_def summary_cells_def n statusLabel_def db_formatDateTime_def str_truthy_def QUOT_def DASH_def)
  show ?thesis using summary_export_reads [OF h] by (simp add: summary_cells_def demo_vehicle_def)
qed

end
