(* ===== verification/List_View.thy ===== *)
theory List_View
  imports Vehicle_Store Js_Date
begin

section \<open>The vehicle ledger: \<open>ListViewPage.tsx\<close>\<close>

text \<open>
  The ledger shows the fleet store when it has vehicles and its own load otherwise. A row is a vehicle
  position with a fuel level, so its record extends that of the store; rows taken from the store have no
  fuel level of their own.
\<close>

record vehicle_row = vehicle_position +
  fuel_pct :: "real option"

record list_page =
  lv_search :: string
  statusFilter :: string
  lv_selectedIds :: "jsval list"
  lv_toast :: toast
  fuelByReg :: "(string, real) omap"
  apiList :: "vehicle_row list"
  pageLoading :: bool
  lv_error :: "string option"

definition list_initial :: list_page where
  "list_initial = \<lparr>lv_search = [], statusFilter = ''all'', lv_selectedIds = [], lv_toast = no_toast, fuelByReg = [],
     apiList = [], pageLoading = True, lv_error = None\<rparr>"

definition lv_say :: "string \<Rightarrow> list_page \<Rightarrow> list_page" where
  "lv_say m p = p\<lparr>lv_toast := showToast m (lv_toast p)\<rparr>"

subsection \<open>Loading\<close>

definition mapVehicle :: "jsval \<Rightarrow> vehicle_row" where
  "mapVehicle v =
     (let la = num_field v ''lat''
      in \<lparr>device_id = coalesce (jopt v ''device_id'') (jopt v ''id''),
          reg_number = Some (case str_field v ''reg_number'' of Some r \<Rightarrow> r | None \<Rightarrow> []),
          vp_name = make_model v, driver_name = str_field v ''driver_name'', driver_phone = str_field v ''driver_phone'',
          location_name = str_field v ''location_name'', lat = la, lng = num_field v ''lng'',
          speed = num_field v ''speed'', heading = num_field v ''heading'', ignition = bool_field v ''ignition'',
          vp_status = (case str_field v ''status'' of Some s \<Rightarrow> Some s | None \<Rightarrow> if la \<noteq> None then None else Some ''offline''),
          online = bool_field v ''online'', timestamp = str_field v ''timestamp'', odometer = num_field v ''odometer'',
          temperature = num_field v ''temperature'', fuel_pct = num_field v ''fuel_pct''\<rparr>)"

definition has_fuel :: "jsval \<Rightarrow> bool" where
  "has_fuel item = (str_field item ''reg_number'' \<noteq> None \<and> num_field item ''fuel_pct'' \<noteq> None)"

definition fuel_map :: "jsval list \<Rightarrow> (string, real) omap" where
  "fuel_map rows =
     set_all (\<lambda>i. the (str_field i ''reg_number'')) (\<lambda>i. the (num_field i ''fuel_pct'')) (filter has_fuel rows) []"

text \<open>The rows of the answer, or what is thrown; a \<open>null\<close> row makes \<open>mapVehicle\<close> throw.\<close>

definition list_payload :: "response \<Rightarrow> js_error + jsval list" where
  "list_payload res =
     (if \<not> res_ok res then Inl (ErrorMsg (''Request failed with status '' @ num_to_string (of_int (status res))))
      else (case res_json res of
              Inl e \<Rightarrow> Inl e
            | Inr json \<Rightarrow>
                (case jget json ''success'' of
                   Inl e \<Rightarrow> Inl e
                 | Inr ok \<Rightarrow>
                     (case (truthy ok, as_arr (jopt json ''data'')) of
                        (True, Some rows) \<Rightarrow>
                          if list_ex nullish rows
                          then Inl (TypeError ''Cannot read properties of null (reading device_id)'') else Inr rows
                      | _ \<Rightarrow> Inl (ErrorMsg (js_to_string (js_or (jopt json ''error'') (JStr ''Invalid vehicles payload''))))))))"

definition loadPage :: "browser \<Rightarrow> list_page \<Rightarrow> browser \<times> list_page" where
  "loadPage w p =
     (let (w1, r) = fetchWithAuth w ''/api/v1/vehicles?limit=500'' GET;
          p0 = p\<lparr>pageLoading := True, lv_error := None\<rparr>;
          failed = (\<lambda>e. p0\<lparr>lv_error := Some (if err_message e = [] then ''Failed to load fleet list'' else err_message e)\<rparr>);
          p1 = (case r of
                  Inl e \<Rightarrow> failed e
                | Inr res \<Rightarrow> (case list_payload res of
                                Inl e \<Rightarrow> failed e
                              | Inr rows \<Rightarrow> p0\<lparr>apiList := map mapVehicle rows, fuelByReg := fuel_map rows\<rparr>))
      in (w1, p1\<lparr>pageLoading := False\<rparr>))"

definition list_effect :: "browser \<Rightarrow> vehicle_state \<Rightarrow> list_page \<Rightarrow> browser \<times> vehicle_state \<times> list_page" where
  "list_effect w s p =
     (let (w1, p1) = loadPage w p; company = jopt (au_user (auth w)) ''company_id''
      in if truthy (au_token (auth w)) \<and> \<not> nullish company
         then (let (w2, s2) = fetchVehicles (au_token (auth w)) company w1 s in (w2, s2, p1))
         else (w1, s, p1))"

subsection \<open>Views\<close>

definition row_of_store :: "vehicle_position \<Rightarrow> vehicle_row" where
  "row_of_store v = vehicle_position.extend v \<lparr>fuel_pct = None\<rparr>"

definition ledger :: "vehicle_state \<Rightarrow> list_page \<Rightarrow> vehicle_row list" where
  "ledger s p =
     (let storeList = map row_of_store (map_values (vehicles s))
      in if 0 < length storeList then storeList else apiList p)"

definition fuelPctOf :: "list_page \<Rightarrow> vehicle_row \<Rightarrow> real option" where
  "fuelPctOf p v =
     (case fuel_pct v of
        Some x \<Rightarrow> Some x
      | None \<Rightarrow> (case reg_number v of Some r \<Rightarrow> map_get (fuelByReg p) r | None \<Rightarrow> None))"

record list_counts =
  lc_total :: nat
  lc_active :: nat
  lc_inactive :: nat
  lc_freezer :: nat
  lc_moving :: nat
  lc_stopped :: nat
  lc_idle :: nat

definition zero_counts :: list_counts where
  "zero_counts = \<lparr>lc_total = 0, lc_active = 0, lc_inactive = 0, lc_freezer = 0, lc_moving = 0, lc_stopped = 0, lc_idle = 0\<rparr>"

definition count_row :: "vehicle_row \<Rightarrow> list_counts \<Rightarrow> list_counts" where
  "count_row v c =
     (let c1 = (if vp_status v = Some ''moving'' then c\<lparr>lc_moving := lc_moving c + 1\<rparr>
                else if vp_status v = Some ''idle'' then c\<lparr>lc_idle := lc_idle c + 1\<rparr>
                else if vp_status v = Some ''stopped'' then c\<lparr>lc_stopped := lc_stopped c + 1\<rparr> else c);
          c2 = (if temperature v \<noteq> None then c1\<lparr>lc_freezer := lc_freezer c1 + 1\<rparr> else c1)
      in if online v = Some True then c2\<lparr>lc_active := lc_active c2 + 1\<rparr> else c2\<lparr>lc_inactive := lc_inactive c2 + 1\<rparr>)"

definition list_counts_of :: "vehicle_row list \<Rightarrow> list_counts" where
  "list_counts_of vs = (fold count_row vs zero_counts)\<lparr>lc_total := length vs\<rparr>"

text \<open>The pills above the table: filter, label, count.\<close>

definition list_tabs :: "vehicle_row list \<Rightarrow> (string \<times> string \<times> nat) list" where
  "list_tabs vs =
     (let c = list_counts_of vs
      in [(''all'', ''All'', lc_total c), (''active'', ''Active'', lc_active c), (''inactive'', ''Inactive'', lc_inactive c),
          (''freezer'', ''Freezer'', lc_freezer c), (''moving'', ''Moving'', lc_moving c), (''stopped'', ''Stopped'', lc_stopped c),
          (''idle'', ''Idle'', lc_idle c)])"

definition status_allows :: "string \<Rightarrow> vehicle_row \<Rightarrow> bool" where
  "status_allows f v =
     (if f = ''moving'' \<and> vp_status v \<noteq> Some ''moving'' then False
      else if f = ''idle'' \<and> vp_status v \<noteq> Some ''idle'' then False
      else if f = ''stopped'' \<and> vp_status v \<noteq> Some ''stopped'' then False
      else if f = ''freezer'' \<and> temperature v = None then False
      else if f = ''active'' \<and> online v \<noteq> Some True then False
      else if f = ''inactive'' \<and> online v = Some True then False
      else True)"

definition search_allows :: "string \<Rightarrow> vehicle_row \<Rightarrow> bool" where
  "search_allows query v =
     (if query = [] then True
      else (let q = toLowerCase query; has = (\<lambda>x. str_includes (toLowerCase (str_or x [])) q)
            in has (reg_number v) \<or> has (vp_name v) \<or> has (driver_name v) \<or> has (location_name v)))"

definition filteredVehicles :: "vehicle_state \<Rightarrow> list_page \<Rightarrow> vehicle_row list" where
  "filteredVehicles s p = filter (\<lambda>v. status_allows (statusFilter p) v \<and> search_allows (lv_search p) v) (ledger s p)"

subsection \<open>Operations\<close>

definition toggleSelectAll :: "vehicle_state \<Rightarrow> list_page \<Rightarrow> list_page" where
  "toggleSelectAll s p =
     (if length (lv_selectedIds p) = length (filteredVehicles s p) then p\<lparr>lv_selectedIds := []\<rparr>
      else p\<lparr>lv_selectedIds := map device_id (filteredVehicles s p)\<rparr>)"

definition toggleSelectOne :: "jsval \<Rightarrow> list_page \<Rightarrow> list_page" where
  "toggleSelectOne i p = p\<lparr>lv_selectedIds := toggle i (lv_selectedIds p)\<rparr>"

definition handleTrackOnMap :: "jsval \<Rightarrow> vehicle_state \<Rightarrow> vehicle_state \<times> string" where
  "handleTrackOnMap deviceId s = (selectVehicle deviceId s, ''/live'')"

definition DEG_C :: string where
  "DEG_C = [CHR 0xC2, CHR 0xB0, CHR ''C'']"

definition list_header :: "string list" where
  "list_header = [''Vehicle'', ''Driver'', ''Status'', ''Speed (km/h)'', ''Date Time'', ''Fuel (%)'', ''Temp ('' @ DEG_C @ '')'', ''Location'']"

definition list_cells :: "list_page \<Rightarrow> vehicle_row \<Rightarrow> csv_cell list" where
  "list_cells p v =
     [Raw (case reg_number v of Some r \<Rightarrow> r | None \<Rightarrow> ''undefined''), Raw (str_or (driver_name v) DASH),
      Raw (str_or (vp_status v) DASH),
      Bare (case speed v of Some x \<Rightarrow> num_to_string (of_int (js_round x)) | None \<Rightarrow> DASH),
      Raw (str_or (timestamp v) DASH),
      Raw (case fuelPctOf p v of Some x \<Rightarrow> num_to_string x | None \<Rightarrow> DASH),
      Raw (case temperature v of Some x \<Rightarrow> num_to_string x @ DEG_C | None \<Rightarrow> DASH),
      Raw (str_or (location_name v) DASH)]"

definition list_csv :: "vehicle_state \<Rightarrow> list_page \<Rightarrow> string" where
  "list_csv s p = sheet_text list_header (map (list_cells p) (filteredVehicles s p))"

definition list_export :: "int \<Rightarrow> vehicle_state \<Rightarrow> browser \<times> list_page \<Rightarrow> browser \<times> list_page" where
  "list_export now s wp =
     ((fst wp)\<lparr>downloads := downloads (fst wp) @
        [(''rudra_list_view_'' @ slice 0 10 (toISOString now) @ ''.csv'', list_csv s (snd wp))]\<rparr>,
      lv_say ''Exported vehicle list to CSV/Excel'' (snd wp))"

subsection \<open>Facts\<close>

lemma loadPage_good:
  assumes "snd (fetchWithAuth w ''/api/v1/vehicles?limit=500'' GET) = Inr res" and "list_payload res = Inr rows"
  shows "snd (loadPage w p) = p\<lparr>apiList := map mapVehicle rows, fuelByReg := fuel_map rows, pageLoading := False, lv_error := None\<rparr>"
  using assms by (simp add: loadPage_def split_beta Let_def)

lemma loadPage_send [intro]: "adds_only tenant_request w (fst (loadPage w p))"
  by (simp add: loadPage_def split_beta Let_def client_sends(2))

text \<open>The counting loop, one counter at a time.\<close>

lemma count_loop:
  "lc_active (fold count_row vs c) = lc_active c + length (filter (\<lambda>v. online v = Some True) vs)"
  "lc_inactive (fold count_row vs c) = lc_inactive c + length (filter (\<lambda>v. online v \<noteq> Some True) vs)"
  "lc_freezer (fold count_row vs c) = lc_freezer c + length (filter (\<lambda>v. temperature v \<noteq> None) vs)"
  "lc_moving (fold count_row vs c) = lc_moving c + length (filter (\<lambda>v. vp_status v = Some ''moving'') vs)"
  "lc_stopped (fold count_row vs c) = lc_stopped c + length (filter (\<lambda>v. vp_status v = Some ''stopped'') vs)"
  "lc_idle (fold count_row vs c) = lc_idle c + length (filter (\<lambda>v. vp_status v = Some ''idle'') vs)"
  by (induction vs arbitrary: c) (simp_all add: count_row_def Let_def)

text \<open>The last row with a fuel level wins.\<close>

lemma fuel_map_get: "map_get (fuel_map rows) r =
    map_of (rev (map (\<lambda>i. (the (str_field i ''reg_number''), the (num_field i ''fuel_pct''))) (filter has_fuel rows))) r"
  by (simp add: fuel_map_def map_get_def map_of_set_all)

definition demo_row :: jsval where
  "demo_row = JObj [(''device_id'', JNum 9), (''reg_number'', JStr ''D9''), (''lat'', JNum 25), (''lng'', JNum 55),
     (''online'', JBool True), (''status'', JStr ''moving''), (''fuel_pct'', JNum 40)]"

definition demo_list_answer :: "request list \<Rightarrow> request \<Rightarrow> string + response" where
  "demo_list_answer = answer 200 (JObj [(''success'', JBool True), (''data'', JArr [demo_row])])"

subsection \<open>Properties\<close>

text \<open>Each pill of the ledger shows the number of vehicles its filter lists, whatever the vehicles; the
  active and the inactive ones together are all of them.\<close>

theorem list_counts_match_filter:
  "list_all (\<lambda>(f, l, n). n = length (filter (status_allows f) vs)) (list_tabs vs)
   \<and> lc_active (list_counts_of vs) + lc_inactive (list_counts_of vs) = lc_total (list_counts_of vs)"
proof -
  have "status_allows ''all'' = (\<lambda>v. True)" "status_allows ''active'' = (\<lambda>v. online v = Some True)"
    "status_allows ''inactive'' = (\<lambda>v. online v \<noteq> Some True)" "status_allows ''freezer'' = (\<lambda>v. temperature v \<noteq> None)"
    "status_allows ''moving'' = (\<lambda>v. vp_status v = Some ''moving'')" "status_allows ''stopped'' = (\<lambda>v. vp_status v = Some ''stopped'')"
    "status_allows ''idle'' = (\<lambda>v. vp_status v = Some ''idle'')"
    by (simp_all add: status_allows_def fun_eq_iff)
  then show ?thesis
    using length_filter_compl [of "\<lambda>v. online v = Some True" vs]
    by (simp add: list_tabs_def list_counts_of_def count_loop zero_counts_def Let_def)
qed

text \<open>When the vehicle endpoint answers with vehicles the ledger is not empty and every one of them can
  be found: with an empty store the ledger is the answer, row by row, and the fuel column of a vehicle shown
  from the store is the level in the last row with its plate.\<close>

theorem ledger_shows_answer:
  assumes "snd (fetchWithAuth w ''/api/v1/vehicles?limit=500'' GET) = Inr res" and "list_payload res = Inr rows" and "rows \<noteq> []"
  shows "let p' = snd (loadPage w p)
    in ledger s p' \<noteq> [] \<and> lv_error p' = None \<and> \<not> pageLoading p'
      \<and> ledger (clearVehicles s) p' = map mapVehicle rows
      \<and> (let v' = row_of_store v in fuelPctOf p' v' = (case reg_number v of None \<Rightarrow> None | Some r \<Rightarrow>
            map_of (rev (map (\<lambda>i. (the (str_field i ''reg_number''), the (num_field i ''fuel_pct''))) (filter has_fuel rows))) r))"
proof -
  have "fuel_pct (row_of_store v) = None" "reg_number (row_of_store v) = reg_number v"
    by (simp_all add: row_of_store_def vehicle_position.extend_def)
  then show ?thesis
    using assms(3) by (simp add: loadPage_good [OF assms(1,2)] Let_def ledger_def clearVehicles_def fuelPctOf_def fuel_map_get split: option.splits)
qed

theorem ledger_shows_answer_witness:
  "ledger initial_vehicle_state (snd (loadPage (demo_session demo_list_answer) list_initial)) \<noteq> []"
proof -
  have h: "snd (fetchWithAuth (demo_session demo_list_answer) ''/api/v1/vehicles?limit=500'' GET) =
      Inr \<lparr>status = 200, statusText = ''OK'', body = Inr (JObj [(''success'', JBool True), (''data'', JArr [demo_row])])\<rparr>"
    "list_payload \<lparr>status = 200, statusText = ''OK'', body = Inr (JObj [(''success'', JBool True), (''data'', JArr [demo_row])])\<rparr> = Inr [demo_row]"
    "[demo_row] \<noteq> []"
    by (simp_all add: fetchWithAuth_session [OF demo_has_session(1)] demo_has_session(2) demo_list_answer_def answer_def Let_def
        list_payload_def res_ok_def res_json_def jget_def demo_row_def)
  show ?thesis using ledger_shows_answer [OF h, of list_initial initial_vehicle_state] by (simp add: Let_def)
qed

text \<open>The ledger and the fleet store read the same row the same way when the row says where the vehicle is
  and whether it is online: apart from the fuel level the two records are equal. A row without coordinates they
  read differently: the store shows the vehicle as offline, the ledger keeps the status of the row.\<close>

theorem ledger_row_agrees:
  assumes "num_field v ''lat'' \<noteq> None" and "num_field v ''lng'' \<noteq> None" and "bool_field v ''online'' \<noteq> None"
    and "str_field v ''reg_number'' \<noteq> None"
  shows "vehicle_position.truncate (mapVehicle v) = vehicle_of_row v
    \<and> (if str_field u ''status'' = None \<or> num_field u ''lat'' \<noteq> None then True
       else vp_status (mapVehicle u) = str_field u ''status'' \<and> vp_status (vehicle_of_row u) = Some ''offline'')"
  using assms
  by (auto simp: mapVehicle_def vehicle_of_row_def vehicle_position.truncate_def row_device_id_def Let_def split: option.splits)

theorem ledger_row_agrees_witness:
  "vehicle_position.truncate (mapVehicle demo_row) = vehicle_of_row demo_row"
proof -
  have h: "num_field demo_row ''lat'' \<noteq> None" "num_field demo_row ''lng'' \<noteq> None" "bool_field demo_row ''online'' \<noteq> None"
    "str_field demo_row ''reg_number'' \<noteq> None"
    by (simp_all add: demo_row_def)
  show ?thesis using ledger_row_agrees [OF h] by blast
qed

end
