(* ===== verification/Reports.thy ===== *)
theory Reports
  imports Vehicle_Store
begin

section \<open>Reports and analytics\<close>

text \<open>
  \<open>ReportsPage.tsx\<close> (a table whose columns and rows are the server's, a vehicle filter, an export written by the
  server) and \<open>AnalyticsPage.tsx\<close> (figures of the fleet as texts and percentages). Both empty what they
  show when a load fails. The locale of the browser (\<open>toLocaleString()\<close> without arguments) is the parameter
  \<open>local_number\<close>, the text of a binary answer (\<open>res.blob()\<close>) the parameter \<open>blob_text\<close>.
\<close>

subsection \<open>Reports\<close>

record reports_page =
  reportType :: string
  dateRange :: string
  rp_vehicle :: string
  rp_loading :: bool
  exporting :: bool
  rp_error :: "string option"
  columns :: "jsval list"
  rp_rows :: "jsval list"

definition reports_initial :: reports_page where
  "reports_initial = \<lparr>reportType = ''distance'', dateRange = ''today'', rp_vehicle = ''all'', rp_loading = True,
     exporting = False, rp_error = None, columns = [], rp_rows = []\<rparr>"

definition formatCell :: "(real \<Rightarrow> string) \<Rightarrow> jsval \<Rightarrow> string" where
  "formatCell local_number v =
     (case v of
        JUndef \<Rightarrow> DASH
      | JNull \<Rightarrow> DASH
      | JStr s \<Rightarrow> if s = [] then DASH else s
      | JNum x \<Rightarrow> local_number x
      | JBool b \<Rightarrow> if b then ''Yes'' else ''No''
      | JArr xs \<Rightarrow> stringify v
      | JObj kvs \<Rightarrow> stringify v)"

text \<open>Title and description of each report; the icon is left out.\<close>

definition report_generic :: string where
  "report_generic = ''Report rows for this module as returned by your fleet reporting API.''"

definition reportMetadata :: "(string \<times> string \<times> string) list" where
  "reportMetadata =
     [(''distance'', ''Daily Distance Summary'',
         ''Start & end odometer readings, total KM traversed, driving hours, and waiting times.''),
      (''distance-matrix'', ''31-Day Distance Matrix'', ''Day-by-day fleet distance ledger for client billing and logbooks.''),
      (''idling'', ''Excessive Idling Analysis'', ''Stationary vehicles with ignition ON, idle start/end times, and idle duration.''),
      (''overspeed'', ''Overspeed Violations'', ''Speed threshold breaches with peak speed, configured limit, and exceed amount.''),
      (''stoppage'', ''Vehicle Stoppage / Halt Log'',
         ''All parking halts with ignition OFF, arrival time, departure time, and halt duration.''),
      (''ac'', ''AC Compressor Run'', report_generic),
      (''fuel'', ''Fuel Consumption Log'', ''Recorded fuel quantities, cost, odometer and receipt counts per vehicle.''),
      (''temperature'', ''Cold-Chain Reefer Temperature Log'', ''Refrigerated reefer compartment temperature readings per vehicle.''),
      (''battery'', ''Battery Disconnect & Powercut'', report_generic),
      (''poi'', ''Point of Interest (POI) Stopovers'', report_generic),
      (''attendance'', ''Driver Duty & Attendance Log'', report_generic),
      (''trips'', ''Fleet Trip Ledger'', ''Trip numbers, parties, routes, freight, expenses, and trip status.''),
      (''driver'', ''Driver Register'', ''Driver contact, license, assigned vehicle, and trip counts.''),
      (''reminders'', ''Maintenance & Compliance Reminders'', ''Upcoming vehicle reminders with due dates and remaining days.''),
      (''geofence'', ''Geofence Activity'', ''Geofence zones with area and active vehicle counts.''),
      (''summary'', ''Fleet Summary'', ''Aggregated fleet metrics returned by the reporting API.'')]"

definition currentMeta :: "reports_page \<Rightarrow> string \<times> string" where
  "currentMeta p =
     (case map_of reportMetadata (reportType p) of
        Some m \<Rightarrow> m
      | None \<Rightarrow> (''Fleet Report'', ''Report rows as returned by your fleet reporting API.''))"

text \<open>The buttons of the report catalog.\<close>

definition report_buttons :: "(string \<times> string) list" where
  "report_buttons =
     [(''distance'', ''Distance Summary''), (''distance-matrix'', ''31-Day Distance Matrix''), (''idling'', ''Idling Analysis''),
      (''overspeed'', ''Overspeed Violations''), (''stoppage'', ''Stoppage & Halts''), (''ac'', ''AC Compressor Run''),
      (''fuel'', ''Fuel Consumption''), (''temperature'', ''Reefer Temperature''), (''battery'', ''Battery Disconnect''),
      (''poi'', ''POI Stopovers''), (''attendance'', ''Driver Attendance''), (''trips'', ''Trip Ledger''),
      (''driver'', ''Driver Register''), (''reminders'', ''Maintenance Reminders''), (''geofence'', ''Geofence Activity''),
      (''summary'', ''Fleet Summary'')]"

definition report_endpoint :: "reports_page \<Rightarrow> string" where
  "report_endpoint p = ''/api/v1/reports/'' @ reportType p @ ''?range='' @ encodeURIComponent (dateRange p)"

text \<open>The columns and rows an answer brings; \<open>None\<close> when the block throws.\<close>

definition array_or_empty :: "jsval \<Rightarrow> jsval list" where
  "array_or_empty v = (case as_arr v of None \<Rightarrow> [] | Some xs \<Rightarrow> xs)"

definition report_payload :: "js_error + response \<Rightarrow> (jsval list \<times> jsval list) option" where
  "report_payload r =
     (case r of
        Inl e \<Rightarrow> None
      | Inr res \<Rightarrow>
          if \<not> res_ok res then None
          else (case res_json res of
                  Inl e \<Rightarrow> None
                | Inr json \<Rightarrow>
                    (case jget json ''success'' of
                       Inl e \<Rightarrow> None
                     | Inr ok \<Rightarrow> if truthy ok then Some (array_or_empty (jopt json ''columns''), array_or_empty (jopt json ''data''))
                                 else None)))"

text \<open>What happens when the answer arrives. The handler does not look at the report that is selected then.\<close>

definition settle_report :: "js_error + response \<Rightarrow> reports_page \<Rightarrow> reports_page" where
  "settle_report r p =
     (case report_payload r of
        None \<Rightarrow> p\<lparr>columns := [], rp_rows := [], rp_error := Some ''Unable to load this report right now.'', rp_loading := False\<rparr>
      | Some (cs, rs) \<Rightarrow> p\<lparr>columns := cs, rp_rows := rs, rp_loading := False\<rparr>)"

definition start_report :: "reports_page \<Rightarrow> reports_page" where
  "start_report p = p\<lparr>rp_loading := True, rp_error := None\<rparr>"

definition fetchReport :: "browser \<times> reports_page \<Rightarrow> browser \<times> reports_page" where
  "fetchReport wp =
     (let (w1, r) = fetchWithAuth (fst wp) (report_endpoint (snd wp)) GET
      in (w1, settle_report r (start_report (snd wp))))"

definition setReportType :: "string \<Rightarrow> browser \<times> reports_page \<Rightarrow> browser \<times> reports_page" where
  "setReportType t wp = (if t = reportType (snd wp) then wp else fetchReport (fst wp, (snd wp)\<lparr>reportType := t\<rparr>))"

definition setDateRange :: "string \<Rightarrow> browser \<times> reports_page \<Rightarrow> browser \<times> reports_page" where
  "setDateRange d wp = (if d = dateRange (snd wp) then wp else fetchReport (fst wp, (snd wp)\<lparr>dateRange := d\<rparr>))"

text \<open>\<open>Object.values(row)\<close>\<close>

fun object_values :: "jsval \<Rightarrow> jsval list" where
  "object_values (JObj kvs) = map snd kvs"
| "object_values (JArr xs) = xs"
| "object_values (JStr s) = map (\<lambda>c. JStr [c]) s"
| "object_values v = []"

definition visibleRows :: "reports_page \<Rightarrow> jsval list" where
  "visibleRows p =
     (if rp_vehicle p = ''all'' then rp_rows p
      else filter (\<lambda>r. JStr (rp_vehicle p) \<in> set (object_values r)) (rp_rows p))"

definition export_endpoint :: "reports_page \<Rightarrow> string" where
  "export_endpoint p = ''/api/v1/reports/export/'' @ reportType p @ ''?range='' @ encodeURIComponent (dateRange p)"

definition report_export :: "(response \<Rightarrow> string) \<Rightarrow> browser \<Rightarrow> reports_page \<Rightarrow> browser \<times> reports_page" where
  "report_export blob_text w p =
     (let (w1, r) = fetchWithAuth w (export_endpoint p) GET; q = p\<lparr>exporting := False\<rparr>;
          failed = (w1, q\<lparr>rp_error := Some ''Export failed. Please try again.''\<rparr>)
      in case r of
           Inl e \<Rightarrow> failed
         | Inr res \<Rightarrow>
             if res_ok res
             then (w1\<lparr>downloads := downloads w1 @
                    [(''rudra_report_'' @ reportType p @ ''_'' @ dateRange p @ ''.csv'', blob_text res)]\<rparr>, q)
             else failed)"

definition export_disabled :: "reports_page \<Rightarrow> bool" where
  "export_disabled p = (rp_loading p \<or> exporting p \<or> visibleRows p = [])"

text \<open>The table: a cell per column and visible row.\<close>

definition report_cells :: "(real \<Rightarrow> string) \<Rightarrow> reports_page \<Rightarrow> string list list" where
  "report_cells local_number p =
     map (\<lambda>row. map (\<lambda>col. formatCell local_number (jopt row (js_to_string (jopt col ''key'')))) (columns p)) (visibleRows p)"

definition colSpan :: "reports_page \<Rightarrow> nat" where
  "colSpan p = max (length (columns p)) 1"

subsection \<open>Analytics: numbers as texts\<close>

definition isNumber :: "jsval \<Rightarrow> bool" where
  "isNumber v = (\<not> nullish v \<and> isFinite (js_Number v))"

text \<open>A comma after every third digit from the right, given the digits from the right.\<close>

fun group3 :: "string \<Rightarrow> string" where
  "group3 (a # b # c # d # r) = a # b # c # CHR '','' # group3 (d # r)"
| "group3 r = r"

definition en_US :: "nat \<Rightarrow> real \<Rightarrow> string" where
  "en_US f x =
     (let n = fixed_units f x
      in (if x < 0 then ''-'' else []) @ rev (group3 (rev (nat_to_string (n div 10 ^ f)))) @
         (if f = 0 then [] else ''.'' @ padStart0 f (nat_to_string (n mod 10 ^ f))))"

definition formatNumber :: "nat \<Rightarrow> jsval \<Rightarrow> string" where
  "formatNumber digits v =
     (if \<not> isNumber v then DASH else (case js_Number v of Fin x \<Rightarrow> en_US digits x | _ \<Rightarrow> DASH))"

subsection \<open>Analytics: the page\<close>

record analytics_page =
  an_data :: jsval
  an_loading :: bool
  an_error :: bool

definition analytics_initial :: analytics_page where
  "analytics_initial = \<lparr>an_data = JNull, an_loading = True, an_error = False\<rparr>"

definition analytics_payload :: "js_error + response \<Rightarrow> jsval option" where
  "analytics_payload r =
     (case r of
        Inl e \<Rightarrow> None
      | Inr res \<Rightarrow>
          if \<not> res_ok res then None
          else (case res_json res of
                  Inl e \<Rightarrow> None
                | Inr json \<Rightarrow>
                    (case jget json ''success'' of
                       Inl e \<Rightarrow> None
                     | Inr ok \<Rightarrow> if truthy ok \<and> truthy (jopt json ''data'') then Some (jopt json ''data'') else None)))"

definition fetchAnalytics :: "browser \<times> analytics_page \<Rightarrow> browser \<times> analytics_page" where
  "fetchAnalytics wp =
     (let (w1, r) = fetchWithAuth (fst wp) ''/api/v1/dashboard/analytics'' GET
      in (w1, case analytics_payload r of
                None \<Rightarrow> (snd wp)\<lparr>an_data := JNull, an_error := True, an_loading := False\<rparr>
              | Some d \<Rightarrow> (snd wp)\<lparr>an_data := d, an_error := False, an_loading := False\<rparr>))"

text \<open>Which of its three faces the page shows.\<close>

datatype analytics_face = Calculating | Unavailable | Figures jsval

definition analytics_face :: "analytics_page \<Rightarrow> analytics_face" where
  "analytics_face p =
     (if an_loading p then Calculating
      else if an_error p \<or> \<not> truthy (an_data p) then Unavailable else Figures (an_data p))"

text \<open>The engine ratio: three numbers and their shares of the sum.\<close>

definition ratioTotal :: "jsval \<Rightarrow> real" where
  "ratioTotal ratio =
     (if truthy ratio
      then num_else (num_field ratio ''running'') 0 + num_else (num_field ratio ''idle'') 0 + num_else (num_field ratio ''stopped'') 0
      else 0)"

definition ratioPct :: "jsval \<Rightarrow> real option \<Rightarrow> real option" where
  "ratioPct ratio v = (if 0 < ratioTotal ratio then Some (num_else v 0 / ratioTotal ratio * 100) else None)"

definition ratio_text :: "jsval \<Rightarrow> string \<Rightarrow> string" where
  "ratio_text ratio k = formatNumber 1 (opt_val JNum (ratioPct ratio (num_field ratio k))) @ ''%''"

definition hasFuelRecords :: "jsval \<Rightarrow> bool" where
  "hasFuelRecords d = (isNumber (jopt d ''totalFuelBurnedLtr'') \<and> num_gt0 (js_Number (jopt d ''totalFuelBurnedLtr'')))"

text \<open>The lines under the figures: \<open>[... , ...].filter(Boolean).join(' . ')\<close>.\<close>

definition part :: "jsval \<Rightarrow> string \<Rightarrow> nat \<Rightarrow> string \<Rightarrow> string \<Rightarrow> string list" where
  "part d pre f k post = (if isNumber (jopt d k) then [pre @ formatNumber f (jopt d k) @ post] else [])"

definition occupancySub :: "jsval \<Rightarrow> string" where
  "occupancySub d = join ('' '' @ MIDDOT @ '' '')
     (part d [] 0 ''runningVehicles'' '' running'' @ part d [] 0 ''idleVehicles'' '' idling'' @
      part d [] 0 ''stoppedVehicles'' '' stopped'')"

definition distanceSub :: "jsval \<Rightarrow> string" where
  "distanceSub d = join ('' '' @ MIDDOT @ '' '')
     (part d ''Avg '' 1 ''avgDistancePerDay'' '' KM/day'' @ part d [] 0 ''totalKm31Days'' '' KM in 31 days'')"

definition activeFleetSub :: "jsval \<Rightarrow> string" where
  "activeFleetSub d = join ('' '' @ [CHR 0xE2, CHR 0x80, CHR 0xA2] @ '' '')
     (part d [] 0 ''idleVehicles'' '' Idling'' @ part d [] 0 ''stoppedVehicles'' '' Parked'')"

definition emissionsSub :: "jsval \<Rightarrow> string" where
  "emissionsSub d = join ('' '' @ MIDDOT @ '' '')
     (part d [] 0 ''totalFuelBurnedLtr'' '' L burned'' @ part d ''Fuel cost '' 2 ''totalFuelCost'' [] @
      part d [] 1 ''carbonEmissionsKg'' ('' kg CO'' @ [CHR 0xE2, CHR 0x82, CHR 0x82]))"

text \<open>One bar of the trend: its label, its height in pixels of 120, its day.\<close>

definition barPct :: "jsval \<Rightarrow> real" where
  "barPct pt =
     (if isNumber (jopt pt ''occupancy'')
      then (case js_Number (jopt pt ''occupancy'') of Fin x \<Rightarrow> max 0 (min 100 x) | _ \<Rightarrow> 0) else 0)"

definition trend_bar :: "jsval \<Rightarrow> string \<times> real \<times> string" where
  "trend_bar pt =
     ((if isNumber (jopt pt ''occupancy'') then formatNumber 0 (jopt pt ''occupancy'') @ ''%'' else DASH),
      barPct pt / 100 * 120, str_or (str_field pt ''day'') DASH)"

definition violator_cells :: "jsval \<Rightarrow> string list" where
  "violator_cells v =
     [(if isNumber (jopt v ''topSpeed'') then formatNumber 1 (jopt v ''topSpeed'') @ '' km/h'' else DASH),
      (if isNumber (jopt v ''count'') then formatNumber 0 (jopt v ''count'') @ '' times'' else DASH)]"

subsection \<open>Facts\<close>

lemma report_buttons_known: "list_all (\<lambda>(i, label). map_of reportMetadata i \<noteq> None) report_buttons"
  by (simp add: report_buttons_def reportMetadata_def)

lemma reports_send [intro]:
  "adds_only tenant_request w (fst (fetchReport (w, p)))" "adds_only tenant_request w (fst (setReportType t (w, p)))"
  "adds_only tenant_request w (fst (setDateRange d (w, p)))" "adds_only tenant_request w (fst (report_export bt w p))"
  "adds_only tenant_request w (fst (fetchAnalytics (w, q)))"
proof -
  have f: "adds_only tenant_request u (fst (fetchReport (u, r)))" for u r
    by (simp add: fetchReport_def split_beta Let_def client_sends(2))
  show "adds_only tenant_request w (fst (fetchReport (w, p)))" "adds_only tenant_request w (fst (setReportType t (w, p)))"
    "adds_only tenant_request w (fst (setDateRange d (w, p)))" "adds_only tenant_request w (fst (fetchAnalytics (w, q)))"
    by (auto simp: f setReportType_def setDateRange_def fetchAnalytics_def split_beta Let_def client_sends(2))
  show "adds_only tenant_request w (fst (report_export bt w p))"
    using client_sends(2) [of w "export_endpoint p" GET]
    by (auto simp: report_export_def split_beta Let_def adds_only_def split: sum.splits)
qed

text \<open>After a load the table is the answer's, or empty with an error; a failed load leaves no old row behind.\<close>

lemma report_shows_answer:
  assumes "fetchReport (w, p) = (w', p')"
  shows "case report_payload (snd (fetchWithAuth w (report_endpoint p) GET)) of
      Some (cs, rs) \<Rightarrow> columns p' = cs \<and> rp_rows p' = rs \<and> rp_error p' = None \<and> \<not> rp_loading p'
    | None \<Rightarrow> columns p' = [] \<and> visibleRows p' = [] \<and> rp_error p' \<noteq> None \<and> \<not> rp_loading p'"
  using assms
  by (auto simp: fetchReport_def settle_report_def start_report_def split_beta Let_def visibleRows_def split: option.splits)

text \<open>An answer that comes after another report was selected is shown under the other report's title.\<close>

lemma stale_report_shown:
  assumes "report_payload r = Some (cs, rs)"
  shows "columns (settle_report r (snd (setReportType t wp))) = cs \<and>
    currentMeta (settle_report r (snd (setReportType t wp))) = currentMeta ((snd wp)\<lparr>reportType := t\<rparr>)"
proof -
  have "reportType (snd (setReportType t wp)) = t"
    by (auto simp: setReportType_def fetchReport_def settle_report_def start_report_def split_beta Let_def split: option.splits)
  then show ?thesis using assms by (simp add: settle_report_def currentMeta_def)
qed

text \<open>The export asks for the whole report, whatever vehicle is selected.\<close>

lemma export_ignores_vehicle:
  "fst (report_export bt w (p\<lparr>rp_vehicle := v\<rparr>)) = fst (report_export bt w p)"
  by (simp add: report_export_def export_endpoint_def split_beta Let_def split: sum.splits)

lemma group3_digits: "CHR '','' \<notin> set s \<Longrightarrow> filter (\<lambda>c. c \<noteq> CHR '','') (group3 s) = s"
  by (induction s rule: group3.induct) auto

lemma no_comma: "CHR '','' \<notin> set (nat_to_string n)" "CHR '','' \<notin> set (padStart0 k (nat_to_string n))"
  using nat_to_string_digits [of "CHR '',''" n] pad_digits [of k n] by (auto simp: list_all_iff is_digit_def)

lemma en_US_commas: "filter (\<lambda>c. c \<noteq> CHR '','') (en_US f x) = toFixed f x"
  using no_comma group3_digits [of "rev (nat_to_string (fixed_units f x div 10 ^ f))"]
  by (auto simp: en_US_def toFixed_def Let_def filter_id_conv simp flip: rev_filter)

lemma share_bounds:
  fixes a s :: real
  assumes "0 \<le> a" and "a \<le> s" and "0 < s"
  shows "0 \<le> a / s * 100 \<and> a / s * 100 \<le> 100"
  using assms by (simp add: divide_le_eq)

lemma shares_whole:
  fixes a b c :: real
  assumes "0 < a + b + c"
  shows "a / (a + b + c) * 100 + b / (a + b + c) * 100 + c / (a + b + c) * 100 = 100"
proof -
  have "a / (a + b + c) + b / (a + b + c) + c / (a + b + c) = 1"
    using assms by (simp flip: add_divide_distrib)
  then show ?thesis by (metis distrib_right mult_1)
qed

subsection \<open>Properties\<close>

text \<open>A figure of the analytics page is the number behind it. Without its grouping commas the text of any value that is
  a number reads back as that number rounded to the digits shown.\<close>

theorem figure_reads_back:
  assumes "isNumber v" and "js_Number v = Fin x"
  shows "toNumber (filter (\<lambda>c. c \<noteq> CHR '','') (formatNumber f v)) = Fin (fixed_num f x)"
  using assms by (simp add: formatNumber_def en_US_commas toNumber_toFixed)

theorem figure_reads_back_witness:
  "toNumber (filter (\<lambda>c. c \<noteq> CHR '','') (formatNumber 1 (JNum 1234567))) = Fin (fixed_num 1 1234567)"
  by (rule figure_reads_back) (simp_all add: isNumber_def js_Number_def)

text \<open>The engine shares are percentages of one whole: for counts that are not negative each of the three is
  between 0 and 100 and together they are 100, unless all are 0, when none is shown.\<close>

theorem engine_shares_sum:
  assumes "list_all (\<lambda>k. 0 \<le> num_else (num_field ratio k) 0) [''running'', ''idle'', ''stopped'']"
  shows "case (ratioPct ratio (num_field ratio ''running''), ratioPct ratio (num_field ratio ''idle''),
      ratioPct ratio (num_field ratio ''stopped'')) of
      (Some a, Some b, Some c) \<Rightarrow> a + b + c = 100 \<and> list_all (\<lambda>x. 0 \<le> x \<and> x \<le> 100) [a, b, c]
    | _ \<Rightarrow> ratioTotal ratio = 0"
proof (cases "0 < ratioTotal ratio")
  case True
  let ?n = "\<lambda>k. num_else (num_field ratio k) 0"
  have t: "ratioTotal ratio = ?n ''running'' + ?n ''idle'' + ?n ''stopped''" using True by (simp add: ratioTotal_def split: if_splits)
  have n: "0 \<le> ?n ''running''" "0 \<le> ?n ''idle''" "0 \<le> ?n ''stopped''" using assms by simp_all
  have "?n k / ratioTotal ratio * 100 \<le> 100 \<and> 0 \<le> ?n k / ratioTotal ratio * 100"
    if "k \<in> {''running'', ''idle'', ''stopped''}" for k
    using share_bounds [of "?n k" "ratioTotal ratio"] that n True by (auto simp: t)
  then have "list_all (\<lambda>x. 0 \<le> x \<and> x \<le> 100)
      [?n ''running'' / ratioTotal ratio * 100, ?n ''idle'' / ratioTotal ratio * 100, ?n ''stopped'' / ratioTotal ratio * 100]"
    by simp
  moreover have "?n ''running'' / ratioTotal ratio * 100 + ?n ''idle'' / ratioTotal ratio * 100 + ?n ''stopped'' / ratioTotal ratio * 100 = 100"
    using shares_whole [of "?n ''running''"] True by (simp only: t)
  ultimately show ?thesis by (simp only: ratioPct_def True if_True prod.case option.case simp_thms)
next
  case False
  then have "ratioTotal ratio = 0" using assms by (auto simp: ratioTotal_def split: if_splits)
  then show ?thesis by (simp add: ratioPct_def)
qed

theorem engine_shares_sum_witness:
  "ratioPct (JObj [(''running'', JNum 1), (''idle'', JNum 3)]) (Some 1) = Some 25
   \<and> (case (ratioPct (JObj [(''running'', JNum 1), (''idle'', JNum 3)]) (Some 1),
         ratioPct (JObj [(''running'', JNum 1), (''idle'', JNum 3)]) (Some 3), ratioPct (JObj [(''running'', JNum 1), (''idle'', JNum 3)]) None)
      of (Some a, Some b, Some c) \<Rightarrow> a + b + c = 100 | _ \<Rightarrow> False)"
  using engine_shares_sum [of "JObj [(''running'', JNum 1), (''idle'', JNum 3)]"]
  by (simp add: num_else_def ratioPct_def ratioTotal_def)

end
