(* ===== verification/Role_Rights.thy ===== *)
theory Role_Rights
  imports Admin_Session "HOL-Library.Word"
begin

unbundle bit_operations_syntax

section \<open>The permission matrix\<close>

text \<open>
  \<open>RoleRightsPage.tsx\<close>: the roles of the platform and, per role and module, a bit mask (view 1, add 2,
  edit 4, delete 8) edited in a draft. JavaScript's bitwise operators work on 32-bit integers, so masks are
  computed in \<open>32 word\<close>. The draft and the permissions are objects, kept as ordered maps from texts.
\<close>

subsection \<open>Bitwise operators\<close>

text \<open>\<open>ToInt32\<close>: the integer part modulo \<open>2 ^ 32\<close>; what is not finite counts as 0.\<close>

fun toInt32 :: "jsnum \<Rightarrow> 32 word" where
  "toInt32 (Fin x) = word_of_int (if 0 \<le> x then \<lfloor>x\<rfloor> else \<lceil>x\<rceil>)"
| "toInt32 n = 0"

abbreviation int32 :: "jsval \<Rightarrow> 32 word" where
  "int32 v \<equiv> toInt32 (js_Number v)"

definition of_int32 :: "32 word \<Rightarrow> jsval" where
  "of_int32 m = JNum (of_int (sint m))"

text \<open>\<open>(v & bit) > 0\<close>: the comparison is of signed numbers.\<close>

definition bit_set :: "jsval \<Rightarrow> 32 word \<Rightarrow> bool" where
  "bit_set v b = (0 < sint (int32 v AND b))"

lemma int32_of_int32 [simp]: "int32 (of_int32 m) = m"
  by (simp add: of_int32_def js_Number_def del: of_int_sint) simp

subsection \<open>State\<close>

record roles_page =
  roles :: "jsval list"
  draft :: "(string, (string, jsval) omap) omap"
  ro_loading :: bool
  ro_saving :: bool
  ro_toast :: toast

definition roles_initial :: roles_page where
  "roles_initial = \<lparr>roles = [], draft = [], ro_loading = True, ro_saving = False, ro_toast = no_toast\<rparr>"

definition ro_say :: "string \<Rightarrow> roles_page \<Rightarrow> roles_page" where
  "ro_say m p = p\<lparr>ro_toast := showToast m (ro_toast p)\<rparr>"

definition modules :: "(string \<times> string) list" where
  "modules =
     [(''tracking'', ''Live Tracking & Map''), (''reports'', ''Reports & Export''),
      (''fleet'', ''Fleet Operations (Trips/Tyres)''), (''control_panel'', ''Control Panel (Immobilizer Cut)''),
      (''reminders'', ''Compliance & Reminders''), (''billing'', ''Billing & Invoices''),
      (''users'', ''User & Driver Management'')]"

definition perm_bits :: "(32 word \<times> string) list" where
  "perm_bits = [(1, ''View''), (2, ''Add''), (4, ''Edit''), (8, ''Delete'')]"

subsection \<open>Loading\<close>

text \<open>\<open>{ ...v }\<close>: the own properties of an object, the numbered ones of an array or a text.\<close>

fun spread :: "jsval \<Rightarrow> (string, jsval) omap" where
  "spread (JObj kvs) = kvs"
| "spread (JArr xs) = zip (map nat_to_string [0..<length xs]) xs"
| "spread (JStr s) = zip (map nat_to_string [0..<length s]) (map (\<lambda>c. JStr [c]) s)"
| "spread v = []"

definition role_key :: "jsval \<Rightarrow> string" where
  "role_key r = js_to_string (jopt r ''id'')"

definition role_perms :: "jsval \<Rightarrow> jsval" where
  "role_perms r = js_or (jopt r ''permissions'') (JObj [])"

text \<open>The \<open>forEach\<close>: a row that is \<open>null\<close> throws, and the new draft is not stored.\<close>

definition draft_of :: "jsval list \<Rightarrow> (string, (string, jsval) omap) omap option" where
  "draft_of rs =
     (if list_ex nullish rs then None
      else Some (set_all role_key (\<lambda>r. spread (role_perms r)) rs []))"

definition store_roles :: "jsval list \<Rightarrow> roles_page \<Rightarrow> roles_page" where
  "store_roles rs p =
     (let p1 = p\<lparr>roles := rs\<rparr>
      in case draft_of rs of None \<Rightarrow> p1 | Some d \<Rightarrow> p1\<lparr>draft := d\<rparr>)"

definition loadRoles :: "browser \<times> roles_page \<Rightarrow> browser \<times> roles_page" where
  "loadRoles wp =
     (let (w1, p1) = load_one fetchWithAdminAuth ''/api/v1/admin/roles'' store_roles (fst wp) ((snd wp)\<lparr>ro_loading := True\<rparr>)
      in (w1, p1\<lparr>ro_loading := False\<rparr>))"

subsection \<open>Editing\<close>

definition role_draft :: "roles_page \<Rightarrow> string \<Rightarrow> (string, jsval) omap" where
  "role_draft p k = (case map_get (draft p) k of None \<Rightarrow> [] | Some m \<Rightarrow> m)"

text \<open>\<open>perms[key] || 0\<close>\<close>

definition mask_of :: "(string, jsval) omap \<Rightarrow> string \<Rightarrow> jsval" where
  "mask_of perms key = js_or (case map_get perms key of None \<Rightarrow> JUndef | Some v \<Rightarrow> v) (JNum 0)"

definition flip :: "32 word \<Rightarrow> jsval \<Rightarrow> jsval" where
  "flip b current = of_int32 (if bit_set current b then int32 current AND NOT b else int32 current OR b)"

definition togglePermission :: "string \<Rightarrow> string \<Rightarrow> 32 word \<Rightarrow> roles_page \<Rightarrow> roles_page" where
  "togglePermission roleId moduleKey b p =
     (let rolePerms = role_draft p roleId
      in p\<lparr>draft := map_set roleId (map_set moduleKey (flip b (mask_of rolePerms moduleKey)) rolePerms) (draft p)\<rparr>)"

text \<open>What a cell of the matrix shows, and which of its four buttons are pressed.\<close>

definition shown_mask :: "roles_page \<Rightarrow> jsval \<Rightarrow> string \<Rightarrow> jsval" where
  "shown_mask p r key =
     coalesce (case map_get (draft p) (role_key r) of None \<Rightarrow> JUndef
               | Some perms \<Rightarrow> (case map_get perms key of None \<Rightarrow> JUndef | Some v \<Rightarrow> v))
       (coalesce (jopt (jopt r ''permissions'') key) (JNum 0))"

definition isActive :: "roles_page \<Rightarrow> jsval \<Rightarrow> string \<Rightarrow> 32 word \<Rightarrow> bool" where
  "isActive p r key b = bit_set (shown_mask p r key) b"

definition role_changed :: "roles_page \<Rightarrow> jsval \<Rightarrow> bool" where
  "role_changed p r =
     list_ex (\<lambda>(key, label). mask_of (role_draft p (role_key r)) key \<noteq> js_or (jopt (role_perms r) key) (JNum 0)) modules"

definition changedRoles :: "roles_page \<Rightarrow> jsval list" where
  "changedRoles p = filter (role_changed p) (roles p)"

subsection \<open>Saving\<close>

definition role_endpoint :: "jsval \<Rightarrow> string" where
  "role_endpoint r = ''/api/v1/admin/roles/'' @ role_key r"

definition role_body :: "roles_page \<Rightarrow> jsval \<Rightarrow> options" where
  "role_body p r = send_json ''PUT'' (JObj [(''permissions'', JObj (role_draft p (role_key r)))])"

text \<open>The loop: one request after the other; \<open>failed\<close> counts the refused and the broken ones.\<close>

fun save_roles :: "roles_page \<Rightarrow> jsval list \<Rightarrow> nat \<Rightarrow> browser \<Rightarrow> browser \<times> nat" where
  "save_roles p [] failed w = (w, failed)"
| "save_roles p (r # rs) failed w =
     (let (w1, a) = fetchWithAdminAuth w (role_endpoint r) (role_body p r)
      in save_roles p rs (if accepted a then failed else failed + 1) w1)"

definition plural :: "nat \<Rightarrow> string" where
  "plural n = (if n = 1 then [] else ''s'')"

definition save_message :: "nat \<Rightarrow> nat \<Rightarrow> string" where
  "save_message failed n =
     (if 0 < failed then ''Failed to update '' @ nat_to_string failed @ '' role'' @ plural failed @ ''.''
      else ''Permission matrix updated for '' @ nat_to_string n @ '' role'' @ plural n @ ''.'')"

definition roles_handleSave :: "browser \<Rightarrow> roles_page \<Rightarrow> browser \<times> roles_page" where
  "roles_handleSave w p =
     (if changedRoles p = [] then (w, ro_say ''No permission changes to save.'' p)
      else (let (w1, failed) = save_roles p (changedRoles p) 0 w
            in loadRoles (w1, ro_say (save_message failed (length (changedRoles p))) (p\<lparr>ro_saving := False\<rparr>))))"

text \<open>The save button is disabled while a load or a save is under way.\<close>

definition save_disabled :: "roles_page \<Rightarrow> bool" where
  "save_disabled p = (ro_saving p \<or> ro_loading p)"

subsection \<open>One bit at a time\<close>

lemma and_bit: "m AND 2 ^ k = (if bit m k then 2 ^ k else (0 :: 32 word))"
  by (rule bit_word_eqI) (auto simp: bit_simps)

lemma sint_and_bit: "k < 31 \<Longrightarrow> 0 < sint ((m :: 32 word) AND 2 ^ k) \<longleftrightarrow> bit m k"
proof -
  assume k: "k < 31"
  have "sint (2 ^ k :: 32 word) = 2 ^ k"
    using k by (intro bit_eqI) (auto simp: bit_simps)
  then show ?thesis by (simp add: and_bit)
qed

lemma flip_bit: "k < 31 \<Longrightarrow> int32 (flip (2 ^ k) v) = int32 v XOR 2 ^ k"
  by (auto simp: flip_def bit_set_def sint_and_bit intro!: bit_word_eqI) (auto simp: bit_simps)

text \<open>The four buttons flip one of the four lowest bits.\<close>

lemma perm_bits_powers: "b \<in> fst ` set perm_bits \<Longrightarrow> \<exists>k<4. b = 2 ^ k"
  by (auto simp: perm_bits_def intro: exI [of _ 0] exI [of _ 1] exI [of _ 2] exI [of _ 3])

lemma flip_xor: "b \<in> fst ` set perm_bits \<Longrightarrow> int32 (flip b v) = int32 v XOR b"
  using perm_bits_powers [of b] flip_bit by auto

lemma mask_of_set: "mask_of (map_set key v perms) key' = (if key' = key then js_or v (JNum 0) else mask_of perms key')"
  by (simp add: mask_of_def map_get_def map_of_set)

lemma flip_or [simp]: "js_or (flip b v) (JNum 0) = flip b v"
  by (auto simp: js_or_def flip_def of_int32_def simp del: of_int_sint)

lemma role_draft_toggle:
  "role_draft (togglePermission i key b p) i' =
     (if i' = i then map_set key (flip b (mask_of (role_draft p i) key)) (role_draft p i) else role_draft p i')"
  by (simp add: role_draft_def togglePermission_def Let_def map_get_def map_of_set)

lemma mask_toggle:
  "mask_of (role_draft (togglePermission i key b p) i') key' =
     (if i' = i \<and> key' = key then flip b (mask_of (role_draft p i) key) else mask_of (role_draft p i') key')"
  by (simp add: role_draft_toggle mask_of_set)

text \<open>A mask the server can have stored: a whole number of 32 bits.\<close>

definition is_mask :: "jsval \<Rightarrow> bool" where
  "is_mask v = (of_int32 (int32 v) = v)"

lemma flip_flip: "b \<in> fst ` set perm_bits \<Longrightarrow> is_mask v \<Longrightarrow> flip b (flip b v) = v"
proof -
  assume b: "b \<in> fst ` set perm_bits" and v: "is_mask v"
  have of: "flip b u = of_int32 (int32 (flip b u))" for u by (simp add: flip_def)
  have "flip b (flip b v) = of_int32 ((int32 v XOR b) XOR b)"
    by (subst of) (simp add: flip_xor [OF b])
  then show ?thesis using v by (simp add: is_mask_def xor.assoc)
qed

subsection \<open>What a load leaves to save\<close>

lemma spread_lookup:
  "\<not> list_all is_digit key \<Longrightarrow> (case map_get (spread v) key of None \<Rightarrow> JUndef | Some x \<Rightarrow> x) = jopt v key"
proof -
  assume key: "\<not> list_all is_digit key"
  have "key \<notin> nat_to_string ` A" for A
    using key nat_to_string_digits by (force simp: list_all_iff)
  then have "map_of (zip (map nat_to_string ns) ys) key = None" for ns and ys :: "jsval list"
    by (auto simp: map_of_eq_None_iff dest!: set_zip_leftD)
  then show ?thesis by (cases v) (auto simp: map_get_def)
qed

lemma module_keys: "(key, label) \<in> set modules \<Longrightarrow> \<not> list_all is_digit key"
  by (auto simp: modules_def is_digit_def)

lemma fresh_draft_unchanged:
  assumes "list_all (\<lambda>r. \<not> nullish r) rs" and "distinct (map role_key rs)"
  shows "changedRoles (store_roles rs p) = []"
proof -
  have ok: "draft_of rs = Some (set_all role_key (\<lambda>r. spread (role_perms r)) rs [])"
    using assms(1) by (auto simp: draft_of_def list_ex_iff list_all_iff)
  have perms: "role_draft (store_roles rs p) (role_key r) = spread (role_perms r)" if "r \<in> set rs" for r
  proof -
    have "map_of (rev (map (\<lambda>r. (role_key r, spread (role_perms r))) rs)) (role_key r) = Some (spread (role_perms r))"
      using that assms(2) by (intro map_of_is_SomeI) (auto simp: comp_def rev_map [symmetric])
    then show ?thesis by (simp add: role_draft_def store_roles_def ok map_get_def map_of_set_all)
  qed
  have "\<not> role_changed (store_roles rs p) r" if "r \<in> set rs" for r
    using module_keys by (force simp: role_changed_def list_ex_iff perms [OF that] mask_of_def spread_lookup)
  moreover have "roles (store_roles rs p) = rs" by (simp add: store_roles_def ok)
  ultimately show ?thesis by (simp add: changedRoles_def)
qed

subsection \<open>What a save sends\<close>

lemma save_roles_gist:
  "\<not> ls_blocked w \<Longrightarrow>
   map gist (sent (fst (save_roles p rs n w))) = map gist (sent w) @ map (\<lambda>r. gist_of (role_endpoint r) (role_body p r)) rs
   \<and> \<not> ls_blocked (fst (save_roles p rs n w))"
  by (induction rs arbitrary: n w) (simp_all add: split_beta Let_def admin_fetch_gist admin_fetch_log(2))

lemma save_roles_failed: "n \<le> snd (save_roles p rs n w) \<and> snd (save_roles p rs n w) \<le> n + length rs"
proof (induction rs arbitrary: n w)
  case (Cons r rs)
  show ?case
    using Cons.IH [of n "fst (fetchWithAdminAuth w (role_endpoint r) (role_body p r))"]
      Cons.IH [of "n + 1" "fst (fetchWithAdminAuth w (role_endpoint r) (role_body p r))"]
    by (auto simp: split_beta Let_def)
qed simp

lemma store_roles_simps [simp]:
  "ro_toast (store_roles rs p) = ro_toast p" "roles (store_roles rs p) = rs" "ro_saving (store_roles rs p) = ro_saving p"
  by (simp_all add: store_roles_def Let_def split: option.splits)

interpretation roles: list_loader "\<lambda>w p. loadRoles (w, p)" fetchWithAdminAuth "''/api/v1/admin/roles''" "\<lambda>r. r" roles ro_loading
  by unfold_locales (auto simp: loadRoles_def load_one_eq Let_def split_beta split: option.splits)

lemma loadRoles_toast: "ro_toast (snd (loadRoles wp)) = ro_toast (snd wp)"
  by (auto simp: loadRoles_def load_one_eq Let_def split_beta split: option.splits)

subsection \<open>Properties\<close>

text \<open>C17: a button of the permission matrix changes one bit of one mask: after it the mask of that role and
  module, as a 32-bit number, is the old one with exactly the button's bit inverted, and every mask of every
  other module or role is untouched.\<close>

theorem permission_toggle_flips_one_bit:
  assumes "b \<in> fst ` set perm_bits"
  shows "if i' = i \<and> key' = key
    then int32 (mask_of (role_draft (togglePermission i key b p) i') key') = int32 (mask_of (role_draft p i') key') XOR b
    else mask_of (role_draft (togglePermission i key b p) i') key' = mask_of (role_draft p i') key'"
  using flip_xor [OF assms] by (auto simp: mask_toggle)

theorem permission_toggle_flips_one_bit_witness:
  "int32 (mask_of (role_draft (togglePermission ''3'' ''fleet'' 4 roles_initial) ''3'') ''fleet'') = 4
   \<and> mask_of (role_draft (togglePermission ''3'' ''fleet'' 4 roles_initial) ''3'') ''billing'' = JNum 0"
proof -
  have b: "4 \<in> fst ` set perm_bits" by (simp add: perm_bits_def)
  have "mask_of (role_draft roles_initial ''3'') key = JNum 0" for key
    by (simp add: role_draft_def roles_initial_def map_get_def mask_of_def js_or_def)
  then show ?thesis
    using permission_toggle_flips_one_bit [OF b, of "''3''" "''3''" "''fleet''" "''fleet''" roles_initial]
      permission_toggle_flips_one_bit [OF b, of "''3''" "''3''" "''billing''" "''fleet''" roles_initial]
    by (simp add: js_Number_def)
qed

text \<open>C18: saving sends what changed and nothing else. With a readable store, a save adds to the log one PUT for each
  changed role, in the order of the table, whose body is the whole draft of that role, and then one request
  that loads the roles again; when no mask differs from the server's nothing is sent. That holds whatever the
  answers are, so one refused role does not keep the others from being saved.\<close>

theorem permission_save_exact:
  assumes "\<not> ls_blocked w"
  shows "map gist (sent (fst (roles_handleSave w p))) = map gist (sent w) @
    (if changedRoles p = [] then []
     else map (\<lambda>r. gist_of (role_endpoint r) (role_body p r)) (changedRoles p) @ [gist_of ''/api/v1/admin/roles'' GET])"
  using save_roles_gist [OF assms, of p "changedRoles p" 0] roles.load_browser
  by (simp add: roles_handleSave_def split_beta Let_def admin_fetch_gist)

theorem permission_save_exact_witness:
  "length (sent (fst (roles_handleSave (fresh_browser offline_net)
     (togglePermission ''1'' ''fleet'' 2 (store_roles [JObj [(''id'', JNum 1)], JObj [(''id'', JNum 2)]] roles_initial))))) = 2"
proof -
  let ?p = "togglePermission ''1'' ''fleet'' 2 (store_roles [JObj [(''id'', JNum 1)], JObj [(''id'', JNum 2)]] roles_initial)"
  have key: "role_key (JObj [(''id'', JNum 1)]) = ''1''" "role_key (JObj [(''id'', JNum 2)]) = ''2''"
    using num_to_string_nat [of 1] num_to_string_nat [of 2] by (simp_all add: role_key_def nat_to_string.simps digit_char_def char_of_def bit_0)
  have m0: "mask_of (role_draft (store_roles [JObj [(''id'', JNum 1)], JObj [(''id'', JNum 2)]] roles_initial) i) m = JNum 0" for i m
    by (simp add: store_roles_def draft_of_def set_all_def role_draft_def map_get_def mask_of_def key role_perms_def js_or_def)
  have "roles ?p = [JObj [(''id'', JNum 1)], JObj [(''id'', JNum 2)]]"
    by (simp add: togglePermission_def Let_def)
  moreover have "role_changed ?p (JObj [(''id'', JNum 1)])"
    by (simp add: role_changed_def key mask_toggle m0 modules_def flip_def bit_set_def js_Number_def of_int32_def
        role_perms_def js_or_def)
  moreover have "\<not> role_changed ?p (JObj [(''id'', JNum 2)])"
    by (simp add: role_changed_def key mask_toggle m0 modules_def role_perms_def js_or_def)
  ultimately have "changedRoles ?p = [JObj [(''id'', JNum 1)]]" by (simp add: changedRoles_def)
  then show ?thesis
    using arg_cong [where f = length, OF permission_save_exact [of "fresh_browser offline_net" ?p]]
    by (simp add: fresh_browser_def)
qed

text \<open>Pressing a button twice leaves nothing to save: the set of changed roles is what it was.\<close>

theorem double_toggle_saves_nothing:
  assumes "b \<in> fst ` set perm_bits" and "is_mask (mask_of (role_draft p i) key)"
  shows "changedRoles (togglePermission i key b (togglePermission i key b p)) = changedRoles p"
proof -
  have "mask_of (role_draft (togglePermission i key b (togglePermission i key b p)) i') key' = mask_of (role_draft p i') key'" for i' key'
    using flip_flip [OF assms] by (simp add: mask_toggle)
  moreover have "roles (togglePermission i key b q) = roles q" for q by (simp add: togglePermission_def Let_def)
  ultimately show ?thesis by (simp add: changedRoles_def role_changed_def [abs_def])
qed

text \<open>The reload after a save replaces the draft also when a role was refused: its edits are lost.\<close>

lemma refused_save_loses_edits:
  assumes "changedRoles p \<noteq> []"
    and "good_rows (snd (fetchWithAdminAuth (fst (save_roles p (changedRoles p) 0 w)) ''/api/v1/admin/roles'' GET)) = Some rs"
    and "draft_of rs = Some d"
  shows "draft (snd (roles_handleSave w p)) = d"
  using assms by (simp add: roles_handleSave_def loadRoles_def load_one_eq split_beta Let_def store_roles_def)

end
