(* ===== verification/Admin_Registers.thy ===== *)
theory Admin_Registers
  imports Admin_Session "HOL-Library.List_Lexorder" "HOL-Library.Char_ord"
begin

section \<open>The registers of the superadmin console\<close>

text \<open>
  Six pages of the console: \<open>BillingMasterPage.tsx\<close>, \<open>ExtensionManagerPage.tsx\<close>, \<open>TollMasterPage.tsx\<close>,
  \<open>WarrantyMasterPage.tsx\<close>, \<open>RawDataPage.tsx\<close> and \<open>MastersPage.tsx\<close>. Their lists are loaded through
  \<open>fetchWithAdminAuth\<close> (\<open>list_loader\<close>; the lookup page clears its list on failure instead), their forms
  are \<open>explained_form\<close>s. A number kept in a form (the company or device a select box chose) is stored as
  JSON would write it: one that is not finite is \<open>null\<close>, which is falsy like NaN and reaches the server
  as \<open>null\<close>.
\<close>

subsection \<open>Sums of JavaScript numbers\<close>

text \<open>
  Addition with infinities and NaN is associative and commutative with 0 as neutral element, so the
  library's \<open>sum_list\<close> applies. (Rounding is not modelled: finite numbers are reals.)
\<close>

instantiation jsnum :: comm_monoid_add
begin

definition zero_jsnum :: jsnum where
  "zero_jsnum = Fin 0"

fun plus_jsnum :: "jsnum \<Rightarrow> jsnum \<Rightarrow> jsnum" where
  "plus_jsnum (Fin x) (Fin y) = Fin (x + y)"
| "plus_jsnum (Fin x) n = n"
| "plus_jsnum PosInf (Fin y) = PosInf"
| "plus_jsnum PosInf PosInf = PosInf"
| "plus_jsnum NegInf (Fin y) = NegInf"
| "plus_jsnum NegInf NegInf = NegInf"
| "plus_jsnum n m = NaN"

instance
proof
  fix a b c :: jsnum
  show "a + b + c = a + (b + c)" by (cases a; cases b; cases c) auto
  show "a + b = b + a" by (cases a; cases b) auto
  show "0 + a = a" by (cases a) (auto simp: zero_jsnum_def)
qed

end

fun num_lt0 :: "jsnum \<Rightarrow> bool" where
  "num_lt0 (Fin x) = (x < 0)"
| "num_lt0 NegInf = True"
| "num_lt0 n = False"

text \<open>\<open>Number.isFinite(n) && n > 0\<close>\<close>

definition positive :: "jsnum \<Rightarrow> bool" where
  "positive n = (isFinite n \<and> num_gt0 n)"

lemma positive_json: "positive n \<Longrightarrow> \<exists>x>0. json_of_num n = JNum x"
  by (cases n) (auto simp: positive_def)

text \<open>
  Handlers that read a field of a good answer's body (\<open>res.json().catch(() => ({}))\<close>): a body that is
  the JSON text \<open>null\<close> makes the read throw, and the handler ends like one whose request failed.
\<close>

definition readable :: "response \<Rightarrow> bool" where
  "readable res = (res_ok res \<and> \<not> nullish (json_or (JObj []) res))"

text \<open>\<open>Number(v) || 0\<close> of a field.\<close>

definition amount :: "string \<Rightarrow> jsval \<Rightarrow> jsnum" where
  "amount k r = num_or0 (js_Number (jopt r k))"

subsection \<open>Billing\<close>

record invoice_form =
  iv_companyId :: jsval
  billingPlan :: string
  deviceCount :: string
  ratePerDevice :: string
  iv_dueDate :: string

definition blank_invoice :: invoice_form where
  "blank_invoice = \<lparr>iv_companyId = JNum 0, billingPlan = [], deviceCount = [], ratePerDevice = [], iv_dueDate = []\<rparr>"

record billing_page =
  invoices :: "jsval list"
  bi_companies :: "jsval list"
  bi_loading :: bool
  bi_modal :: bool
  bi_toast :: toast
  newInvoice :: invoice_form

definition billing_initial :: billing_page where
  "billing_initial = \<lparr>invoices = [], bi_companies = [], bi_loading = True, bi_modal = False, bi_toast = no_toast,
     newInvoice = blank_invoice\<rparr>"

definition bi_say :: "string \<Rightarrow> billing_page \<Rightarrow> billing_page" where
  "bi_say m p = p\<lparr>bi_toast := showToast m (bi_toast p)\<rparr>"

definition loadBilling :: "browser \<times> billing_page \<Rightarrow> browser \<times> billing_page" where
  "loadBilling wp =
     (let (w1, p1) = load_one fetchWithAdminAuth ''/api/v1/admin/billing'' (\<lambda>xs p. p\<lparr>invoices := xs\<rparr>)
                       (fst wp) ((snd wp)\<lparr>bi_loading := True\<rparr>)
      in (w1, p1\<lparr>bi_loading := False\<rparr>))"

definition billing_loadCompanies :: "browser \<times> billing_page \<Rightarrow> browser \<times> billing_page" where
  "billing_loadCompanies wp =
     load_one fetchWithAdminAuth ''/api/v1/admin/companies'' (\<lambda>xs p. p\<lparr>bi_companies := xs\<rparr>) (fst wp) (snd wp)"

definition invoice_problem :: "billing_page \<Rightarrow> string option" where
  "invoice_problem p =
     (if \<not> truthy (iv_companyId (newInvoice p)) then Some ''Please select a client organization.''
      else if positive (toNumber (deviceCount (newInvoice p))) \<and> positive (toNumber (ratePerDevice (newInvoice p)))
      then None
      else Some ''Device count and rate per device must be greater than zero.'')"

definition invoice_body :: "invoice_form \<Rightarrow> jsval" where
  "invoice_body f =
     JObj [(''companyId'', iv_companyId f), (''billingPlan'', JStr (billingPlan f)),
           (''deviceCount'', num_body (deviceCount f)), (''ratePerDevice'', num_body (ratePerDevice f)),
           (''dueDate'', JStr (iv_dueDate f))]"

definition invoice_message :: "response \<Rightarrow> string" where
  "invoice_message res =
     (let n = jopt (json_or (JObj []) res) ''invoiceNo''
      in if truthy n then ''Tax invoice '' @ js_to_string n @ '' generated.'' else ''Tax invoice generated.'')"

definition handleCreateInvoice :: "browser \<Rightarrow> billing_page \<Rightarrow> browser \<times> billing_page" where
  "handleCreateInvoice w p =
     (case invoice_problem p of
        Some m \<Rightarrow> (w, bi_say m p)
      | None \<Rightarrow>
          submit_answer readable fetchWithAdminAuth ''/api/v1/admin/billing'' (send_json ''POST'' (invoice_body (newInvoice p)))
            (\<lambda>res (w1, q). loadBilling (w1, (bi_say (invoice_message res) q)\<lparr>bi_modal := False, newInvoice := blank_invoice\<rparr>))
            bi_say ''Failed to generate tax invoice'' ''Failed to generate tax invoice'' w p)"

definition sum_amounts :: "jsval list \<Rightarrow> jsnum" where
  "sum_amounts rs = foldl (\<lambda>acc r. acc + amount ''totalAmount'' r) (Fin 0) rs"

definition invoice_paid :: "jsval \<Rightarrow> bool" where
  "invoice_paid r = (jopt r ''status'' = JStr ''Paid'')"

definition totalBilled :: "billing_page \<Rightarrow> jsnum" where
  "totalBilled p = sum_amounts (invoices p)"

definition totalPaid :: "billing_page \<Rightarrow> jsnum" where
  "totalPaid p = sum_amounts (filter invoice_paid (invoices p))"

definition totalUnpaid :: "billing_page \<Rightarrow> jsnum" where
  "totalUnpaid p = sum_amounts (filter (\<lambda>r. \<not> invoice_paid r) (invoices p))"

subsection \<open>Validity extensions\<close>

record extension_form =
  ex_companyId :: jsval
  extensionType :: string
  months :: string
  ex_reason :: string
  amountPaid :: string

definition blank_extension :: extension_form where
  "blank_extension = \<lparr>ex_companyId = JNum 0, extensionType = [], months = [], ex_reason = [], amountPaid = []\<rparr>"

record extensions_page =
  extensions :: "jsval list"
  ex_companies :: "jsval list"
  ex_loading :: bool
  ex_modal :: bool
  ex_toast :: toast
  ex_form :: extension_form

definition extensions_initial :: extensions_page where
  "extensions_initial = \<lparr>extensions = [], ex_companies = [], ex_loading = True, ex_modal = False, ex_toast = no_toast,
     ex_form = blank_extension\<rparr>"

definition ex_say :: "string \<Rightarrow> extensions_page \<Rightarrow> extensions_page" where
  "ex_say m p = p\<lparr>ex_toast := showToast m (ex_toast p)\<rparr>"

definition loadExtensions :: "browser \<times> extensions_page \<Rightarrow> browser \<times> extensions_page" where
  "loadExtensions wp =
     (let (w1, p1) = load_one fetchWithAdminAuth ''/api/v1/admin/extensions'' (\<lambda>xs p. p\<lparr>extensions := xs\<rparr>)
                       (fst wp) ((snd wp)\<lparr>ex_loading := True\<rparr>)
      in (w1, p1\<lparr>ex_loading := False\<rparr>))"

definition extensions_loadCompanies :: "browser \<times> extensions_page \<Rightarrow> browser \<times> extensions_page" where
  "extensions_loadCompanies wp =
     load_one fetchWithAdminAuth ''/api/v1/admin/companies'' (\<lambda>xs p. p\<lparr>ex_companies := xs\<rparr>) (fst wp) (snd wp)"

definition extension_problem :: "extensions_page \<Rightarrow> string option" where
  "extension_problem p =
     (if \<not> truthy (ex_companyId (ex_form p)) then Some ''Please select an organization.''
      else if positive (toNumber (months (ex_form p))) then None
      else Some ''Please enter a valid extension term in months.'')"

definition extension_body :: "extension_form \<Rightarrow> jsval" where
  "extension_body f =
     JObj [(''companyId'', ex_companyId f), (''extensionType'', JStr (extensionType f)), (''months'', num_body (months f)),
           (''reason'', JStr (ex_reason f)),
           (''amountPaid'', if amountPaid f = [] then JNum 0 else num_body (amountPaid f))]"

text \<open>\<open>json.message || text\<close> of a good answer.\<close>

definition answer_message :: "string \<Rightarrow> response \<Rightarrow> string" where
  "answer_message dflt res = js_to_string (js_or (jopt (json_or (JObj []) res) ''message'') (JStr dflt))"

definition handleCreateExtension :: "browser \<Rightarrow> extensions_page \<Rightarrow> browser \<times> extensions_page" where
  "handleCreateExtension w p =
     (case extension_problem p of
        Some m \<Rightarrow> (w, ex_say m p)
      | None \<Rightarrow>
          submit_answer readable fetchWithAdminAuth ''/api/v1/admin/extensions'' (send_json ''POST'' (extension_body (ex_form p)))
            (\<lambda>res (w1, q). loadExtensions (w1, (ex_say (answer_message ''Subscription extended successfully'' res) q)
                              \<lparr>ex_modal := False, ex_form := blank_extension\<rparr>))
            ex_say ''Failed to extend subscription'' ''Failed to extend subscription'' w p)"

subsection \<open>Toll plazas\<close>

record toll_form =
  tollName :: string
  systemType :: string
  rateStandard :: string
  tf_latitude :: string
  tf_longitude :: string
  tf_city :: string

definition blank_toll :: toll_form where
  "blank_toll = \<lparr>tollName = [], systemType = [], rateStandard = [], tf_latitude = [], tf_longitude = [], tf_city = []\<rparr>"

record tolls_page =
  tolls :: "jsval list"
  to_loading :: bool
  to_modal :: bool
  to_toast :: toast
  to_form :: toll_form

definition tolls_initial :: tolls_page where
  "tolls_initial = \<lparr>tolls = [], to_loading = True, to_modal = False, to_toast = no_toast, to_form = blank_toll\<rparr>"

definition to_say :: "string \<Rightarrow> tolls_page \<Rightarrow> tolls_page" where
  "to_say m p = p\<lparr>to_toast := showToast m (to_toast p)\<rparr>"

definition loadTolls :: "browser \<times> tolls_page \<Rightarrow> browser \<times> tolls_page" where
  "loadTolls wp =
     (let (w1, p1) = load_one fetchWithAdminAuth ''/api/v1/admin/toll-data'' (\<lambda>xs p. p\<lparr>tolls := xs\<rparr>)
                       (fst wp) ((snd wp)\<lparr>to_loading := True\<rparr>)
      in (w1, p1\<lparr>to_loading := False\<rparr>))"

definition toll_problem :: "tolls_page \<Rightarrow> string option" where
  "toll_problem p =
     (let f = to_form p; rate = toNumber (rateStandard f);
          latitude = toNumber (tf_latitude f); longitude = toNumber (tf_longitude f)
      in if trim (tollName f) = [] then Some ''Toll plaza name is required.''
         else if systemType f = [] then Some ''Please select a toll system type.''
         else if \<not> isFinite latitude \<or> \<not> isFinite longitude \<or> tf_latitude f = [] \<or> tf_longitude f = []
         then Some ''Valid latitude and longitude are required.''
         else if \<not> isFinite rate \<or> rateStandard f = [] \<or> num_lt0 rate then Some ''Please enter a valid toll rate.''
         else None)"

definition toll_body :: "toll_form \<Rightarrow> jsval" where
  "toll_body f =
     JObj [(''tollName'', JStr (tollName f)), (''systemType'', JStr (systemType f)),
           (''rateStandard'', num_body (rateStandard f)), (''latitude'', num_body (tf_latitude f)),
           (''longitude'', num_body (tf_longitude f)), (''city'', JStr (tf_city f))]"

definition handleCreateToll :: "browser \<Rightarrow> tolls_page \<Rightarrow> browser \<times> tolls_page" where
  "handleCreateToll w p =
     (case toll_problem p of
        Some m \<Rightarrow> (w, to_say m p)
      | None \<Rightarrow>
          submit_form res_ok fetchWithAdminAuth ''/api/v1/admin/toll-data'' (send_json ''POST'' (toll_body (to_form p)))
            (\<lambda>(w1, q). loadTolls (w1, (to_say ''Toll plaza checkpoint saved.'' q)\<lparr>to_modal := False, to_form := blank_toll\<rparr>))
            to_say ''Failed to save toll plaza'' ''Failed to save toll plaza'' w p)"

subsection \<open>Warranty and maintenance contracts\<close>

record warranty_form =
  wf_deviceId :: jsval
  wf_companyId :: jsval
  warrantyPeriod :: string
  vendorName :: string
  wf_startDate :: string
  wf_endDate :: string
  amcActive :: bool
  amcExpiry :: string
  remarks :: string

definition blank_warranty :: warranty_form where
  "blank_warranty = \<lparr>wf_deviceId = JNum 0, wf_companyId = JNum 0, warrantyPeriod = [], vendorName = [], wf_startDate = [],
     wf_endDate = [], amcActive = False, amcExpiry = [], remarks = []\<rparr>"

record warranty_page =
  records :: "jsval list"
  wa_companies :: "jsval list"
  wa_devices :: "jsval list"
  wa_loading :: bool
  wa_modal :: bool
  wa_toast :: toast
  wa_form :: warranty_form

definition warranty_initial :: warranty_page where
  "warranty_initial = \<lparr>records = [], wa_companies = [], wa_devices = [], wa_loading = True, wa_modal = False,
     wa_toast = no_toast, wa_form = blank_warranty\<rparr>"

definition wa_say :: "string \<Rightarrow> warranty_page \<Rightarrow> warranty_page" where
  "wa_say m p = p\<lparr>wa_toast := showToast m (wa_toast p)\<rparr>"

definition loadWarranty :: "browser \<times> warranty_page \<Rightarrow> browser \<times> warranty_page" where
  "loadWarranty wp =
     (let (w1, p1) = load_one fetchWithAdminAuth ''/api/v1/admin/warranty'' (\<lambda>xs p. p\<lparr>records := xs\<rparr>)
                       (fst wp) ((snd wp)\<lparr>wa_loading := True\<rparr>)
      in (w1, p1\<lparr>wa_loading := False\<rparr>))"

definition warranty_options :: "(string \<times> (jsval list \<Rightarrow> warranty_page \<Rightarrow> warranty_page)) list" where
  "warranty_options =
     [(''/api/v1/admin/companies'', \<lambda>xs p. p\<lparr>wa_companies := xs\<rparr>), (''/api/v1/admin/devices'', \<lambda>xs p. p\<lparr>wa_devices := xs\<rparr>)]"

definition warranty_loadOptions :: "browser \<times> warranty_page \<Rightarrow> browser \<times> warranty_page" where
  "warranty_loadOptions wp = load_all admin_send admin_settle warranty_options (fst wp) (snd wp)"

text \<open>\<open>d.id === deviceId\<close> with \<open>deviceId\<close> a number; NaN equals nothing.\<close>

definition id_is :: "jsnum \<Rightarrow> jsval \<Rightarrow> bool" where
  "id_is n d = (case n of Fin x \<Rightarrow> jopt d ''id'' = JNum x | _ \<Rightarrow> False)"

definition handleDeviceChange :: "jsnum \<Rightarrow> warranty_page \<Rightarrow> warranty_page" where
  "handleDeviceChange deviceId p =
     (let matched = (case find (id_is deviceId) (wa_devices p) of
                       None \<Rightarrow> None
                     | Some d \<Rightarrow> find (\<lambda>c. jopt c ''name'' = jopt d ''assignedTenant'') (wa_companies p));
          f = wa_form p
      in p\<lparr>wa_form := f\<lparr>wf_deviceId := json_of_num deviceId,
                       wf_companyId := (case matched of None \<Rightarrow> wf_companyId f | Some c \<Rightarrow> jopt c ''id'')\<rparr>\<rparr>)"

definition warranty_problem :: "warranty_page \<Rightarrow> string option" where
  "warranty_problem p = (if truthy (wf_deviceId (wa_form p)) then None else Some ''Please select a device.'')"

definition warranty_body :: "warranty_form \<Rightarrow> jsval" where
  "warranty_body f =
     JObj [(''deviceId'', wf_deviceId f), (''companyId'', wf_companyId f), (''warrantyPeriod'', JStr (warrantyPeriod f)),
           (''vendorName'', JStr (vendorName f)), (''startDate'', JStr (wf_startDate f)), (''endDate'', JStr (wf_endDate f)),
           (''amcActive'', JBool (amcActive f)), (''amcExpiry'', JStr (amcExpiry f)), (''remarks'', JStr (remarks f))]"

definition handleCreateWarranty :: "browser \<Rightarrow> warranty_page \<Rightarrow> browser \<times> warranty_page" where
  "handleCreateWarranty w p =
     (case warranty_problem p of
        Some m \<Rightarrow> (w, wa_say m p)
      | None \<Rightarrow>
          submit_answer readable fetchWithAdminAuth ''/api/v1/admin/warranty'' (send_json ''POST'' (warranty_body (wa_form p)))
            (\<lambda>res (w1, q). loadWarranty (w1, (wa_say (answer_message ''Hardware warranty & AMC contract registered'' res) q)
                              \<lparr>wa_modal := False, wa_form := blank_warranty\<rparr>))
            wa_say ''Failed to register warranty record'' ''Failed to register warranty record'' w p)"

subsection \<open>Raw packets\<close>

record raw_page =
  packets :: "jsval list"
  raw_loading :: bool
  raw_search :: string
  autoRefresh :: bool

definition raw_initial :: raw_page where
  "raw_initial = \<lparr>packets = [], raw_loading = True, raw_search = [], autoRefresh = True\<rparr>"

definition loadPackets :: "browser \<times> raw_page \<Rightarrow> browser \<times> raw_page" where
  "loadPackets wp =
     (let (w1, p1) = load_one fetchWithAdminAuth ''/api/v1/admin/raw-data'' (\<lambda>xs p. p\<lparr>packets := xs\<rparr>) (fst wp) (snd wp)
      in (w1, p1\<lparr>raw_loading := False\<rparr>))"

text \<open>The interval exists while \<open>autoRefresh\<close> is on, so five seconds bring a load only then.\<close>

datatype raw_event = Five_Seconds | Refresh_Clicked | Auto_Refresh bool | Raw_Search string

fun raw_step :: "raw_event \<Rightarrow> browser \<times> raw_page \<Rightarrow> browser \<times> raw_page" where
  "raw_step Five_Seconds (w, p) = (if autoRefresh p then loadPackets (w, p) else (w, p))"
| "raw_step Refresh_Clicked (w, p) = loadPackets (w, p)"
| "raw_step (Auto_Refresh b) (w, p) = (w, p\<lparr>autoRefresh := b\<rparr>)"
| "raw_step (Raw_Search s) (w, p) = (w, p\<lparr>raw_search := s\<rparr>)"

definition filteredPackets :: "raw_page \<Rightarrow> jsval list" where
  "filteredPackets p =
     filter (\<lambda>r. str_includes (str_or (str_field r ''imei'') []) (raw_search p) \<or>
                 str_includes (toLowerCase (str_or (str_field r ''hexPacket'') [])) (toLowerCase (raw_search p)))
       (packets p)"

text \<open>Texts compare by their characters; \<open>reduce\<close> keeps the greatest one seen.\<close>

definition later :: "string option \<Rightarrow> jsval \<Rightarrow> string option" where
  "later latest r =
     (case str_field r ''decodedAt'' of
        None \<Rightarrow> latest
      | Some d \<Rightarrow> if d \<noteq> [] \<and> (case latest of None \<Rightarrow> True | Some l \<Rightarrow> l = [] \<or> l < d) then Some d else latest)"

definition latestDecodedAt :: "raw_page \<Rightarrow> string option" where
  "latestDecodedAt p = foldl later None (packets p)"

subsection \<open>Lookup values\<close>

record master_form =
  mf_code :: string
  mf_name :: string
  isDefault :: bool

definition blank_master :: master_form where
  "blank_master = \<lparr>mf_code = [], mf_name = [], isDefault = False\<rparr>"

record masters_page =
  activeType :: string
  ma_items :: "jsval list"
  ma_loading :: bool
  ma_modal :: bool
  editingItem :: jsval
  ma_toast :: toast
  ma_form :: master_form
  ma_editForm :: master_form

definition masters_initial :: masters_page where
  "masters_initial = \<lparr>activeType = ''tyre-brands'', ma_items = [], ma_loading = True, ma_modal = False,
     editingItem = JNull, ma_toast = no_toast, ma_form = blank_master, ma_editForm = blank_master\<rparr>"

definition ma_say :: "string \<Rightarrow> masters_page \<Rightarrow> masters_page" where
  "ma_say m p = p\<lparr>ma_toast := showToast m (ma_toast p)\<rparr>"

definition masterTabs :: "(string \<times> string) list" where
  "masterTabs =
     [(''tyre-brands'', ''Tyre Brands''), (''axle-positions'', ''Axle Positions''),
      (''voucher-categories'', ''Expense Categories''), (''complaint-categories'', ''Support Categories''),
      (''device-models'', ''Tracker Device Models'')]"

definition masters_endpoint :: "masters_page \<Rightarrow> string" where
  "masters_endpoint p = ''/api/v1/admin/masters/'' @ activeType p"

definition master_endpoint :: "masters_page \<Rightarrow> jsval \<Rightarrow> string" where
  "master_endpoint p i = masters_endpoint p @ ''/'' @ js_to_string (jopt i ''id'')"

text \<open>Every way the load can fail leaves an empty list. The answer is stored without a look at the tab it was asked for.\<close>

definition store_masters :: "js_error + response \<Rightarrow> masters_page \<Rightarrow> masters_page" where
  "store_masters r p = p\<lparr>ma_items := (case good_rows r of None \<Rightarrow> [] | Some xs \<Rightarrow> xs), ma_loading := False\<rparr>"

definition loadMasters :: "browser \<times> masters_page \<Rightarrow> browser \<times> masters_page" where
  "loadMasters wp =
     (let (w1, r) = fetchWithAdminAuth (fst wp) (masters_endpoint (snd wp)) GET
      in (w1, store_masters r (snd wp)))"

definition setActiveType :: "string \<Rightarrow> browser \<times> masters_page \<Rightarrow> browser \<times> masters_page" where
  "setActiveType t wp =
     (if t = activeType (snd wp) then wp else loadMasters (fst wp, (snd wp)\<lparr>activeType := t\<rparr>))"

definition master_body :: "master_form \<Rightarrow> jsval" where
  "master_body f = JObj [(''code'', JStr (mf_code f)), (''name'', JStr (mf_name f)), (''isDefault'', JBool (isDefault f))]"

definition handleCreateMaster :: "browser \<Rightarrow> masters_page \<Rightarrow> browser \<times> masters_page" where
  "handleCreateMaster w p =
     submit_form res_ok fetchWithAdminAuth (masters_endpoint p) (send_json ''POST'' (master_body (ma_form p)))
       (\<lambda>(w1, q). loadMasters (w1, (ma_say ''Master lookup entry created'' q)\<lparr>ma_modal := False, ma_form := blank_master\<rparr>))
       ma_say ''Failed to add master record'' ''Failed to add master record'' w p"

definition masters_handleOpenEdit :: "jsval \<Rightarrow> masters_page \<Rightarrow> masters_page" where
  "masters_handleOpenEdit i p =
     p\<lparr>editingItem := i,
       ma_editForm := \<lparr>mf_code = str_or (str_field i ''code'') [], mf_name = str_or (str_field i ''name'') [],
                       isDefault = truthy (jopt i ''isDefault'')\<rparr>\<rparr>"

definition handleUpdateMaster :: "browser \<Rightarrow> masters_page \<Rightarrow> browser \<times> masters_page" where
  "handleUpdateMaster w p =
     (if \<not> truthy (editingItem p) then (w, p)
      else submit_form res_ok fetchWithAdminAuth (master_endpoint p (editingItem p))
             (send_json ''PUT'' (master_body (ma_editForm p)))
             (\<lambda>(w1, q). loadMasters (w1, (ma_say ''Master lookup entry updated'' q)\<lparr>editingItem := JNull\<rparr>))
             ma_say ''Failed to update master record'' ''Failed to update master record'' w p)"

text \<open>\<open>confirmed_by\<close> is the user's answer to \<open>window.confirm\<close>.\<close>

definition handleDeleteMaster :: "bool \<Rightarrow> jsval \<Rightarrow> browser \<Rightarrow> masters_page \<Rightarrow> browser \<times> masters_page" where
  "handleDeleteMaster confirmed_by i w p =
     (if \<not> confirmed_by then (w, p)
      else submit_form res_ok fetchWithAdminAuth (master_endpoint p i) (no_body ''DELETE'')
             (\<lambda>(w1, q). loadMasters (w1, ma_say ''Master lookup entry deleted'' q))
             ma_say ''Failed to delete master record'' ''Failed to delete master record'' w p)"

subsection \<open>Facts\<close>

lemma say_simps [simp]:
  "newInvoice (bi_say m p) = newInvoice p" "t_msg (bi_toast (bi_say m p)) = Some m"
  "ex_form (ex_say m q) = ex_form q" "t_msg (ex_toast (ex_say m q)) = Some m"
  "to_form (to_say m r) = to_form r" "t_msg (to_toast (to_say m r)) = Some m"
  "wa_form (wa_say m s) = wa_form s" "t_msg (wa_toast (wa_say m s)) = Some m"
  "ma_form (ma_say m t) = ma_form t" "t_msg (ma_toast (ma_say m t)) = Some m" "ma_items (ma_say m t) = ma_items t"
  "activeType (ma_say m t) = activeType t"
  by (simp_all add: bi_say_def ex_say_def to_say_def wa_say_def ma_say_def)

lemma load_form [simp]:
  "newInvoice (snd (loadBilling wb)) = newInvoice (snd wb)" "ex_form (snd (loadExtensions we)) = ex_form (snd we)"
  "to_form (snd (loadTolls wt)) = to_form (snd wt)" "wa_form (snd (loadWarranty ww)) = wa_form (snd ww)"
  "ma_form (snd (loadMasters wm)) = ma_form (snd wm)" "activeType (snd (loadMasters wm)) = activeType (snd wm)"
  by (simp_all add: loadBilling_def loadExtensions_def loadTolls_def loadWarranty_def loadMasters_def store_masters_def
      load_one_eq split_beta Let_def split: option.splits)

lemmas load_defs = loadBilling_def loadExtensions_def loadTolls_def loadWarranty_def loadPackets_def load_one_eq split_beta Let_def

interpretation billing: list_loader "\<lambda>w p. loadBilling (w, p)" fetchWithAdminAuth "''/api/v1/admin/billing''" "\<lambda>x. x" invoices bi_loading
  by unfold_locales (auto simp: load_defs split: option.splits)

interpretation extension: list_loader "\<lambda>w p. loadExtensions (w, p)" fetchWithAdminAuth "''/api/v1/admin/extensions''" "\<lambda>x. x"
  extensions ex_loading
  by unfold_locales (auto simp: load_defs split: option.splits)

interpretation toll: list_loader "\<lambda>w p. loadTolls (w, p)" fetchWithAdminAuth "''/api/v1/admin/toll-data''" "\<lambda>x. x" tolls to_loading
  by unfold_locales (auto simp: load_defs split: option.splits)

interpretation warranty: list_loader "\<lambda>w p. loadWarranty (w, p)" fetchWithAdminAuth "''/api/v1/admin/warranty''" "\<lambda>x. x" records wa_loading
  by unfold_locales (auto simp: load_defs split: option.splits)

interpretation raw: list_loader "\<lambda>w p. loadPackets (w, p)" fetchWithAdminAuth "''/api/v1/admin/raw-data''" "\<lambda>x. x" packets raw_loading
  by unfold_locales (auto simp: load_defs split: option.splits)

interpretation invoice_entry: explained_form handleCreateInvoice "\<lambda>p. invoice_problem p = None" readable fetchWithAdminAuth
  "''/api/v1/admin/billing''" "\<lambda>p. send_json ''POST'' (invoice_body (newInvoice p))" newInvoice blank_invoice
  "\<lambda>p. t_msg (bi_toast p)" invoice_problem
  by (rule explained_formI [OF handleCreateInvoice_def]) (simp_all add: split_beta)

interpretation extension_entry: explained_form handleCreateExtension "\<lambda>p. extension_problem p = None" readable fetchWithAdminAuth
  "''/api/v1/admin/extensions''" "\<lambda>p. send_json ''POST'' (extension_body (ex_form p))" ex_form blank_extension
  "\<lambda>p. t_msg (ex_toast p)" extension_problem
  by (rule explained_formI [OF handleCreateExtension_def]) (simp_all add: split_beta)

interpretation toll_entry: explained_form handleCreateToll "\<lambda>p. toll_problem p = None" res_ok fetchWithAdminAuth
  "''/api/v1/admin/toll-data''" "\<lambda>p. send_json ''POST'' (toll_body (to_form p))" to_form blank_toll
  "\<lambda>p. t_msg (to_toast p)" toll_problem
  by (rule explained_formI [OF handleCreateToll_def]) (simp_all add: split_beta)

interpretation warranty_entry: explained_form handleCreateWarranty "\<lambda>p. warranty_problem p = None" readable fetchWithAdminAuth
  "''/api/v1/admin/warranty''" "\<lambda>p. send_json ''POST'' (warranty_body (wa_form p))" wa_form blank_warranty
  "\<lambda>p. t_msg (wa_toast p)" warranty_problem
  by (rule explained_formI [OF handleCreateWarranty_def]) (simp_all add: split_beta)

text \<open>The lookup form has no check of its own and posts to the table of the open tab.\<close>

lemma master_form_kept_or_taken:
  "ma_form (snd (handleCreateMaster w p)) = ma_form p \<or>
   ma_form (snd (handleCreateMaster w p)) = blank_master
   \<and> accepted (snd (fetchWithAdminAuth w (masters_endpoint p) (send_json ''POST'' (master_body (ma_form p)))))"
proof (cases "accepted (snd (fetchWithAdminAuth w (masters_endpoint p) (send_json ''POST'' (master_body (ma_form p)))))")
  case True
  then show ?thesis by (simp add: handleCreateMaster_def submit_form_taken split_beta)
next
  case False
  then have "ma_form (snd (handleCreateMaster w p)) = ma_form p"
    unfolding handleCreateMaster_def by (rule submit_answer_keeps) simp
  then show ?thesis by simp
qed

text \<open>An answer that arrives after the tab was changed fills the table of the new tab with the old tab's rows;
  deleting one of them asks the server to delete the entry of that number in the other table.\<close>

lemma stale_masters_answer:
  assumes "good_rows r = Some xs"
  shows "ma_items (store_masters r (snd (setActiveType t wp))) = xs"
    and "activeType (store_masters r (snd (setActiveType t wp))) = t"
    and "master_endpoint (store_masters r (snd (setActiveType t wp))) i =
      ''/api/v1/admin/masters/'' @ t @ ''/'' @ js_to_string (jopt i ''id'')"
  using assms by (auto simp: store_masters_def setActiveType_def master_endpoint_def masters_endpoint_def)

text \<open>What the three forms with numbers send.\<close>

definition checked_post :: "(jsval \<Rightarrow> bool) \<Rightarrow> request \<Rightarrow> bool" where
  "checked_post P q = (case rq_body q of JsonBody v \<Rightarrow> P v | _ \<Rightarrow> rq_method q = ''GET'')"

definition positive_field :: "string \<Rightarrow> jsval \<Rightarrow> bool" where
  "positive_field k v = (case jopt v k of JNum x \<Rightarrow> 0 < x | _ \<Rightarrow> False)"

definition number_field :: "string \<Rightarrow> jsval \<Rightarrow> bool" where
  "number_field k v = (case jopt v k of JNum x \<Rightarrow> True | _ \<Rightarrow> False)"

lemma checked_fields:
  "positive (toNumber t) \<Longrightarrow> (case num_body t of JNum x \<Rightarrow> 0 < x | _ \<Rightarrow> False)"
  "isFinite (toNumber t) \<Longrightarrow> (case num_body t of JNum x \<Rightarrow> True | _ \<Rightarrow> False)"
  by (cases "toNumber t"; simp add: num_body_def positive_def)+

interpretation checked: fetch_run admin_send admin_settle "adds_only (checked_post P)"
  "\<lambda>opt. case o_body opt of JsonBody v \<Rightarrow> P v | _ \<Rightarrow> o_method opt = ''GET''" for P
proof unfold_locales
  fix opt :: options and w e assume "case o_body opt of JsonBody v \<Rightarrow> P v | _ \<Rightarrow> o_method opt = ''GET''"
  then show "adds_only (checked_post P) w (fst (admin_send w e opt))"
    by (cases "ls_blocked w"; cases "o_body opt") (auto simp: admin_send_def getSuperAdminToken_def getItem_def adds_only_def
        admin_request_def checked_post_def Let_def split: sum.splits)
qed (auto simp: admin.settle_log adds_only_def [of _ _ "admin_settle _ _"] GET_def intro: adds_trans)

lemmas checked_load = checked.load_one_run [folded fetchWithAdminAuth_def]

lemmas checked_submit = checked.submit_run [folded fetchWithAdminAuth_def]

subsection \<open>Properties\<close>

text \<open>The console never sends an invoice, an extension or a toll plaza with an unchecked number. Whatever is in
  the form and whatever the network answers, each request a submit adds is a load of the list, or a post in
  which the device count and the rate (invoice) or the months (extension) are positive numbers, or in which
  rate and position (toll plaza) are numbers.\<close>

theorem admin_numbers_checked:
  "adds_only (checked_post (\<lambda>v. positive_field ''deviceCount'' v \<and> positive_field ''ratePerDevice'' v)) w
     (fst (handleCreateInvoice w pb))
   \<and> adds_only (checked_post (positive_field ''months'')) w (fst (handleCreateExtension w pe))
   \<and> adds_only (checked_post (\<lambda>v. number_field ''rateStandard'' v \<and> number_field ''latitude'' v \<and> number_field ''longitude'' v))
       w (fst (handleCreateToll w pt))"
proof (intro conjI)
  show "adds_only (checked_post (\<lambda>v. positive_field ''deviceCount'' v \<and> positive_field ''ratePerDevice'' v)) w
     (fst (handleCreateInvoice w pb))"
    unfolding handleCreateInvoice_def
    by (auto simp: invoice_problem_def invoice_body_def positive_field_def checked_fields loadBilling_def split_beta Let_def
        send_json_def split: option.splits if_splits intro!: checked_submit checked_load)
  show "adds_only (checked_post (positive_field ''months'')) w (fst (handleCreateExtension w pe))"
    unfolding handleCreateExtension_def
    by (auto simp: extension_problem_def extension_body_def positive_field_def checked_fields loadExtensions_def split_beta Let_def
        send_json_def split: option.splits if_splits intro!: checked_submit checked_load)
  show "adds_only (checked_post (\<lambda>v. number_field ''rateStandard'' v \<and> number_field ''latitude'' v \<and> number_field ''longitude'' v))
       w (fst (handleCreateToll w pt))"
    unfolding handleCreateToll_def
    by (auto simp: toll_problem_def toll_body_def number_field_def checked_fields loadTolls_def split_beta Let_def
        send_json_def split: option.splits if_splits intro!: checked_submit checked_load)
qed

text \<open>The billing totals add up: the amount billed is the amount paid plus the amount not paid, for every list of
  invoices, whatever their amounts and states are (missing and unreadable amounts count as 0).\<close>

theorem billing_totals_add_up: "totalBilled p = totalPaid p + totalUnpaid p"
proof -
  have sums: "sum_amounts rs = sum_list (map (amount ''totalAmount'') rs)" for rs
  proof -
    have "foldl (\<lambda>acc r. acc + amount ''totalAmount'' r) a rs = a + sum_list (map (amount ''totalAmount'') rs)" for a
      by (induction rs arbitrary: a) (simp_all add: add.assoc)
    then show ?thesis by (simp add: sum_amounts_def flip: zero_jsnum_def)
  qed
  have "sum_list (map g rs) = sum_list (map g (filter Q rs)) + sum_list (map g (filter (\<lambda>r. \<not> Q r) rs))"
    for g :: "jsval \<Rightarrow> jsnum" and Q rs
    by (induction rs) (simp_all add: ac_simps)
  then show ?thesis unfolding totalBilled_def totalPaid_def totalUnpaid_def sums .
qed

text \<open>The packet page's time stamp is the greatest of the packets' decoding times.\<close>

theorem latest_packet_is_newest:
  "latestDecodedAt p =
     (let ts = filter (\<lambda>d. d \<noteq> []) (List.map_filter (\<lambda>r. str_field r ''decodedAt'') (packets p))
      in if ts = [] then None else Some (Max (set ts)))"
proof -
  let ?ts = "\<lambda>rs. filter (\<lambda>d. d \<noteq> []) (List.map_filter (\<lambda>r. str_field r ''decodedAt'') rs)"
  have step: "foldl later (Some l) rs = Some (fold max (?ts rs) l)" if "l \<noteq> []" for l rs
    using that
  proof (induction rs arbitrary: l)
    case (Cons r rs)
    show ?case
    proof (cases "str_field r ''decodedAt''")
      case (Some d)
      have "max d l \<noteq> []" using Cons.prems by (cases d) (auto simp: max_def)
      moreover have "later (Some l) r = Some (if d = [] then l else max d l)"
        using Cons.prems by (auto simp: later_def Some max_def)
      ultimately show ?thesis using Cons by (simp add: map_filter_simps Some)
    qed (use Cons in \<open>simp add: later_def map_filter_simps\<close>)
  qed (simp add: map_filter_simps)
  then have best: "foldl later (Some l) rs = Some (Max (set (l # ?ts rs)))" if "l \<noteq> []" for l rs
    unfolding Max.set_eq_fold using that .
  have "foldl later None rs = (if ?ts rs = [] then None else Some (Max (set (?ts rs))))" for rs
  proof (induction rs)
    case (Cons r rs)
    then show ?case
      by (cases "str_field r ''decodedAt''") (auto simp: later_def [of None r] map_filter_simps best)
  qed (simp add: map_filter_simps)
  then show ?thesis by (simp add: latestDecodedAt_def Let_def)
qed

end
