(* ===== verification/Device_Master.thy ===== *)
theory Device_Master
  imports Admin_Registers
begin

section \<open>The device inventory\<close>

text \<open>
  \<open>DeviceMasterPage.tsx\<close>: the trackers of every tenant, with the lists its selects offer, a form that
  provisions a tracker, a form that edits one, a search, a status filter and pages. The page of the table
  goes back to 1 when search, filter or page length change, but not when a load brings fewer trackers.
\<close>

record provision_form =
  pf_imei :: string
  pf_simCardNo :: string
  pf_operator :: string
  pf_model :: string
  pf_protocol :: string
  pf_firmware :: string
  pf_companyName :: string

definition blank_provision :: provision_form where
  "blank_provision = \<lparr>pf_imei = [], pf_simCardNo = [], pf_operator = [], pf_model = [], pf_protocol = [], pf_firmware = [],
     pf_companyName = []\<rparr>"

record device_edit =
  ed_simCardNo :: string
  ed_operator :: string
  ed_firmware :: string

record inventory =
  inv_devices :: "jsval list"
  inv_companies :: "jsval list"
  deviceModels :: "jsval list"
  simOperators :: "jsval list"
  inv_loading :: bool
  inv_search :: string
  inv_status :: string
  inv_page :: nat
  inv_pageSize :: nat
  inv_modal :: bool
  editingDevice :: jsval
  inv_toast :: toast
  provision :: provision_form
  editDeviceForm :: device_edit

definition inventory_initial :: inventory where
  "inventory_initial = \<lparr>inv_devices = [], inv_companies = [], deviceModels = [], simOperators = [], inv_loading = True,
     inv_search = [], inv_status = ''all'', inv_page = 1, inv_pageSize = 25, inv_modal = False, editingDevice = JNull,
     inv_toast = no_toast, provision = blank_provision,
     editDeviceForm = \<lparr>ed_simCardNo = [], ed_operator = [], ed_firmware = []\<rparr>\<rparr>"

definition inv_say :: "string \<Rightarrow> inventory \<Rightarrow> inventory" where
  "inv_say m p = p\<lparr>inv_toast := showToast m (inv_toast p)\<rparr>"

definition loadInventory :: "browser \<times> inventory \<Rightarrow> browser \<times> inventory" where
  "loadInventory wp =
     (let (w1, p1) = load_one fetchWithAdminAuth ''/api/v1/admin/devices'' (\<lambda>xs p. p\<lparr>inv_devices := xs\<rparr>)
                       (fst wp) ((snd wp)\<lparr>inv_loading := True\<rparr>)
      in (w1, p1\<lparr>inv_loading := False\<rparr>))"

definition inventory_options :: "(string \<times> (jsval list \<Rightarrow> inventory \<Rightarrow> inventory)) list" where
  "inventory_options =
     [(''/api/v1/admin/companies'', \<lambda>xs p. p\<lparr>inv_companies := xs\<rparr>),
      (''/api/v1/admin/masters/device-models'', \<lambda>xs p. p\<lparr>deviceModels := xs\<rparr>),
      (''/api/v1/admin/masters/sim-operators'', \<lambda>xs p. p\<lparr>simOperators := xs\<rparr>)]"

definition inventory_loadOptions :: "browser \<times> inventory \<Rightarrow> browser \<times> inventory" where
  "inventory_loadOptions wp = load_all admin_send admin_settle inventory_options (fst wp) (snd wp)"

definition provision_problem :: "inventory \<Rightarrow> string option" where
  "provision_problem p =
     (if pf_imei (provision p) = [] \<or> pf_simCardNo (provision p) = []
      then Some ''IMEI and SIM Card Number are required'' else None)"

definition provision_body :: "provision_form \<Rightarrow> jsval" where
  "provision_body f =
     JObj [(''imei'', JStr (pf_imei f)), (''simCardNo'', JStr (pf_simCardNo f)), (''operator'', JStr (pf_operator f)),
           (''model'', JStr (pf_model f)), (''protocol'', JStr (pf_protocol f)), (''firmware'', JStr (pf_firmware f)),
           (''companyName'', JStr (pf_companyName f))]"

definition handleProvision :: "browser \<Rightarrow> inventory \<Rightarrow> browser \<times> inventory" where
  "handleProvision w p =
     (case provision_problem p of
        Some m \<Rightarrow> (w, inv_say m p)
      | None \<Rightarrow>
          submit_form res_ok fetchWithAdminAuth ''/api/v1/admin/devices'' (send_json ''POST'' (provision_body (provision p)))
            (\<lambda>(w1, q). loadInventory (w1, (inv_say ''Tracker provisioned into hardware inventory'' q)
                          \<lparr>inv_modal := False, provision := blank_provision\<rparr>))
            inv_say ''Failed to provision device'' ''Failed to provision device'' w p)"

definition inventory_handleOpenEdit :: "jsval \<Rightarrow> inventory \<Rightarrow> inventory" where
  "inventory_handleOpenEdit d p =
     p\<lparr>editingDevice := d,
       editDeviceForm := \<lparr>ed_simCardNo = str_or (str_field d ''simCardNo'') [], ed_operator = str_or (str_field d ''operator'') [],
                          ed_firmware = str_or (str_field d ''firmware'') []\<rparr>\<rparr>"

definition device_edit_body :: "device_edit \<Rightarrow> jsval" where
  "device_edit_body f =
     JObj [(''simCardNo'', JStr (ed_simCardNo f)), (''operator'', JStr (ed_operator f)), (''firmware'', JStr (ed_firmware f))]"

definition handleUpdateDevice :: "browser \<Rightarrow> inventory \<Rightarrow> browser \<times> inventory" where
  "handleUpdateDevice w p =
     (if \<not> truthy (editingDevice p) then (w, p)
      else submit_form res_ok fetchWithAdminAuth (''/api/v1/admin/devices/'' @ js_to_string (jopt (editingDevice p) ''id''))
             (send_json ''PUT'' (device_edit_body (editDeviceForm p)))
             (\<lambda>(w1, q). loadInventory (w1, (inv_say ''Device configuration updated'' q)\<lparr>editingDevice := JNull\<rparr>))
             inv_say ''Failed to update device'' ''Failed to update device'' w p)"

subsection \<open>Search, filter, pages\<close>

definition inventory_matches :: "inventory \<Rightarrow> jsval \<Rightarrow> bool" where
  "inventory_matches p d =
     (let query = toLowerCase (inv_search p)
      in (str_includes (str_or (str_field d ''imei'') []) (inv_search p) \<or>
          str_includes (str_or (str_field d ''simCardNo'') []) (inv_search p) \<or>
          str_includes (toLowerCase (str_or (str_field d ''vehicleReg'') [])) query \<or>
          str_includes (toLowerCase (str_or (str_field d ''assignedTenant'') [])) query) \<and>
         (inv_status p = ''all'' \<or> toLowerCase (str_or (str_field d ''status'') []) = toLowerCase (inv_status p)))"

definition filteredInventory :: "inventory \<Rightarrow> jsval list" where
  "filteredInventory p = filter (inventory_matches p) (inv_devices p)"

text \<open>\<open>Math.max(1, Math.ceil(n / pageSize))\<close>\<close>

definition inventory_pages :: "nat \<Rightarrow> nat \<Rightarrow> nat" where
  "inventory_pages sz n = max 1 (js_ceil_div n sz)"

definition inv_totalPages :: "inventory \<Rightarrow> nat" where
  "inv_totalPages p = inventory_pages (inv_pageSize p) (length (filteredInventory p))"

definition inventory_page_of :: "nat \<Rightarrow> nat \<Rightarrow> 'a list \<Rightarrow> 'a list" where
  "inventory_page_of sz n xs = (let start = (n - 1) * sz in slice start (start + sz) xs)"

definition paginatedDevices :: "inventory \<Rightarrow> jsval list" where
  "paginatedDevices p = inventory_page_of (inv_pageSize p) (inv_page p) (filteredInventory p)"

text \<open>The numbers of the line \<open>Showing a-b of n\<close>.\<close>

definition showing :: "inventory \<Rightarrow> nat \<times> nat \<times> nat" where
  "showing p =
     (let n = length (filteredInventory p); start = (inv_page p - 1) * inv_pageSize p
      in (min n (start + 1), min n (start + length (paginatedDevices p)), n))"

definition onlineCount :: "inventory \<Rightarrow> nat" where
  "onlineCount p = length (filter (\<lambda>d. jopt d ''status'' = JStr ''Online'') (inv_devices p))"

definition unassignedCount :: "inventory \<Rightarrow> nat" where
  "unassignedCount p = length (filter (\<lambda>d. jopt d ''status'' = JStr ''Unassigned'') (inv_devices p))"

text \<open>The page lengths the select offers.\<close>

definition page_sizes :: "inventory \<Rightarrow> nat list" where
  "page_sizes p = [25, 50, 100] @ (if inv_devices p = [] then [] else [max 1 (length (inv_devices p))])"

text \<open>The controls of the table. A change of search, filter or page length runs the effect that resets the page.\<close>

datatype table_event = Search string | Status string | Page_Size nat | Next_Page | Prev_Page

fun table_step :: "table_event \<Rightarrow> inventory \<Rightarrow> inventory" where
  "table_step (Search s) p = (if s = inv_search p then p else p\<lparr>inv_search := s, inv_page := 1\<rparr>)"
| "table_step (Status s) p = (if s = inv_status p then p else p\<lparr>inv_status := s, inv_page := 1\<rparr>)"
| "table_step (Page_Size n) p =
     (if n \<notin> set (page_sizes p) \<or> n = inv_pageSize p then p else p\<lparr>inv_pageSize := n, inv_page := 1\<rparr>)"
| "table_step Next_Page p =
     (if inv_page p = inv_totalPages p then p else p\<lparr>inv_page := min (inv_totalPages p) (inv_page p + 1)\<rparr>)"
| "table_step Prev_Page p = (if inv_page p = 1 then p else p\<lparr>inv_page := max 1 (inv_page p - 1)\<rparr>)"

subsection \<open>Facts\<close>

lemma inv_say_simps [simp]: "provision (inv_say m p) = provision p" "t_msg (inv_toast (inv_say m p)) = Some m"
  by (simp_all add: inv_say_def)

lemma loadInventory_form [simp]: "provision (snd (loadInventory wp)) = provision (snd wp)"
  by (simp add: loadInventory_def load_one_eq split_beta Let_def split: option.splits)

interpretation inventory: list_loader "\<lambda>w p. loadInventory (w, p)" fetchWithAdminAuth "''/api/v1/admin/devices''" "\<lambda>x. x"
  inv_devices inv_loading
  by unfold_locales (auto simp: loadInventory_def load_one_eq split_beta Let_def split: option.splits)

interpretation provision_entry: explained_form handleProvision "\<lambda>p. provision_problem p = None" res_ok fetchWithAdminAuth
  "''/api/v1/admin/devices''" "\<lambda>p. send_json ''POST'' (provision_body (provision p))" provision blank_provision
  "\<lambda>p. t_msg (inv_toast p)" provision_problem
  by (rule explained_formI [OF handleProvision_def]) (simp_all add: split_beta)

interpretation inventory_table: pager inventory_page_of inventory_pages
  by (rule ceil_pagerI) (auto simp: inventory_page_of_def slice_def inventory_pages_def Let_def)

text \<open>A table whose page exists.\<close>

definition table_ok :: "inventory \<Rightarrow> bool" where
  "table_ok p = (0 < inv_page p \<and> 0 < inv_pageSize p \<and> inv_page p \<le> inv_totalPages p)"

lemma inv_totalPages_pos [simp]: "0 < inv_totalPages p"
  by (simp add: inv_totalPages_def inventory_table.pages_pos)

lemma inv_totalPages_page [simp]: "inv_totalPages (p\<lparr>inv_page := n\<rparr>) = inv_totalPages p"
  by (simp add: inv_totalPages_def filteredInventory_def inventory_matches_def [abs_def])

lemma reset_ok: "0 < inv_pageSize p \<Longrightarrow> table_ok (p\<lparr>inv_page := 1\<rparr>)"
  using inv_totalPages_pos [of p] by (simp add: table_ok_def Suc_le_eq)

lemma table_step_ok: "table_ok p \<Longrightarrow> table_ok (table_step ev p)"
proof (cases ev)
  case (Page_Size n)
  assume "table_ok p"
  then show ?thesis
    using reset_ok [of "p\<lparr>inv_pageSize := n\<rparr>"] by (auto simp: Page_Size page_sizes_def split: if_splits)
next
  case (Search s)
  assume "table_ok p"
  then show ?thesis using reset_ok [of "p\<lparr>inv_search := s\<rparr>"] by (auto simp: Search table_ok_def)
next
  case (Status s)
  assume "table_ok p"
  then show ?thesis using reset_ok [of "p\<lparr>inv_status := s\<rparr>"] by (auto simp: Status table_ok_def)
qed (auto simp: table_ok_def)

lemma page_not_empty: "table_ok p \<Longrightarrow> filteredInventory p \<noteq> [] \<Longrightarrow> paginatedDevices p \<noteq> []"
  using inventory_table.page_nonempty [of "inv_pageSize p" "filteredInventory p" "inv_page p - 1"]
  by (cases "inv_page p") (simp_all add: table_ok_def paginatedDevices_def inv_totalPages_def)

lemma showing_counts_rows:
  "table_ok p \<Longrightarrow> filteredInventory p \<noteq> [] \<Longrightarrow>
   (case showing p of (a, b, n) \<Rightarrow> a \<le> b \<and> b \<le> n \<and> b + 1 - a = length (paginatedDevices p))"
  using page_not_empty [of p]
  by (auto simp: showing_def paginatedDevices_def inventory_page_of_def slice_def Let_def min_def)

text \<open>A load that brings fewer trackers can leave the page behind the last one; Next then brings it back.\<close>

lemma next_brings_back: "inv_page (table_step Next_Page p) \<le> inv_totalPages p"
  by simp

lemma shrunk_load_shows_nothing:
  assumes "good_rows (snd (fetchWithAdminAuth w ''/api/v1/admin/devices'' GET)) = Some []" and "inv_page p = 2"
  shows "\<not> table_ok (snd (loadInventory (w, p)))"
  using assms
  by (simp add: loadInventory_def load_one_eq split_beta Let_def table_ok_def inv_totalPages_def filteredInventory_def
      inventory_pages_def js_ceil_div_def)

subsection \<open>Properties\<close>



end
