(* ===== verification/Company_Manager.thy ===== *)
theory Company_Manager
  imports Admin_Registers
begin

section \<open>The tenant registry\<close>

text \<open>
  \<open>CompanyManagerPage.tsx\<close>: the organizations of the platform with their quotas, the platform's counters, a
  form that provisions an organization, a dialog that edits one and can replace its API key. A tenant and
  the draft of the dialog are the server's objects; \<open>cm_copied\<close> holds a message while the copy button shows
  its tick (two seconds).
\<close>

record company_form =
  cf_name :: string
  cf_code :: string
  cf_maxDevices :: jsval
  cf_maxUsers :: jsval
  cf_status :: string
  cf_contactPerson :: string
  cf_contactEmail :: string
  cf_contactPhone :: string
  cf_dbShard :: string
  cf_city :: string
  cf_address :: string
  cf_siraRelay :: bool

definition blank_company :: company_form where
  "blank_company = \<lparr>cf_name = [], cf_code = [], cf_maxDevices = JUndef, cf_maxUsers = JUndef, cf_status = ''Active'',
     cf_contactPerson = [], cf_contactEmail = [], cf_contactPhone = [], cf_dbShard = ''pg_shard_uae_01'', cf_city = [],
     cf_address = [], cf_siraRelay = False\<rparr>"

record company_page =
  cm_companies :: "jsval list"
  cm_stats :: jsval
  cm_dashboard :: jsval
  cm_loading :: bool
  cm_search :: string
  cm_status :: string
  selectedCompany :: jsval
  editOpen :: bool
  createOpen :: bool
  cm_copied :: toast
  cm_toast :: toast
  cm_alerts :: "string list"
  editForm :: jsval
  newCompany :: company_form

definition company_initial :: company_page where
  "company_initial = \<lparr>cm_companies = [], cm_stats = JNull, cm_dashboard = JNull, cm_loading = True, cm_search = [],
     cm_status = ''ALL'', selectedCompany = JNull, editOpen = False, createOpen = False, cm_copied = no_toast,
     cm_toast = no_toast, cm_alerts = [], editForm = JObj [], newCompany = blank_company\<rparr>"

definition cm_say :: "string \<Rightarrow> company_page \<Rightarrow> company_page" where
  "cm_say m p = p\<lparr>cm_toast := showToast m (cm_toast p)\<rparr>"

subsection \<open>Loading\<close>

text \<open>
  Three answers are read one after the other inside one \<open>try\<close>: the list of tenants and two objects. A block
  that throws leaves the effects of those before it.
\<close>

definition success_object :: "response \<Rightarrow> js_error + jsval option" where
  "success_object r =
     (if \<not> res_ok r then Inr None
      else (case res_json r of
         Inl e \<Rightarrow> Inl e
       | Inr json \<Rightarrow>
           (case jget json ''success'' of
              Inl e \<Rightarrow> Inl e
            | Inr ok \<Rightarrow> Inr (if truthy ok \<and> truthy (jopt json ''data'') then Some (jopt json ''data'') else None))))"

definition block :: "js_error + 'a option \<Rightarrow> ('a \<Rightarrow> 'p \<Rightarrow> 'p) \<Rightarrow> js_error + ('p \<Rightarrow> 'p)" where
  "block r upd = (case r of Inl e \<Rightarrow> Inl e | Inr None \<Rightarrow> Inr (\<lambda>p. p) | Inr (Some x) \<Rightarrow> Inr (upd x))"

fun try_blocks :: "(js_error + ('p \<Rightarrow> 'p)) list \<Rightarrow> 'p \<Rightarrow> 'p" where
  "try_blocks [] p = p"
| "try_blocks (Inl e # bs) p = p"
| "try_blocks (Inr f # bs) p = try_blocks bs (f p)"

definition company_blocks :: "response list \<Rightarrow> (js_error + (company_page \<Rightarrow> company_page)) list" where
  "company_blocks rs =
     [block (success_rows (rs ! 0)) (\<lambda>xs p. p\<lparr>cm_companies := xs\<rparr>),
      block (success_object (rs ! 1)) (\<lambda>x p. p\<lparr>cm_stats := x\<rparr>),
      block (success_object (rs ! 2)) (\<lambda>x p. p\<lparr>cm_dashboard := x\<rparr>)]"

definition loadTenants :: "browser \<times> company_page \<Rightarrow> browser \<times> company_page" where
  "loadTenants wp =
     (let (w1, r) = fetch_all admin_send admin_settle (fst wp)
                      [''/api/v1/admin/companies'', ''/api/v1/admin/stats'', ''/api/v1/admin/dashboard''];
          p1 = (snd wp)\<lparr>cm_loading := True\<rparr>
      in (w1, (case r of Inl e \<Rightarrow> p1 | Inr rs \<Rightarrow> try_blocks (company_blocks rs) p1)\<lparr>cm_loading := False\<rparr>))"

subsection \<open>Answers whose body is the JSON text null\<close>

text \<open>
  \<open>json.apiKey\<close> and \<open>errJson.error\<close> throw on such a body, and the handler ends like one whose request
  failed. \<open>throwing bad f\<close> is the fetch \<open>f\<close> with those answers turned into the exception.
\<close>

definition null_body :: "response \<Rightarrow> bool" where
  "null_body res = (json_or (JObj []) res = JNull)"

definition throwing :: "(response \<Rightarrow> bool) \<Rightarrow> fetcher \<Rightarrow> fetcher" where
  "throwing bad f w e opt =
     (let (w1, r) = f w e opt
      in (w1, case r of Inl x \<Rightarrow> Inl x
              | Inr res \<Rightarrow> if bad res then Inl (TypeError ''Cannot read properties of null'') else Inr res))"

lemma fst_throwing [simp]: "fst (throwing bad f w e opt) = fst (f w e opt)"
  by (simp add: throwing_def split_beta Let_def)

subsection \<open>Editing a tenant\<close>

definition handleOpenManage :: "jsval \<Rightarrow> company_page \<Rightarrow> company_page" where
  "handleOpenManage c p = p\<lparr>selectedCompany := c, editForm := c, editOpen := True\<rparr>"

definition set_edit :: "string \<Rightarrow> jsval \<Rightarrow> company_page \<Rightarrow> company_page" where
  "set_edit k v p = p\<lparr>editForm := with_field k v (editForm p)\<rparr>"

text \<open>\<open>Number(v) || 0\<close> in a JSON body.\<close>

definition quota :: "jsval \<Rightarrow> jsval" where
  "quota v = json_of_num (num_or0 (js_Number v))"

definition manage_body :: "jsval \<Rightarrow> jsval" where
  "manage_body f =
     JObj [(''name'', jopt f ''name''), (''code'', jopt f ''code''), (''contactPerson'', jopt f ''contactPerson''),
           (''contactEmail'', jopt f ''contactEmail''), (''contactPhone'', jopt f ''contactPhone''),
           (''dbShard'', jopt f ''dbShard''), (''status'', jopt f ''status''),
           (''maxDevices'', quota (jopt f ''maxDevices'')), (''maxUsers'', quota (jopt f ''maxUsers'')),
           (''siraRelay'', JBool (truthy (jopt f ''siraRelay''))), (''city'', jopt f ''city''), (''address'', jopt f ''address'')]"

definition company_endpoint :: "jsval \<Rightarrow> string" where
  "company_endpoint c = ''/api/v1/admin/companies/'' @ js_to_string (jopt c ''id'')"

definition handleSaveManage :: "browser \<Rightarrow> company_page \<Rightarrow> browser \<times> company_page" where
  "handleSaveManage w p =
     (if \<not> truthy (selectedCompany p) then (w, p)
      else submit_form res_ok (throwing (\<lambda>res. \<not> res_ok res \<and> null_body res) fetchWithAdminAuth)
             (company_endpoint (selectedCompany p)) (plain_json ''PUT'' (manage_body (editForm p)))
             (\<lambda>(w1, q). loadTenants (w1,
                (cm_say (''Organization '' @ [QUOT] @ js_to_string (js_or (jopt (editForm q) ''name'') (jopt (selectedCompany q) ''name''))
                         @ [QUOT] @ '' updated in database.'') q)\<lparr>editOpen := False\<rparr>))
             cm_say ''Failed to update organization in database.'' ''Network error updating organization.'' w p)"

definition handleRegenerateKey :: "browser \<Rightarrow> company_page \<Rightarrow> browser \<times> company_page" where
  "handleRegenerateKey w p =
     (if \<not> truthy (selectedCompany p) then (w, p)
      else submit_answer res_ok (throwing null_body fetchWithAdminAuth)
             (company_endpoint (selectedCompany p)) (plain_json ''PUT'' (JObj [(''regenerateKey'', JBool True)]))
             (\<lambda>res (w1, q).
                let key = jopt (json_or (JObj []) res) ''apiKey''
                in if truthy key
                   then loadTenants (w1, cm_say ''API key regenerated and stored in the database.'' (set_edit ''apiKey'' key q))
                   else (w1, cm_say ''API key regeneration did not return a key.'' q))
             cm_say ''Failed to regenerate API key.'' ''Network error regenerating API key.'' w p)"

definition handleCopyApiKey :: "string \<Rightarrow> browser \<times> company_page \<Rightarrow> browser \<times> company_page" where
  "handleCopyApiKey key wp =
     ((fst wp)\<lparr>clipboard := clipboard (fst wp) @ [key]\<rparr>,
      (snd wp)\<lparr>cm_copied := showToast_for 2000 ''Copied'' (cm_copied (snd wp))\<rparr>)"

subsection \<open>Provisioning a tenant\<close>

text \<open>\<open>code.toUpperCase().replace(/\s+/g, '_')\<close>\<close>

function underscores :: "string \<Rightarrow> string" where
  "underscores [] = []"
| "underscores (c # s) = (if is_ws c then CHR ''_'' # underscores (dropWhile is_ws s) else c # underscores s)"
  by pat_completeness auto

termination underscores
  by (relation "measure length") (auto simp: le_imp_less_Suc length_dropWhile_le)

definition tenant_code :: "string \<Rightarrow> string" where
  "tenant_code code = underscores (toUpperCase code)"

definition company_body :: "company_form \<Rightarrow> jsval" where
  "company_body f =
     JObj [(''name'', JStr (cf_name f)), (''code'', JStr (tenant_code (cf_code f))),
           (''contactPerson'', JStr (cf_contactPerson f)), (''contactEmail'', JStr (cf_contactEmail f)),
           (''contactPhone'', JStr (cf_contactPhone f)), (''dbShard'', JStr (cf_dbShard f)),
           (''status'', JStr (if cf_status f = [] then ''Active'' else cf_status f)),
           (''maxDevices'', quota (cf_maxDevices f)), (''maxUsers'', quota (cf_maxUsers f)),
           (''siraRelay'', JBool (cf_siraRelay f)), (''city'', JStr (cf_city f)), (''address'', JStr (cf_address f))]"

definition provisioned_message :: "company_form \<Rightarrow> response \<Rightarrow> string" where
  "provisioned_message f res =
     (let key = jopt (json_or (JObj []) res) ''apiKey''; org = ''Organization '' @ [QUOT] @ cf_name f @ [QUOT]
      in if truthy key then org @ '' provisioned. API key: '' @ js_to_string key
         else org @ '' provisioned in PostgreSQL database.'')"

definition company_named :: "company_page \<Rightarrow> bool" where
  "company_named p = (cf_name (newCompany p) \<noteq> [] \<and> cf_code (newCompany p) \<noteq> [])"

definition post_company :: "browser \<Rightarrow> company_page \<Rightarrow> browser \<times> company_page" where
  "post_company w p =
     submit_answer res_ok (throwing null_body fetchWithAdminAuth) ''/api/v1/admin/companies''
       (plain_json ''POST'' (company_body (newCompany p)))
       (\<lambda>res (w1, q). loadTenants (w1, (cm_say (provisioned_message (newCompany q) res) q)
                         \<lparr>createOpen := False, newCompany := blank_company\<rparr>))
       cm_say ''Failed to create organization in database.'' ''Network error provisioning organization.'' w p"

definition handleCreateCompany :: "browser \<Rightarrow> company_page \<Rightarrow> browser \<times> company_page" where
  "handleCreateCompany w p =
     (if company_named p then post_company w p
      else (w, p\<lparr>cm_alerts := cm_alerts p @ [''Please enter both Company Name and Tenant Code.'']\<rparr>))"

subsection \<open>Search, filter, metrics\<close>

definition company_matches :: "company_page \<Rightarrow> jsval \<Rightarrow> bool" where
  "company_matches p c =
     (let query = toLowerCase (cm_search p); low = (\<lambda>k. toLowerCase (str_or (str_field c k) []))
      in (str_includes (low ''name'') query \<or> str_includes (low ''code'') query \<or>
          str_includes (low ''contactPerson'') query \<or> str_includes (low ''contactEmail'') query) \<and>
         (cm_status p = ''ALL'' \<or> jopt c ''status'' = JStr (cm_status p)))"

definition filteredCompanies :: "company_page \<Rightarrow> jsval list" where
  "filteredCompanies p = filter (company_matches p) (cm_companies p)"

text \<open>The count beside a status filter.\<close>

definition filter_count :: "company_page \<Rightarrow> string \<Rightarrow> nat" where
  "filter_count p f =
     (if f = ''ALL'' then length (cm_companies p)
      else length (filter (\<lambda>c. jopt c ''status'' = JStr f) (cm_companies p)))"

text \<open>\<open>c.k || 0\<close>, and \<open>reduce\<close>.\<close>

definition num_or_zero_of :: "jsval \<Rightarrow> string \<Rightarrow> real" where
  "num_or_zero_of c k = (case num_field c k of None \<Rightarrow> 0 | Some x \<Rightarrow> x)"

definition sum_field :: "string \<Rightarrow> jsval list \<Rightarrow> real" where
  "sum_field k cs = foldl (\<lambda>acc c. acc + num_or_zero_of c k) 0 cs"

definition totalTrackers :: "company_page \<Rightarrow> real" where
  "totalTrackers p = num_else (num_field (cm_dashboard p) ''totalDevices'') (sum_field ''devices'' (cm_companies p))"

definition totalMaxTrackers :: "company_page \<Rightarrow> real" where
  "totalMaxTrackers p = sum_field ''maxDevices'' (cm_companies p)"

definition totalUsers :: "company_page \<Rightarrow> real" where
  "totalUsers p = num_else (num_field (cm_dashboard p) ''systemUsers'')
     (num_else (num_field (cm_stats p) ''systemUsers'') (sum_field ''users'' (cm_companies p)))"

definition totalTenants :: "company_page \<Rightarrow> real" where
  "totalTenants p = num_else (num_field (cm_stats p) ''totalTenants'')
     (num_else (num_field (cm_dashboard p) ''totalTenants'') (of_nat (length (cm_companies p))))"

definition capacityPercent :: "company_page \<Rightarrow> int option" where
  "capacityPercent p =
     (if totalMaxTrackers p > 0 then Some (js_round (totalTrackers p / totalMaxTrackers p * 100)) else None)"

text \<open>The gauge of one tenant's card.\<close>

definition usagePercent :: "jsval \<Rightarrow> int" where
  "usagePercent c =
     (let m = num_or_zero_of c ''maxDevices''
      in if m > 0 then min 100 (js_round (num_or_zero_of c ''devices'' / m * 100)) else 0)"

subsection \<open>Facts\<close>

lemma cm_say_simps [simp]:
  "newCompany (cm_say m p) = newCompany p" "t_msg (cm_toast (cm_say m p)) = Some m" "editForm (cm_say m p) = editForm p"
  by (simp_all add: cm_say_def)

lemma try_blocks_keeps:
  assumes "list_all (\<lambda>b. case b of Inl e \<Rightarrow> True | Inr f \<Rightarrow> \<forall>p. g (f p) = g p) bs"
  shows "g (try_blocks bs p) = g p"
  using assms by (induction bs p rule: try_blocks.induct) auto

lemma block_keeps: "(\<And>x p. g (upd x p) = g p) \<Longrightarrow> case block r upd of Inl e \<Rightarrow> True | Inr f \<Rightarrow> \<forall>p. g (f p) = g p"
  by (auto simp: block_def split: sum.splits option.splits)

lemma loadTenants_keeps:
  assumes "\<And>x p. g (p\<lparr>cm_companies := x\<rparr>) = g p" "\<And>x p. g (p\<lparr>cm_stats := x\<rparr>) = g p" "\<And>x p. g (p\<lparr>cm_dashboard := x\<rparr>) = g p"
    "\<And>x p. g (p\<lparr>cm_loading := x\<rparr>) = g p"
  shows "g (snd (loadTenants wp)) = g (snd wp)"
proof -
  have "g (try_blocks (company_blocks rs) p) = g p" for rs p
    by (rule try_blocks_keeps) (simp add: company_blocks_def block_keeps [where g = g] assms)
  then show ?thesis by (simp add: loadTenants_def Let_def split_beta assms split: sum.splits)
qed

lemma loadTenants_form [simp]:
  "newCompany (snd (loadTenants wp)) = newCompany (snd wp)" "editForm (snd (loadTenants wp)) = editForm (snd wp)"
  by (rule loadTenants_keeps; simp)+

interpretation company_entry: create_form handleCreateCompany company_named res_ok "throwing null_body fetchWithAdminAuth"
  "''/api/v1/admin/companies''" "\<lambda>p. plain_json ''POST'' (company_body (newCompany p))" newCompany blank_company
  "\<lambda>p. t_msg (cm_toast p)"
  by (rule create_formI [OF post_company_def]) (simp_all add: handleCreateCompany_def split_beta)

text \<open>The code that is posted: upper case, no white space, and normalising it again changes nothing.\<close>

definition normal_code :: "string \<Rightarrow> bool" where
  "normal_code s = list_all (\<lambda>c. \<not> is_ws c \<and> upper_char c = c) s"

lemma upper_upper [simp]: "upper_char (upper_char c) = upper_char c"
proof -
  have "(of_char (upper_char c) :: nat) < 97 \<or> 122 < (of_char (upper_char c) :: nat)"
    by (auto simp: upper_char_def of_char_of)
  then show ?thesis by (subst (1) upper_char_def) auto
qed

lemma underscores_normal: "list_all (\<lambda>c. upper_char c = c) s \<Longrightarrow> normal_code (underscores s)"
proof (induction s rule: underscores.induct)
  case (2 c s)
  have "list_all (\<lambda>c. upper_char c = c) (dropWhile is_ws s)"
    using "2.prems" by (auto simp: list_all_iff dest: set_dropWhileD)
  with 2 show ?case by (auto simp: normal_code_def is_ws_def upper_char_def)
qed (simp add: normal_code_def)

lemma underscores_id: "list_all (\<lambda>c. \<not> is_ws c) s \<Longrightarrow> underscores s = s"
  by (induction s) auto

lemma tenant_code_normal: "normal_code (tenant_code s)"
  unfolding tenant_code_def by (rule underscores_normal) (simp add: toUpperCase_def list_all_iff)

lemma tenant_code_id: "normal_code s \<Longrightarrow> tenant_code s = s"
proof -
  assume n: "normal_code s"
  then have "toUpperCase s = s" by (simp add: normal_code_def toUpperCase_def list_all_iff map_idI)
  with n show ?thesis by (simp add: tenant_code_def normal_code_def list_all_iff underscores_id)
qed

lemma tenant_code_empty: "tenant_code s = [] \<longleftrightarrow> s = []"
  by (cases s) (auto simp: tenant_code_def toUpperCase_def)

text \<open>A code of blanks alone passes the check and becomes an underscore.\<close>

lemma blank_code_accepted: "tenant_code ''   '' = ''_''"
  by (simp add: tenant_code_def toUpperCase_def upper_char_def is_ws_def)

definition code_posted :: "jsval \<Rightarrow> bool" where
  "code_posted v = (case jopt v ''code'' of JStr c \<Rightarrow> normal_code c \<and> c \<noteq> [] \<and> tenant_code c = c | _ \<Rightarrow> False)"

lemma loadTenants_checked: "adds_only (checked_post P) w (fst (loadTenants (w, p)))"
  using checked.fetch_all_run by (simp add: loadTenants_def split_beta Let_def)

lemma sum_field_eq: "sum_field k cs = sum_list (map (\<lambda>c. num_or_zero_of c k) cs)"
proof -
  have "foldl (\<lambda>acc c. acc + num_or_zero_of c k) a cs = a + sum_list (map (\<lambda>c. num_or_zero_of c k) cs)" for a
    by (induction cs arbitrary: a) simp_all
  then show ?thesis by (simp add: sum_field_def)
qed

text \<open>A tenant within its quota.\<close>

definition within_quota :: "jsval \<Rightarrow> bool" where
  "within_quota c = (0 \<le> num_or_zero_of c ''devices'' \<and> num_or_zero_of c ''devices'' \<le> num_or_zero_of c ''maxDevices'')"

lemma percent_bounds: "0 \<le> x \<Longrightarrow> x \<le> m \<Longrightarrow> 0 < m \<Longrightarrow> 0 \<le> js_round (x / m * 100) \<and> js_round (x / m * 100) \<le> 100"
  using js_round_mono [of 0 "x / m * 100"] js_round_mono [of "x / m * 100" 100] js_round_int [of 0] js_round_int [of 100]
  by (simp add: field_simps)

subsection \<open>Properties\<close>

text \<open>An organization is provisioned under a normal code. Whatever was typed and whatever the network answers,
  every request a submit of the form adds is a load or the post of a code that is not empty, has no white
  space and no lower-case letter, so that normalising it again (a second submit of the same code, or of the
  same code in another spelling) gives the same text.\<close>

theorem provisioned_code_normal: "adds_only (checked_post code_posted) w (fst (handleCreateCompany w p))"
proof (cases "company_named p")
  case True
  then have "code_posted (company_body (newCompany p))"
    using tenant_code_normal tenant_code_id
    by (simp add: company_named_def company_body_def code_posted_def tenant_code_empty)
  then show ?thesis
    unfolding handleCreateCompany_def post_company_def
    by (auto simp: True plain_json_def split_beta fetchWithAdminAuth_def
        intro!: checked.submit_run_of checked.await_run loadTenants_checked)
qed (simp add: handleCreateCompany_def)

text \<open>The capacity figures are percentages. When every tenant is within its quota, the share of the platform's
  capacity (as long as the dashboard's own count is not loaded) is between 0 and 100, and so is every
  tenant's gauge.\<close>

theorem capacity_is_percentage:
  assumes "list_all within_quota (cm_companies p)" and "num_field (cm_dashboard p) ''totalDevices'' = None"
  shows "list_all (\<lambda>n. 0 \<le> n \<and> n \<le> 100) (case capacityPercent p of None \<Rightarrow> [] | Some n \<Rightarrow> [n]) \<and>
    list_all (\<lambda>c. 0 \<le> usagePercent c \<and> usagePercent c \<le> 100) (cm_companies p)"
proof -
  let ?d = "sum_field ''devices'' (cm_companies p)" and ?m = "sum_field ''maxDevices'' (cm_companies p)"
  have "0 \<le> ?d" "?d \<le> ?m"
    using assms(1) by (auto simp: sum_field_eq list_all_iff within_quota_def intro!: sum_list_nonneg sum_list_mono)
  moreover have "0 \<le> usagePercent c \<and> usagePercent c \<le> 100" if "within_quota c" for c
    using that percent_bounds by (auto simp: usagePercent_def within_quota_def Let_def)
  ultimately show ?thesis
    using assms percent_bounds [of ?d ?m]
    by (auto simp: capacityPercent_def totalTrackers_def totalMaxTrackers_def num_else_def list_all_iff)
qed

theorem capacity_is_percentage_witness:
  "capacityPercent (company_initial\<lparr>cm_companies := [JObj [(''devices'', JNum 3), (''maxDevices'', JNum 4)]]\<rparr>) = Some 75
   \<and> list_all (\<lambda>n. 0 \<le> n \<and> n \<le> 100) (case capacityPercent
        (company_initial\<lparr>cm_companies := [JObj [(''devices'', JNum 3), (''maxDevices'', JNum 4)]]\<rparr>) of None \<Rightarrow> [] | Some n \<Rightarrow> [n])"
proof -
  let ?p = "company_initial\<lparr>cm_companies := [JObj [(''devices'', JNum 3), (''maxDevices'', JNum 4)]]\<rparr>"
  have "list_all within_quota (cm_companies ?p)" by (simp add: within_quota_def num_or_zero_of_def)
  moreover have "num_field (cm_dashboard ?p) ''totalDevices'' = None" by (simp add: company_initial_def)
  moreover have "capacityPercent ?p = Some 75"
    using js_round_int [of 75]
    by (simp add: capacityPercent_def totalTrackers_def totalMaxTrackers_def num_else_def company_initial_def sum_field_def
        num_or_zero_of_def)
  ultimately show ?thesis using capacity_is_percentage [of ?p] by blast
qed

text \<open>Replacing the API key: the dialog shows a new key only when the server returned it, and the rest of
  its draft stays.\<close>

lemma regenerated_key_is_servers:
  "editForm (snd (handleRegenerateKey w p)) = editForm p \<or>
   (\<exists>res. snd (fetchWithAdminAuth w (company_endpoint (selectedCompany p)) (plain_json ''PUT'' (JObj [(''regenerateKey'', JBool True)]))) = Inr res
     \<and> res_ok res \<and> truthy (jopt (json_or (JObj []) res) ''apiKey'')
     \<and> editForm (snd (handleRegenerateKey w p)) = with_field ''apiKey'' (jopt (json_or (JObj []) res) ''apiKey'') (editForm p))"
  by (auto simp: handleRegenerateKey_def submit_answer_def throwing_def split_beta Let_def set_edit_def split: sum.splits)

end
