(* ===== verification/Admin_Console.thy ===== *)
theory Admin_Console
  imports Role_Rights Device_Master Company_Manager
begin

section \<open>The superadmin console as a whole\<close>

text \<open>
  \<open>admin/src/App.tsx\<close>: the routes, titles and navigation bar around the pages, and the steps the console can
  make: the operations of all its pages in any order. The router is a parameter as in the client's shell;
  \<open>admin_first_match\<close> is exact matching with \<open>*\<close> as the last resort.
\<close>

subsection \<open>Routes and titles\<close>

datatype admin_element = Admin_Page string | Go_To string

definition admin_routes :: "(string \<times> admin_element) list" where
  "admin_routes =
     [(''/companies'', Admin_Page ''CompanyManagerPage''), (''/devices'', Admin_Page ''DeviceMasterPage''),
      (''/extensions'', Admin_Page ''ExtensionManagerPage''), (''/billing'', Admin_Page ''BillingMasterPage''),
      (''/warranty'', Admin_Page ''WarrantyMasterPage''), (''/raw-data'', Admin_Page ''RawDataPage''),
      (''/toll-data'', Admin_Page ''TollMasterPage''), (''/roles'', Admin_Page ''RoleRightsPage''),
      (''/masters'', Admin_Page ''MastersPage''), (''*'', Go_To ''/companies'')]"

definition admin_titles :: "(string \<times> string) list" where
  "admin_titles =
     [(''/companies'', ''Organization & Tenant Registry''), (''/devices'', ''Device & SIM Master''),
      (''/extensions'', ''Subscription Validity Extensions''), (''/billing'', ''Invoicing & SaaS Billing''),
      (''/warranty'', ''Hardware Warranty & AMC''), (''/raw-data'', ''Raw Socket Packet Inspector''),
      (''/toll-data'', ''Toll Plaza & Salik Gate Master''), (''/roles'', ''Module Rights & Permissions Matrix''),
      (''/masters'', ''System Lookup Masters'')]"

definition admin_title :: "string \<Rightarrow> string" where
  "admin_title path =
     ''RudraNetra '' @ MIDDOT @ '' '' @ (case map_of admin_titles path of Some t \<Rightarrow> t | None \<Rightarrow> ''SuperAdmin Console'')"

definition admin_links :: "(string \<times> string) list" where
  "admin_links =
     [(''/companies'', ''Tenants & Orgs''), (''/devices'', ''Devices & SIMs''), (''/extensions'', ''Validity Extensions''),
      (''/billing'', ''Billing & Invoices''), (''/warranty'', ''Warranty & AMC''), (''/raw-data'', ''Raw Socket Packets''),
      (''/toll-data'', ''Toll & Salik Master''), (''/roles'', ''Role Rights Matrix''), (''/masters'', ''Lookup Masters'')]"

definition user_label :: "jsval \<Rightarrow> string" where
  "user_label u = str_or (str_field u ''full_name'') (str_or (str_field u ''username'') [])"

definition user_line :: "jsval \<Rightarrow> string" where
  "user_line u =
     (if truthy (jopt u ''email'') then ''SuperAdmin '' @ MIDDOT @ '' '' @ js_to_string (jopt u ''email'') else ''SuperAdmin'')"

definition admin_first_match :: "(string \<times> admin_element) list \<Rightarrow> string \<Rightarrow> admin_element" where
  "admin_first_match tbl path = (case map_of tbl path of Some e \<Rightarrow> e | None \<Rightarrow> the (map_of tbl ''*''))"

text \<open>What is rendered within \<open>n\<close> renders: the redirect notice without a session, else the route's page.\<close>

fun admin_screen ::
  "nat \<Rightarrow> ((string \<times> admin_element) list \<Rightarrow> string \<Rightarrow> admin_element) \<Rightarrow> admin_session \<Rightarrow> string \<Rightarrow> string option" where
  "admin_screen 0 match ss path = None"
| "admin_screen (Suc n) match ss path =
     (if \<not> admin_console_shown ss then Some ''Redirecting''
      else (case match admin_routes path of
              Admin_Page pg \<Rightarrow> Some pg
            | Go_To t \<Rightarrow> admin_screen n match ss t))"

text \<open>Every address shows a page within two renders, and every link of the bar its own page, with a title.\<close>

lemma admin_link_pages:
  "as_auth ss \<Longrightarrow>
   list_all (\<lambda>(to, label). admin_screen 1 admin_first_match ss to \<noteq> None \<and> map_of admin_titles to \<noteq> None) admin_links"
  by (simp add: admin_links_def admin_first_match_def admin_routes_def admin_titles_def admin_console_shown_def)

lemma admin_screen_total: "admin_screen 2 admin_first_match ss path \<noteq> None"
proof -
  have "admin_screen 1 admin_first_match ss ''/companies'' \<noteq> None"
    by (simp add: admin_first_match_def admin_routes_def)
  moreover have "admin_first_match admin_routes path = Go_To t \<Longrightarrow> t = ''/companies''" for t
    by (auto simp: admin_first_match_def admin_routes_def split: if_splits)
  ultimately show ?thesis by (auto simp: numeral_2_eq_2 split: admin_element.splits)
qed

subsection \<open>What a run of the console does to its session\<close>

definition EXPIRED :: string where
  "EXPIRED = ''rudra:superadmin:auth_expired''"

definition session_token :: "browser \<Rightarrow> string" where
  "session_token w = (case getSuperAdminToken w of Inl e \<Rightarrow> [] | Inr t \<Rightarrow> t)"

text \<open>A request carries the token \<open>t\<close>; without a token it has no authorization header at all.\<close>

definition carries :: "string \<Rightarrow> request \<Rightarrow> bool" where
  "carries t q = (header_get ''Authorization'' (rq_headers q) = (if t = [] then None else Some (''Bearer '' @ t)))"

text \<open>
  First the requests of the session, then those after its end; the end is a cleared token and the event
  that \<open>App\<close> answers with the redirect to the login page.
\<close>

definition console_run :: "browser \<Rightarrow> browser \<Rightarrow> bool" where
  "console_run w w' =
     (\<exists>qs rs. sent w' = sent w @ qs @ rs \<and> list_all (carries (session_token w)) qs \<and> list_all (carries []) rs \<and>
        set (events w) \<subseteq> set (events w') \<and>
        (if session_token w' = session_token w \<and> rs = [] then True
         else session_token w' = [] \<and> EXPIRED \<in> set (events w')))"

definition bare_options :: "options \<Rightarrow> bool" where
  "bare_options opt = (header_get ''Authorization'' (new_Headers (o_headers opt)) = None)"

lemma console_run_refl: "console_run w w"
  by (simp add: console_run_def)

lemma console_runI:
  assumes "sent w' = sent w @ qs @ rs" and "list_all (carries (session_token w)) qs" and "list_all (carries []) rs"
    and "set (events w) \<subseteq> set (events w')"
    and "session_token w' = session_token w \<and> rs = [] \<or> session_token w' = [] \<and> EXPIRED \<in> set (events w')"
  shows "console_run w w'"
  unfolding console_run_def using assms by (intro exI [of _ qs] exI [of _ rs]) metis

lemma console_run_trans:
  assumes "console_run u v" and "console_run v w"
  shows "console_run u w"
proof -
  obtain qs rs where 1: "sent v = sent u @ qs @ rs" "list_all (carries (session_token u)) qs" "list_all (carries []) rs"
    "set (events u) \<subseteq> set (events v)"
    "if session_token v = session_token u \<and> rs = [] then True else session_token v = [] \<and> EXPIRED \<in> set (events v)"
    using assms(1) unfolding console_run_def by blast
  obtain qs' rs' where 2: "sent w = sent v @ qs' @ rs'" "list_all (carries (session_token v)) qs'" "list_all (carries []) rs'"
    "set (events v) \<subseteq> set (events w)"
    "if session_token w = session_token v \<and> rs' = [] then True else session_token w = [] \<and> EXPIRED \<in> set (events w)"
    using assms(2) unfolding console_run_def by blast
  have ev: "set (events u) \<subseteq> set (events w)" using 1(4) 2(4) by blast
  show ?thesis
  proof (cases "session_token v = session_token u \<and> rs = []")
    case True
    then have "sent w = sent u @ (qs @ qs') @ rs'" "list_all (carries (session_token u)) (qs @ qs')"
      using 1(1,2) 2(1,2) by simp_all
    moreover have "session_token w = session_token u \<and> rs' = [] \<or> session_token w = [] \<and> EXPIRED \<in> set (events w)"
      using 2(5) True by (metis (full_types))
    ultimately show ?thesis using 2(3) ev by (intro console_runI)
  next
    case False
    then have v: "session_token v = []" "EXPIRED \<in> set (events v)" using 1(5) by (simp_all only: if_False)
    then have "sent w = sent u @ qs @ (rs @ qs' @ rs')" "list_all (carries []) (rs @ qs' @ rs')"
      using 1(1,3) 2(1,2,3) by simp_all
    moreover have "session_token w = []" using 2(5) v(1) by (cases "session_token w = []") auto
    then have "session_token w = session_token u \<and> rs @ qs' @ rs' = [] \<or> session_token w = [] \<and> EXPIRED \<in> set (events w)"
      using v(2) 2(4) by blast
    ultimately show ?thesis using 1(2) ev by (intro console_runI)
  qed
qed

lemma carries_request: "bare_options opt \<Longrightarrow> carries t (admin_request w t e opt)"
  by (simp add: carries_def bare_options_def admin_request_def Let_def content_type_keeps_authorization header_get_set)

interpretation console: fetch_run admin_send admin_settle console_run bare_options
proof unfold_locales
  fix opt w e assume opt: "bare_options opt"
  show "console_run w (fst (admin_send w e opt))"
  proof (cases "getSuperAdminToken w")
    case (Inr t)
    have "getSuperAdminToken (fst (fetch w q)) = getSuperAdminToken w" for q
      by (simp add: getSuperAdminToken_def getItem_def)
    then show ?thesis
      using carries_request [OF opt, of t w e]
      by (intro console_runI [of _ _ "[admin_request w t e opt]" "[]"]) (simp_all add: admin_send_def Inr session_token_def)
  qed (simp add: admin_send_def console_run_refl)
next
  fix a w
  have cleared: "session_token ((clearSuperAdminAuth w)\<lparr>events := es\<rparr>) = []" for es
    by (simp add: session_token_def getSuperAdminToken_def getItem_def clearSuperAdminAuth_def remove_items_def key_defs str_truthy_def)
  have "sent (clearSuperAdminAuth w) = sent w" by (simp add: clearSuperAdminAuth_def)
  then have "console_run w ((clearSuperAdminAuth w)\<lparr>events := events w @ [EXPIRED]\<rparr>)"
    by (intro console_runI [of _ _ "[]" "[]"]) (auto simp: cleared)
  then show "console_run w (admin_settle a w)"
    by (simp add: admin_settle_def EXPIRED_def console_run_refl split: sum.splits)
qed (auto simp: console_run_refl bare_options_def header_get_def new_Headers_def map_get_def GET_def intro: console_run_trans)

subsection \<open>Every operation of every page\<close>

inductive admin_step :: "browser \<Rightarrow> browser \<Rightarrow> bool" where
  tenants: "admin_step w (fst (loadTenants (w, pc)))"
| tenant: "admin_step w (fst (handleCreateCompany w pc))"
| tenant_save: "admin_step w (fst (handleSaveManage w pc))"
| tenant_key: "admin_step w (fst (handleRegenerateKey w pc))"
| tenant_copy: "admin_step w (fst (handleCopyApiKey key (w, pc)))"
| inventory: "admin_step w (fst (loadInventory (w, pd)))"
| inventory_options: "admin_step w (fst (inventory_loadOptions (w, pd)))"
| tracker: "admin_step w (fst (handleProvision w pd))"
| tracker_edit: "admin_step w (fst (handleUpdateDevice w pd))"
| extensions: "admin_step w (fst (loadExtensions (w, pe)))"
| extension_companies: "admin_step w (fst (extensions_loadCompanies (w, pe)))"
| extension: "admin_step w (fst (handleCreateExtension w pe))"
| billing: "admin_step w (fst (loadBilling (w, pb)))"
| billing_companies: "admin_step w (fst (billing_loadCompanies (w, pb)))"
| invoice: "admin_step w (fst (handleCreateInvoice w pb))"
| warranties: "admin_step w (fst (loadWarranty (w, pw)))"
| warranty_options: "admin_step w (fst (warranty_loadOptions (w, pw)))"
| warranty: "admin_step w (fst (handleCreateWarranty w pw))"
| packets: "admin_step w (fst (raw_step ev (w, pr)))"
| tolls: "admin_step w (fst (loadTolls (w, pt)))"
| toll: "admin_step w (fst (handleCreateToll w pt))"
| roles: "admin_step w (fst (loadRoles (w, po)))"
| roles_save: "admin_step w (fst (roles_handleSave w po))"
| masters: "admin_step w (fst (loadMasters (w, pm)))"
| masters_tab: "admin_step w (fst (setActiveType t (w, pm)))"
| master: "admin_step w (fst (handleCreateMaster w pm))"
| master_edit: "admin_step w (fst (handleUpdateMaster w pm))"
| master_gone: "admin_step w (fst (handleDeleteMaster ok i w pm))"

inductive_cases admin_stepE: "admin_step w w'"

lemma bare_simps [simp]: "bare_options GET" "bare_options (no_body m)" "bare_options (send_json m v)" "bare_options (plain_json m v)"
  by (simp_all add: bare_options_def header_get_def new_Headers_def map_get_def GET_def no_body_def send_json_def plain_json_def
      json_headers_def set_all_def toLowerCase_def lower_char_def)

lemmas console_await = console.await_run [folded fetchWithAdminAuth_def]

lemmas console_load = console.load_one_run [folded fetchWithAdminAuth_def]

lemmas console_submit = console.submit_run [folded fetchWithAdminAuth_def]

lemma console_loads:
  "console_run w (fst (loadTenants (w, pc)))" "console_run w (fst (loadInventory (w, pd)))"
  "console_run w (fst (loadExtensions (w, pe)))" "console_run w (fst (loadBilling (w, pb)))"
  "console_run w (fst (loadWarranty (w, pw)))" "console_run w (fst (loadPackets (w, pr)))"
  "console_run w (fst (loadTolls (w, pt)))" "console_run w (fst (loadRoles (w, po)))"
  "console_run w (fst (loadMasters (w, pm)))"
  by (simp_all add: loadTenants_def loadInventory_def loadExtensions_def loadBilling_def loadWarranty_def loadPackets_def
      loadTolls_def loadRoles_def loadMasters_def split_beta Let_def console_load console_await console.fetch_all_run)

lemma console_options:
  "console_run w (fst (inventory_loadOptions (w, pd)))" "console_run w (fst (extensions_loadCompanies (w, pe)))"
  "console_run w (fst (billing_loadCompanies (w, pb)))" "console_run w (fst (warranty_loadOptions (w, pw)))"
  by (simp_all add: inventory_loadOptions_def extensions_loadCompanies_def billing_loadCompanies_def warranty_loadOptions_def
      console_load console.load_all_run)

lemma console_forms:
  "console_run w (fst (handleProvision w pd))" "console_run w (fst (handleUpdateDevice w pd))"
  "console_run w (fst (handleCreateExtension w pe))" "console_run w (fst (handleCreateInvoice w pb))"
  "console_run w (fst (handleCreateWarranty w pw))" "console_run w (fst (handleCreateToll w pt))"
  "console_run w (fst (handleCreateMaster w pm))" "console_run w (fst (handleUpdateMaster w pm))"
  "console_run w (fst (handleDeleteMaster ok i w pm))"
  unfolding handleProvision_def handleUpdateDevice_def handleCreateExtension_def handleCreateInvoice_def
    handleCreateWarranty_def handleCreateToll_def handleCreateMaster_def handleUpdateMaster_def handleDeleteMaster_def
  by (auto simp: split_beta console_run_refl console_loads split: option.splits intro!: console_submit)

lemma console_tenant_forms:
  "console_run w (fst (handleCreateCompany w pc))" "console_run w (fst (handleSaveManage w pc))"
  "console_run w (fst (handleRegenerateKey w pc))"
  unfolding handleCreateCompany_def post_company_def handleSaveManage_def handleRegenerateKey_def
  by (auto simp: split_beta Let_def console_run_refl console_loads console_await intro!: console.submit_run_of)

lemma console_save_roles: "console_run w (fst (save_roles p rs n w))"
proof (induction rs arbitrary: n w)
  case (Cons r rs)
  have "console_run w (fst (fetchWithAdminAuth w (role_endpoint r) (role_body p r)))"
    by (rule console_await) (simp add: role_body_def)
  from console_run_trans [OF this Cons] show ?case by (simp add: split_beta Let_def)
qed (simp add: console_run_refl)

lemma admin_step_run: "admin_step w w' \<Longrightarrow> console_run w w'"
proof (erule admin_stepE)
  fix ev pr assume "w' = fst (raw_step ev (w, pr))"
  then show ?thesis by (cases ev) (auto simp: console_run_refl console_loads)
next
  fix po assume "w' = fst (roles_handleSave w po)"
  then show ?thesis
    by (auto simp: roles_handleSave_def split_beta Let_def console_run_refl
        intro: console_run_trans [OF console_save_roles console_loads(8)])
next
  fix key pc assume "w' = fst (handleCopyApiKey key (w, pc))"
  moreover have "session_token (w\<lparr>clipboard := c\<rparr>) = session_token w" for c
    by (simp add: session_token_def getSuperAdminToken_def getItem_def)
  ultimately show ?thesis by (intro console_runI [of _ _ "[]" "[]"]) (auto simp: handleCopyApiKey_def)
qed (auto simp: console_loads console_options console_forms console_tenant_forms setActiveType_def console_run_refl)

subsection \<open>Properties\<close>

text \<open>C2: the superadmin token is sent by no page after the session has ended. In every sequence of operations of the
  console's pages, with every behaviour of the network, the requests are first some that carry the token the
  session started with, then some without any authorization header; and either the token is unchanged and
  there are none of the second kind, or it is gone from the store and the event that sends the user to the
  login page was raised.\<close>

theorem admin_requests_authorised:
  assumes "admin_step\<^sup>*\<^sup>* w w'"
  shows "\<exists>qs rs. sent w' = sent w @ qs @ rs \<and> list_all (carries (session_token w)) qs \<and> list_all (carries []) rs \<and>
    (if session_token w' = session_token w \<and> rs = [] then True
     else session_token w' = [] \<and> EXPIRED \<in> set (events w'))"
proof -
  from assms have "console_run w w'"
    by (induction rule: rtranclp_induct) (auto intro: console_run_refl console_run_trans admin_step_run)
  then show ?thesis unfolding console_run_def by blast
qed

definition demo_console :: "(request list \<Rightarrow> request \<Rightarrow> string + response) \<Rightarrow> browser" where
  "demo_console n = (fresh_browser n)\<lparr>storage := [TOKEN_KEY \<mapsto> ''tok'']\<rparr>"

theorem admin_requests_authorised_witness:
  "\<exists>w'. admin_step\<^sup>*\<^sup>* (demo_console (answer 401 JNull)) w' \<and> length (sent w') = 1 \<and> EXPIRED \<in> set (events w')"
proof -
  let ?w = "demo_console (answer 401 JNull)"
  let ?w' = "fst (loadTolls (?w, tolls_initial))"
  have run: "admin_step\<^sup>*\<^sup>* ?w ?w'" by (rule r_into_rtranclp) (rule admin_step.tolls)
  have get: "getSuperAdminToken ?w = Inr ''tok''"
    by (simp add: demo_console_def getSuperAdminToken_def getItem_def str_truthy_def fresh_browser_def)
  have w': "?w' = fst (fetchWithAdminAuth ?w ''/api/v1/admin/toll-data'' GET)"
    by (simp add: loadTolls_def load_one_eq split_beta Let_def)
  have len: "length (sent ?w') = 1"
  proof -
    have "\<not> ls_blocked ?w" "sent ?w = []" by (simp_all add: demo_console_def fresh_browser_def)
    with admin_fetch_log(1) [of ?w "''/api/v1/admin/toll-data''" GET] show ?thesis unfolding w' by auto
  qed
  have "getSuperAdminToken ?w' = Inr []"
    unfolding w'
    by (simp add: fetchWithAdminAuth_cases get clearSuperAdminAuth_def fetch_def)
      (simp add: answer_def demo_console_def clearSuperAdminAuth_def getSuperAdminToken_def getItem_def remove_items_def key_defs str_truthy_def fresh_browser_def)
  then have "session_token ?w' = []" "session_token ?w = ''tok''" by (simp_all add: session_token_def get)
  then show ?thesis using admin_requests_authorised [OF run] run len by fastforce
qed


end
