(* ===== verification/Bytes.thy ===== *)
theory Bytes
  imports Js_Prelude "HOL-Library.Word"
begin

section \<open>Bytes, big-endian numbers, and Node's Buffer\<close>

text \<open>
  What the device simulator and the ingestion server do with bytes. A byte is an \<open>8 word\<close>, a \<open>Buffer\<close> (Node)
  and a \<open>[]byte\<close> (Go) a list of bytes. \<open>be_bytes k n\<close> are the \<open>k\<close> bytes of \<open>n\<close>, most significant first, and
  \<open>be_nat\<close> reads them back. The \<open>write...\<close> methods of \<open>Buffer\<close> throw when the value or the offset is out of
  range; the lemmas on \<open>fill\<close> describe a buffer that is allocated once and then written from left to right.
\<close>

type_synonym byte = "8 word"

subsection \<open>Big-endian numbers\<close>

fun be_bytes :: "nat \<Rightarrow> nat \<Rightarrow> byte list" where
  "be_bytes 0 n = []"
| "be_bytes (Suc k) n = be_bytes k (n div 256) @ [of_nat n]"

definition be_nat :: "byte list \<Rightarrow> nat" where
  "be_nat bs = foldl (\<lambda>a b. 256 * a + unat b) 0 bs"

lemma length_be_bytes [simp]: "length (be_bytes k n) = k"
  by (induction k arbitrary: n) auto

lemma be_nat_simps [simp]: "be_nat [] = 0" "be_nat (bs @ [b]) = 256 * be_nat bs + unat b"
  by (simp_all add: be_nat_def)

lemma unat_byte_of_nat [simp]: "unat (of_nat n :: byte) = n mod 256"
  by (simp add: unat_of_nat)

lemma unat_byte_less [simp]: "unat (b :: byte) < 256"
  using unsigned_less [of b, where ?'a = nat] by simp

lemma be_nat_be_bytes: "be_nat (be_bytes k n) = n mod 256 ^ k"
proof (induction k arbitrary: n)
  case (Suc k)
  then show ?case
    by (simp add: mod_mult2_eq mult.commute)
qed simp

lemma be_nat_be_bytes_id [simp]: "n < 256 ^ k \<Longrightarrow> be_nat (be_bytes k n) = n"
  by (simp add: be_nat_be_bytes)

lemma be_bytes_be_nat: "be_bytes (length bs) (be_nat bs) = bs"
proof (induction bs rule: rev_induct)
  case (snoc b bs)
  have "(of_nat (256 * be_nat bs + unat b) :: byte) = b"
    by (rule word_unat_eq_iff [THEN iffD2]) (simp only: unat_byte_of_nat, simp)
  then show ?case
    using snoc by simp
qed simp

lemma be_nat_bound: "be_nat bs < 256 ^ length bs"
proof (induction bs rule: rev_induct)
  case (snoc b bs)
  have "256 * be_nat bs + unat b < 256 * (be_nat bs + 1)"
    using unat_byte_less [of b] by simp
  also have "\<dots> \<le> 256 * 256 ^ length bs"
    using snoc by (intro mult_le_mono2) simp
  finally show ?case
    by simp
qed simp

lemma be_nat_single [simp]: "be_nat [b] = unat b"
  using be_nat_simps(2) [of "[]" b] by (simp del: be_nat_simps(2))

lemma be_bytes_one [simp]: "be_bytes (Suc 0) n = [of_nat n]"
  by simp

lemma be_bytes_zero [simp]: "be_bytes k 0 = replicate k 0"
  by (induction k) (auto simp: replicate_append_same)

text \<open>Reading the \<open>k\<close> bytes at the front of a stream, and the rest of it.\<close>

lemma take_be_bytes [simp]: "take k (be_bytes k n @ bs) = be_bytes k n"
  by simp

lemma drop_be_bytes [simp]: "drop k (be_bytes k n @ bs) = bs"
  by simp

subsection \<open>Two's complement\<close>

text \<open>The signed reading of an unsigned \<open>k\<close>-byte number, Go's conversion to \<open>int16\<close>, \<open>int32\<close>, \<open>int64\<close>.\<close>

definition as_signed :: "nat \<Rightarrow> int \<Rightarrow> int" where
  "as_signed k v = (if v mod 256 ^ k < 256 ^ k div 2 then v mod 256 ^ k else v mod 256 ^ k - 256 ^ k)"

lemma as_signed_id:
  assumes "0 < k" and "- (256 ^ k div 2) \<le> v" and "v < 256 ^ k div 2"
  shows "as_signed k v = v"
proof -
  have "(256 :: int) ^ k = 256 * 256 ^ (k - 1)"
    using assms(1) by (cases k) auto
  then have even: "2 * ((256 :: int) ^ k div 2) = 256 ^ k"
    by simp
  show ?thesis
  proof (cases "0 \<le> v")
    case True
    then have "v mod 256 ^ k = v"
      using assms(3) even by simp
    then show ?thesis
      using assms(3) by (simp add: as_signed_def)
  next
    case False
    have "(v + 256 ^ k) mod 256 ^ k = v + 256 ^ k"
      by (rule mod_pos_pos_trivial) (use assms(2) False even in linarith)+
    then have "v mod 256 ^ k = v + 256 ^ k"
      by simp
    then show ?thesis
      using assms(2) even by (simp add: as_signed_def)
  qed
qed

lemma as_signed_mod [simp]: "as_signed k (v mod 256 ^ k) = as_signed k v"
  by (simp add: as_signed_def)

subsection \<open>Node's Buffer\<close>

text \<open>\<open>Buffer.from([n])\<close> keeps the low byte of \<open>n\<close>.\<close>

definition Buffer_from1 :: "nat \<Rightarrow> byte list" where
  "Buffer_from1 n = [of_nat n]"

definition alloc :: "nat \<Rightarrow> byte list" where
  "alloc n = replicate n 0"

definition put :: "byte list \<Rightarrow> nat \<Rightarrow> byte list \<Rightarrow> byte list" where
  "put b off bs = take off b @ bs @ drop (off + length bs) b"

definition range_error :: js_error where
  "range_error = ErrorMsg ''ERR_OUT_OF_RANGE''"

text \<open>
  \<open>writeUInt8\<close>, \<open>writeUInt16BE\<close>, \<open>writeUInt32BE\<close>, \<open>writeBigUInt64BE\<close> are \<open>writeUInt k\<close> for \<open>k\<close> = 1, 2, 4, 8;
  \<open>writeInt16BE\<close>, \<open>writeInt32BE\<close>, \<open>writeBigInt64BE\<close> are \<open>writeInt k\<close>.
\<close>

definition writeUInt :: "nat \<Rightarrow> int \<Rightarrow> nat \<Rightarrow> byte list \<Rightarrow> js_error + byte list" where
  "writeUInt k v off b =
     (if 0 \<le> v \<and> v < 256 ^ k \<and> off + k \<le> length b then Inr (put b off (be_bytes k (nat v)))
      else Inl range_error)"

definition writeInt :: "nat \<Rightarrow> int \<Rightarrow> nat \<Rightarrow> byte list \<Rightarrow> js_error + byte list" where
  "writeInt k v off b =
     (if - (256 ^ k div 2) \<le> v \<and> v < 256 ^ k div 2 \<and> off + k \<le> length b
      then Inr (put b off (be_bytes k (nat (v mod 256 ^ k))))
      else Inl range_error)"

text \<open>\<open>src.copy(b, off)\<close> stops at the end of the target.\<close>

definition copy_to :: "byte list \<Rightarrow> nat \<Rightarrow> byte list \<Rightarrow> byte list" where
  "copy_to src off b = put b off (take (length b - off) src)"

definition readUInt32BE :: "byte list \<Rightarrow> nat \<Rightarrow> js_error + nat" where
  "readUInt32BE b off = (if off + 4 \<le> length b then Inr (be_nat (take 4 (drop off b))) else Inl range_error)"

text \<open>Statements that may throw, one after the other.\<close>

fun and_then :: "'e + 'a \<Rightarrow> ('a \<Rightarrow> 'e + 'b) \<Rightarrow> 'e + 'b" where
  "and_then (Inl e) f = Inl e"
| "and_then (Inr x) f = f x"

lemma and_then_Inr: "and_then m f = Inr y \<longleftrightarrow> (\<exists>x. m = Inr x \<and> f x = Inr y)"
  by (cases m) auto

fun collect :: "('e + 'a) list \<Rightarrow> 'e + 'a list" where
  "collect [] = Inr []"
| "collect (Inl e # ms) = Inl e"
| "collect (Inr x # ms) = and_then (collect ms) (\<lambda>xs. Inr (x # xs))"

lemma collect_map_Inr: "(\<And>x. x \<in> set xs \<Longrightarrow> f x = Inr (g x)) \<Longrightarrow> collect (map f xs) = Inr (map g xs)"
  by (induction xs) auto

subsection \<open>Filling a buffer from left to right\<close>

text \<open>\<open>fill a n\<close> is a buffer with \<open>a\<close> written and \<open>n\<close> bytes to go.\<close>

abbreviation fill :: "byte list \<Rightarrow> nat \<Rightarrow> byte list" where
  "fill a n \<equiv> a @ alloc n"

named_theorems fill_rules \<open>writes at the end of the written part\<close>

lemma alloc_simps [simp]: "length (alloc n) = n" "alloc 0 = []"
  by (simp_all add: alloc_def)

lemma put_fill:
  assumes "off = length a" and "length bs \<le> n"
  shows "put (fill a n) off bs = fill (a @ bs) (n - length bs)"
  using assms by (simp add: put_def alloc_def)

lemma writeUInt_fill [fill_rules]:
  assumes "off = length a" and "k \<le> n" and "0 \<le> v" and "v < 256 ^ k"
  shows "writeUInt k v off (fill a n) = Inr (fill (a @ be_bytes k (nat v)) (n - k))"
  using assms by (simp add: writeUInt_def put_fill)

lemma writeInt_fill [fill_rules]:
  assumes "off = length a" and "k \<le> n" and "- (256 ^ k div 2) \<le> v" and "v < 256 ^ k div 2"
  shows "writeInt k v off (fill a n) = Inr (fill (a @ be_bytes k (nat (v mod 256 ^ k))) (n - k))"
  using assms by (simp add: writeInt_def put_fill)

lemma copy_to_fill [fill_rules]:
  "off = length a \<Longrightarrow> length src \<le> n \<Longrightarrow> copy_to src off (fill a n) = fill (a @ src) (n - length src)"
  by (simp add: copy_to_def put_fill)

lemma alloc_fill: "alloc n = fill [] n"
  by simp

subsection \<open>Text\<close>

text \<open>Strings are byte lists already, so \<open>Buffer.from(text, 'utf8')\<close> and \<open>[]byte(text)\<close> only change the type.\<close>

definition utf8_bytes :: "string \<Rightarrow> byte list" where
  "utf8_bytes s = map (\<lambda>c. of_nat (of_char c)) s"

definition bytes_text :: "byte list \<Rightarrow> string" where
  "bytes_text bs = map (\<lambda>b. char_of (unat b)) bs"

lemma length_utf8 [simp]: "length (utf8_bytes s) = length s" "length (bytes_text bs) = length bs"
  by (simp_all add: utf8_bytes_def bytes_text_def)

lemma of_char_less [simp]: "(of_char c :: nat) < 256"
  by (metis of_char_mod_256 mod_less_divisor zero_less_numeral)

lemma bytes_text_utf8 [simp]: "bytes_text (utf8_bytes s) = s"
  by (simp add: bytes_text_def utf8_bytes_def comp_def)

lemma utf8_bytes_text [simp]: "utf8_bytes (bytes_text bs) = bs"
  by (induction bs) (simp_all add: bytes_text_def utf8_bytes_def of_char_of)

subsection \<open>Reading a stream in pieces\<close>

text \<open>
  A reader takes what it can from a buffer and leaves the rest. TCP delivers a stream in reads of any sizes;
  \<open>reads\<close> carries the rest from one to the next. The contract of a reader is that what it took from a buffer
  stays taken when more bytes come. Then the sizes of the reads do not matter.
\<close>

fun reads :: "(byte list \<Rightarrow> 'e list \<times> byte list) \<Rightarrow> byte list \<Rightarrow> byte list list \<Rightarrow> 'e list \<times> byte list" where
  "reads rd buf [] = ([], buf)"
| "reads rd buf (c # cs) = (let (es, rest) = rd (buf @ c); (es', rest') = reads rd rest cs in (es @ es', rest'))"

locale stream_reader =
  fixes rd :: "byte list \<Rightarrow> 'e list \<times> byte list"
  assumes taken_stays:
    "rd (buf @ d) = (fst (rd buf) @ fst (rd (snd (rd buf) @ d)), snd (rd (snd (rd buf) @ d)))"
begin

lemma read_again: "rd (snd (rd buf)) = ([], snd (rd buf))"
  using taken_stays [of buf "[]"] by (simp add: prod_eq_iff)

lemma reads_concat: "rd buf = ([], buf) \<Longrightarrow> reads rd buf cs = rd (buf @ concat cs)"
proof (induction cs arbitrary: buf)
  case (Cons c cs)
  have "reads rd (snd (rd (buf @ c))) cs = rd (snd (rd (buf @ c)) @ concat cs)"
    by (rule Cons.IH) (rule read_again)
  then show ?case
    using taken_stays [of "buf @ c" "concat cs"] by (simp add: split_beta Let_def)
qed simp

lemma cuts_irrelevant:
  "rd buf = ([], buf) \<Longrightarrow> concat cs = concat ds \<Longrightarrow> reads rd buf cs = reads rd buf ds"
  by (simp add: reads_concat)

end

end
