(* ===== verification/Crc16.thy ===== *)
theory Crc16
  imports Bytes
begin

unbundle bit_operations_syntax

section \<open>The checksum of a frame, as the device and the server compute it\<close>

text \<open>
  CRC-16/ARC twice: \<open>crc16\<close> of \<open>backend/scripts/simulate_device.js\<close>, on JavaScript's 32-bit integers with the
  arithmetic shift \<open>>>\<close>, and \<open>CRC16\<close> of \<open>backend/internal/codec/framing.go\<close> on \<open>uint16\<close>. The two agree
  (\<open>crc16_eq\<close>). One round is injective and linear, from which it follows that a change confined to two
  neighbouring bytes always changes the checksum (\<open>CRC16_detects\<close>).
\<close>

subsection \<open>JavaScript: 32-bit integers\<close>

definition crc_bit :: "32 word \<Rightarrow> 32 word" where
  "crc_bit crc = (if crc AND 1 \<noteq> 0 then signed_drop_bit 1 crc XOR 0xA001 else signed_drop_bit 1 crc)"

definition crc_byte :: "32 word \<Rightarrow> byte \<Rightarrow> 32 word" where
  "crc_byte crc b = (crc_bit ^^ 8) (crc XOR ucast b)"

definition crc16 :: "byte list \<Rightarrow> 32 word" where
  "crc16 buf = foldl crc_byte 0 buf AND 0xFFFF"

subsection \<open>Go: \<open>uint16\<close>\<close>

definition CRC_bit :: "16 word \<Rightarrow> 16 word" where
  "CRC_bit crc = (if crc AND 1 \<noteq> 0 then drop_bit 1 crc XOR 0xA001 else drop_bit 1 crc)"

definition CRC_byte :: "16 word \<Rightarrow> byte \<Rightarrow> 16 word" where
  "CRC_byte crc b = (CRC_bit ^^ 8) (crc XOR ucast b)"

definition CRC16 :: "byte list \<Rightarrow> 16 word" where
  "CRC16 data = foldl CRC_byte 0 data"

subsection \<open>The two agree\<close>

lemma odd_ucast16: "(ucast c :: 32 word) AND 1 = 0 \<longleftrightarrow> c AND 1 = 0" for c :: "16 word"
proof -
  have "bit (ucast c :: 32 word) 0 = bit c 0"
    by (simp only: bit_ucast_iff) simp
  then show ?thesis
    by (simp add: and_one_eq mod_2_eq_odd bit_0)
qed

lemma shift_ucast16: "signed_drop_bit 1 (ucast c :: 32 word) = ucast (drop_bit 1 c)" for c :: "16 word"
  by (rule bit_word_eqI) (auto simp: bit_simps min_def dest: bit_imp_le_length)

lemma ucast_poly: "(ucast (0xA001 :: 16 word) :: 32 word) = 0xA001"
  by simp

lemma ucast_xor16: "(ucast (a XOR b) :: 32 word) = ucast a XOR ucast b" for a b :: "16 word"
  by (rule bit_word_eqI) (auto simp: bit_simps)

lemma crc_bit_ucast: "crc_bit (ucast c) = ucast (CRC_bit c)"
  by (simp add: crc_bit_def CRC_bit_def odd_ucast16 shift_ucast16 [simplified] ucast_xor16)

lemma crc_bits_ucast: "(crc_bit ^^ n) (ucast c) = ucast ((CRC_bit ^^ n) c)"
  by (induction n) (simp_all add: crc_bit_ucast)

lemma crc_byte_ucast: "crc_byte (ucast c) b = ucast (CRC_byte c b)"
proof -
  have "(ucast c :: 32 word) XOR ucast b = ucast (c XOR ucast b)"
    by (rule bit_word_eqI) (auto simp: bit_simps dest: bit_imp_le_length)
  then show ?thesis
    by (simp only: crc_byte_def CRC_byte_def crc_bits_ucast)
qed

lemma crc_fold_ucast: "foldl crc_byte (ucast c) bs = ucast (foldl CRC_byte c bs)"
  by (induction bs arbitrary: c) (simp_all add: crc_byte_ucast)

lemma ucast_masked: "(ucast c :: 32 word) AND 0xFFFF = ucast c" for c :: "16 word"
proof -
  have "(ucast c :: 32 word) AND 0xFFFF = take_bit 16 (ucast c)"
    unfolding take_bit_eq_mask by (simp add: mask_eq_exp_minus_1)
  also have "\<dots> = ucast c"
    by (rule bit_word_eqI) (auto simp: bit_simps dest: bit_imp_le_length)
  finally show ?thesis .
qed

lemma crc16_ucast: "crc16 bs = ucast (CRC16 bs)"
  using crc_fold_ucast [of 0 bs] by (simp add: crc16_def CRC16_def ucast_masked)

subsection \<open>One round is injective and linear\<close>

lemma CRC_bit_odd: "CRC_bit c = (if odd c then drop_bit 1 c XOR 0xA001 else drop_bit 1 c)"
  by (simp add: CRC_bit_def and_one_eq mod_2_eq_odd)

lemma CRC_bit_top: "bit (CRC_bit c) 15 = odd c"
proof -
  have low: "\<not> bit (drop_bit 1 c) 15"
    using bit_imp_le_length [of c 16] by (auto simp: bit_drop_bit_eq)
  have top: "bit (0xA001 :: 16 word) 15"
    by (simp add: bit_iff_odd)
  show ?thesis
    by (cases "odd c") (simp_all only: CRC_bit_odd if_True if_False not_not bit_xor_iff low top simp_thms)
qed

lemma xor_middle: "(x XOR m) XOR (m XOR y) = x XOR y" for x m y :: "'a::len word"
proof -
  have "m XOR (m XOR y) = y"
    by (simp flip: xor.assoc)
  then show ?thesis
    by (simp only: xor.assoc)
qed

lemma xor_right_cancel: "a XOR m = b XOR m \<longleftrightarrow> a = b" for a b m :: "'a::len word"
proof
  assume "a XOR m = b XOR m"
  then have "(a XOR m) XOR m = (b XOR m) XOR m"
    by simp
  then show "a = b"
    by (simp add: xor.assoc)
qed simp

lemma CRC_bit_inj: "inj CRC_bit"
proof (rule injI)
  fix c d assume eq: "CRC_bit c = CRC_bit d"
  then have low: "odd c = odd d"
    by (metis CRC_bit_top)
  then have "drop_bit 1 c = drop_bit 1 d"
    using eq by (cases "odd d") (simp_all add: CRC_bit_odd xor_right_cancel)
  then have "bit c (Suc n) = bit d (Suc n)" for n
    by (metis bit_drop_bit_eq comp_apply plus_1_eq_Suc)
  then show "c = d"
    using low by (intro bit_word_eqI) (metis bit_0 not0_implies_Suc)
qed

lemma CRC_bit_xor: "CRC_bit (a XOR b) = CRC_bit a XOR CRC_bit b"
proof -
  have twice: "(x XOR m) XOR (y XOR m) = x XOR y" for x y m :: "16 word"
    using xor_middle [of x m y] by (simp only: xor.commute [of y m])
  show ?thesis
    by (cases "odd a"; cases "odd b") (simp_all add: CRC_bit_odd even_xor_iff drop_bit_xor twice, simp_all add: ac_simps)
qed

lemma CRC_bits_inj: "inj (CRC_bit ^^ n)"
  by (rule inj_fn) (rule CRC_bit_inj)

lemma CRC_bits_xor: "(CRC_bit ^^ n) (a XOR b) = (CRC_bit ^^ n) a XOR (CRC_bit ^^ n) b"
  by (induction n) (simp_all add: CRC_bit_xor)

text \<open>Eight rounds move a difference that is confined to the high byte into the low byte, unchanged.\<close>

lemma CRC_bit_shift:
  assumes "even c"
  shows "CRC_bit c = drop_bit 1 c"
  using assms by (simp add: CRC_bit_odd)

lemma CRC_bits_shift:
  assumes "\<And>i. i < n \<Longrightarrow> \<not> bit c i"
  shows "(CRC_bit ^^ n) c = drop_bit n c"
  using assms
proof (induction n)
  case (Suc n)
  then have "(CRC_bit ^^ n) c = drop_bit n c"
    by simp
  moreover have "even (drop_bit n c)"
    using Suc.prems [of n] by (simp add: even_drop_bit_iff_not_bit)
  ultimately show ?case
    by (simp add: CRC_bit_shift drop_bit_drop_bit)
qed simp

lemma ucast_byte_high:
  "drop_bit 8 (push_bit 8 (ucast d)) = (ucast d :: 16 word)" for d :: byte
  by (rule bit_word_eqI) (auto simp: bit_simps dest: bit_imp_le_length)

lemma CRC_bits_high: "(CRC_bit ^^ 8) (push_bit 8 (ucast d)) = ucast d" for d :: byte
  using CRC_bits_shift [of 8 "push_bit 8 (ucast d)"] by (simp add: bit_simps ucast_byte_high)

lemma byte_halves_disjoint:
  fixes a b :: byte
  assumes "(ucast a :: 16 word) = push_bit 8 (ucast b)"
  shows "a = 0" and "b = 0"
proof -
  have eq: "bit (ucast a :: 16 word) i = bit (push_bit 8 (ucast b) :: 16 word) i" for i
    by (simp only: assms)
  show "a = 0"
  proof (rule bit_word_eqI)
    fix n assume "n < LENGTH(8)"
    then show "bit a n = bit (0 :: byte) n"
      using eq [of n] by (simp add: bit_simps)
  qed
  then have zero: "push_bit 8 (ucast b :: 16 word) = 0"
    using assms by simp
  show "b = 0"
  proof (rule bit_word_eqI)
    fix n assume "n < LENGTH(8)"
    then have "bit b n = bit (push_bit 8 (ucast b) :: 16 word) (n + 8)"
      by (simp add: bit_simps)
    then show "bit b n = bit (0 :: byte) n"
      by (simp add: zero)
  qed
qed

subsection \<open>Detection of changes\<close>

lemma CRC_byte_inj_state: "CRC_byte c b = CRC_byte d b \<Longrightarrow> c = d"
proof -
  assume "CRC_byte c b = CRC_byte d b"
  then have "c XOR ucast b = d XOR ucast b"
    using CRC_bits_inj by (auto simp: CRC_byte_def dest: injD)
  then show "c = d"
    by (simp add: xor_right_cancel)
qed

lemma CRC_fold_inj: "foldl CRC_byte c bs = foldl CRC_byte d bs \<Longrightarrow> c = d"
  by (induction bs arbitrary: c d) (auto dest: CRC_byte_inj_state)

lemma xor_eq_iff: "a XOR c = b XOR d \<longleftrightarrow> a XOR b = c XOR d" for a b c d :: "'a::len word"
proof -
  have "a XOR c = b XOR d \<longleftrightarrow> (a XOR c) XOR (c XOR b) = (b XOR d) XOR (c XOR b)"
    by (simp only: xor_right_cancel)
  also have "(a XOR c) XOR (c XOR b) = a XOR b"
    by (rule xor_middle)
  also have "(b XOR d) XOR (c XOR b) = c XOR d"
    using xor_middle [of d b c] by (simp only: xor.commute [of b d] xor.commute [of c b] xor.commute [of d c])
  finally show ?thesis .
qed

lemma ucast_xor8: "(ucast (a XOR b) :: 16 word) = ucast a XOR ucast b" for a b :: byte
  by (rule bit_word_eqI) (auto simp: bit_simps)

lemma CRC_two_bytes_inj:
  assumes "CRC_byte (CRC_byte c a) b = CRC_byte (CRC_byte c a') b'"
  shows "a = a'" and "b = b'"
proof -
  have "CRC_byte c a XOR ucast b = CRC_byte c a' XOR ucast b'"
    using assms CRC_bits_inj by (auto simp: CRC_byte_def [of "CRC_byte _ _"] dest: injD)
  then have "CRC_byte c a XOR CRC_byte c a' = ucast (b XOR b')"
    by (simp only: xor_eq_iff ucast_xor8)
  moreover have "CRC_byte c a XOR CRC_byte c a' = (CRC_bit ^^ 8) (ucast (a XOR a'))"
  proof -
    have "(c XOR ucast a) XOR (c XOR ucast a') = ucast (a XOR a')"
      by (simp add: ucast_xor8 xor.assoc xor.left_commute)
    then show ?thesis
      by (simp only: CRC_byte_def flip: CRC_bits_xor)
  qed
  ultimately have "(CRC_bit ^^ 8) (ucast (a XOR a')) = (CRC_bit ^^ 8) (push_bit 8 (ucast (b XOR b')))"
    by (simp only: CRC_bits_high)
  then have "ucast (a XOR a') = push_bit 8 (ucast (b XOR b') :: 16 word)"
    using CRC_bits_inj by (auto dest: injD)
  then have "a XOR a' = 0" "b XOR b' = 0"
    by (rule byte_halves_disjoint)+
  then show "a = a'" "b = b'"
    by (simp_all add: xor_eq_iff [of a 0 a' 0, simplified] xor_eq_iff [of b 0 b' 0, simplified])
qed

lemma CRC16_detects:
  assumes "CRC16 (xs @ [a, b] @ ys) = CRC16 (xs @ [a', b'] @ ys)"
  shows "a = a' \<and> b = b'"
  using assms CRC_two_bytes_inj by (auto simp: CRC16_def dest!: CRC_fold_inj)

end
