(* ===== verification/Simulator.thy ===== *)
theory Simulator
  imports Crc16
begin

section \<open>The device simulator: options, movement, frames\<close>

text \<open>
  The first half of \<open>backend/scripts/simulate_device.js\<close>, the program that plays a tracker: its options, the
  movement model and the encoders of AVL and Codec 12 frames. \<open>Math.random()\<close> is a parameter: \<open>rnd k\<close> is the
  result of its \<open>k\<close>-th call, and the state counts the calls (\<open>sim_draws\<close>). An encoder returns the bytes, or the
  error that \<open>Buffer\<close> throws. \<open>encodable\<close> says when nothing is thrown, and \<open>record_bytes\<close> and \<open>frame_bytes\<close> are
  the layouts of the comment at the head of the source.
\<close>

subsection \<open>Options\<close>

definition key_char :: "char \<Rightarrow> bool" where
  "key_char c = (let n = (of_char c :: nat) in 65 \<le> n \<and> n \<le> 90 \<or> 97 \<le> n \<and> n \<le> 122 \<or> c = CHR ''_'')"

text \<open>What the dot of a regular expression does not match: a line feed, a carriage return, U+2028, U+2029.\<close>

definition one_line :: "string \<Rightarrow> bool" where
  "one_line s =
     (\<not> str_includes s [CHR 0x0A] \<and> \<not> str_includes s [CHR 0x0D]
      \<and> \<not> str_includes s [CHR 0xE2, CHR 0x80, CHR 0xA8] \<and> \<not> str_includes s [CHR 0xE2, CHR 0x80, CHR 0xA9])"

definition cli_pair :: "string \<Rightarrow> (string \<times> string) option" where
  "cli_pair arg =
     (case dropWhile key_char arg of
        c # v \<Rightarrow>
          if c = CHR ''='' \<and> takeWhile key_char arg \<noteq> [] \<and> one_line v
          then Some (toUpperCase (takeWhile key_char arg), v) else None
      | [] \<Rightarrow> None)"

definition cliArgs :: "string list \<Rightarrow> string \<Rightarrow> string option" where
  "cliArgs argv =
     foldl (\<lambda>m arg. case cli_pair arg of Some (k, v) \<Rightarrow> m(k \<mapsto> v) | None \<Rightarrow> m) Map.empty argv"

definition opt :: "(string \<Rightarrow> string option) \<Rightarrow> (string \<Rightarrow> string option) \<Rightarrow> string \<Rightarrow> string option \<Rightarrow> string option" where
  "opt cli env name fallback =
     (case cli name of Some v \<Rightarrow> Some v | None \<Rightarrow> (case env name of Some v \<Rightarrow> Some v | None \<Rightarrow> fallback))"

definition isOn :: "(string \<Rightarrow> string option) \<Rightarrow> (string \<Rightarrow> string option) \<Rightarrow> string \<Rightarrow> bool" where
  "isOn cli env name =
     (toLowerCase (the (opt cli env name (Some ''off''))) \<in> set [''on'', ''1'', ''true'', ''yes''])"

definition isOff :: "(string \<Rightarrow> string option) \<Rightarrow> (string \<Rightarrow> string option) \<Rightarrow> string \<Rightarrow> bool" where
  "isOff cli env name =
     (toLowerCase (the (opt cli env name (Some ''on''))) \<in> set [''off'', ''0'', ''false'', ''no''])"

text \<open>\<open>parseInt(s, 10)\<close>; \<open>None\<close> is NaN. \<open>parseInt(s, 10) || d\<close> takes \<open>d\<close> for NaN and for 0.\<close>

definition leading_int :: "string \<Rightarrow> int option" where
  "leading_int s = (let ds = takeWhile is_digit s in if ds = [] then None else Some (int (digits_val ds)))"

definition parseInt :: "string \<Rightarrow> int option" where
  "parseInt s =
     (case dropWhile is_ws s of
        [] \<Rightarrow> None
      | c # cs \<Rightarrow>
          if c = CHR ''-'' then map_option uminus (leading_int cs)
          else if c = CHR ''+'' then leading_int cs
          else leading_int (c # cs))"

definition int_or :: "int option \<Rightarrow> int \<Rightarrow> int" where
  "int_or x d = (case x of None \<Rightarrow> d | Some n \<Rightarrow> if n = 0 then d else n)"

text \<open>\<open>POSITIONS\<close> is \<open>None\<close> for \<open>Infinity\<close>, \<open>PORT\<close> is \<open>None\<close> for NaN.\<close>

record sim_options =
  HOST :: string
  PORT :: "int option"
  IMEI :: string
  EXTENDED :: bool
  INTERVAL_MS :: int
  BURST :: int
  FRAGMENT :: bool
  USE_CRC :: bool
  LISTEN_COMMANDS :: bool
  POSITIONS :: "int option"
  VOLTAGE_MV :: int
  PARK_EVERY :: int
  PARK_RECORDS :: int
  PARK_IGNITION :: bool

definition sim_options_of :: "string list \<Rightarrow> (string \<Rightarrow> string option) \<Rightarrow> sim_options" where
  "sim_options_of argv env =
     (let cli = cliArgs argv;
          text_opt = (\<lambda>n. opt cli env n None);
          int_opt = (\<lambda>n d. parseInt (the (opt cli env n (Some d))));
          positions = int_or (int_opt ''POSITIONS'' ''0'') 0
      in \<lparr> HOST = str_or (text_opt ''HOST'') (str_or (text_opt ''INGEST_HOST'') ''127.0.0.1''),
           PORT = parseInt (str_or (text_opt ''PORT'') (str_or (text_opt ''INGEST_PORT'') ''5040'')),
           IMEI = str_or (text_opt ''IMEI'') ''866907059076488'',
           EXTENDED = toLowerCase (the (opt cli env ''CODEC'' (Some ''8''))) \<in> set [''8e'', ''0x8e'', ''extended''],
           INTERVAL_MS = max 50 (int_or (int_opt ''INTERVAL_MS'' ''2500'') 2500),
           BURST = max 1 (int_or (int_opt ''BURST'' ''1'') 1),
           FRAGMENT = isOn cli env ''FRAGMENT'',
           USE_CRC = (\<not> isOff cli env ''CRC''),
           LISTEN_COMMANDS = isOn cli env ''LISTEN_COMMANDS'',
           POSITIONS = (if positions > 0 then Some positions else None),
           VOLTAGE_MV = int_or (int_opt ''VOLTAGE_MV'' ''0'') 0,
           PARK_EVERY = int_or (int_opt ''PARK_EVERY'' ''0'') 0,
           PARK_RECORDS = max 1 (int_or (int_opt ''PARK_RECORDS'' ''5'') 5),
           PARK_IGNITION = isOn cli env ''PARK_IGNITION'' \<rparr>)"

lemma sim_options_bounds:
  "50 \<le> INTERVAL_MS (sim_options_of argv env)" "1 \<le> BURST (sim_options_of argv env)"
  "1 \<le> PARK_RECORDS (sim_options_of argv env)"
  by (simp_all add: sim_options_of_def Let_def)

subsection \<open>The movement model\<close>

record sim_state =
  sim_lat :: real
  sim_lng :: real
  sim_heading :: int
  sim_speed :: int
  sim_odometer :: int
  sim_records :: int
  sim_fuel :: real
  sim_tempC10 :: int
  sim_parkTicks :: int
  sim_xCounter :: int
  sim_draws :: nat

definition sim_start :: sim_state where
  "sim_start =
     \<lparr> sim_lat = 24.89521, sim_lng = 55.14203, sim_heading = 238, sim_speed = 65, sim_odometer = 1425800,
       sim_records = 0, sim_fuel = 78, sim_tempC10 = - 184, sim_parkTicks = 0, sim_xCounter = 0x01020304,
       sim_draws = 0 \<rparr>"

text \<open>The values of one AVL record.\<close>

record avl_rec =
  rec_timestamp :: int
  rec_priority :: int
  rec_lat :: real
  rec_lng :: real
  rec_altitude :: int
  rec_angle :: int
  rec_satellites :: int
  rec_speed :: int
  rec_ignition :: int
  rec_door :: int
  rec_vehicleMv :: int
  rec_externalMv :: int
  rec_batteryMv :: int
  rec_tempC10 :: int
  rec_fuel :: int
  rec_odometer :: int
  rec_xtra :: int

text \<open>\<open>Math.floor(Math.random() * n)\<close>, the \<open>k\<close>-th call.\<close>

definition rand_below :: "(nat \<Rightarrow> real) \<Rightarrow> nat \<Rightarrow> int \<Rightarrow> int" where
  "rand_below rnd k n = \<lfloor>rnd k * of_int n\<rfloor>"

definition drive :: "sim_options \<Rightarrow> (nat \<Rightarrow> real) \<Rightarrow> sim_state \<Rightarrow> sim_state" where
  "drive cfg rnd s =
     (let k = sim_draws s;
          spd = 55 + rand_below rnd k 31;
          hdg = (sim_heading s + rand_below rnd (k + 1) 7 - 3 + 360) mod 360;
          meters = of_int spd * (of_int (INTERVAL_MS cfg) / 3600);
          rad = of_int hdg * pi / 180;
          lat = sim_lat s + meters * cos rad / 111320
      in s\<lparr> sim_speed := spd, sim_heading := hdg, sim_lat := lat,
            sim_lng := sim_lng s + meters * sin rad / (111320 * cos (lat * pi / 180)),
            sim_odometer := sim_odometer s + js_round meters, sim_draws := k + 2 \<rparr>)"

text \<open>Whether the vehicle is parked, and the state after parking or driving.\<close>

definition park_or_drive :: "sim_options \<Rightarrow> (nat \<Rightarrow> real) \<Rightarrow> sim_state \<Rightarrow> bool \<times> sim_state" where
  "park_or_drive cfg rnd s =
     (let k = sim_draws s in
      if sim_parkTicks s > 0 then (True, s\<lparr> sim_parkTicks := sim_parkTicks s - 1, sim_speed := 0 \<rparr>)
      else if PARK_EVERY cfg > 0 \<and> sim_records s mod PARK_EVERY cfg = 0
      then (True, s\<lparr> sim_parkTicks := PARK_RECORDS cfg - 1, sim_speed := 0 \<rparr>)
      else if PARK_EVERY cfg = 0 \<and> rnd k < 0.02
      then (True, s\<lparr> sim_parkTicks := 3 + rand_below rnd (k + 1) 6, sim_speed := 0, sim_draws := k + 2 \<rparr>)
      else (False, drive cfg rnd (if PARK_EVERY cfg = 0 then s\<lparr> sim_draws := k + 1 \<rparr> else s)))"

definition nextRecord :: "sim_options \<Rightarrow> (nat \<Rightarrow> real) \<Rightarrow> int \<Rightarrow> sim_state \<Rightarrow> avl_rec \<times> sim_state" where
  "nextRecord cfg rnd timestamp s0 =
     (let (parked, s1) = park_or_drive cfg rnd (s0\<lparr> sim_records := sim_records s0 + 1 \<rparr>);
          k = sim_draws s1;
          s2 = s1\<lparr> sim_fuel := (if parked then sim_fuel s1 else max 3 (min 100 (sim_fuel s1 - 0.05))),
                  sim_tempC10 := max (- 300) (min 80 (sim_tempC10 s1 + rand_below rnd k 3 - 1)),
                  sim_xCounter := (sim_xCounter s1 + 1) mod 2 ^ 32 \<rparr>;
          forced = VOLTAGE_MV cfg > 0;
          j = (if forced then k + 3 else k + 5)
      in (\<lparr> rec_timestamp = timestamp, rec_priority = 0, rec_lat = sim_lat s2, rec_lng = sim_lng s2,
            rec_altitude = 12 + rand_below rnd (k + 1) 10, rec_angle = sim_heading s2,
            rec_satellites = 10 + rand_below rnd (k + 2) 7, rec_speed = sim_speed s2,
            rec_ignition = (if parked then (if PARK_IGNITION cfg then 1 else 0) else 1),
            rec_door = ((sim_records s2 - 1) div 10) mod 2,
            rec_vehicleMv = (if forced then VOLTAGE_MV cfg else 24000 + rand_below rnd (k + 3) 801),
            rec_externalMv = (if forced then VOLTAGE_MV cfg else 23900 + rand_below rnd (k + 4) 901),
            rec_batteryMv = 3800 + rand_below rnd j 351,
            rec_tempC10 = sim_tempC10 s2, rec_fuel = js_round (sim_fuel s2),
            rec_odometer = sim_odometer s2, rec_xtra = sim_xCounter s2 \<rparr>,
          s2\<lparr> sim_draws := j + 1 \<rparr>))"

text \<open>The records of one frame: \<open>records.push(nextRecord(base + i * 1000))\<close>.\<close>

fun next_records :: "sim_options \<Rightarrow> (nat \<Rightarrow> real) \<Rightarrow> int \<Rightarrow> nat \<Rightarrow> sim_state \<Rightarrow> avl_rec list \<times> sim_state" where
  "next_records cfg rnd ts 0 s = ([], s)"
| "next_records cfg rnd ts (Suc n) s =
     (let (r, s') = nextRecord cfg rnd ts s; (rs, s'') = next_records cfg rnd (ts + 1000) n s' in (r # rs, s''))"

subsection \<open>Encoders\<close>

text \<open>\<open>v & m\<close> for a mask below \<open>2 ^ 31\<close>, and \<open>v >>> 0\<close>.\<close>

definition js_mask :: "int \<Rightarrow> int \<Rightarrow> int" where
  "js_mask v m = uint ((of_int v :: 32 word) AND of_int m)"

definition ushr0 :: "int \<Rightarrow> int" where
  "ushr0 v = uint (of_int v :: 32 word)"

record io_elem =
  el_id :: int
  el_size :: nat
  el_value :: int
  el_signed :: bool

definition writeIOValue :: "nat \<Rightarrow> nat \<Rightarrow> int \<Rightarrow> bool \<Rightarrow> byte list \<Rightarrow> js_error + byte list" where
  "writeIOValue off sz v sg b =
     (if sz = 1 then writeUInt 1 (js_mask v 0xff) off b
      else if sz = 2 then (if sg then writeInt 2 v off b else writeUInt 2 (js_mask v 0xffff) off b)
      else if sz = 4 then writeUInt 4 (ushr0 v) off b
      else if sz = 8 then writeUInt 8 v off b
      else Inr b)"

definition ioGroup8 :: "io_elem list \<Rightarrow> js_error + byte list" where
  "ioGroup8 elems =
     and_then
       (collect (map (\<lambda>el. and_then (writeUInt 1 (el_id el) 0 (alloc (1 + el_size el)))
                             (writeIOValue 1 (el_size el) (el_value el) (el_signed el))) elems))
       (\<lambda>parts. Inr (concat (Buffer_from1 (length elems) # parts)))"

definition ioGroup8e :: "io_elem list \<Rightarrow> js_error + byte list" where
  "ioGroup8e elems =
     and_then (writeUInt 2 (int (length elems)) 0 (alloc 2)) (\<lambda>head.
     and_then
       (collect (map (\<lambda>el. and_then (writeUInt 2 (el_id el) 0 (alloc (2 + el_size el)))
                             (writeIOValue 2 (el_size el) (el_value el) (el_signed el))) elems))
       (\<lambda>parts. Inr (concat (head # parts))))"

definition ioGroupX8e :: "(int \<times> byte list) list \<Rightarrow> js_error + byte list" where
  "ioGroupX8e elems =
     and_then (writeUInt 2 (int (length elems)) 0 (alloc 2)) (\<lambda>head.
     and_then
       (collect (map (\<lambda>(i, dat). and_then (writeUInt 2 i 0 (alloc (4 + length dat))) (\<lambda>b.
                                  and_then (writeUInt 2 (int (length dat)) 2 b) (\<lambda>b. Inr (copy_to dat 4 b)))) elems))
       (\<lambda>parts. Inr (concat (head # parts))))"

definition buildGpsPart :: "avl_rec \<Rightarrow> js_error + byte list" where
  "buildGpsPart r =
     and_then (writeInt 8 (rec_timestamp r) 0 (alloc 24)) (\<lambda>b.
     and_then (writeUInt 1 (rec_priority r) 8 b) (\<lambda>b.
     and_then (writeInt 4 (js_round (rec_lng r * 10 ^ 7)) 9 b) (\<lambda>b.
     and_then (writeInt 4 (js_round (rec_lat r * 10 ^ 7)) 13 b) (\<lambda>b.
     and_then (writeUInt 2 (js_mask (rec_altitude r) 0xffff) 17 b) (\<lambda>b.
     and_then (writeUInt 2 (js_mask (rec_angle r) 0xffff) 19 b) (\<lambda>b.
     and_then (writeUInt 1 (rec_satellites r) 21 b) (\<lambda>b.
     writeUInt 2 (js_mask (rec_speed r) 0xffff) 22 b)))))))"

definition io_el :: "int \<Rightarrow> nat \<Rightarrow> int \<Rightarrow> io_elem" where
  "io_el i sz v = \<lparr> el_id = i, el_size = sz, el_value = v, el_signed = False \<rparr>"

definition oneByte :: "avl_rec \<Rightarrow> io_elem list" where
  "oneByte r = [io_el 1 1 (rec_ignition r), io_el 2 1 (rec_door r)]"

definition twoByte :: "avl_rec \<Rightarrow> io_elem list" where
  "twoByte r =
     [io_el 7 2 (rec_vehicleMv r), io_el 66 2 (rec_externalMv r), io_el 67 2 (rec_batteryMv r),
      (io_el 72 2 (rec_tempC10 r))\<lparr> el_signed := True \<rparr>, io_el 84 2 (rec_fuel r)]"

definition fourByte :: "avl_rec \<Rightarrow> io_elem list" where
  "fourByte r = [io_el 16 4 (rec_odometer r)]"

definition eightByte :: "avl_rec \<Rightarrow> io_elem list" where
  "eightByte r = []"

definition buildRecord :: "sim_options \<Rightarrow> avl_rec \<Rightarrow> js_error + byte list" where
  "buildRecord cfg r =
     and_then (buildGpsPart r) (\<lambda>gps.
     let totalIO = length (oneByte r) + length (twoByte r) + length (fourByte r) + length (eightByte r) in
     if EXTENDED cfg then
       and_then (writeUInt 4 (rec_xtra r) 0 (alloc 4)) (\<lambda>xCounter.
       and_then (collect [ioGroup8e (oneByte r), ioGroup8e (twoByte r), ioGroup8e (fourByte r),
                          ioGroup8e (eightByte r), ioGroupX8e [(200, xCounter)]]) (\<lambda>groups.
       and_then (writeUInt 1 0 0 (alloc 3)) (\<lambda>b.
       and_then (writeUInt 2 (int (totalIO + 1)) 1 b) (\<lambda>tail.
       Inr (concat (gps # tail # groups))))))
     else
       and_then (collect [ioGroup8 (oneByte r), ioGroup8 (twoByte r), ioGroup8 (fourByte r),
                          ioGroup8 (eightByte r)]) (\<lambda>groups.
       and_then (writeUInt 1 0 0 (alloc 2)) (\<lambda>b.
       and_then (writeUInt 1 (int totalIO) 1 b) (\<lambda>tail.
       Inr (concat (gps # tail # groups))))))"

definition buildFrame :: "sim_options \<Rightarrow> byte list \<Rightarrow> js_error + byte list" where
  "buildFrame cfg dat =
     and_then (writeUInt 4 0 0 (alloc 8)) (\<lambda>b.
     and_then (writeUInt 4 (int (length dat)) 4 b) (\<lambda>header.
     and_then
       (if USE_CRC cfg
        then let c = crc16 dat in
             and_then (writeUInt 1 (uint (c AND 0xff)) 0 (alloc 4)) (\<lambda>b.
             writeUInt 1 (uint (signed_drop_bit 8 c AND 0xff)) 1 b)
        else Inr (alloc 4))
       (\<lambda>crc. Inr (concat [header, dat, crc]))))"

definition buildAvlFrame :: "sim_options \<Rightarrow> avl_rec list \<Rightarrow> js_error + byte list" where
  "buildAvlFrame cfg records =
     and_then (collect (map (buildRecord cfg) records)) (\<lambda>encoded.
     let codecId = (if EXTENDED cfg then 0x8e else 0x08);
         count = Buffer_from1 (length encoded)
     in buildFrame cfg (concat (Buffer_from1 codecId # count # encoded @ [count])))"

definition buildCodec12Response :: "sim_options \<Rightarrow> string \<Rightarrow> js_error + byte list" where
  "buildCodec12Response cfg txt =
     (let payload = utf8_bytes txt in
      and_then (writeUInt 1 0x0c 0 (alloc (1 + 1 + 4 + length payload + 1))) (\<lambda>b.
      and_then (writeUInt 1 0x01 1 b) (\<lambda>b.
      and_then (writeUInt 4 (int (length payload)) 2 b) (\<lambda>b.
      and_then (writeUInt 1 0x01 (6 + length payload) (copy_to payload 6 b)) (\<lambda>dat.
      buildFrame cfg dat)))))"

subsection \<open>The layout of what the encoders write\<close>

lemma js_mask_mod: "js_mask v 0xff = v mod 256" "js_mask v 0xffff = v mod 65536"
proof -
  have "js_mask v (2 ^ n - 1) = v mod 2 ^ n" if "n \<le> 32" for n
  proof -
    have "(of_int v :: 32 word) AND of_int (2 ^ n - 1) = take_bit n (of_int v)"
      by (simp add: take_bit_eq_mask mask_eq_exp_minus_1)
    moreover have "min n LENGTH(32) = n"
      using that by simp
    then have "uint (take_bit n (of_int v :: 32 word)) = v mod 2 ^ n"
      by (simp only: unsigned_take_bit_eq uint_word_of_int_eq take_bit_take_bit) (simp only: take_bit_eq_mod)
    ultimately show ?thesis
      by (simp only: js_mask_def)
  qed
  from this [of 8] this [of 16] show "js_mask v 0xff = v mod 256" "js_mask v 0xffff = v mod 65536"
    by simp_all
qed

lemma ushr0_mod: "ushr0 v = v mod 2 ^ 32"
  by (simp add: ushr0_def unsigned_of_int take_bit_eq_mod)

text \<open>The bytes of a field: \<open>k\<close> bytes of the value's residue.\<close>

definition field :: "nat \<Rightarrow> int \<Rightarrow> byte list" where
  "field k v = be_bytes k (nat (v mod 256 ^ k))"

lemma length_field [simp]: "length (field k v) = k"
  by (simp add: field_def)

lemma be_nat_field: "int (be_nat (field k v)) = v mod 256 ^ k"
proof -
  have "nat (v mod 256 ^ k) < 256 ^ k"
    by (simp add: nat_less_iff)
  then show ?thesis
    by (simp add: field_def)
qed

lemma field_of_range: "0 \<le> v \<Longrightarrow> v < 256 ^ k \<Longrightarrow> be_bytes k (nat v) = field k v"
  by (simp add: field_def)

text \<open>Writing one field at the end of the written part.\<close>

lemma write_field:
  "off = length a \<Longrightarrow> k \<le> n \<Longrightarrow> 0 \<le> v \<Longrightarrow> v < 256 ^ k \<Longrightarrow>
   writeUInt k v off (fill a n) = Inr (fill (a @ field k v) (n - k))"
  "off = length a \<Longrightarrow> k \<le> n \<Longrightarrow> - (256 ^ k div 2) \<le> v \<Longrightarrow> v < 256 ^ k div 2 \<Longrightarrow>
   writeInt k v off (fill a n) = Inr (fill (a @ field k v) (n - k))"
  by (simp_all add: writeUInt_fill writeInt_fill field_of_range) (simp add: field_def)

lemma write_residue:
  "off = length a \<Longrightarrow> k \<le> n \<Longrightarrow> writeUInt k (v mod 256 ^ k) off (fill a n) = Inr (fill (a @ field k v) (n - k))"
  by (simp add: writeUInt_fill field_def)

definition el_ok :: "nat \<Rightarrow> io_elem \<Rightarrow> bool" where
  "el_ok w el =
     (0 \<le> el_id el \<and> el_id el < 256 ^ w \<and> el_size el \<in> {1, 2, 4}
      \<and> (el_signed el \<longrightarrow> el_size el = 2 \<and> - 32768 \<le> el_value el \<and> el_value el < 32768))"

lemma writeIOValue_field:
  assumes "sz \<in> {1, 2, 4}" and "sg \<longrightarrow> sz = 2 \<and> - 32768 \<le> v \<and> v < 32768" and "off = length a"
  shows "writeIOValue off sz v sg (fill a sz) = Inr (a @ field sz v)"
proof (cases sg)
  case True
  then show ?thesis
    using assms write_field(2) [of off a 2 2 v] by (simp add: writeIOValue_def)
next
  case False
  then show ?thesis
    using assms write_residue [of off a 1 1 v] write_residue [of off a 2 2 v] write_residue [of off a 4 4 v]
    by (auto simp: writeIOValue_def js_mask_mod ushr0_mod)
qed

definition elem_bytes :: "nat \<Rightarrow> io_elem \<Rightarrow> byte list" where
  "elem_bytes w el = field w (el_id el) @ field (el_size el) (el_value el)"

definition group_bytes :: "nat \<Rightarrow> io_elem list \<Rightarrow> byte list" where
  "group_bytes w es = be_bytes w (length es) @ concat (map (elem_bytes w) es)"

lemma write_elem:
  assumes "el_ok w el"
  shows "and_then (writeUInt w (el_id el) 0 (alloc (w + el_size el)))
           (writeIOValue w (el_size el) (el_value el) (el_signed el)) = Inr (elem_bytes w el)"
proof -
  have "writeUInt w (el_id el) 0 (fill [] (w + el_size el)) = Inr (fill (field w (el_id el)) (el_size el))"
    using assms by (subst write_field(1)) (auto simp: el_ok_def)
  then show ?thesis
    using assms by (simp add: writeIOValue_field el_ok_def elem_bytes_def)
qed

lemma ioGroup8_bytes: "list_all (el_ok 1) es \<Longrightarrow> ioGroup8 es = Inr (group_bytes 1 es)"
  using collect_map_Inr [of es _ "elem_bytes 1", OF write_elem [of 1]]
  by (simp add: ioGroup8_def list_all_iff group_bytes_def Buffer_from1_def)

lemma ioGroup8e_bytes:
  assumes "list_all (el_ok 2) es" and "length es < 65536"
  shows "ioGroup8e es = Inr (group_bytes 2 es)"
proof -
  have "writeUInt 2 (int (length es)) 0 (fill [] 2) = Inr (be_bytes 2 (length es))"
    using assms(2) by (subst writeUInt_fill) auto
  then show ?thesis
    using assms collect_map_Inr [of es _ "elem_bytes 2", OF write_elem [of 2]]
    by (simp add: ioGroup8e_def list_all_iff group_bytes_def)
qed

lemma ioGroupX8e_bytes:
  assumes "0 \<le> i" and "i < 65536" and "length dat < 65536"
  shows "ioGroupX8e [(i, dat)] = Inr (field 2 1 @ field 2 i @ field 2 (int (length dat)) @ dat)"
proof -
  have head: "writeUInt 2 1 0 (fill [] 2) = Inr (field 2 1)"
    by (subst write_field(1)) auto
  have i: "writeUInt 2 i 0 (fill [] (4 + length dat)) = Inr (fill (field 2 i) (2 + length dat))"
    using assms by (subst write_field(1)) auto
  have n: "writeUInt 2 (int (length dat)) 2 (fill (field 2 i) (2 + length dat))
      = Inr (fill (field 2 i @ field 2 (int (length dat))) (length dat))"
    using assms by (subst write_field(1)) auto
  have "copy_to dat 4 (fill (field 2 i @ field 2 (int (length dat))) (length dat))
      = field 2 i @ field 2 (int (length dat)) @ dat"
    by (subst copy_to_fill) auto
  then show ?thesis
    using head i n by (simp add: ioGroupX8e_def)
qed

text \<open>When a record is written without an exception, and what is written.\<close>

definition encodable :: "avl_rec \<Rightarrow> bool" where
  "encodable r =
     (- (2 ^ 63) \<le> rec_timestamp r \<and> rec_timestamp r < 2 ^ 63
      \<and> 0 \<le> rec_priority r \<and> rec_priority r < 256
      \<and> - (2 ^ 31) \<le> js_round (rec_lng r * 10 ^ 7) \<and> js_round (rec_lng r * 10 ^ 7) < 2 ^ 31
      \<and> - (2 ^ 31) \<le> js_round (rec_lat r * 10 ^ 7) \<and> js_round (rec_lat r * 10 ^ 7) < 2 ^ 31
      \<and> 0 \<le> rec_satellites r \<and> rec_satellites r < 256
      \<and> - 32768 \<le> rec_tempC10 r \<and> rec_tempC10 r < 32768
      \<and> 0 \<le> rec_xtra r \<and> rec_xtra r < 2 ^ 32)"

definition gps_bytes :: "avl_rec \<Rightarrow> byte list" where
  "gps_bytes r =
     field 8 (rec_timestamp r) @ field 1 (rec_priority r) @ field 4 (js_round (rec_lng r * 10 ^ 7))
     @ field 4 (js_round (rec_lat r * 10 ^ 7)) @ field 2 (rec_altitude r) @ field 2 (rec_angle r)
     @ field 1 (rec_satellites r) @ field 2 (rec_speed r)"

lemma length_gps_bytes [simp]: "length (gps_bytes r) = 24"
  by (simp add: gps_bytes_def)

lemma write_mask16:
  "off = length a \<Longrightarrow> 2 \<le> n \<Longrightarrow> writeUInt 2 (js_mask v 0xffff) off (fill a n) = Inr (fill (a @ field 2 v) (n - 2))"
  using write_residue [of off a 2 n v] by (simp add: js_mask_mod)

lemma buildGpsPart_bytes:
  assumes "encodable r"
  shows "buildGpsPart r = Inr (gps_bytes r)"
proof -
  have "writeInt 8 (rec_timestamp r) 0 (alloc 24) = Inr (fill (field 8 (rec_timestamp r)) 16)"
    using assms write_field(2) [of 0 "[]" 8 24 "rec_timestamp r"] by (simp add: encodable_def)
  then show ?thesis
    using assms unfolding encodable_def
    by (simp add: buildGpsPart_def gps_bytes_def write_field write_mask16 del: append_assoc)
qed

definition record_bytes :: "bool \<Rightarrow> avl_rec \<Rightarrow> byte list" where
  "record_bytes ext r =
     gps_bytes r @ field 1 0 @
     (if ext
      then field 2 9 @ group_bytes 2 (oneByte r) @ group_bytes 2 (twoByte r) @ group_bytes 2 (fourByte r)
           @ group_bytes 2 (eightByte r) @ field 2 1 @ field 2 200 @ field 2 4 @ field 4 (rec_xtra r)
      else field 1 8 @ group_bytes 1 (oneByte r) @ group_bytes 1 (twoByte r) @ group_bytes 1 (fourByte r)
           @ group_bytes 1 (eightByte r))"

lemma elems_ok:
  assumes "- 32768 \<le> rec_tempC10 r" and "rec_tempC10 r < 32768" and "w = 1 \<or> w = 2"
  shows "list_all (el_ok w) (oneByte r)" "list_all (el_ok w) (twoByte r)" "list_all (el_ok w) (fourByte r)"
    "list_all (el_ok w) (eightByte r)"
  using assms by (auto simp: oneByte_def twoByte_def fourByte_def eightByte_def io_el_def el_ok_def)

lemma elems_length:
  "length (oneByte r) = 2" "length (twoByte r) = 5" "length (fourByte r) = 1" "length (eightByte r) = 0"
  by (simp_all add: oneByte_def twoByte_def fourByte_def eightByte_def)

lemma buildRecord_bytes:
  assumes "encodable r"
  shows "buildRecord cfg r = Inr (record_bytes (EXTENDED cfg) r)"
proof -
  have temp: "- 32768 \<le> rec_tempC10 r" "rec_tempC10 r < 32768"
    using assms by (simp_all add: encodable_def)
  have x: "writeUInt 4 (rec_xtra r) 0 (alloc 4) = Inr (field 4 (rec_xtra r))"
    using assms write_field(1) [of 0 "[]" 4 4 "rec_xtra r"] by (simp add: encodable_def)
  have xg: "ioGroupX8e [(200, field 4 (rec_xtra r))] = Inr (field 2 1 @ field 2 200 @ field 2 4 @ field 4 (rec_xtra r))"
    by (subst ioGroupX8e_bytes) simp_all
  have event: "writeUInt 1 0 0 (alloc (Suc n)) = Inr (fill (field 1 0) n)" for n
    using write_field(1) [of 0 "[]" 1 "Suc n" 0] by simp
  have count: "writeUInt k n 1 (fill (field 1 0) k) = Inr (field 1 0 @ field k n)" if "0 \<le> n" "n < 256 ^ k" for k n
    using write_field(1) [of 1 "field 1 0" k k n] that by simp
  show ?thesis
  proof (cases "EXTENDED cfg")
    case True
    then show ?thesis
      using ioGroup8e_bytes [OF elems_ok(1) [OF temp]] ioGroup8e_bytes [OF elems_ok(2) [OF temp]]
        ioGroup8e_bytes [OF elems_ok(3) [OF temp]] ioGroup8e_bytes [OF elems_ok(4) [OF temp]]
        event [of 2] count [of 9 2]
      by (simp add: buildRecord_def buildGpsPart_bytes [OF assms] elems_length x xg record_bytes_def numeral_3_eq_3)
  next
    case False
    then show ?thesis
      using ioGroup8_bytes [OF elems_ok(1) [OF temp]] ioGroup8_bytes [OF elems_ok(2) [OF temp]]
        ioGroup8_bytes [OF elems_ok(3) [OF temp]] ioGroup8_bytes [OF elems_ok(4) [OF temp]]
        event [of 1] count [of 8 1]
      by (simp add: buildRecord_def buildGpsPart_bytes [OF assms] elems_length record_bytes_def numeral_2_eq_2)
  qed
qed

subsection \<open>Frames\<close>

definition crc_field :: "bool \<Rightarrow> byte list \<Rightarrow> byte list" where
  "crc_field on dat = (if on then [ucast (CRC16 dat), ucast (drop_bit 8 (CRC16 dat)), 0, 0] else [0, 0, 0, 0])"

definition frame_bytes :: "bool \<Rightarrow> byte list \<Rightarrow> byte list" where
  "frame_bytes on dat = [0, 0, 0, 0] @ be_bytes 4 (length dat) @ dat @ crc_field on dat"

lemma length_crc_field [simp]: "length (crc_field on dat) = 4"
  by (simp add: crc_field_def)

lemma length_frame_bytes [simp]: "length (frame_bytes on dat) = length dat + 12"
  by (simp add: frame_bytes_def)

lemma low_byte: "(ucast (c AND 0xff) :: byte) = ucast c" for c :: "32 word"
proof -
  have "c AND 0xff = take_bit 8 c"
    unfolding take_bit_eq_mask by (simp add: mask_eq_exp_minus_1)
  moreover have "(ucast (take_bit 8 c) :: byte) = ucast c"
    by (rule bit_word_eqI) (auto simp: bit_simps)
  ultimately show ?thesis
    by simp
qed

lemma crc_bytes_js:
  "(ucast (crc16 dat) :: byte) = ucast (CRC16 dat)"
  "(ucast (signed_drop_bit 8 (crc16 dat)) :: byte) = ucast (drop_bit 8 (CRC16 dat))"
  unfolding crc16_ucast by (rule bit_word_eqI, auto simp: bit_simps min_def dest: bit_imp_le_length)+

lemma write_low_byte:
  "writeUInt 1 (uint (c AND 0xff)) off (fill a (Suc n)) = Inr (fill (a @ [ucast c]) n)" if "off = length a" for c :: "32 word"
proof -
  have "uint (c AND 0xff) < 256"
    by (rule le_less_trans [of _ 255]) (use word_and_le1 [of c "0xff"] in \<open>simp_all add: word_le_def\<close>)
  then show ?thesis
    using that by (subst writeUInt_fill) (simp_all add: low_byte flip: unat_eq_nat_uint)
qed

lemma buildFrame_bytes:
  assumes "length dat < 2 ^ 32"
  shows "buildFrame cfg dat = Inr (frame_bytes (USE_CRC cfg) dat)"
proof -
  have h1: "writeUInt 4 0 0 (alloc 8) = Inr (fill [0, 0, 0, 0] 4)"
    using writeUInt_fill [of 0 "[]" 4 8 0] by (simp add: numeral_eq_Suc)
  have h2: "writeUInt 4 (int (length dat)) 4 (fill [0, 0, 0, 0] 4) = Inr ([0, 0, 0, 0] @ be_bytes 4 (length dat))"
    using assms by (subst writeUInt_fill) auto
  have c1: "writeUInt 1 (uint (crc16 dat AND 0xff)) 0 (alloc 4) = Inr (fill [ucast (CRC16 dat)] 3)"
    using write_low_byte [of 0 "[]" "crc16 dat" 3] by (simp add: crc_bytes_js)
  have c2: "writeUInt 1 (uint (signed_drop_bit 8 (crc16 dat) AND 0xff)) 1 (fill [ucast (CRC16 dat)] 3)
      = Inr (fill [ucast (CRC16 dat), ucast (drop_bit 8 (CRC16 dat))] 2)"
    using write_low_byte [of 1 "[ucast (CRC16 dat)]" "signed_drop_bit 8 (crc16 dat)" 2] by (simp add: crc_bytes_js)
  show ?thesis
  proof (cases "USE_CRC cfg")
    case True
    moreover have "alloc 2 = [0, 0]"
      by (simp add: alloc_def numeral_eq_Suc)
    ultimately show ?thesis
      using c1 c2 h2 by (simp add: buildFrame_def h1 Let_def frame_bytes_def crc_field_def)
  next
    case False
    moreover have "crc_field False dat = alloc 4"
      by (simp add: alloc_def crc_field_def numeral_eq_Suc)
    ultimately show ?thesis
      using h2 by (simp add: buildFrame_def h1 frame_bytes_def)
  qed
qed

definition avl_data :: "bool \<Rightarrow> avl_rec list \<Rightarrow> byte list" where
  "avl_data ext rs =
     [if ext then 0x8e else 0x08, of_nat (length rs)] @ concat (map (record_bytes ext) rs) @ [of_nat (length rs)]"

lemma length_group_bytes: "length (group_bytes w es) = w + sum_list (map (\<lambda>el. w + el_size el) es)"
  by (simp add: group_bytes_def length_concat elem_bytes_def comp_def)

lemma length_record_bytes: "length (record_bytes ext r) = (if ext then 77 else 54)"
  by (simp add: record_bytes_def length_group_bytes oneByte_def twoByte_def fourByte_def eightByte_def io_el_def)

lemma length_avl_data: "length (avl_data ext rs) = 3 + length rs * (if ext then 77 else 54)"
  by (simp add: avl_data_def length_concat length_record_bytes comp_def sum_list_triv)

lemma buildAvlFrame_bytes:
  assumes "list_all encodable rs" and "length rs \<le> 2 ^ 24"
  shows "buildAvlFrame cfg rs = Inr (frame_bytes (USE_CRC cfg) (avl_data (EXTENDED cfg) rs))"
proof -
  have "length (avl_data (EXTENDED cfg) rs) < 2 ^ 32"
    using assms(2) by (simp add: length_avl_data)
  then have "buildFrame cfg (avl_data (EXTENDED cfg) rs) = Inr (frame_bytes (USE_CRC cfg) (avl_data (EXTENDED cfg) rs))"
    by (rule buildFrame_bytes)
  moreover have "collect (map (buildRecord cfg) rs) = Inr (map (record_bytes (EXTENDED cfg)) rs)"
    using assms(1) by (intro collect_map_Inr buildRecord_bytes) (simp add: list_all_iff)
  ultimately show ?thesis
    by (cases "EXTENDED cfg") (simp_all add: buildAvlFrame_def Buffer_from1_def avl_data_def)
qed

definition response_data :: "string \<Rightarrow> byte list" where
  "response_data txt = [0x0c, 1] @ be_bytes 4 (length txt) @ utf8_bytes txt @ [1]"

lemma buildCodec12Response_bytes:
  assumes "length txt < 2 ^ 24"
  shows "buildCodec12Response cfg txt = Inr (frame_bytes (USE_CRC cfg) (response_data txt))"
proof -
  let ?p = "utf8_bytes txt"
  have w1: "writeUInt 1 12 0 (alloc (Suc (6 + length ?p))) = Inr (fill [0x0c] (6 + length ?p))"
    using writeUInt_fill [of 0 "[]" 1 "Suc (6 + length ?p)" 12] by simp
  have w2: "writeUInt 1 1 1 (fill [0x0c] (6 + length ?p)) = Inr (fill [0x0c, 1] (5 + length ?p))"
    by (subst writeUInt_fill) auto
  have w3: "writeUInt 4 (int (length ?p)) 2 (fill [0x0c, 1] (5 + length ?p))
      = Inr (fill ([0x0c, 1] @ be_bytes 4 (length txt)) (1 + length ?p))"
    using assms by (subst writeUInt_fill) auto
  have w4: "copy_to ?p 6 (fill ([0x0c, 1] @ be_bytes 4 (length txt)) (1 + length ?p))
      = fill ([0x0c, 1] @ be_bytes 4 (length txt) @ ?p) 1"
    by (subst copy_to_fill) auto
  have w5: "writeUInt 1 1 (6 + length ?p) (fill ([0x0c, 1] @ be_bytes 4 (length txt) @ ?p) 1) = Inr (response_data txt)"
    by (subst writeUInt_fill) (auto simp: response_data_def)
  have "length (response_data txt) < 2 ^ 32"
    using assms by (simp add: response_data_def)
  then have "buildFrame cfg (response_data txt) = Inr (frame_bytes (USE_CRC cfg) (response_data txt))"
    by (rule buildFrame_bytes)
  then show ?thesis
    using w1 w2 w3 w4 w5 by (simp add: buildCodec12Response_def Let_def)
qed

subsection \<open>What the movement model keeps\<close>

text \<open>\<open>Math.random()\<close> is at least 0 and below 1.\<close>

definition random_draws :: "(nat \<Rightarrow> real) \<Rightarrow> bool" where
  "random_draws rnd = (\<forall>k. 0 \<le> rnd k \<and> rnd k < 1)"

lemma rand_below_range:
  assumes "random_draws rnd" and "0 < n"
  shows "0 \<le> rand_below rnd k n" "rand_below rnd k n < n"
proof -
  have r: "0 \<le> rnd k" "rnd k < 1"
    using assms(1) by (simp_all add: random_draws_def)
  show "0 \<le> rand_below rnd k n"
    using r assms(2) by (simp add: rand_below_def)
  have "rnd k * of_int n < 1 * of_int n"
    using r assms(2) by (intro mult_strict_right_mono) simp_all
  then show "rand_below rnd k n < n"
    by (simp add: rand_below_def floor_less_iff)
qed

definition sim_ok :: "sim_state \<Rightarrow> bool" where
  "sim_ok s =
     (3 \<le> sim_fuel s \<and> sim_fuel s \<le> 100 \<and> 0 \<le> sim_heading s \<and> sim_heading s < 360
      \<and> - 300 \<le> sim_tempC10 s \<and> sim_tempC10 s \<le> 80 \<and> 0 \<le> sim_parkTicks s
      \<and> 0 \<le> sim_xCounter s \<and> sim_xCounter s < 2 ^ 32 \<and> 0 \<le> sim_records s)"

definition rec_ok :: "avl_rec \<Rightarrow> bool" where
  "rec_ok r =
     (rec_priority r = 0 \<and> 12 \<le> rec_altitude r \<and> rec_altitude r < 22 \<and> 0 \<le> rec_angle r \<and> rec_angle r < 360
      \<and> 10 \<le> rec_satellites r \<and> rec_satellites r < 17
      \<and> (rec_speed r = 0 \<or> 55 \<le> rec_speed r \<and> rec_speed r \<le> 85)
      \<and> (rec_ignition r = 0 \<or> rec_ignition r = 1) \<and> (rec_ignition r = 0 \<longrightarrow> rec_speed r = 0)
      \<and> (rec_door r = 0 \<or> rec_door r = 1)
      \<and> 3800 \<le> rec_batteryMv r \<and> rec_batteryMv r \<le> 4150 \<and> 0 < rec_vehicleMv r \<and> 0 < rec_externalMv r
      \<and> - 300 \<le> rec_tempC10 r \<and> rec_tempC10 r \<le> 80 \<and> 3 \<le> rec_fuel r \<and> rec_fuel r \<le> 100
      \<and> 0 \<le> rec_xtra r \<and> rec_xtra r < 2 ^ 32)"

lemma sim_start_ok: "sim_ok sim_start"
  by (simp add: sim_ok_def sim_start_def)

text \<open>Parking and driving touch neither the temperature nor the fuel, and keep the ranges.\<close>

lemma park_or_drive_keeps:
  assumes rnd: "random_draws rnd" and cfg: "1 \<le> PARK_RECORDS cfg" and ok: "sim_ok s"
    and eq: "park_or_drive cfg rnd s = (parked, s')"
  shows "sim_ok s'" and "sim_records s' = sim_records s"
    and "if parked then sim_speed s' = 0 else 55 \<le> sim_speed s' \<and> sim_speed s' \<le> 85"
proof -
  consider "sim_parkTicks s > 0" | "\<not> sim_parkTicks s > 0" "PARK_EVERY cfg > 0 \<and> sim_records s mod PARK_EVERY cfg = 0"
    | "\<not> sim_parkTicks s > 0" "\<not> (PARK_EVERY cfg > 0 \<and> sim_records s mod PARK_EVERY cfg = 0)"
      "PARK_EVERY cfg = 0 \<and> rnd (sim_draws s) < 0.02"
    | "\<not> sim_parkTicks s > 0" "\<not> (PARK_EVERY cfg > 0 \<and> sim_records s mod PARK_EVERY cfg = 0)"
      "\<not> (PARK_EVERY cfg = 0 \<and> rnd (sim_draws s) < 0.02)"
    by blast
  then have "sim_ok s' \<and> sim_records s' = sim_records s
      \<and> (if parked then sim_speed s' = 0 else 55 \<le> sim_speed s' \<and> sim_speed s' \<le> 85)"
  proof cases
    case 1
    then show ?thesis
      using ok eq by (auto simp: park_or_drive_def Let_def sim_ok_def)
  next
    case 2
    then show ?thesis
      using ok eq cfg by (auto simp: park_or_drive_def Let_def sim_ok_def)
  next
    case 3
    then show ?thesis
      using ok eq rand_below_range(1) [OF rnd, of 6 "sim_draws s + 1"]
      by (auto simp: park_or_drive_def Let_def sim_ok_def)
  next
    case 4
    then have "parked = False"
      "s' = drive cfg rnd (s\<lparr> sim_draws := (if PARK_EVERY cfg = 0 then sim_draws s + 1 else sim_draws s) \<rparr>)"
      using eq by (auto simp: park_or_drive_def Let_def)
    then obtain k where drv: "parked = False" "s' = drive cfg rnd (s\<lparr> sim_draws := k \<rparr>)"
      by blast
    have "0 \<le> rand_below rnd k 31" "rand_below rnd k 31 < 31"
      using rand_below_range [OF rnd, of 31 k] by simp_all
    then show ?thesis
      using ok drv by (simp add: drive_def Let_def sim_ok_def)
  qed
  then show "sim_ok s'" and "sim_records s' = sim_records s"
    and "if parked then sim_speed s' = 0 else 55 \<le> sim_speed s' \<and> sim_speed s' \<le> 85"
    by simp_all
qed

lemma js_round_between: "of_int a \<le> x \<Longrightarrow> x \<le> of_int b \<Longrightarrow> a \<le> js_round x \<and> js_round x \<le> b"
  using js_round_mono [of "of_int a" x] js_round_mono [of x "of_int b"] by simp

lemma nextRecord_keeps:
  assumes rnd: "random_draws rnd" and cfg: "1 \<le> PARK_RECORDS cfg" and ok: "sim_ok s"
  shows "rec_ok (fst (nextRecord cfg rnd ts s))" and "sim_ok (snd (nextRecord cfg rnd ts s))"
    and "rec_timestamp (fst (nextRecord cfg rnd ts s)) = ts"
proof -
  obtain parked s1 where pd: "park_or_drive cfg rnd (s\<lparr> sim_records := sim_records s + 1 \<rparr>) = (parked, s1)"
    by fastforce
  have "sim_ok (s\<lparr> sim_records := sim_records s + 1 \<rparr>)"
    using ok by (simp add: sim_ok_def)
  note s1 = park_or_drive_keeps [OF rnd cfg this pd]
  let ?k = "sim_draws s1"
  have draws: "0 \<le> rand_below rnd (?k + 1) 10" "rand_below rnd (?k + 1) 10 < 10"
    "0 \<le> rand_below rnd (?k + 2) 7" "rand_below rnd (?k + 2) 7 < 7"
    "0 \<le> rand_below rnd (?k + 3) 801" "0 \<le> rand_below rnd (?k + 4) 901"
    "0 \<le> rand_below rnd j 351" for j
    by (simp_all add: rand_below_range [OF rnd])
  have top: "rand_below rnd j 351 \<le> 350" for j
    using rand_below_range(2) [OF rnd, of 351 j] by linarith
  have fuel: "3 \<le> js_round (sim_fuel s1) \<and> js_round (sim_fuel s1) \<le> 100"
    "3 \<le> js_round (max 3 (min 100 (sim_fuel s1 - 1 / 20))) \<and> js_round (max 3 (min 100 (sim_fuel s1 - 1 / 20))) \<le> 100"
    using s1(1) by (intro js_round_between; simp add: sim_ok_def)+
  note red = nextRecord_def pd Let_def split_beta
  show "rec_timestamp (fst (nextRecord cfg rnd ts s)) = ts"
    by (simp add: red)
  show "sim_ok (snd (nextRecord cfg rnd ts s))"
    using s1(1) by (simp add: red sim_ok_def)
  show "rec_ok (fst (nextRecord cfg rnd ts s))"
  proof (cases parked)
    case True
    then show ?thesis
      using s1 draws top fuel by (auto simp: red rec_ok_def sim_ok_def)
  next
    case False
    then show ?thesis
      using s1 draws top fuel by (auto simp: red rec_ok_def sim_ok_def)
  qed
qed

lemma next_records_keep:
  assumes rnd: "random_draws rnd" and cfg: "1 \<le> PARK_RECORDS cfg"
  shows "sim_ok s \<Longrightarrow> list_all rec_ok (fst (next_records cfg rnd ts n s)) \<and> sim_ok (snd (next_records cfg rnd ts n s))
    \<and> map rec_timestamp (fst (next_records cfg rnd ts n s)) = map (\<lambda>i. ts + 1000 * int i) [0..<n]"
proof (induction n arbitrary: ts s)
  case (Suc n)
  note one = nextRecord_keeps [OF rnd cfg Suc.prems, of ts]
  note rest = Suc.IH [OF one(2), of "ts + 1000"]
  have "map (\<lambda>i. ts + 1000 * int i) [0..<Suc n] = ts # map (\<lambda>i. ts + 1000 + 1000 * int i) [0..<n]"
    by (simp add: upt_conv_Cons flip: map_Suc_upt del: upt_Suc)
  then show ?case
    using one(1,3) rest by (simp add: split_beta del: upt_Suc)
qed simp

lemma next_records_length: "length (fst (next_records cfg rnd ts n s)) = n"
  by (induction n arbitrary: ts s) (simp_all add: split_beta)

text \<open>A record of the model is written without an exception as long as it lies on the globe.\<close>

definition on_globe :: "avl_rec \<Rightarrow> bool" where
  "on_globe r = (\<bar>rec_lat r\<bar> \<le> 90 \<and> \<bar>rec_lng r\<bar> \<le> 180)"

lemma rec_ok_encodable:
  assumes "rec_ok r" and "on_globe r" and "- (2 ^ 63) \<le> rec_timestamp r" and "rec_timestamp r < 2 ^ 63"
  shows "encodable r"
proof -
  have "- 1800000000 \<le> js_round (rec_lng r * 10 ^ 7) \<and> js_round (rec_lng r * 10 ^ 7) \<le> 1800000000"
    using assms(2) by (intro js_round_between) (simp_all add: on_globe_def abs_le_iff)
  moreover have "- 900000000 \<le> js_round (rec_lat r * 10 ^ 7) \<and> js_round (rec_lat r * 10 ^ 7) \<le> 900000000"
    using assms(2) by (intro js_round_between) (simp_all add: on_globe_def abs_le_iff)
  ultimately show ?thesis
    using assms(1,3,4) by (simp add: encodable_def rec_ok_def)
qed

end
