(* ===== verification/Sim_Device.thy ===== *)
theory Sim_Device
  imports Simulator
begin

section \<open>The device simulator: the connection\<close>

text \<open>
  The second half of \<open>backend/scripts/simulate_device.js\<close>: handshake, incoming acknowledgements and commands
  (\<open>pump\<close>), the streaming timer and the splitting of packets. \<open>d_out\<close> is the list of \<open>client.write\<close> calls,
  the scheduled ones included, each with the time at which it is due; timers fire in the order of their due
  times, so the bytes on the socket are those of \<open>socket_stream\<close>. Cutting a packet draws random numbers until
  enough of them differ, which need not end; \<open>None\<close> is the run that does not. An uncaught exception ends the
  program (\<open>d_crash\<close>).
\<close>

datatype dev_mode = WAITING_HANDSHAKE | STREAMING | EXITED

datatype dev_event = Acked nat | Answered "byte list" | Crashed js_error

record device =
  d_state :: dev_mode
  d_rxBuf :: "byte list"
  d_sim :: sim_state
  d_frameNo :: int
  d_emitted :: int
  d_timer :: bool
  d_end :: "int option"
  d_out :: "(int \<times> byte list) list"
  d_events :: "dev_event list"
  d_crash :: "js_error option"

definition handshake :: "sim_options \<Rightarrow> js_error + byte list" where
  "handshake cfg =
     (let imeiBuffer = utf8_bytes (IMEI cfg) in
      and_then (writeUInt 2 (int (length imeiBuffer)) 0 (alloc (2 + length imeiBuffer)))
        (\<lambda>b. Inr (copy_to imeiBuffer 2 b)))"

definition on_connect :: "sim_options \<Rightarrow> int \<Rightarrow> device" where
  "on_connect cfg now =
     (let d = \<lparr> d_state = WAITING_HANDSHAKE, d_rxBuf = [], d_sim = sim_start, d_frameNo = 0, d_emitted = 0,
                d_timer = False, d_end = None, d_out = [], d_events = [], d_crash = None \<rparr>
      in case handshake cfg of
           Inl e \<Rightarrow> d\<lparr> d_crash := Some e \<rparr>
         | Inr bs \<Rightarrow> d\<lparr> d_out := [(now, bs)] \<rparr>)"

subsection \<open>Writing a packet\<close>

text \<open>\<open>while (cuts.size < need) cuts.add(1 + Math.floor(Math.random() * bound))\<close>, from the \<open>k\<close>-th draw on.\<close>

partial_function (option) draw_cuts :: "(nat \<Rightarrow> real) \<Rightarrow> nat \<Rightarrow> nat \<Rightarrow> nat \<Rightarrow> nat list \<Rightarrow> (nat list \<times> nat) option" where
  "draw_cuts rnd bound need k cuts =
     (if length cuts < need
      then draw_cuts rnd bound need (k + 1) (List.insert (1 + nat (rand_below rnd k (int bound))) cuts)
      else Some (cuts, k))"

fun slices :: "nat list \<Rightarrow> byte list \<Rightarrow> byte list list" where
  "slices (p # q # ps) packet = take (q - p) (drop p packet) # slices (q # ps) packet"
| "slices ps packet = []"

text \<open>The delay of each slice after the first, \<open>delay += 20 + Math.floor(Math.random() * 61)\<close>.\<close>

fun delays :: "(nat \<Rightarrow> real) \<Rightarrow> nat \<Rightarrow> int \<Rightarrow> nat \<Rightarrow> int list" where
  "delays rnd k delay 0 = []"
| "delays rnd k delay (Suc n) =
     (let delay' = delay + 20 + rand_below rnd k 61 in delay' # delays rnd (k + 1) delay' n)"

text \<open>The writes of one packet, and the next draw.\<close>

definition writePacket ::
  "sim_options \<Rightarrow> (nat \<Rightarrow> real) \<Rightarrow> int \<Rightarrow> nat \<Rightarrow> byte list \<Rightarrow> ((int \<times> byte list) list \<times> nat) option" where
  "writePacket cfg rnd now k packet =
     (if \<not> FRAGMENT cfg then Some ([(now, packet)], k)
      else let chunkCount = 2 + nat (rand_below rnd k 3) in
        case draw_cuts rnd (length packet - 1) (chunkCount - 1) (k + 1) [] of
          None \<Rightarrow> None
        | Some (cuts, k') \<Rightarrow>
            (case slices (0 # sort cuts @ [length packet]) packet of
               [] \<Rightarrow> Some ([], k')
             | s # ss \<Rightarrow>
                 Some ((now, s) # zip (map ((+) now) (delays rnd k' 0 (length ss))) ss, k' + length ss)))"

subsection \<open>Streaming\<close>

definition sendFrame :: "sim_options \<Rightarrow> (nat \<Rightarrow> real) \<Rightarrow> int \<Rightarrow> device \<Rightarrow> device option" where
  "sendFrame cfg rnd now d =
     (let (records, sim') = next_records cfg rnd now (nat (BURST cfg)) (d_sim d) in
      case buildAvlFrame cfg records of
        Inl e \<Rightarrow> Some (d\<lparr> d_sim := sim', d_crash := Some e \<rparr>)
      | Inr packet \<Rightarrow>
          (case writePacket cfg rnd now (sim_draws sim') packet of
             None \<Rightarrow> None
           | Some (ws, k) \<Rightarrow>
               let emitted = d_emitted d + int (length records);
                   reached = (case POSITIONS cfg of None \<Rightarrow> False | Some n \<Rightarrow> emitted \<ge> n)
               in Some (d\<lparr> d_sim := sim'\<lparr> sim_draws := k \<rparr>, d_frameNo := d_frameNo d + 1, d_emitted := emitted,
                           d_out := d_out d @ ws, d_timer := (d_timer d \<and> \<not> reached),
                           d_end := (if reached then Some (now + 1500) else d_end d) \<rparr>)))"

definition startStreaming :: "sim_options \<Rightarrow> (nat \<Rightarrow> real) \<Rightarrow> int \<Rightarrow> device \<Rightarrow> device option" where
  "startStreaming cfg rnd now d = sendFrame cfg rnd now (d\<lparr> d_timer := True \<rparr>)"

text \<open>The interval timer fires, unless it has been cleared or the program has ended.\<close>

definition timer_tick :: "sim_options \<Rightarrow> (nat \<Rightarrow> real) \<Rightarrow> int \<Rightarrow> device \<Rightarrow> device option" where
  "timer_tick cfg rnd now d =
     (if d_timer d \<and> d_crash d = None \<and> d_state d \<noteq> EXITED then sendFrame cfg rnd now d else Some d)"

subsection \<open>Incoming bytes\<close>

definition command_reply :: "string \<Rightarrow> string" where
  "command_reply command =
     (if take 3 (toLowerCase (trim command)) = ''get'' then ''Yes:1'' else ''OK:'' @ command)"

definition handleCommandFrame :: "sim_options \<Rightarrow> byte list \<Rightarrow> js_error + byte list" where
  "handleCommandFrame cfg frm =
     and_then (readUInt32BE frm 4) (\<lambda>dataLen.
     let dat = take dataLen (drop 8 frm) in
     and_then (readUInt32BE dat 2) (\<lambda>commandSize.
     let command = bytes_text (take commandSize (drop 6 dat)) in
     buildCodec12Response cfg (command_reply command)))"

text \<open>The bytes look like the start of a Codec 12 frame.\<close>

definition is_command :: "sim_options \<Rightarrow> byte list \<Rightarrow> bool" where
  "is_command cfg rx = (LISTEN_COMMANDS cfg \<and> length rx \<ge> 9 \<and> be_nat (take 4 rx) = 0 \<and> rx ! 8 = 0x0c)"

text \<open>The \<open>while (true)\<close> loop of \<open>pump\<close>: what happens, and the bytes that wait. An exception ends the program.\<close>

function pump_loop :: "sim_options \<Rightarrow> byte list \<Rightarrow> dev_event list \<times> byte list" where
  "pump_loop cfg rx =
     (if is_command cfg rx then
        if length rx < 13 then ([], rx)
        else let total = 8 + be_nat (take 4 (drop 4 rx)) + 4 in
          if length rx < total then ([], rx)
          else (case handleCommandFrame cfg (take total rx) of
                  Inl e \<Rightarrow> ([Crashed e], drop total rx)
                | Inr packet \<Rightarrow> (let (es, rest) = pump_loop cfg (drop total rx) in (Answered packet # es, rest)))
      else if length rx \<ge> 4
      then (let (es, rest) = pump_loop cfg (drop 4 rx) in (Acked (be_nat (take 4 rx)) # es, rest))
      else ([], rx))"
  by pat_completeness auto
termination
  by (relation "measure (\<lambda>(cfg, rx). length rx)") (auto simp: is_command_def)

declare pump_loop.simps [simp del]

fun written :: "int \<Rightarrow> dev_event \<Rightarrow> (int \<times> byte list) list" where
  "written now (Answered packet) = [(now, packet)]"
| "written now e = []"

fun crash_of :: "dev_event list \<Rightarrow> js_error option" where
  "crash_of [] = None"
| "crash_of (Crashed e # es) = Some e"
| "crash_of (e # es) = crash_of es"

definition pump_streaming :: "sim_options \<Rightarrow> int \<Rightarrow> device \<Rightarrow> device" where
  "pump_streaming cfg now d =
     (let (es, rest) = pump_loop cfg (d_rxBuf d)
      in d\<lparr> d_rxBuf := rest, d_events := d_events d @ es, d_out := d_out d @ concat (map (written now) es),
            d_crash := crash_of es \<rparr>)"

definition pump :: "sim_options \<Rightarrow> (nat \<Rightarrow> real) \<Rightarrow> int \<Rightarrow> device \<Rightarrow> device option" where
  "pump cfg rnd now d =
     (if d_state d = WAITING_HANDSHAKE then
        (case d_rxBuf d of
           [] \<Rightarrow> Some d
         | response # rx \<Rightarrow>
             if response = 0x01 then
               (case startStreaming cfg rnd now (d\<lparr> d_rxBuf := rx, d_state := STREAMING \<rparr>) of
                  None \<Rightarrow> None
                | Some d' \<Rightarrow> if d_crash d' = None then Some (pump_streaming cfg now d') else Some d')
             else Some (d\<lparr> d_rxBuf := rx, d_state := EXITED \<rparr>))
      else if d_state d = STREAMING then Some (pump_streaming cfg now d)
      else Some d)"

definition on_data :: "sim_options \<Rightarrow> (nat \<Rightarrow> real) \<Rightarrow> int \<Rightarrow> byte list \<Rightarrow> device \<Rightarrow> device option" where
  "on_data cfg rnd now chunk d =
     (if d_crash d = None \<and> d_state d \<noteq> EXITED then pump cfg rnd now (d\<lparr> d_rxBuf := d_rxBuf d @ chunk \<rparr>) else Some d)"

text \<open>\<open>client.on('close')\<close> ends the program.\<close>

definition on_close :: "device \<Rightarrow> device" where
  "on_close d = d\<lparr> d_state := EXITED, d_timer := False \<rparr>"

text \<open>The bytes that reach the socket, in the order of their due times.\<close>

definition socket_stream :: "(int \<times> byte list) list \<Rightarrow> byte list" where
  "socket_stream ws = concat (map snd (sort_key fst ws))"

subsection \<open>A cut packet is the packet\<close>

lemma concat_slices:
  "sorted (p # ps) \<Longrightarrow> last (p # ps) = length packet \<Longrightarrow> concat (slices (p # ps) packet) = drop p packet"
proof (induction ps arbitrary: p)
  case (Cons q ps)
  have "take (q - p) (drop p packet) @ drop (q - p) (drop p packet) = drop p packet"
    by (rule append_take_drop_id)
  moreover have "drop (q - p) (drop p packet) = drop q packet"
    using Cons.prems(1) by simp
  ultimately show ?case
    using Cons by simp
qed simp

lemma length_slices: "length (slices (p # ps) packet) = length ps"
  by (induction ps arbitrary: p) simp_all

text \<open>The cuts lie strictly inside the packet.\<close>

lemma draw_cuts_inside:
  assumes "draw_cuts rnd bound need k cuts = Some y"
  shows "random_draws rnd \<longrightarrow> 0 < bound \<longrightarrow> set cuts \<subseteq> {1..bound} \<longrightarrow> set (fst y) \<subseteq> {1..bound}"
  using assms
proof (rule draw_cuts.raw_induct [rotated])
  fix f rnd bound need k cuts y
  assume IH: "\<And>rnd bound need k cuts y. f rnd bound need k cuts = Some y \<Longrightarrow>
      random_draws rnd \<longrightarrow> 0 < bound \<longrightarrow> set cuts \<subseteq> {1..bound} \<longrightarrow> set (fst y) \<subseteq> {1..bound}"
    and eq: "(if length cuts < need
        then f rnd bound need (k + 1) (List.insert (1 + nat (rand_below rnd k (int bound))) cuts)
        else Some (cuts, k)) = Some y"
  show "random_draws rnd \<longrightarrow> 0 < bound \<longrightarrow> set cuts \<subseteq> {1..bound} \<longrightarrow> set (fst y) \<subseteq> {1..bound}"
  proof (intro impI)
    assume *: "random_draws rnd" "0 < bound" "set cuts \<subseteq> {1..bound}"
    have "1 + nat (rand_below rnd k (int bound)) \<in> {1..bound}"
      using rand_below_range [OF *(1), of "int bound" k] *(2) by simp
    then show "set (fst y) \<subseteq> {1..bound}"
      using eq IH [of rnd bound need "k + 1" "List.insert (1 + nat (rand_below rnd k (int bound))) cuts" y] *
      by (auto split: if_splits)
  qed
qed

text \<open>Drawing ends as soon as enough of the draws differ.\<close>

lemma draw_cuts_ends:
  "need \<le> card (set cuts \<union> (\<lambda>i. 1 + nat (rand_below rnd i (int bound))) ` {k..<k + m}) \<Longrightarrow> distinct cuts \<Longrightarrow>
   draw_cuts rnd bound need k cuts \<noteq> None"
proof (induction m arbitrary: k cuts)
  case 0
  then show ?case
    by (subst draw_cuts.simps) (simp add: distinct_card)
next
  case (Suc m)
  let ?f = "\<lambda>i. 1 + nat (rand_below rnd i (int bound))"
  have "{k..<k + Suc m} = insert k {k + 1..<k + 1 + m}"
    by auto
  then have "set cuts \<union> ?f ` {k..<k + Suc m} = set (List.insert (?f k) cuts) \<union> ?f ` {k + 1..<k + 1 + m}"
    by auto
  then show ?case
    using Suc.IH [where k = "k + 1" and cuts = "List.insert (?f k) cuts"] Suc.prems
    by (subst draw_cuts.simps) simp
qed

lemma delays_range:
  assumes "random_draws rnd"
  shows "length (delays rnd k t n) = n" and "x \<in> set (delays rnd k t n) \<Longrightarrow> t < x \<and> x \<le> t + 80 * int n"
    and "sorted (delays rnd k t n)"
proof -
  have "length (delays rnd k t n) = n \<and> (\<forall>x \<in> set (delays rnd k t n). t < x \<and> x \<le> t + 80 * int n)
      \<and> sorted (delays rnd k t n)"
  proof (induction n arbitrary: k t)
    case (Suc n)
    have "0 \<le> rand_below rnd k 61" "rand_below rnd k 61 < 61"
      using rand_below_range [OF assms, of 61 k] by simp_all
    then show ?case
      using Suc [of "k + 1" "t + 20 + rand_below rnd k 61"] by (fastforce simp: Let_def)
  qed simp
  then show "length (delays rnd k t n) = n" and "x \<in> set (delays rnd k t n) \<Longrightarrow> t < x \<and> x \<le> t + 80 * int n"
    and "sorted (delays rnd k t n)"
    by simp_all
qed

text \<open>The writes of a packet: in order, within 240 ms, and together the packet.\<close>

lemma draw_cuts_length:
  assumes "draw_cuts rnd bound need k cuts = Some y"
  shows "length cuts \<le> need \<longrightarrow> length (fst y) = need"
  using assms
proof (rule draw_cuts.raw_induct [rotated])
  fix f :: "(nat \<Rightarrow> real) \<Rightarrow> nat \<Rightarrow> nat \<Rightarrow> nat \<Rightarrow> nat list \<Rightarrow> (nat list \<times> nat) option"
    and rnd bound need k and cuts :: "nat list" and y :: "nat list \<times> nat"
  assume IH: "\<And>rnd bound need k cuts y. f rnd bound need k cuts = Some y \<Longrightarrow>
      length cuts \<le> need \<longrightarrow> length (fst y) = need"
    and eq: "(if length cuts < need
        then f rnd bound need (k + 1) (List.insert (1 + nat (rand_below rnd k (int bound))) cuts)
        else Some (cuts, k)) = Some y"
  show "length cuts \<le> need \<longrightarrow> length (fst y) = need"
    using eq IH [of rnd bound need "k + 1" "List.insert (1 + nat (rand_below rnd k (int bound))) cuts" y]
    by (auto simp: List.insert_def split: if_splits)
qed

lemma sorted_points:
  fixes n :: nat
  assumes "set cuts \<subseteq> {1..n - 1}"
  shows "sorted (0 # sort cuts @ [n])"
proof -
  have "x \<le> n" if "x \<in> set cuts" for x
    using subsetD [OF assms that] by auto
  then have "sorted (sort cuts @ [n])"
    by (simp add: sorted_append)
  then show ?thesis
    by simp
qed

lemma writePacket_whole:
  assumes rnd: "random_draws rnd" and len: "2 \<le> length packet"
    and w: "writePacket cfg rnd now k packet = Some (ws, k')"
  shows "concat (map snd ws) = packet" and "sorted (map fst ws)"
    and "x \<in> set ws \<Longrightarrow> now \<le> fst x \<and> fst x \<le> now + (if FRAGMENT cfg then 240 else 0)"
proof -
  have "concat (map snd ws) = packet \<and> sorted (map fst ws)
      \<and> (\<forall>x \<in> set ws. now \<le> fst x \<and> fst x \<le> now + (if FRAGMENT cfg then 240 else 0))"
  proof (cases "FRAGMENT cfg")
    case False
    then show ?thesis
      using w by (auto simp: writePacket_def)
  next
    case True
    let ?need = "2 + nat (rand_below rnd k 3) - 1"
    obtain cuts j where cuts: "draw_cuts rnd (length packet - 1) ?need (k + 1) [] = Some (cuts, j)"
      using w True by (auto simp: writePacket_def Let_def split: option.splits)
    have inside: "set cuts \<subseteq> {1..length packet - 1}" and need: "length cuts = ?need"
      using draw_cuts_inside [OF cuts] draw_cuts_length [OF cuts] rnd len by simp_all
    let ?ss = "slices (0 # sort cuts @ [length packet]) packet"
    have n: "length ?ss = Suc ?need"
      by (simp add: length_slices need)
    then obtain s ss where ss: "?ss = s # ss" "length ss = ?need"
      by (cases ?ss) auto
    have few: "?need \<le> 3"
      using rand_below_range(2) [OF rnd, of 3 k] by simp
    have ws: "ws = (now, s) # zip (map ((+) now) (delays rnd j 0 (length ss))) ss"
      using w True cuts ss by (simp add: writePacket_def Let_def)
    let ?ds = "delays rnd j 0 (length ss)"
    have "0 < x \<and> x \<le> 240" if "x \<in> set ?ds" for x
      using delays_range(2) [OF rnd that] few unfolding ss(2) by linarith
    then have ds: "length ?ds = length ss" "sorted ?ds" "\<forall>x \<in> set ?ds. 0 < x \<and> x \<le> 240"
      using delays_range(1,3) [OF rnd] by blast+
    have "concat ?ss = drop 0 packet"
      using len inside sorted_points [of cuts "length packet"] by (intro concat_slices) simp_all
    then have "concat (map snd ws) = packet"
      using ds(1) by (simp add: ws ss(1) map_snd_zip)
    moreover have "map fst ws = now # map ((+) now) ?ds"
      using ds(1) by (simp add: ws map_fst_zip)
    moreover have "sorted (map ((+) now) ?ds)"
      using ds(2) by (simp add: sorted_map_mono mono_def sorted_map sorted_wrt_map sorted_wrt_iff_nth_less)
    ultimately show ?thesis
      using ds(3) True by (fastforce simp: ws dest!: set_zip_leftD)
  qed
  then show "concat (map snd ws) = packet" and "sorted (map fst ws)"
    and "x \<in> set ws \<Longrightarrow> now \<le> fst x \<and> fst x \<le> now + (if FRAGMENT cfg then 240 else 0)"
    by blast+
qed

subsection \<open>A frame that was sent\<close>

lemma collect_Inr: "collect ms = Inr xs \<Longrightarrow> ms = map Inr xs"
  by (induction ms arbitrary: xs rule: collect.induct) (auto simp: and_then_Inr)

lemma writeInt_Inr: "writeInt k v off b = Inr b' \<Longrightarrow> - (256 ^ k div 2) \<le> v \<and> v < 256 ^ k div 2"
  by (auto simp: writeInt_def split: if_splits)

lemma buildGpsPart_Inr:
  assumes "buildGpsPart r = Inr b"
  shows "- (2 ^ 63) \<le> rec_timestamp r \<and> rec_timestamp r < 2 ^ 63"
    and "- (2 ^ 31) \<le> js_round (rec_lng r * 10 ^ 7) \<and> js_round (rec_lng r * 10 ^ 7) < 2 ^ 31"
    and "- (2 ^ 31) \<le> js_round (rec_lat r * 10 ^ 7) \<and> js_round (rec_lat r * 10 ^ 7) < 2 ^ 31"
  using assms unfolding buildGpsPart_def and_then_Inr by (auto dest!: writeInt_Inr)

lemma buildRecord_encodable:
  assumes "buildRecord cfg r = Inr b" and "rec_ok r"
  shows "encodable r"
proof -
  obtain g where "buildGpsPart r = Inr g"
    using assms(1) by (auto simp: buildRecord_def and_then_Inr)
  from buildGpsPart_Inr [OF this] show ?thesis
    using assms(2) by (simp add: encodable_def rec_ok_def)
qed

lemma buildAvlFrame_encodable:
  assumes "buildAvlFrame cfg rs = Inr packet" and "list_all rec_ok rs"
  shows "list_all encodable rs"
proof -
  obtain bs where "collect (map (buildRecord cfg) rs) = Inr bs"
    using assms(1) by (auto simp: buildAvlFrame_def and_then_Inr)
  then have "map (buildRecord cfg) rs = map Inr bs"
    by (rule collect_Inr)
  then have built: "\<exists>b. buildRecord cfg r = Inr b" if "r \<in> set rs" for r
    using that by (metis (no_types, lifting) image_eqI imageE list.set_map)
  show ?thesis
    unfolding list_all_iff
  proof
    fix r assume "r \<in> set rs"
    moreover then obtain b where "buildRecord cfg r = Inr b"
      using built by blast
    ultimately show "encodable r"
      using assms(2) by (intro buildRecord_encodable [of cfg r b]) (simp_all add: list_all_iff)
  qed
qed

definition sent_frame :: "sim_options \<Rightarrow> avl_rec list \<Rightarrow> byte list" where
  "sent_frame cfg rs = frame_bytes (USE_CRC cfg) (avl_data (EXTENDED cfg) rs)"

text \<open>The options with which a frame is one frame: the record count fits its byte.\<close>

definition sound_options :: "sim_options \<Rightarrow> bool" where
  "sound_options cfg = (1 \<le> PARK_RECORDS cfg \<and> 1 \<le> BURST cfg \<and> BURST cfg \<le> 255 \<and> length (IMEI cfg) < 65536
     \<and> 1 \<le> INTERVAL_MS cfg \<and> (case POSITIONS cfg of None \<Rightarrow> True | Some n \<Rightarrow> 0 < n))"

definition good_batch :: "sim_options \<Rightarrow> avl_rec list \<Rightarrow> bool" where
  "good_batch cfg rs = (list_all rec_ok rs \<and> list_all encodable rs \<and> int (length rs) = BURST cfg)"

lemma sendFrame_sent:
  assumes rnd: "random_draws rnd" and cfg: "sound_options cfg" and ok: "sim_ok (d_sim d)"
    and run: "sendFrame cfg rnd now d = Some d'" and fine: "d_crash d' = None"
  obtains rs ws where "good_batch cfg rs" and "map rec_timestamp rs = map (\<lambda>i. now + 1000 * int i) [0..<nat (BURST cfg)]"
    and "d_out d' = d_out d @ ws" and "concat (map snd ws) = sent_frame cfg rs"
    and "sorted (map fst ws)"
    and "\<forall>x \<in> set ws. now \<le> fst x \<and> fst x \<le> now + (if FRAGMENT cfg then 240 else 0)"
    and "sim_ok (d_sim d')" and "d_emitted d' = d_emitted d + BURST cfg"
    and "d_timer d' = (d_timer d \<and> (case POSITIONS cfg of None \<Rightarrow> True | Some n \<Rightarrow> d_emitted d' < n))"
    and "d_timer d \<Longrightarrow> \<not> d_timer d' \<Longrightarrow> d_end d' \<noteq> None"
    and "d_state d' = d_state d" and "d_rxBuf d' = d_rxBuf d" and "d_events d' = d_events d"
proof -
  obtain rs sim' where nr: "next_records cfg rnd now (nat (BURST cfg)) (d_sim d) = (rs, sim')"
    by fastforce
  have keep: "list_all rec_ok rs" "sim_ok sim'"
    "map rec_timestamp rs = map (\<lambda>i. now + 1000 * int i) [0..<nat (BURST cfg)]"
    using next_records_keep [OF rnd _ ok, of cfg now "nat (BURST cfg)"] cfg by (simp_all add: nr sound_options_def)
  have len: "int (length rs) = BURST cfg"
    using next_records_length [of cfg rnd now "nat (BURST cfg)" "d_sim d"] cfg by (simp add: nr sound_options_def)
  obtain packet where packet: "buildAvlFrame cfg rs = Inr packet"
    using run fine by (cases "buildAvlFrame cfg rs") (auto simp: sendFrame_def nr)
  have enc: "list_all encodable rs"
    using buildAvlFrame_encodable [OF packet keep(1)] .
  have "length rs \<le> 2 ^ 24"
    using len cfg by (simp add: sound_options_def)
  from buildAvlFrame_bytes [OF enc this, of cfg] have p: "packet = sent_frame cfg rs"
    using packet by (simp add: sent_frame_def)
  obtain ws k where ws: "writePacket cfg rnd now (sim_draws sim') packet = Some (ws, k)"
    using run by (auto simp: sendFrame_def nr packet split: option.splits)
  have "2 \<le> length packet"
    by (simp add: p sent_frame_def)
  note whole = writePacket_whole [OF rnd this ws]
  have "good_batch cfg rs"
    using keep(1) enc len by (simp add: good_batch_def)
  moreover have "concat (map snd ws) = sent_frame cfg rs"
    using whole(1) by (simp add: p)
  moreover have "d' = (let emitted = d_emitted d + int (length rs);
       reached = (case POSITIONS cfg of None \<Rightarrow> False | Some n \<Rightarrow> emitted \<ge> n)
     in d\<lparr> d_sim := sim'\<lparr> sim_draws := k \<rparr>, d_frameNo := d_frameNo d + 1, d_emitted := emitted,
           d_out := d_out d @ ws, d_timer := (d_timer d \<and> \<not> reached),
           d_end := (if reached then Some (now + 1500) else d_end d) \<rparr>)"
    using run by (auto simp: sendFrame_def nr packet ws Let_def)
  moreover have "sim_ok (sim'\<lparr> sim_draws := k \<rparr>)"
    using keep(2) by (simp add: sim_ok_def)
  ultimately show thesis
    using whole(2,3) len keep(3)
    by (intro that [of rs ws]) (auto simp: Let_def split: option.splits)
qed

subsection \<open>An undisturbed run\<close>

text \<open>The timer fires \<open>n\<close> times, every \<open>INTERVAL_MS\<close>.\<close>

fun stream_run :: "sim_options \<Rightarrow> (nat \<Rightarrow> real) \<Rightarrow> int \<Rightarrow> nat \<Rightarrow> device \<Rightarrow> device option" where
  "stream_run cfg rnd now 0 d = Some d"
| "stream_run cfg rnd now (Suc n) d =
     (case timer_tick cfg rnd now d of
        None \<Rightarrow> None
      | Some d' \<Rightarrow> stream_run cfg rnd (now + INTERVAL_MS cfg) n d')"

text \<open>Connected at \<open>t\<close>, accepted at \<open>now\<close>, then \<open>n\<close> times the timer.\<close>

definition session_run :: "sim_options \<Rightarrow> (nat \<Rightarrow> real) \<Rightarrow> int \<Rightarrow> int \<Rightarrow> nat \<Rightarrow> device option" where
  "session_run cfg rnd t now n =
     (case on_data cfg rnd now [0x01] (on_connect cfg t) of
        None \<Rightarrow> None
      | Some d \<Rightarrow> stream_run cfg rnd (now + INTERVAL_MS cfg) n d)"

lemma stream_run_stopped: "\<not> d_timer d \<or> d_crash d \<noteq> None \<Longrightarrow> stream_run cfg rnd now n d = Some d"
  by (induction n arbitrary: now) (auto simp: timer_tick_def)

text \<open>What has been sent: batches \<open>rss\<close>, in whole frames, written in order and by \<open>now\<close>.\<close>

definition streamed :: "sim_options \<Rightarrow> byte list \<Rightarrow> avl_rec list list \<Rightarrow> int \<Rightarrow> device \<Rightarrow> bool" where
  "streamed cfg hello rss now d =
     (list_all (good_batch cfg) rss \<and> sorted (map fst (d_out d)) \<and> (\<forall>x \<in> set (d_out d). fst x \<le> now)
      \<and> concat (map snd (d_out d)) = hello @ concat (map (sent_frame cfg) rss)
      \<and> sim_ok (d_sim d) \<and> d_emitted d = BURST cfg * int (length rss)
      \<and> (case POSITIONS cfg of
           None \<Rightarrow> d_timer d
         | Some n \<Rightarrow> (if d_timer d then d_emitted d < n
                      else n \<le> d_emitted d \<and> d_emitted d < n + BURST cfg \<and> d_end d \<noteq> None)))"

definition gap_enough :: "sim_options \<Rightarrow> bool" where
  "gap_enough cfg = (if FRAGMENT cfg then 240 < INTERVAL_MS cfg else True)"

lemma sendFrame_streamed:
  assumes rnd: "random_draws rnd" and cfg: "sound_options cfg" and gap: "gap_enough cfg"
    and timer: "d_timer d" and before: "streamed cfg hello rss now (d\<lparr> d_crash := None \<rparr>)"
    and run: "sendFrame cfg rnd now d = Some d'" and fine: "d_crash d' = None"
  shows "\<exists>rs. streamed cfg hello (rss @ [rs]) (now + INTERVAL_MS cfg) d'" and "d_state d' = d_state d"
    and "d_rxBuf d' = d_rxBuf d"
proof -
  have ok: "sim_ok (d_sim d)"
    using before by (simp add: streamed_def)
  obtain rs ws where sent: "good_batch cfg rs" "d_out d' = d_out d @ ws" "concat (map snd ws) = sent_frame cfg rs"
    "sorted (map fst ws)" "\<forall>x \<in> set ws. now \<le> fst x \<and> fst x \<le> now + (if FRAGMENT cfg then 240 else 0)"
    "sim_ok (d_sim d')" "d_emitted d' = d_emitted d + BURST cfg"
    "d_timer d' = (d_timer d \<and> (case POSITIONS cfg of None \<Rightarrow> True | Some n \<Rightarrow> d_emitted d' < n))"
    "d_timer d \<Longrightarrow> \<not> d_timer d' \<Longrightarrow> d_end d' \<noteq> None" "d_state d' = d_state d" "d_rxBuf d' = d_rxBuf d"
    using sendFrame_sent [OF rnd cfg ok run fine] by metis
  have soon: "\<forall>x \<in> set ws. now \<le> fst x \<and> fst x \<le> now + INTERVAL_MS cfg"
    using sent(5) gap cfg by (auto simp: gap_enough_def sound_options_def split: if_splits)
  have "sorted (map fst (d_out d'))"
    using before sent(4) soon by (fastforce simp: sent(2) streamed_def sorted_append)
  moreover have "\<forall>x \<in> set (d_out d'). fst x \<le> now + INTERVAL_MS cfg"
    using before soon cfg by (fastforce simp: sent(2) streamed_def sound_options_def)
  moreover have "d_emitted d' = BURST cfg * int (length (rss @ [rs]))"
    using before sent(7) by (simp add: streamed_def algebra_simps)
  moreover have "case POSITIONS cfg of None \<Rightarrow> d_timer d'
      | Some n \<Rightarrow> (if d_timer d' then d_emitted d' < n
                   else n \<le> d_emitted d' \<and> d_emitted d' < n + BURST cfg \<and> d_end d' \<noteq> None)"
    using before sent(7-9) timer by (auto simp: streamed_def split: option.splits if_splits)
  ultimately have "streamed cfg hello (rss @ [rs]) (now + INTERVAL_MS cfg) d'"
    using before sent(1-3,6) by (simp add: streamed_def)
  then show "\<exists>rs. streamed cfg hello (rss @ [rs]) (now + INTERVAL_MS cfg) d'"
    by blast
  show "d_state d' = d_state d" and "d_rxBuf d' = d_rxBuf d"
    by (rule sent(10), rule sent(11))
qed

lemma streamed_later: "streamed cfg hello rss now d \<Longrightarrow> now \<le> now' \<Longrightarrow> streamed cfg hello rss now' d"
  by (fastforce simp: streamed_def)

lemma stream_run_streamed:
  assumes rnd: "random_draws rnd" and cfg: "sound_options cfg" and gap: "gap_enough cfg"
  shows "streamed cfg hello rss now d \<Longrightarrow> d_state d = STREAMING \<Longrightarrow> d_crash d = None \<Longrightarrow>
    stream_run cfg rnd now n d = Some d' \<Longrightarrow> d_crash d' = None \<Longrightarrow>
    \<exists>rss' now'. streamed cfg hello rss' now' d' \<and> (d_timer d' \<longrightarrow> length rss' = length rss + n)"
proof (induction n arbitrary: now d rss)
  case 0
  then show ?case
    by auto
next
  case (Suc n)
  show ?case
  proof (cases "d_timer d")
    case False
    then have "d' = d"
      using Suc.prems(4) stream_run_stopped [of d cfg rnd now "Suc n"] by simp
    then show ?thesis
      using Suc.prems(1) False by auto
  next
    case True
    obtain d1 where d1: "sendFrame cfg rnd now d = Some d1" "stream_run cfg rnd (now + INTERVAL_MS cfg) n d1 = Some d'"
      using Suc.prems True by (auto simp: timer_tick_def split: option.splits)
    have fine: "d_crash d1 = None"
    proof (rule ccontr)
      assume "d_crash d1 \<noteq> None"
      then have "d' = d1"
        using d1(2) stream_run_stopped [of d1 cfg rnd "now + INTERVAL_MS cfg" n] by simp
      then show False
        using Suc.prems(5) \<open>d_crash d1 \<noteq> None\<close> by simp
    qed
    have "streamed cfg hello rss now (d\<lparr> d_crash := None \<rparr>)"
      using Suc.prems(1) by (cases "POSITIONS cfg"; cases "d_timer d") (simp_all add: streamed_def)
    note step = sendFrame_streamed [OF rnd cfg gap True this d1(1) fine]
    obtain rs where "streamed cfg hello (rss @ [rs]) (now + INTERVAL_MS cfg) d1"
      using step(1) by blast
    from Suc.IH [OF this _ fine d1(2) Suc.prems(5)] show ?thesis
      using step(2) Suc.prems(2) by simp
  qed
qed

lemma handshake_bytes: "length (IMEI cfg) < 65536 \<Longrightarrow>
  handshake cfg = Inr (be_bytes 2 (length (IMEI cfg)) @ utf8_bytes (IMEI cfg))"
  using writeUInt_fill [of 0 "[]" 2 "2 + length (IMEI cfg)" "int (length (IMEI cfg))"]
  by (simp add: handshake_def Let_def copy_to_fill)

lemma session_run_streamed:
  assumes rnd: "random_draws rnd" and cfg: "sound_options cfg" and gap: "gap_enough cfg" and order: "t \<le> now"
    and run: "session_run cfg rnd t now n = Some d" and fine: "d_crash d = None"
  shows "\<exists>rss now'. streamed cfg (be_bytes 2 (length (IMEI cfg)) @ utf8_bytes (IMEI cfg)) rss now' d
    \<and> (d_timer d \<longrightarrow> length rss = n + 1)"
proof -
  let ?hello = "be_bytes 2 (length (IMEI cfg)) @ utf8_bytes (IMEI cfg)"
  define d0 where "d0 = (on_connect cfg t)\<lparr> d_state := STREAMING, d_timer := True \<rparr>"
  have hello: "handshake cfg = Inr ?hello"
    using cfg by (simp add: handshake_bytes sound_options_def)
  have conn: "d_state (on_connect cfg t) = WAITING_HANDSHAKE" "d_crash (on_connect cfg t) = None"
    "d_rxBuf (on_connect cfg t) = []" "d_out (on_connect cfg t) = [(t, ?hello)]" "d_emitted (on_connect cfg t) = 0"
    "d_sim (on_connect cfg t) = sim_start"
    by (simp_all add: on_connect_def hello)
  have data: "on_data cfg rnd now [0x01] (on_connect cfg t) =
      (case sendFrame cfg rnd now d0 of
         None \<Rightarrow> None
       | Some d' \<Rightarrow> if d_crash d' = None then Some (pump_streaming cfg now d') else Some d')"
    by (simp add: on_data_def pump_def conn startStreaming_def d0_def on_connect_def Let_def hello)
  obtain d1 where d1: "sendFrame cfg rnd now d0 = Some d1"
    using run by (auto simp: session_run_def data split: option.splits)
  have fine1: "d_crash d1 = None"
  proof (rule ccontr)
    assume bad: "d_crash d1 \<noteq> None"
    then have "d = d1"
      using run d1 stream_run_stopped [of d1 cfg rnd "now + INTERVAL_MS cfg" n]
      by (auto simp: session_run_def data split: if_splits)
    then show False
      using fine bad by simp
  qed
  have "streamed cfg ?hello [] now (d0\<lparr> d_crash := None \<rparr>)"
    using cfg order by (cases "POSITIONS cfg") (simp_all add: sound_options_def streamed_def d0_def conn sim_start_ok)
  moreover have "d_timer d0"
    by (simp add: d0_def)
  ultimately obtain rs where s1: "streamed cfg ?hello [rs] (now + INTERVAL_MS cfg) d1"
    "d_state d1 = STREAMING" "d_rxBuf d1 = []"
    using sendFrame_streamed [OF rnd cfg gap _ _ d1 fine1, of ?hello "[]"] by (auto simp: d0_def conn)
  have "pump_streaming cfg now d1 = d1"
    using s1(3) fine1 by (simp add: pump_streaming_def pump_loop.simps [of cfg "[]"] is_command_def)
  then have "stream_run cfg rnd (now + INTERVAL_MS cfg) n d1 = Some d"
    using run d1 fine1 by (simp add: session_run_def data)
  from stream_run_streamed [OF rnd cfg gap s1(1,2) fine1 this fine] show ?thesis
    by auto
qed

lemma socket_stream_sorted: "sorted (map fst ws) \<Longrightarrow> socket_stream ws = concat (map snd ws)"
  by (simp add: socket_stream_def sort_key_id_if_sorted)

subsection \<open>Acknowledgements and commands\<close>

lemma pump_loop_ack:
  assumes "\<not> is_command cfg rx" and "4 \<le> length rx"
  shows "pump_loop cfg rx = (Acked (be_nat (take 4 rx)) # fst (pump_loop cfg (drop 4 rx)), snd (pump_loop cfg (drop 4 rx)))"
  using assms by (subst pump_loop.simps) (simp add: split_beta)

lemma pump_loop_wait: "length rx < 4 \<Longrightarrow> pump_loop cfg rx = ([], rx)"
  by (subst pump_loop.simps) (simp add: is_command_def)

abbreviation pump_feed :: "sim_options \<Rightarrow> byte list \<Rightarrow> byte list list \<Rightarrow> dev_event list \<times> byte list" where
  "pump_feed cfg \<equiv> reads (pump_loop cfg)"

text \<open>Without commands the loop is a reader of acknowledgements.\<close>

lemma pump_loop_append:
  assumes "\<not> LISTEN_COMMANDS cfg"
  shows "pump_loop cfg (rx @ c) =
    (fst (pump_loop cfg rx) @ fst (pump_loop cfg (snd (pump_loop cfg rx) @ c)),
     snd (pump_loop cfg (snd (pump_loop cfg rx) @ c)))"
proof (induction rx rule: measure_induct_rule [where f = length])
  case (less rx)
  have never: "\<not> is_command cfg b" for b
    using assms by (simp add: is_command_def)
  show ?case
  proof (cases "length rx < 4")
    case True
    then show ?thesis
      by (simp add: pump_loop_wait)
  next
    case False
    then have "length (drop 4 rx) < length rx"
      by simp
    from less.IH [OF this] show ?thesis
      using False pump_loop_ack [OF never, of rx] pump_loop_ack [OF never, of "rx @ c"] by simp
  qed
qed

interpretation ack_reader: stream_reader "pump_loop (cfg\<lparr> LISTEN_COMMANDS := False \<rparr>)" for cfg
  by unfold_locales (rule pump_loop_append, simp)

lemma pump_feed_concat:
  assumes "\<not> LISTEN_COMMANDS cfg"
  shows "pump_feed cfg [] cs = pump_loop cfg (concat cs)"
proof -
  have "cfg\<lparr> LISTEN_COMMANDS := False \<rparr> = cfg"
    using assms by simp
  then show ?thesis
    using ack_reader.reads_concat [of cfg "[]" cs] by (simp add: pump_loop_wait)
qed

lemma pump_loop_acks:
  assumes "\<not> LISTEN_COMMANDS cfg" and "list_all (\<lambda>n. n < 2 ^ 32) ns"
  shows "pump_loop cfg (concat (map (be_bytes 4) ns)) = (map Acked ns, [])"
  using assms(2)
proof (induction ns)
  case Nil
  then show ?case
    by (simp add: pump_loop_wait)
next
  case (Cons n ns)
  then show ?case
    using assms(1) pump_loop_ack [of cfg "be_bytes 4 n @ concat (map (be_bytes 4) ns)"]
    by (simp add: is_command_def)
qed

text \<open>Several reads at the device, and what they amount to.\<close>

fun on_reads :: "sim_options \<Rightarrow> (nat \<Rightarrow> real) \<Rightarrow> int \<Rightarrow> byte list list \<Rightarrow> device \<Rightarrow> device option" where
  "on_reads cfg rnd now [] d = Some d"
| "on_reads cfg rnd now (c # cs) d = Option.bind (on_data cfg rnd now c d) (on_reads cfg rnd now cs)"

lemma crash_of_append: "crash_of (es @ es') = (case crash_of es of None \<Rightarrow> crash_of es' | Some e \<Rightarrow> Some e)"
  by (induction es rule: crash_of.induct) simp_all

lemma crash_of_acks [simp]: "crash_of (map Acked ns) = None"
  by (induction ns) simp_all

lemma on_reads_feed:
  "d_state d = STREAMING \<Longrightarrow> d_crash d = None \<Longrightarrow> crash_of (fst (pump_feed cfg (d_rxBuf d) cs)) = None \<Longrightarrow>
   on_reads cfg rnd now cs d = Some (d\<lparr> d_rxBuf := snd (pump_feed cfg (d_rxBuf d) cs),
     d_events := d_events d @ fst (pump_feed cfg (d_rxBuf d) cs),
     d_out := d_out d @ concat (map (written now) (fst (pump_feed cfg (d_rxBuf d) cs))), d_crash := None \<rparr>)"
proof (induction cs arbitrary: d)
  case (Cons c cs)
  let ?l = "pump_loop cfg (d_rxBuf d @ c)"
  have fine: "crash_of (fst ?l) = None" "crash_of (fst (pump_feed cfg (snd ?l) cs)) = None"
    using Cons.prems(3) by (simp_all add: split_beta Let_def crash_of_append split: option.splits)
  define d1 where "d1 = d\<lparr> d_rxBuf := snd ?l, d_events := d_events d @ fst ?l,
    d_out := d_out d @ concat (map (written now) (fst ?l)), d_crash := None \<rparr>"
  have "on_data cfg rnd now c d = Some d1"
    using Cons.prems(1,2) fine(1)
    by (simp add: on_data_def pump_def pump_streaming_def split_beta Let_def d1_def)
  moreover have "on_reads cfg rnd now cs d1 = Some (d1\<lparr> d_rxBuf := snd (pump_feed cfg (snd ?l) cs),
     d_events := d_events d1 @ fst (pump_feed cfg (snd ?l) cs),
     d_out := d_out d1 @ concat (map (written now) (fst (pump_feed cfg (snd ?l) cs))), d_crash := None \<rparr>)"
    using Cons.IH [of d1] Cons.prems(1) fine(2) by (simp add: d1_def)
  ultimately show ?case
    by (simp add: d1_def split_beta Let_def)
qed simp

end
