(* ===== verification/Ingest_Codec.thy ===== *)
theory Ingest_Codec
  imports Crc16 "HOL-Library.AList"
begin

section \<open>The server's side of the protocol: decoding frames\<close>

text \<open>
  \<open>backend/internal/codec/teltonika.go\<close>: the handshake, the decoder of Codec 8 and Codec 8 Extended records,
  acknowledgements and Codec 12 command frames. Slices that the source addresses by an offset are the bytes
  that are left; a reader returns the bytes after what it read. Where the source returns the records decoded
  before an error together with the error, the model returns the error alone: its callers drop the records.
  \<open>float32\<close> and \<open>float64\<close> are reals.
\<close>

datatype codec_error =
    ImeiTooShort nat
  | ImeiIncomplete nat nat
  | ImeiLength nat
  | PayloadTooShort nat
  | Codec16Unsupported
  | UnsupportedCodec byte
  | MissingCount
  | RecordError nat codec_error
  | RecordTooShort nat
  | IoError codec_error
  | IoTooShort
  | TruncatedIo nat
  | TruncatedXHeader
  | TruncatedXValue
  | PacketTooShort nat
  | BadPreamble
  | BadLength nat
  | CommandTooShort
  | NotCodec12 byte
  | TruncatedSize
  | BadSize nat

subsection \<open>Positions\<close>

text \<open>An element of \<open>raw_data\<close>: a number, or the bytes of an X element (the source stores them in hex).\<close>

datatype raw_value = RawInt int | RawHex "byte list"

record position =
  p_time :: int
  p_device :: int
  p_lat :: real
  p_lng :: real
  p_speed :: real
  p_heading :: real
  p_altitude :: real
  p_satellites :: int
  p_ignition :: bool
  p_gsm :: int
  p_voltage :: real
  p_temperature :: real
  p_odometer :: int
  p_rfid :: "int option"
  p_fuel :: "real option"
  p_battery :: "real option"
  p_door :: "bool option"
  p_raw :: "(nat \<times> raw_value) list"

definition new_position :: "int \<Rightarrow> position" where
  "new_position dev =
     \<lparr> p_time = 0, p_device = dev, p_lat = 0, p_lng = 0, p_speed = 0, p_heading = 0, p_altitude = 0,
       p_satellites = 0, p_ignition = False, p_gsm = 0, p_voltage = 0, p_temperature = 0, p_odometer = 0,
       p_rfid = None, p_fuel = None, p_battery = None, p_door = None, p_raw = [] \<rparr>"

subsection \<open>Handshake\<close>

definition KnownCodec :: "byte \<Rightarrow> bool" where
  "KnownCodec b = (b \<in> set [0x08, 0x8E, 0x0C, 0x10])"

definition ParseIMEI :: "byte list \<Rightarrow> codec_error + string" where
  "ParseIMEI bs =
     (if length bs < 2 then Inl (ImeiTooShort (length bs))
      else let n = be_nat (take 2 bs); imei = bytes_text (take n (drop 2 bs)) in
        if length bs < 2 + n then Inl (ImeiIncomplete n (length bs - 2))
        else if length imei < 15 then Inl (ImeiLength (length imei))
        else Inr imei)"

definition IMEIAccept :: "byte list" where
  "IMEIAccept = [0x01]"

definition IMEIReject :: "byte list" where
  "IMEIReject = [0x00]"

definition Acknowledge :: "int \<Rightarrow> byte list" where
  "Acknowledge count = be_bytes 4 (nat (count mod 2 ^ 32))"

subsection \<open>IO elements\<close>

definition readUnsigned :: "byte list \<Rightarrow> nat \<Rightarrow> int" where
  "readUnsigned bs width =
     (if width \<in> set [1, 2, 4] then int (be_nat (take width bs))
      else if width = 8 then as_signed 8 (int (be_nat (take 8 bs)))
      else 0)"

definition applyIOValue :: "position \<Rightarrow> nat \<Rightarrow> int \<Rightarrow> position" where
  "applyIOValue pos ioID v =
     (if ioID = 1 \<or> ioID = 239 then pos\<lparr> p_ignition := v = 1 \<rparr>
      else if ioID = 2 then pos\<lparr> p_door := Some (v = 1) \<rparr>
      else if ioID = 5 then pos\<lparr> p_gsm := as_signed 2 v \<rparr>
      else if ioID = 7 \<or> ioID = 66 then (if p_voltage pos = 0 then pos\<lparr> p_voltage := of_int v / 1000 \<rparr> else pos)
      else if ioID = 67 then pos\<lparr> p_battery := Some (of_int v / 1000) \<rparr>
      else if ioID = 72 then pos\<lparr> p_temperature := of_int (as_signed 2 v) * 0.1 \<rparr>
      else if ioID = 16 then pos\<lparr> p_odometer := v \<rparr>
      else if ioID = 207 then pos\<lparr> p_rfid := Some v \<rparr>
      else if ioID = 84 then pos\<lparr> p_fuel := Some (of_int v) \<rparr>
      else pos)"

definition recordIO :: "position \<Rightarrow> nat \<Rightarrow> int \<Rightarrow> position" where
  "recordIO pos ioID v = applyIOValue (pos\<lparr> p_raw := AList.update ioID (RawInt v) (p_raw pos) \<rparr>) ioID v"

text \<open>\<open>count\<close> elements of one group: an id of \<open>idw\<close> bytes and a value of \<open>width\<close> bytes each.\<close>

fun io_elements :: "nat \<Rightarrow> nat \<Rightarrow> nat \<Rightarrow> byte list \<Rightarrow> position \<Rightarrow> codec_error + byte list \<times> position" where
  "io_elements idw width 0 bs pos = Inr (bs, pos)"
| "io_elements idw width (Suc n) bs pos =
     (if length bs < idw + width then Inl (TruncatedIo width)
      else io_elements idw width n (drop (idw + width) bs)
             (recordIO pos (be_nat (take idw bs)) (readUnsigned (drop idw bs) width)))"

text \<open>The groups of the given widths; trailing groups may be missing.\<close>

fun io_groups :: "nat \<Rightarrow> nat list \<Rightarrow> byte list \<Rightarrow> position \<Rightarrow> codec_error + byte list \<times> position" where
  "io_groups idw [] bs pos = Inr (bs, pos)"
| "io_groups idw (width # ws) bs pos =
     (if length bs < idw then Inr (bs, pos)
      else and_then (io_elements idw width (be_nat (take idw bs)) (drop idw bs) pos)
             (\<lambda>(bs', pos'). io_groups idw ws bs' pos'))"

definition parseIOElementsCodec8 :: "byte list \<Rightarrow> position \<Rightarrow> codec_error + byte list \<times> position" where
  "parseIOElementsCodec8 bs pos =
     (if length bs < 2 then Inl IoTooShort else io_groups 1 [1, 2, 4, 8] (drop 2 bs) pos)"

fun x_elements :: "nat \<Rightarrow> byte list \<Rightarrow> position \<Rightarrow> codec_error + byte list \<times> position" where
  "x_elements 0 bs pos = Inr (bs, pos)"
| "x_elements (Suc n) bs pos =
     (if length bs < 4 then Inl TruncatedXHeader
      else let ioID = be_nat (take 2 bs); len = be_nat (take 2 (drop 2 bs)); rest = drop 4 bs in
        if length rest < len then Inl TruncatedXValue
        else x_elements n (drop len rest) (pos\<lparr> p_raw := AList.update ioID (RawHex (take len rest)) (p_raw pos) \<rparr>))"

definition parseIOElementsExtended :: "byte list \<Rightarrow> position \<Rightarrow> codec_error + byte list \<times> position" where
  "parseIOElementsExtended bs pos =
     (if length bs < 3 then Inl IoTooShort
      else and_then (io_groups 2 [1, 2, 4, 8] (drop 3 bs) pos) (\<lambda>(bs', pos').
        if length bs' < 2 then Inr (bs', pos')
        else x_elements (be_nat (take 2 bs')) (drop 2 bs') pos'))"

definition parseIOElements :: "byte list \<Rightarrow> position \<Rightarrow> bool \<Rightarrow> codec_error + byte list \<times> position" where
  "parseIOElements bs pos extended = (if extended then parseIOElementsExtended bs pos else parseIOElementsCodec8 bs pos)"

subsection \<open>Records and frames\<close>

definition parseAVLRecord :: "byte list \<Rightarrow> int \<Rightarrow> bool \<Rightarrow> codec_error + byte list \<times> position" where
  "parseAVLRecord bs dev extended =
     (if length bs < 24 then Inl (RecordTooShort (length bs))
      else let num = (\<lambda>off k. int (be_nat (take k (drop off bs))));
               pos = (new_position dev)
                 \<lparr> p_time := as_signed 8 (num 0 8),
                   p_lng := of_int (as_signed 4 (num 9 4)) / 10 ^ 7,
                   p_lat := of_int (as_signed 4 (num 13 4)) / 10 ^ 7,
                   p_altitude := of_int (num 17 2),
                   p_heading := of_int (num 19 2),
                   p_satellites := num 21 1,
                   p_speed := of_int (num 22 2) \<rparr>
        in (case parseIOElements (drop 24 bs) pos extended of
              Inl e \<Rightarrow> Inl (IoError e)
            | Inr r \<Rightarrow> Inr r))"

fun parse_records_loop :: "nat \<Rightarrow> nat \<Rightarrow> byte list \<Rightarrow> int \<Rightarrow> bool \<Rightarrow> codec_error + position list" where
  "parse_records_loop i 0 bs dev extended = Inr []"
| "parse_records_loop i (Suc n) bs dev extended =
     (case parseAVLRecord bs dev extended of
        Inl e \<Rightarrow> Inl (RecordError i e)
      | Inr (bs', pos) \<Rightarrow>
          and_then (parse_records_loop (Suc i) n bs' dev extended) (\<lambda>ps. Inr (pos # ps)))"

definition parseRecords :: "byte list \<Rightarrow> int \<Rightarrow> bool \<Rightarrow> codec_error + position list" where
  "parseRecords bs dev extended =
     (case bs of [] \<Rightarrow> Inl MissingCount | c # rest \<Rightarrow> parse_records_loop 0 (unat c) rest dev extended)"

definition ParseFrame :: "byte list \<Rightarrow> int \<Rightarrow> codec_error + position list" where
  "ParseFrame payload dev =
     (if length payload < 2 then Inl (PayloadTooShort (length payload))
      else let c = hd payload in
        if c = 0x08 then parseRecords (tl payload) dev False
        else if c = 0x8E then parseRecords (tl payload) dev True
        else if c = 0x10 then Inl Codec16Unsupported
        else Inl (UnsupportedCodec c))"

definition ParseData :: "byte list \<Rightarrow> int \<Rightarrow> codec_error + position list" where
  "ParseData bs dev =
     (if length bs < 8 then Inl (PacketTooShort (length bs))
      else if take 4 bs \<noteq> [0, 0, 0, 0] then Inl BadPreamble
      else let n = be_nat (take 4 (drop 4 bs)) in
        if n = 0 \<or> 8 + n > length bs then Inl (BadLength n)
        else ParseFrame (take n (drop 8 bs)) dev)"

subsection \<open>Command frames\<close>

definition BuildCommandFrame :: "string \<Rightarrow> byte list" where
  "BuildCommandFrame command =
     (let cmd = utf8_bytes command;
          dat = [0x0C, 1] @ be_bytes 4 (length cmd mod 2 ^ 32) @ cmd @ [1];
          crc = CRC16 dat
      in be_bytes 4 0 @ be_bytes 4 (length dat mod 2 ^ 32) @ dat @ [ucast crc, ucast (drop_bit 8 crc), 0, 0])"

fun command_entries :: "nat \<Rightarrow> byte list \<Rightarrow> codec_error + string list" where
  "command_entries 0 bs = Inr []"
| "command_entries (Suc n) bs =
     (if length bs < 4 then Inl TruncatedSize
      else let sz = be_nat (take 4 bs); rest = drop 4 bs in
        if sz = 0 \<or> length rest < sz then Inl (BadSize sz)
        else and_then (command_entries n (drop sz rest)) (\<lambda>ts. Inr (bytes_text (take sz rest) # ts)))"

definition ParseCommandPayload :: "byte list \<Rightarrow> codec_error + string list" where
  "ParseCommandPayload payload =
     (if length payload < 2 then Inl CommandTooShort
      else if hd payload \<noteq> 0x0C then Inl (NotCodec12 (hd payload))
      else command_entries (unat (payload ! 1)) (drop 2 payload))"

end
