(* ===== verification/Ingest_Framing.thy ===== *)
theory Ingest_Framing
  imports Ingest_Codec
begin

section \<open>The server's side of the protocol: finding frames in a byte stream\<close>

text \<open>
  \<open>StreamFramer\<close> of \<open>backend/internal/codec/framing.go\<close> and the inner loop of \<open>handleDeviceConnection\<close> that
  drains it. TCP cuts the stream anywhere: the frames found do not depend on the cuts (\<open>framer_ignores_cuts\<close>). The
  loop of \<open>Next\<close> ends because each turn drops a byte or returns.
\<close>

record frame =
  Payload :: "byte list"
  CRC :: "byte list"

datatype resync = InvalidLength nat | UnknownCodecId byte

subsection \<open>Checksums\<close>

definition CRCValid :: "frame \<Rightarrow> bool" where
  "CRCValid f =
     (if length (CRC f) < 4 \<or> length (Payload f) = 0 then False
      else let want = unat (CRC16 (Payload f)) in
        want = unat (CRC f ! 0) + 256 * unat (CRC f ! 1) \<or> want = be_nat (take 2 (drop 2 (CRC f))))"

definition isZeroCRC :: "byte list \<Rightarrow> bool" where
  "isZeroCRC crc = list_all (\<lambda>b. b = 0) crc"

subsection \<open>The framer\<close>

fun find_preamble :: "byte list \<Rightarrow> nat option" where
  "find_preamble [] = None"
| "find_preamble (b # bs) = (if take 4 (b # bs) = [0, 0, 0, 0] then Some 0 else map_option Suc (find_preamble bs))"

definition frameMaxDataLen :: nat where
  "frameMaxDataLen = 2 ^ 20"

text \<open>\<open>Next\<close>: the new buffer, the frame (\<open>ok\<close> is false for \<open>None\<close>) and the last resynchronisation.\<close>

function Next_from :: "byte list \<Rightarrow> resync option \<Rightarrow> byte list \<times> frame option \<times> resync option" where
  "Next_from buf lastErr =
     (case find_preamble buf of
        None \<Rightarrow> (if length buf > 3 then drop (length buf - 3) buf else buf, None, lastErr)
      | Some idx \<Rightarrow>
          let buf = drop idx buf in
          if length buf < 8 then (buf, None, lastErr)
          else let dataLen = be_nat (take 4 (drop 4 buf)) in
            if dataLen = 0 \<or> dataLen > frameMaxDataLen then Next_from (drop 1 buf) (Some (InvalidLength dataLen))
            else if length buf < 8 + dataLen + 4 then (buf, None, lastErr)
            else let payload = take dataLen (drop 8 buf) in
              if \<not> KnownCodec (hd payload) then Next_from (drop 1 buf) (Some (UnknownCodecId (hd payload)))
              else (drop (8 + dataLen + 4) buf,
                    Some \<lparr> Payload = payload, CRC = take 4 (drop (8 + dataLen) buf) \<rparr>, lastErr))"
  by pat_completeness auto
termination
  by (relation "measure (\<lambda>(buf, e). length buf)") auto

declare Next_from.simps [simp del]

definition Next :: "byte list \<Rightarrow> byte list \<times> frame option \<times> resync option" where
  "Next buf = Next_from buf None"

definition Append :: "byte list \<Rightarrow> byte list \<Rightarrow> byte list" where
  "Append buf bs = buf @ bs"

definition Reset :: "byte list \<Rightarrow> byte list" where
  "Reset buf = []"

definition Buffered :: "byte list \<Rightarrow> nat" where
  "Buffered buf = length buf"

lemma Next_from_shrinks: "fst (snd (Next_from buf e)) = Some f \<Longrightarrow> length (fst (Next_from buf e)) < length buf"
proof (induction buf e rule: Next_from.induct)
  case (1 buf e)
  show ?case
  proof (cases "find_preamble buf")
    case None
    then show ?thesis
      using "1.prems" by (simp add: Next_from.simps [of buf])
  next
    case (Some idx)
    let ?b = "drop idx buf" and ?n = "be_nat (take 4 (drop 4 (drop idx buf)))"
    have shorter: "length (drop 1 ?b) < length buf" if "\<not> length ?b < 8"
      using that by auto
    consider "length ?b < 8" | "\<not> length ?b < 8" "?n = 0 \<or> ?n > frameMaxDataLen"
      | "\<not> length ?b < 8" "\<not> (?n = 0 \<or> ?n > frameMaxDataLen)" "length ?b < 8 + ?n + 4"
      | "\<not> length ?b < 8" "\<not> (?n = 0 \<or> ?n > frameMaxDataLen)" "\<not> length ?b < 8 + ?n + 4"
        "\<not> KnownCodec (hd (take ?n (drop 8 ?b)))"
      | "\<not> length ?b < 8" "\<not> (?n = 0 \<or> ?n > frameMaxDataLen)" "\<not> length ?b < 8 + ?n + 4"
        "KnownCodec (hd (take ?n (drop 8 ?b)))"
      by blast
    then show ?thesis
    proof cases
      case 2
      then show ?thesis
        using "1.IH"(1) [OF Some refl 2(1) refl 2(2)] "1.prems" shorter Some
        by (simp add: Next_from.simps [of buf] Let_def)
    next
      case 4
      then show ?thesis
        using "1.IH"(2) [OF Some refl 4(1) refl 4(2,3) refl 4(4)] "1.prems" shorter Some
        by (simp add: Next_from.simps [of buf] Let_def)
    qed (use "1.prems" Some in \<open>auto simp: Next_from.simps [of buf] Let_def\<close>)
  qed
qed

text \<open>
  The inner loop of \<open>handleDeviceConnection\<close>: call \<open>Next\<close> until it has no frame. The frames in order, the
  number of calls that reported a resynchronisation, and what stays in the buffer.
\<close>

function drain :: "byte list \<Rightarrow> frame list \<times> nat \<times> byte list" where
  "drain buf =
     (case Next buf of
        (buf', None, e) \<Rightarrow> ([], if e = None then 0 else 1, buf')
      | (buf', Some f, e) \<Rightarrow>
          (case drain buf' of (fs, n, rest) \<Rightarrow> (f # fs, (if e = None then n else n + 1), rest)))"
  by pat_completeness auto
termination
proof (relation "measure length", goal_cases)
  case (2 buf)
  then show ?case
    using Next_from_shrinks [of buf None] by (cases "Next buf") (auto simp: Next_def)
qed simp

declare drain.simps [simp del]

abbreviation frames_in :: "byte list \<Rightarrow> frame list" where
  "frames_in buf \<equiv> fst (drain buf)"

abbreviation left_in :: "byte list \<Rightarrow> byte list" where
  "left_in buf \<equiv> snd (snd (drain buf))"

text \<open>One read after the other: the frames of each, and the buffer carried from read to read.\<close>

fun feed :: "byte list \<Rightarrow> byte list list \<Rightarrow> frame list \<times> byte list" where
  "feed buf [] = ([], buf)"
| "feed buf (c # cs) =
     (let (fs, n, rest) = drain (Append buf c); (fs', rest') = feed rest cs in (fs @ fs', rest'))"

subsection \<open>The frames do not depend on how the stream is cut\<close>

text \<open>What a drained buffer gives, without the resynchronisation reports.\<close>

definition drained :: "byte list \<Rightarrow> frame list \<times> byte list" where
  "drained buf = (frames_in buf, left_in buf)"

definition last3 :: "byte list \<Rightarrow> byte list" where
  "last3 buf = drop (length buf - 3) buf"

lemma last3_trim: "(if length buf > 3 then drop (length buf - 3) buf else buf) = last3 buf"
  by (simp add: last3_def)

lemma Next_from_error: "fst (Next_from buf e) = fst (Next_from buf e') \<and> fst (snd (Next_from buf e)) = fst (snd (Next_from buf e'))"
  by (subst (1 2) Next_from.simps [of buf e], subst (1 2) Next_from.simps [of buf e'])
    (simp add: Let_def split: option.splits)

lemma drained_cong:
  assumes "fst (Next a) = fst (Next b)" and "fst (snd (Next a)) = fst (snd (Next b))"
  shows "drained a = drained b"
  using assms unfolding drained_def drain.simps [of a] drain.simps [of b]
  by (auto split: prod.splits option.splits)

text \<open>The five turns of the loop, as equations.\<close>

lemma preamble_length: "take 4 buf = [0, 0, 0, 0] \<Longrightarrow> 4 \<le> length (buf :: byte list)"
proof -
  assume "take 4 buf = [0, 0, 0, 0]"
  then have "length (take 4 buf) = 4"
    by (simp only: list.size)
  then show ?thesis
    by simp
qed

lemma find_preamble_at: "find_preamble buf = Some i \<Longrightarrow> i < length buf \<and> take 4 (drop i buf) = [0, 0, 0, 0]"
  by (induction buf arbitrary: i) (auto split: if_splits)

lemma find_preamble_here: "take 4 buf = [0, 0, 0, 0] \<Longrightarrow> find_preamble buf = Some 0"
  by (cases buf) simp_all

lemma drained_none: "find_preamble buf = None \<Longrightarrow> drained buf = ([], last3 buf)"
  by (simp add: drained_def drain.simps [of buf] Next_def Next_from.simps [of buf] last3_trim)

lemma drained_seek:
  assumes "find_preamble buf = Some i"
  shows "drained buf = drained (drop i buf)"
proof (rule drained_cong)
  have "find_preamble (drop i buf) = Some 0"
    using find_preamble_at [OF assms] by (intro find_preamble_here) simp
  then show "fst (Next buf) = fst (Next (drop i buf))" "fst (snd (Next buf)) = fst (snd (Next (drop i buf)))"
    using assms by (simp_all add: Next_def Next_from.simps [of buf] Next_from.simps [of "drop i buf"])
qed

definition frame_length :: "byte list \<Rightarrow> nat" where
  "frame_length buf = be_nat (take 4 (drop 4 buf))"

text \<open>A preamble that cannot start a frame: its length is out of range, or the codec is unknown.\<close>

definition false_start :: "byte list \<Rightarrow> bool" where
  "false_start buf =
     (frame_length buf = 0 \<or> frame_length buf > frameMaxDataLen
      \<or> 12 + frame_length buf \<le> length buf \<and> \<not> KnownCodec (hd (take (frame_length buf) (drop 8 buf))))"

definition first_frame :: "byte list \<Rightarrow> frame" where
  "first_frame buf =
     \<lparr> Payload = take (frame_length buf) (drop 8 buf), CRC = take 4 (drop (8 + frame_length buf) buf) \<rparr>"

lemma Next_from_start:
  assumes "take 4 buf = [0, 0, 0, 0]"
  shows "Next_from buf e =
    (if length buf < 8 then (buf, None, e)
     else if frame_length buf = 0 \<or> frame_length buf > frameMaxDataLen
     then Next_from (drop 1 buf) (Some (InvalidLength (frame_length buf)))
     else if length buf < 12 + frame_length buf then (buf, None, e)
     else if \<not> KnownCodec (hd (take (frame_length buf) (drop 8 buf)))
     then Next_from (drop 1 buf) (Some (UnknownCodecId (hd (take (frame_length buf) (drop 8 buf)))))
     else (drop (12 + frame_length buf) buf, Some (first_frame buf), e))"
  using find_preamble_here [OF assms] unfolding Next_from.simps [of buf e]
  by (simp add: frame_length_def first_frame_def Let_def del: take_drop drop_drop)

lemma drained_short:
  assumes "take 4 buf = [0, 0, 0, 0]" and "length buf < 8"
  shows "drained buf = ([], buf)"
  using assms Next_from_start [OF assms(1), of None] by (simp add: drained_def drain.simps [of buf] Next_def)

lemma drained_waits:
  assumes "take 4 buf = [0, 0, 0, 0]" and "\<not> length buf < 8" and "\<not> false_start buf"
    and "length buf < 12 + frame_length buf"
  shows "drained buf = ([], buf)"
  using assms Next_from_start [OF assms(1), of None]
  by (simp add: drained_def drain.simps [of buf] Next_def false_start_def)

lemma drained_false_start:
  assumes "take 4 buf = [0, 0, 0, 0]" and "\<not> length buf < 8" and "false_start buf"
  shows "drained buf = drained (drop 1 buf)"
proof (rule drained_cong)
  have "\<exists>e. Next buf = Next_from (drop 1 buf) e"
    using assms Next_from_start [OF assms(1), of None] by (auto simp: Next_def false_start_def)
  then show "fst (Next buf) = fst (Next (drop 1 buf))" "fst (snd (Next buf)) = fst (snd (Next (drop 1 buf)))"
    using Next_from_error by (metis Next_def)+
qed

lemma drained_frame:
  assumes "take 4 buf = [0, 0, 0, 0]" and "\<not> length buf < 8" and "\<not> false_start buf"
    and "12 + frame_length buf \<le> length buf"
  shows "drained buf = (first_frame buf # fst (drained (drop (12 + frame_length buf) buf)),
                        snd (drained (drop (12 + frame_length buf) buf)))"
proof -
  have "frame_length buf \<noteq> 0" "frame_length buf \<le> frameMaxDataLen"
    "KnownCodec (hd (take (frame_length buf) (drop 8 buf)))"
    using assms(3,4) by (auto simp: false_start_def)
  then have "Next buf = (drop (12 + frame_length buf) buf, Some (first_frame buf), None)"
    unfolding Next_def Next_from_start [OF assms(1)] using assms(2,4) by auto
  then show ?thesis
    by (simp add: drained_def drain.simps [of buf] split: prod.splits)
qed

text \<open>What is decided about a buffer stays so when more bytes come.\<close>

lemma find_preamble_cons:
  "take 4 (b # bs) \<noteq> [0, 0, 0, 0] \<Longrightarrow> find_preamble (b # bs) = map_option Suc (find_preamble bs)"
  by (simp only: find_preamble.simps if_False)

lemma last3_drop: "k + 3 \<le> length bs \<or> k = 0 \<Longrightarrow> last3 (drop k bs) = last3 bs"
  by (auto simp: last3_def)

lemma last3_append: "last3 a @ d = drop (length a - 3) (a @ d)"
  by (simp add: last3_def)

lemma find_preamble_append: "find_preamble a = Some i \<Longrightarrow> find_preamble (a @ d) = Some i"
proof (induction a arbitrary: i)
  case (Cons b bs)
  show ?case
  proof (cases "take 4 (b # bs) = [0, 0, 0, 0]")
    case True
    then have "4 \<le> length (b # bs)"
      by (rule preamble_length)
    then have "take 4 ((b # bs) @ d) = [0, 0, 0, 0]"
      using True by simp
    then show ?thesis
      using Cons.prems True by (simp del: take_Suc_Cons)
  next
    case False
    then obtain j where j: "find_preamble bs = Some j" "i = Suc j"
      using Cons.prems by auto
    then have "4 \<le> length bs"
      using preamble_length [of "drop j bs"] find_preamble_at [OF j(1)] by simp
    then have "find_preamble ((b # bs) @ d) = map_option Suc (find_preamble (bs @ d))"
      using find_preamble_cons [of b "bs @ d"] False by simp
    then show ?thesis
      using j Cons.IH by (simp del: find_preamble.simps)
  qed
qed simp

lemma find_preamble_later:
  "find_preamble a = None \<Longrightarrow> k + 3 \<le> length a \<or> k = 0 \<Longrightarrow>
   find_preamble (a @ d) = map_option ((+) k) (find_preamble (drop k a @ d))"
proof (induction a arbitrary: k)
  case (Cons b bs)
  show ?case
  proof (cases k)
    case 0
    then show ?thesis
      by (simp add: option.map_ident)
  next
    case (Suc j)
    have none: "take 4 (b # bs) \<noteq> [0, 0, 0, 0]" "find_preamble bs = None"
      using Cons.prems(1) by (auto split: if_splits)
    have "take 4 (b # bs @ d) = take 4 (b # bs)"
      using Cons.prems(2) Suc by simp
    then have "find_preamble ((b # bs) @ d) = map_option Suc (find_preamble (bs @ d))"
      using find_preamble_cons [of b "bs @ d"] none(1) by (simp only: append_Cons simp_thms)
    then show ?thesis
      using Cons.IH [of j] Cons.prems(2) none(2) Suc
      by (simp add: option.map_comp comp_def del: find_preamble.simps)
  qed
qed (cases "find_preamble d", simp_all)

lemma drained_last3:
  assumes "find_preamble a = None"
  shows "drained (a @ d) = drained (last3 a @ d)"
proof -
  let ?k = "length a - 3"
  have later: "find_preamble (a @ d) = map_option ((+) ?k) (find_preamble (last3 a @ d))"
    using find_preamble_later [OF assms, of ?k d] by (cases "length a \<le> 3") (auto simp: last3_def)
  show ?thesis
  proof (cases "find_preamble (last3 a @ d)")
    case None
    moreover have "last3 (a @ d) = last3 (last3 a @ d)"
      unfolding last3_append by (rule last3_drop [symmetric]) (simp, linarith)
    ultimately show ?thesis
      using later by (simp add: drained_none)
  next
    case (Some j)
    moreover have "drop (?k + j) (a @ d) = drop j (last3 a @ d)"
      unfolding last3_append by (simp add: ac_simps)
    ultimately show ?thesis
      using later drained_seek [of "a @ d" "?k + j"] drained_seek [OF Some] by simp
  qed
qed

lemma frame_length_append: "8 \<le> length c \<Longrightarrow> frame_length (c @ d) = frame_length c"
  by (simp add: frame_length_def)

lemma first_frame_append:
  "12 + frame_length c \<le> length c \<Longrightarrow> first_frame (c @ d) = first_frame c"
  by (simp add: first_frame_def frame_length_append)

lemma false_start_append: "8 \<le> length c \<Longrightarrow> false_start c \<Longrightarrow> false_start (c @ d)"
  by (auto simp: false_start_def frame_length_append)

lemma complete_append:
  "12 + frame_length c \<le> length c \<Longrightarrow> \<not> false_start c \<Longrightarrow> \<not> false_start (c @ d)"
  by (auto simp: false_start_def frame_length_append)

text \<open>Draining, then draining what is left together with more bytes, is draining everything at once.\<close>

lemma drained_append:
  "drained (buf @ d) = (fst (drained buf) @ fst (drained (snd (drained buf) @ d)), snd (drained (snd (drained buf) @ d)))"
proof (induction buf rule: measure_induct_rule [where f = length])
  case (less buf)
  show ?case
  proof (cases "find_preamble buf")
    case None
    then show ?thesis
      by (simp add: drained_none drained_last3)
  next
    case (Some i)
    let ?c = "drop i buf"
    have start: "take 4 ?c = [0, 0, 0, 0]" and i: "i < length buf"
      using find_preamble_at [OF Some] by simp_all
    then have start': "take 4 (?c @ d) = [0, 0, 0, 0]"
      using preamble_length [of ?c] by simp
    have here: "drained buf = drained ?c" "drained (buf @ d) = drained (?c @ d)"
      using drained_seek [OF Some] drained_seek [OF find_preamble_append [OF Some, of d]] i by simp_all
    consider "length ?c < 8" | "8 \<le> length ?c" "false_start ?c"
      | "8 \<le> length ?c" "\<not> false_start ?c" "length ?c < 12 + frame_length ?c"
      | "8 \<le> length ?c" "\<not> false_start ?c" "12 + frame_length ?c \<le> length ?c"
      by linarith
    then show ?thesis
    proof cases
      case 1
      then show ?thesis
        using here drained_short [OF start] by simp
    next
      case 3
      then show ?thesis
        using here drained_waits [OF start] by simp
    next
      case 2
      have "length (drop 1 ?c) < length buf"
        using 2 by simp
      note IH = less.IH [OF this]
      have "drained (?c @ d) = drained (drop 1 ?c @ d)"
        using drained_false_start [OF start'] false_start_append [OF 2] 2(1) by simp
      then show ?thesis
        using here drained_false_start [OF start _ 2(2)] 2(1) IH by simp
    next
      case 4
      let ?n = "12 + frame_length ?c"
      have "length (drop ?n ?c) < length buf"
        using 4 i by simp
      note IH = less.IH [OF this]
      have "drained (?c @ d) = (first_frame ?c # fst (drained (drop ?n ?c @ d)), snd (drained (drop ?n ?c @ d)))"
        using drained_frame [OF start' _ complete_append [OF 4(3,2)]] 4
        by (simp add: frame_length_append first_frame_append)
      then show ?thesis
        using here drained_frame [OF start _ 4(2,3)] 4(1) IH by simp
    qed
  qed
qed

interpretation framer: stream_reader drained
  by unfold_locales (rule drained_append)

lemma drained_nil [simp]: "drained [] = ([], [])"
  by (simp add: drained_none last3_def)

lemma feed_reads: "feed buf cs = reads drained buf cs"
  by (induction cs arbitrary: buf) (simp_all add: drained_def Append_def split_beta Let_def)

text \<open>C8: The frames the server finds in a device's stream do not depend on how TCP cuts it into reads: not in the middle
  of a preamble, not while it resynchronises. Nor do the bytes it keeps for later.
\<close>

theorem framer_ignores_cuts: "feed [] chunks = feed [] [concat chunks]"
  unfolding feed_reads by (rule framer.cuts_irrelevant) simp_all

subsection \<open>A well-formed frame is found\<close>

definition wire :: "byte list \<Rightarrow> byte list \<Rightarrow> byte list" where
  "wire payload crc = [0, 0, 0, 0] @ be_bytes 4 (length payload) @ payload @ crc"

definition sendable :: "byte list \<Rightarrow> bool" where
  "sendable payload = (payload \<noteq> [] \<and> length payload \<le> frameMaxDataLen \<and> KnownCodec (hd payload))"

lemma drained_wire:
  assumes "sendable payload" and "length crc = 4"
  shows "drained (wire payload crc @ rest) =
    (\<lparr> Payload = payload, CRC = crc \<rparr> # fst (drained rest), snd (drained rest))"
proof -
  define b where "b = wire payload crc @ rest"
  have n: "frame_length b = length payload"
    using assms(1) by (simp add: b_def frame_length_def wire_def sendable_def frameMaxDataLen_def)
  have body: "drop 8 b = payload @ crc @ rest"
    by (simp add: b_def wire_def)
  have after: "drop (k + 8 + length payload) b = drop k (crc @ rest)" for k
  proof -
    have "drop (k + 8 + length payload) b = drop (k + length payload) (drop 8 b)"
      by (simp add: ac_simps)
    also have "\<dots> = drop (k + length payload) (payload @ crc @ rest)"
      by (simp only: body)
    finally show ?thesis
      by simp
  qed
  have "first_frame b = \<lparr> Payload = payload, CRC = crc \<rparr>"
    using assms(2) after [of 0] by (simp add: first_frame_def n body)
  moreover have "drop (12 + length payload) b = rest"
    using assms(2) after [of 4] by simp
  moreover have "take 4 b = [0, 0, 0, 0]" "\<not> length b < 8" "12 + frame_length b \<le> length b"
    using assms(2) n by (simp_all add: b_def wire_def)
  moreover have "\<not> false_start b"
    using assms(1) by (simp add: false_start_def sendable_def n body)
  ultimately show ?thesis
    using drained_frame [of b] n by (simp flip: b_def)
qed

lemma drained_wires:
  assumes "list_all (\<lambda>(p, c). sendable p \<and> length c = 4) fs"
  shows "drained (concat (map (\<lambda>(p, c). wire p c) fs)) = (map (\<lambda>(p, c). \<lparr> Payload = p, CRC = c \<rparr>) fs, [])"
  using assms by (induction fs) (auto simp: drained_wire)

end
