(* ===== verification/Ingest_Connection.thy ===== *)
theory Ingest_Connection
  imports Ingest_Framing
begin

section \<open>The server's side of the protocol: one device connection\<close>

text \<open>
  \<open>handleDeviceConnection\<close>, \<open>handleAVLFrame\<close>, \<open>publishPosition\<close>, \<open>handleCommandResponse\<close> and the delivery of one
  command by \<open>subscribeCommands\<close>, of \<open>backend/cmd/rudra-ingest/main.go\<close>. The database and Redis are parameters
  (record \<open>backend\<close>): \<open>db_lookup\<close> finds a device by IMEI, \<open>context_of\<close> its company and plate, \<open>insertBatch\<close> gives the number of positions stored,
  \<open>db_clock\<close> is the time of the read, \<open>db_redis\<close> says whether Redis is there. The record \<open>ingest\<close> is the session with
  what it wrote, in the order of the calls. Times are milliseconds (the source prints them in live events to the
  second), and the counters of database and Redis failures are left out. The text stored for several responses (a JSON list) is kept as the
  list.
\<close>

record backend =
  db_lookup :: "string \<Rightarrow> int option"
  context_of :: "int \<Rightarrow> int \<times> string"
  insertBatch :: "position list \<Rightarrow> nat"
  db_clock :: int
  db_redis :: bool

record live_event =
  le_company :: int
  le_reg :: string
  le_device :: int
  le_lat :: real
  le_lng :: real
  le_speed :: real
  le_heading :: real
  le_ignition :: bool
  le_status :: string
  le_odometer :: int
  le_time :: int
  le_temperature :: "real option"
  le_voltage :: "real option"
  le_fuel :: "real option"
  le_battery :: "real option"
  le_door :: "bool option"

record ingest =
  i_device :: int
  i_company :: int
  i_reg :: string
  i_framer :: "byte list"
  i_stored :: "position list list"
  i_replies :: "byte list list"
  i_live :: "live_event list"
  i_odometers :: "int list"
  i_lastCommand :: int
  i_answers :: "(int \<times> string list) list"
  i_frames :: nat
  i_records :: nat
  i_positionsStored :: nat
  i_crcMismatches :: nat
  i_resyncs :: nat
  i_unsupported :: nat
  i_parseErrors :: nat
  i_commandsSent :: nat
  i_commandsAcked :: nat

definition new_session :: "backend \<Rightarrow> int \<Rightarrow> ingest" where
  "new_session db dev =
     \<lparr> i_device = dev, i_company = fst (context_of db dev), i_reg = snd (context_of db dev), i_framer = [], i_stored = [], i_replies = [IMEIAccept], i_live = [], i_odometers = [],
       i_lastCommand = 0, i_answers = [], i_frames = 0, i_records = 0, i_positionsStored = 0,
       i_crcMismatches = 0, i_resyncs = 0, i_unsupported = 0, i_parseErrors = 0, i_commandsSent = 0,
       i_commandsAcked = 0 \<rparr>"

subsection \<open>Handshake\<close>

text \<open>One \<open>Read\<close> into 256 bytes: the reply, or the session.\<close>

definition conn_open :: "backend \<Rightarrow> byte list \<Rightarrow> byte list + ingest" where
  "conn_open db first =
     (case ParseIMEI (take 256 first) of
        Inl e \<Rightarrow> Inl IMEIReject
      | Inr imei \<Rightarrow>
          (case db_lookup db imei of
             None \<Rightarrow> Inl IMEIReject
           | Some dev \<Rightarrow> Inr (new_session db dev)))"

subsection \<open>Frames\<close>

definition positionStatus :: "position \<Rightarrow> string" where
  "positionStatus p =
     (if p_speed p > 2 then ''moving'' else if p_ignition p then ''idle'' else ''stopped'')"

definition live_of :: "int \<Rightarrow> string \<Rightarrow> position \<Rightarrow> live_event" where
  "live_of company reg p =
     \<lparr> le_company = company, le_reg = reg, le_device = p_device p, le_lat = p_lat p, le_lng = p_lng p, le_speed = p_speed p, le_heading = p_heading p,
       le_ignition = p_ignition p, le_status = positionStatus p, le_odometer = p_odometer p, le_time = p_time p,
       le_temperature = (if p_temperature p \<noteq> 0 then Some (p_temperature p) else None),
       le_voltage = (if p_voltage p \<noteq> 0 then Some (p_voltage p) else None),
       le_fuel = p_fuel p, le_battery = p_battery p, le_door = p_door p \<rparr>"

text \<open>\<open>Time.IsZero()\<close> is the first of January of the year 1.\<close>

definition normalise :: "backend \<Rightarrow> position \<Rightarrow> position" where
  "normalise db p = (if p_time p = - 62135596800000 then p\<lparr> p_time := db_clock db \<rparr> else p)"

definition handleAVLFrame :: "backend \<Rightarrow> byte list \<Rightarrow> ingest \<Rightarrow> ingest" where
  "handleAVLFrame db payload s =
     (case ParseFrame payload (i_device s) of
        Inl e \<Rightarrow> s\<lparr> i_parseErrors := i_parseErrors s + 1 \<rparr>
      | Inr ps \<Rightarrow>
          let positions = map (normalise db) ps; stored = insertBatch db positions in
          s\<lparr> i_stored := i_stored s @ [positions], i_records := i_records s + length positions,
             i_positionsStored := i_positionsStored s + stored,
             i_odometers := i_odometers s @
               (if stored > 0 then filter (\<lambda>v. v > 0) (map p_odometer positions) else []),
             i_live := i_live s @ (if stored > 0 \<and> db_redis db then map (live_of (i_company s) (i_reg s)) positions else []),
             i_replies := i_replies s @ [Acknowledge (int stored)] \<rparr>)"

definition handleCommandResponse :: "byte list \<Rightarrow> ingest \<Rightarrow> ingest" where
  "handleCommandResponse payload s =
     (case ParseCommandPayload payload of
        Inl e \<Rightarrow> s
      | Inr responses \<Rightarrow>
          if responses = [] then s
          else if i_lastCommand s > 0
          then s\<lparr> i_answers := i_answers s @ [(i_lastCommand s, responses)], i_lastCommand := 0,
                  i_commandsAcked := i_commandsAcked s + 1 \<rparr>
          else s)"

definition handle_frame :: "backend \<Rightarrow> frame \<Rightarrow> ingest \<Rightarrow> ingest" where
  "handle_frame db f s0 =
     (let s = s0\<lparr> i_frames := i_frames s0 + 1,
                 i_crcMismatches := i_crcMismatches s0 + (if \<not> isZeroCRC (CRC f) \<and> \<not> CRCValid f then 1 else 0) \<rparr>;
          c = hd (Payload f)
      in if c = 0x0C then handleCommandResponse (Payload f) s
         else if c = 0x08 \<or> c = 0x8E then handleAVLFrame db (Payload f) s
         else s\<lparr> i_unsupported := i_unsupported s + 1 \<rparr>)"

text \<open>One turn of the outer loop: a read of \<open>chunk\<close>, then every frame that is complete.\<close>

definition conn_read :: "backend \<Rightarrow> byte list \<Rightarrow> ingest \<Rightarrow> ingest" where
  "conn_read db chunk s =
     (if chunk = [] then s
      else let (fs, n, rest) = drain (Append (i_framer s) chunk)
           in fold (handle_frame db) fs (s\<lparr> i_framer := rest, i_resyncs := i_resyncs s + n \<rparr>))"

definition conn_reads :: "backend \<Rightarrow> byte list list \<Rightarrow> ingest \<Rightarrow> ingest" where
  "conn_reads db chunks s = fold (conn_read db) chunks s"

text \<open>\<open>subscribeCommands\<close>, for a command whose device is connected.\<close>

definition deliver_command :: "int \<Rightarrow> string \<Rightarrow> ingest \<Rightarrow> ingest" where
  "deliver_command commandID command s =
     s\<lparr> i_replies := i_replies s @ [BuildCommandFrame command], i_lastCommand := commandID,
        i_commandsSent := i_commandsSent s + 1 \<rparr>"

subsection \<open>Reads in any sizes\<close>

text \<open>What a session is, apart from the count of resynchronisation reports.\<close>

abbreviation quiet :: "ingest \<Rightarrow> ingest" where
  "quiet s \<equiv> s\<lparr> i_resyncs := 0 \<rparr>"

lemma handle_frame_framer:
  "i_framer (handle_frame db f s) = i_framer s" "i_device (handle_frame db f s) = i_device s"
  "handle_frame db f (s\<lparr> i_framer := b, i_resyncs := n \<rparr>) = (handle_frame db f s)\<lparr> i_framer := b, i_resyncs := n \<rparr>"
  by (simp_all add: handle_frame_def handleAVLFrame_def handleCommandResponse_def Let_def split: sum.splits)

lemma fold_frames_framer:
  "i_framer (fold (handle_frame db) fs s) = i_framer s"
  "fold (handle_frame db) fs (s\<lparr> i_framer := b, i_resyncs := n \<rparr>) = (fold (handle_frame db) fs s)\<lparr> i_framer := b, i_resyncs := n \<rparr>"
  by (induction fs arbitrary: s) (simp_all add: handle_frame_framer)

lemma fold_frames_buffer:
  "fold (handle_frame db) fs (s\<lparr> i_framer := b \<rparr>) = (fold (handle_frame db) fs s)\<lparr> i_framer := b \<rparr>"
proof -
  have "handle_frame db f (s\<lparr> i_framer := b \<rparr>) = (handle_frame db f s)\<lparr> i_framer := b \<rparr>" for f s
    by (simp add: handle_frame_def handleAVLFrame_def handleCommandResponse_def Let_def split: sum.splits)
  then show ?thesis
    by (induction fs arbitrary: s) simp_all
qed

lemma conn_read_quiet:
  assumes "drained (i_framer s) = ([], i_framer s)"
  shows "quiet (conn_read db chunk s) =
    quiet (fold (handle_frame db) (fst (drained (i_framer s @ chunk))) s)\<lparr> i_framer := snd (drained (i_framer s @ chunk)) \<rparr>"
proof (cases "chunk = []")
  case True
  then show ?thesis
    using assms by (simp add: conn_read_def)
next
  case False
  then show ?thesis
    by (simp add: conn_read_def Append_def drained_def split_beta fold_frames_framer)
qed

lemma fold_frames_quiet: "quiet (fold (handle_frame db) fs s) = fold (handle_frame db) fs (quiet s)"
  using fold_frames_framer(2) [where db = db and fs = fs and s = s and b = "i_framer s" and n = 0] by (simp add: fold_frames_framer(1))

lemma conn_reads_concat:
  assumes "drained (i_framer s) = ([], i_framer s)"
  shows "quiet (conn_reads db chunks s) =
    quiet (fold (handle_frame db) (fst (drained (i_framer s @ concat chunks))) s)
      \<lparr> i_framer := snd (drained (i_framer s @ concat chunks)) \<rparr>"
  using assms
proof (induction chunks arbitrary: s)
  case Nil
  then show ?case
    by (simp add: conn_reads_def)
next
  case (Cons c cs)
  let ?s1 = "conn_read db c s" and ?d = "drained (i_framer s @ c)"
  have f1: "i_framer ?s1 = snd ?d"
    using arg_cong [OF conn_read_quiet [OF Cons.prems, of db c], of i_framer] by simp
  then have idle: "drained (i_framer ?s1) = ([], i_framer ?s1)"
    by (simp add: framer.read_again)
  let ?e = "drained (snd ?d @ concat cs)"
  have all: "drained (i_framer s @ c @ concat cs) = (fst ?d @ fst ?e, snd ?e)"
    using drained_append [of "i_framer s @ c" "concat cs"] by simp
  have "quiet (conn_reads db (c # cs) s) = quiet (conn_reads db cs ?s1)"
    by (simp add: conn_reads_def)
  also have "\<dots> = quiet (fold (handle_frame db) (fst ?e) ?s1)\<lparr> i_framer := snd ?e \<rparr>"
    using Cons.IH [OF idle] f1 by simp
  also have "\<dots> = (fold (handle_frame db) (fst ?e) (quiet ?s1))\<lparr> i_framer := snd ?e \<rparr>"
    by (simp add: fold_frames_quiet)
  also have "\<dots> = (fold (handle_frame db) (fst ?e) (fold (handle_frame db) (fst ?d) (quiet s)))\<lparr> i_framer := snd ?e \<rparr>"
    by (simp add: conn_read_quiet [OF Cons.prems] fold_frames_quiet fold_frames_buffer)
  also have "\<dots> = quiet (fold (handle_frame db) (fst ?d @ fst ?e) s)\<lparr> i_framer := snd ?e \<rparr>"
    by (simp add: fold_frames_quiet)
  finally show ?case
    using all by simp
qed

end
