(* ===== verification/Device_Link.thy ===== *)
theory Device_Link
  imports Sim_Device Ingest_Connection
begin

section \<open>Tracker and server together\<close>

text \<open>
  The simulator (JavaScript) and the ingestion server (Go) speak one protocol, written down twice. Here the two
  models meet: what one side encodes the other decodes, the two checksums agree, and a connection delivers
  the simulator's records whatever way TCP cuts the stream. The server's connection handler
  (\<open>backend/cmd/rudra-ingest/main.go\<close>) takes the database as a parameter, \<open>insertBatch\<close>: the number of
  positions it stored.
\<close>

subsection \<open>Records\<close>

text \<open>What the server makes of a record of the simulator.\<close>

definition reported :: "bool \<Rightarrow> int \<Rightarrow> avl_rec \<Rightarrow> position" where
  "reported ext dev r =
     \<lparr> p_time = rec_timestamp r, p_device = dev,
       p_lat = of_int (js_round (rec_lat r * 10 ^ 7)) / 10 ^ 7,
       p_lng = of_int (js_round (rec_lng r * 10 ^ 7)) / 10 ^ 7,
       p_speed = of_int (rec_speed r mod 65536), p_heading = of_int (rec_angle r mod 65536),
       p_altitude = of_int (rec_altitude r mod 65536), p_satellites = rec_satellites r,
       p_ignition = (rec_ignition r mod 256 = 1), p_gsm = 0,
       p_voltage = of_int (if rec_vehicleMv r mod 65536 = 0 then rec_externalMv r mod 65536
                           else rec_vehicleMv r mod 65536) / 1000,
       p_temperature = of_int (rec_tempC10 r) * 0.1, p_odometer = rec_odometer r mod 2 ^ 32, p_rfid = None,
       p_fuel = Some (of_int (rec_fuel r mod 65536)), p_battery = Some (of_int (rec_batteryMv r mod 65536) / 1000),
       p_door = Some (rec_door r mod 256 = 1),
       p_raw = [(1, RawInt (rec_ignition r mod 256)), (2, RawInt (rec_door r mod 256)),
                (7, RawInt (rec_vehicleMv r mod 65536)), (66, RawInt (rec_externalMv r mod 65536)),
                (67, RawInt (rec_batteryMv r mod 65536)), (72, RawInt (rec_tempC10 r mod 65536)),
                (84, RawInt (rec_fuel r mod 65536)), (16, RawInt (rec_odometer r mod 2 ^ 32))]
               @ (if ext then [(200, RawHex (field 4 (rec_xtra r)))] else []) \<rparr>"

text \<open>Reading one field at the front, and the groups of elements.\<close>

lemma take_field [simp]: "take k (field k v @ bs) = field k v" "drop k (field k v @ bs) = bs"
  by simp_all

lemma be_nat_field_nat: "be_nat (field k v) = nat (v mod 256 ^ k)"
  using be_nat_field [of k v] by simp

lemma readUnsigned_field: "k \<in> {1, 2, 4} \<Longrightarrow> readUnsigned (field k v @ bs) k = v mod 256 ^ k"
  by (auto simp: readUnsigned_def be_nat_field_nat)

definition taken :: "nat \<Rightarrow> position \<Rightarrow> io_elem list \<Rightarrow> position" where
  "taken sz pos es = foldl (\<lambda>p el. recordIO p (nat (el_id el)) (el_value el mod 256 ^ sz)) pos es"

lemma io_elements_group:
  assumes "list_all (el_ok w) es" and "list_all (\<lambda>el. el_size el = sz) es" and "sz \<in> {1, 2, 4}"
  shows "io_elements w sz (length es) (concat (map (elem_bytes w) es) @ rest) pos = Inr (rest, taken sz pos es)"
  using assms(1,2)
proof (induction es arbitrary: pos)
  case (Cons el es)
  have id: "be_nat (field w (el_id el)) = nat (el_id el)"
    using Cons.prems(1) by (simp add: be_nat_field_nat el_ok_def)
  have bytes: "concat (map (elem_bytes w) (el # es)) @ rest
      = field w (el_id el) @ field sz (el_value el) @ concat (map (elem_bytes w) es) @ rest"
    using Cons.prems(2) by (simp add: elem_bytes_def)
  have "drop (w + sz) (field w (el_id el) @ field sz (el_value el) @ concat (map (elem_bytes w) es) @ rest)
      = concat (map (elem_bytes w) es) @ rest"
    by (simp add: add.commute [of w sz] flip: drop_drop)
  then show ?case
    unfolding bytes using Cons assms(3) by (simp add: id readUnsigned_field taken_def)
qed (simp add: taken_def)

lemma io_groups_group:
  assumes "list_all (el_ok w) es" and "list_all (\<lambda>el. el_size el = sz) es" and "sz \<in> {1, 2, 4}"
    and "length es < 256 ^ w"
  shows "io_groups w (sz # ws) (group_bytes w es @ rest) pos = io_groups w ws rest (taken sz pos es)"
  using assms io_elements_group [OF assms(1-3)] by (simp add: group_bytes_def)

lemma io_groups_empty:
  "io_groups w (sz # ws) (group_bytes w [] @ rest) pos = io_groups w ws rest pos"
proof -
  have "be_nat (replicate w 0) = 0"
    using be_nat_be_bytes [of w 0] by simp
  then show ?thesis
    by (simp add: group_bytes_def)
qed

lemma sizes:
  "list_all (\<lambda>el. el_size el = 1) (oneByte r)" "list_all (\<lambda>el. el_size el = 2) (twoByte r)"
  "list_all (\<lambda>el. el_size el = 4) (fourByte r)" "eightByte r = []"
  by (simp_all add: oneByte_def twoByte_def fourByte_def eightByte_def io_el_def)

lemma io_groups_record:
  assumes "encodable r" and w: "w = 1 \<or> w = 2"
  shows "io_groups w [1, 2, 4, 8] (group_bytes w (oneByte r) @ group_bytes w (twoByte r) @ group_bytes w (fourByte r)
      @ group_bytes w (eightByte r) @ rest) pos
    = Inr (rest, taken 4 (taken 2 (taken 1 pos (oneByte r)) (twoByte r)) (fourByte r))"
proof -
  have temp: "- 32768 \<le> rec_tempC10 r" "rec_tempC10 r < 32768"
    using assms(1) by (simp_all add: encodable_def)
  note ok = elems_ok [OF temp w]
  have short: "length (oneByte r) < 256 ^ w" "length (twoByte r) < 256 ^ w" "length (fourByte r) < 256 ^ w"
    using w by (auto simp: elems_length)
  have g: "io_groups w (1 # ws) (group_bytes w (oneByte r) @ rest) pos = io_groups w ws rest (taken 1 pos (oneByte r))"
    "io_groups w (2 # ws) (group_bytes w (twoByte r) @ rest) pos = io_groups w ws rest (taken 2 pos (twoByte r))"
    "io_groups w (4 # ws) (group_bytes w (fourByte r) @ rest) pos = io_groups w ws rest (taken 4 pos (fourByte r))"
    for ws rest pos
    by (rule io_groups_group [OF ok(1) sizes(1) _ short(1)] io_groups_group [OF ok(2) sizes(2) _ short(2)]
          io_groups_group [OF ok(3) sizes(3) _ short(3)], simp)+
  show ?thesis
    by (simp only: g sizes(4) io_groups_empty io_groups.simps(1))
qed

text \<open>The fields of the GPS part, by their offsets.\<close>

lemma gps_fields:
  "take 8 (drop 0 (gps_bytes r @ bs)) = field 8 (rec_timestamp r)"
  "take 4 (drop 9 (gps_bytes r @ bs)) = field 4 (js_round (rec_lng r * 10 ^ 7))"
  "take 4 (drop 13 (gps_bytes r @ bs)) = field 4 (js_round (rec_lat r * 10 ^ 7))"
  "take 2 (drop 17 (gps_bytes r @ bs)) = field 2 (rec_altitude r)"
  "take 2 (drop 19 (gps_bytes r @ bs)) = field 2 (rec_angle r)"
  "take 1 (drop 21 (gps_bytes r @ bs)) = field 1 (rec_satellites r)"
  "take 2 (drop 22 (gps_bytes r @ bs)) = field 2 (rec_speed r)"
  "drop 24 (gps_bytes r @ bs) = bs"
  by (simp_all add: gps_bytes_def)

lemma signed_field:
  "0 < k \<Longrightarrow> - (256 ^ k div 2) \<le> v \<Longrightarrow> v < 256 ^ k div 2 \<Longrightarrow> as_signed k (int (be_nat (field k v))) = v"
  by (simp add: be_nat_field as_signed_id)

text \<open>What the elements of a record make of a position.\<close>

lemma taken_record:
  assumes "encodable r" and "p_raw pos = []" and "p_voltage pos = 0" and "p_gsm pos = 0" and "p_rfid pos = None"
  shows "taken 4 (taken 2 (taken 1 pos (oneByte r)) (twoByte r)) (fourByte r) =
    pos\<lparr> p_ignition := rec_ignition r mod 256 = 1, p_door := Some (rec_door r mod 256 = 1),
         p_voltage := of_int (if rec_vehicleMv r mod 65536 = 0 then rec_externalMv r mod 65536
                              else rec_vehicleMv r mod 65536) / 1000,
         p_battery := Some (of_int (rec_batteryMv r mod 65536) / 1000),
         p_temperature := of_int (rec_tempC10 r) * 0.1, p_fuel := Some (of_int (rec_fuel r mod 65536)),
         p_odometer := rec_odometer r mod 2 ^ 32,
         p_raw := [(1, RawInt (rec_ignition r mod 256)), (2, RawInt (rec_door r mod 256)),
                (7, RawInt (rec_vehicleMv r mod 65536)), (66, RawInt (rec_externalMv r mod 65536)),
                (67, RawInt (rec_batteryMv r mod 65536)), (72, RawInt (rec_tempC10 r mod 65536)),
                (84, RawInt (rec_fuel r mod 65536)), (16, RawInt (rec_odometer r mod 2 ^ 32))] \<rparr>"
proof -
  have temp: "as_signed 2 (rec_tempC10 r) = rec_tempC10 r"
    using assms(1) by (intro as_signed_id) (simp_all add: encodable_def)
  have temp': "as_signed 2 (rec_tempC10 r mod 65536) = rec_tempC10 r"
    using as_signed_mod [of 2 "rec_tempC10 r"] temp by simp
  show ?thesis
    using assms(2-5)
    by (simp add: taken_def oneByte_def twoByte_def fourByte_def io_el_def recordIO_def applyIOValue_def temp')
qed

text \<open>A record is decoded, and the bytes after it are left.\<close>

lemma tail_drop: "drop k (field 1 0 @ field n v @ bs) = bs" if "k = Suc n"
  using that by simp

lemma parseAVLRecord_bytes:
  assumes "encodable r"
  shows "parseAVLRecord (record_bytes ext r @ rest) dev ext = Inr (rest, reported ext dev r)"
proof -
  define pos where "pos = (new_position dev)\<lparr> p_time := rec_timestamp r,
    p_lng := of_int (js_round (rec_lng r * 10 ^ 7)) / 10 ^ 7, p_lat := of_int (js_round (rec_lat r * 10 ^ 7)) / 10 ^ 7,
    p_altitude := of_int (rec_altitude r mod 65536), p_heading := of_int (rec_angle r mod 65536),
    p_satellites := rec_satellites r, p_speed := of_int (rec_speed r mod 65536) \<rparr>"
  define pos' where "pos' = taken 4 (taken 2 (taken 1 pos (oneByte r)) (twoByte r)) (fourByte r)"
  have pos': "pos' = reported False dev r"
    unfolding pos'_def
    by (subst taken_record [OF assms]) (simp_all add: pos_def new_position_def reported_def)
  have io: "parseIOElements (drop 24 (record_bytes ext r @ rest)) pos ext = Inr (rest, reported ext dev r)"
  proof (cases ext)
    case False
    have "parseIOElementsCodec8 (drop 24 (record_bytes False r @ rest)) pos
        = io_groups 1 [1, 2, 4, 8] (group_bytes 1 (oneByte r) @ group_bytes 1 (twoByte r) @ group_bytes 1 (fourByte r)
            @ group_bytes 1 (eightByte r) @ rest) pos"
      using tail_drop [of 2 1 8] unfolding parseIOElementsCodec8_def record_bytes_def append_assoc gps_fields(8)
      by (simp del: io_groups.simps)
    then show ?thesis
      using False io_groups_record [OF assms, of 1 rest pos] pos' by (simp add: parseIOElements_def pos'_def)
  next
    case True
    let ?x = "field 2 1 @ field 2 200 @ field 2 4 @ field 4 (rec_xtra r) @ rest"
    have drop3: "drop 3 (field 1 0 @ field 2 9 @ bs) = bs" for bs
      by (rule tail_drop) simp
    have "parseIOElementsExtended (drop 24 (record_bytes True r @ rest)) pos
        = and_then (io_groups 2 [1, 2, 4, 8] (group_bytes 2 (oneByte r) @ group_bytes 2 (twoByte r) @ group_bytes 2 (fourByte r)
            @ group_bytes 2 (eightByte r) @ ?x) pos)
            (\<lambda>(bs, p). if length bs < 2 then Inr (bs, p) else x_elements (be_nat (take 2 bs)) (drop 2 bs) p)"
      unfolding parseIOElementsExtended_def record_bytes_def append_assoc if_True gps_fields(8) drop3
      by (simp del: io_groups.simps)
    also have "\<dots> = x_elements 1 (field 2 200 @ field 2 4 @ field 4 (rec_xtra r) @ rest) pos'"
      by (simp only: io_groups_record [OF assms, of 2 ?x pos] simp_thms and_then.simps prod.case take_field be_nat_field_nat pos'_def)
        simp
    also have "\<dots> = Inr (rest, pos'\<lparr> p_raw := AList.update 200 (RawHex (field 4 (rec_xtra r))) (p_raw pos') \<rparr>)"
    proof -
      have "drop 4 (field 2 200 @ field 2 4 @ field 4 (rec_xtra r) @ rest) = field 4 (rec_xtra r) @ rest"
        by simp
      then show ?thesis
        by (simp add: One_nat_def be_nat_field_nat)
    qed
    also have "\<dots> = Inr (rest, reported True dev r)"
      by (simp add: pos' reported_def)
    finally show ?thesis
      using True by (simp add: parseIOElements_def)
  qed
  have num: "as_signed 8 (int (be_nat (field 8 (rec_timestamp r)))) = rec_timestamp r"
    "as_signed 4 (int (be_nat (field 4 (js_round (rec_lng r * 10 ^ 7))))) = js_round (rec_lng r * 10 ^ 7)"
    "as_signed 4 (int (be_nat (field 4 (js_round (rec_lat r * 10 ^ 7))))) = js_round (rec_lat r * 10 ^ 7)"
    by (rule signed_field; use assms in \<open>simp add: encodable_def\<close>)+
  have small: "int (be_nat (field 2 v)) = v mod 65536" "int (be_nat (field 1 (rec_satellites r))) = rec_satellites r" for v
    using assms by (simp_all add: be_nat_field encodable_def)
  have gps: "take k (drop off (record_bytes ext r @ rest)) = take k (drop off (gps_bytes r @ drop 24 (record_bytes ext r) @ rest))" for k off
    by (simp add: record_bytes_def)
  show ?thesis
    unfolding parseAVLRecord_def Let_def gps gps_fields num small
    using io unfolding pos_def by (cases ext) (simp_all add: length_record_bytes)
qed

lemma parse_records_loop_bytes:
  "list_all encodable rs \<Longrightarrow>
   parse_records_loop i (length rs) (concat (map (record_bytes ext) rs) @ rest) dev ext = Inr (map (reported ext dev) rs)"
  by (induction rs arbitrary: i) (simp_all add: parseAVLRecord_bytes)

lemma ParseFrame_avl_data:
  assumes "list_all encodable rs" and "length rs \<le> 255"
  shows "ParseFrame (avl_data ext rs) dev = Inr (map (reported ext dev) rs)"
  using assms parse_records_loop_bytes [OF assms(1), of 0 ext "[of_nat (length rs)]" dev]
  by (cases ext) (simp_all add: ParseFrame_def avl_data_def parseRecords_def Let_def)

subsection \<open>Frames and checksums\<close>

lemma frame_bytes_wire: "frame_bytes on dat = wire dat (crc_field on dat)"
  by (simp add: frame_bytes_def wire_def)

lemma crc_halves: "unat (ucast c :: byte) + 256 * unat (ucast (drop_bit 8 c) :: byte) = unat c" for c :: "16 word"
proof -
  have "unat c < 65536"
    using unsigned_less [of c, where ?'a = nat] by simp
  then have "unat c div 256 < 256"
    by (simp add: less_mult_imp_div_less)
  then have "unat (ucast (drop_bit 8 c) :: byte) = unat c div 256"
    by (simp add: unsigned_ucast_eq take_bit_eq_mod drop_bit_eq_div unat_div_distrib)
  moreover have "unat (ucast c :: byte) = unat c mod 256"
    by (simp add: unsigned_ucast_eq take_bit_eq_mod)
  ultimately show ?thesis
    by (simp add: mod_mult_div_eq)
qed

text \<open>A checksum field of the simulator, read against any payload.\<close>

lemma CRCValid_field:
  assumes "dat \<noteq> []"
  shows "CRCValid \<lparr> Payload = dat, CRC = crc_field True sent \<rparr> \<longleftrightarrow> CRC16 dat = CRC16 sent \<or> CRC16 dat = 0"
proof -
  have "be_nat [0, 0] = 0"
    using be_nat_simps(2) [of "[0]" 0] by simp
  then show ?thesis
    using assms crc_halves [of "CRC16 sent"]
    by (auto simp: CRCValid_def crc_field_def Let_def unat_eq_0 simp flip: word_unat_eq_iff)
qed

lemma frame_accepted:
  assumes "dat \<noteq> []"
  shows "isZeroCRC (crc_field on dat) \<or> CRCValid \<lparr> Payload = dat, CRC = crc_field on dat \<rparr>"
  using CRCValid_field [OF assms, of dat] by (cases on) (simp_all add: crc_field_def isZeroCRC_def)

lemma avl_data_sendable: "length rs \<le> 255 \<Longrightarrow> sendable (avl_data ext rs)"
  by (simp add: sendable_def frameMaxDataLen_def length_avl_data) (simp add: avl_data_def KnownCodec_def)

subsection \<open>The server reads what the simulator sends\<close>

lemma ParseIMEI_handshake:
  assumes "15 \<le> length imei" and "length imei \<le> 254"
  shows "ParseIMEI (take 256 (be_bytes 2 (length imei) @ utf8_bytes imei)) = Inr imei"
  using assms by (simp add: ParseIMEI_def Let_def)

definition stored_batch :: "backend \<Rightarrow> bool \<Rightarrow> int \<Rightarrow> avl_rec list \<Rightarrow> position list" where
  "stored_batch db ext dev rs = map (normalise db) (map (reported ext dev) rs)"

definition accepted_count :: "backend \<Rightarrow> bool \<Rightarrow> int \<Rightarrow> avl_rec list \<Rightarrow> nat" where
  "accepted_count db ext dev rs = insertBatch db (stored_batch db ext dev rs)"

text \<open>What the session has done after the frames of the batches \<open>rss\<close>.\<close>

definition all_stored :: "backend \<Rightarrow> bool \<Rightarrow> int \<Rightarrow> avl_rec list list \<Rightarrow> ingest \<Rightarrow> bool" where
  "all_stored db ext dev rss s =
     (i_stored s = map (stored_batch db ext dev) rss
      \<and> i_replies s = IMEIAccept # map (\<lambda>rs. Acknowledge (int (accepted_count db ext dev rs))) rss
      \<and> i_frames s = length rss \<and> i_crcMismatches s = 0 \<and> i_parseErrors s = 0 \<and> i_unsupported s = 0)"

lemma handle_frame_batch:
  assumes "list_all encodable rs" and "length rs \<le> 255" and "i_device s = dev" and "all_stored db ext dev rss s"
  shows "all_stored db ext dev (rss @ [rs])
    (handle_frame db \<lparr> Payload = avl_data ext rs, CRC = crc_field on (avl_data ext rs) \<rparr> s)"
proof -
  let ?p = "avl_data ext rs"
  have "hd ?p = 0x08 \<or> hd ?p = 0x8E" "hd ?p \<noteq> 0x0C" "?p \<noteq> []"
    by (simp_all add: avl_data_def)
  then show ?thesis
    using frame_accepted [of ?p on] ParseFrame_avl_data [OF assms(1,2), of ext dev] assms(3,4)
    by (auto simp: handle_frame_def handleAVLFrame_def all_stored_def stored_batch_def accepted_count_def Let_def)
qed

lemma fold_batches:
  assumes "list_all (\<lambda>rs. list_all encodable rs \<and> length rs \<le> 255) rss"
  shows "i_device s = dev \<Longrightarrow> all_stored db ext dev done_rss s \<Longrightarrow>
    all_stored db ext dev (done_rss @ rss)
      (fold (handle_frame db) (map (\<lambda>rs. \<lparr> Payload = avl_data ext rs, CRC = crc_field on (avl_data ext rs) \<rparr>) rss) s)"
  using assms
proof (induction rss arbitrary: s done_rss)
  case (Cons rs rss)
  let ?f = "\<lparr> Payload = avl_data ext rs, CRC = crc_field on (avl_data ext rs) \<rparr>"
  have "all_stored db ext dev (done_rss @ [rs]) (handle_frame db ?f s)"
    using Cons.prems by (intro handle_frame_batch) simp_all
  from Cons.IH [OF _ this] show ?case
    using Cons.prems by (simp add: handle_frame_framer)
qed simp

lemma all_stored_quiet: "all_stored db ext dev rss (quiet s) = all_stored db ext dev rss s"
  "all_stored db ext dev rss (s\<lparr> i_framer := b \<rparr>) = all_stored db ext dev rss s"
  by (simp_all add: all_stored_def)

lemma drained_batches:
  assumes "list_all (\<lambda>rs. length rs \<le> 255) rss"
  shows "drained (concat (map (\<lambda>rs. frame_bytes on (avl_data ext rs)) rss)) =
    (map (\<lambda>rs. \<lparr> Payload = avl_data ext rs, CRC = crc_field on (avl_data ext rs) \<rparr>) rss, [])"
  using assms by (induction rss) (simp_all add: frame_bytes_wire drained_wire avl_data_sendable)

text \<open>Frames of batches, read in any sizes.\<close>

lemma conn_reads_batches:
  assumes ok: "list_all (\<lambda>rs. list_all encodable rs \<and> length rs \<le> 255) rss"
    and bytes: "concat chunks = concat (map (\<lambda>rs. frame_bytes on (avl_data ext rs)) rss)"
  shows "all_stored db ext dev rss (conn_reads db chunks (new_session db dev))"
proof -
  let ?s = "new_session db dev"
  have idle: "drained (i_framer ?s) = ([], i_framer ?s)"
    by (simp add: new_session_def)
  have "list_all (\<lambda>rs. length rs \<le> 255) rss"
    using ok by (simp add: list_all_iff)
  from drained_batches [OF this] have frames: "drained (i_framer ?s @ concat chunks) =
      (map (\<lambda>rs. \<lparr> Payload = avl_data ext rs, CRC = crc_field on (avl_data ext rs) \<rparr>) rss, [])"
    by (simp add: bytes new_session_def)
  have "all_stored db ext dev [] ?s" "i_device ?s = dev"
    by (simp_all add: all_stored_def new_session_def)
  from fold_batches [OF ok this(2,1)] have
    "all_stored db ext dev rss (quiet (conn_reads db chunks ?s))"
    unfolding conn_reads_concat [OF idle] frames by (simp add: all_stored_quiet)
  then show ?thesis
    by (simp only: all_stored_quiet)
qed

subsection \<open>Commands\<close>

lemma BuildCommandFrame_bytes:
  assumes "length c < 2 ^ 24"
  shows "BuildCommandFrame c = frame_bytes True (response_data c)"
proof -
  have "be_bytes 4 0 = [0, 0, 0, 0]"
    by (simp add: numeral_eq_Suc)
  then show ?thesis
    using assms by (simp add: BuildCommandFrame_def frame_bytes_def response_data_def crc_field_def Let_def)
qed

lemma response_data_sendable: "length c < 2 ^ 19 \<Longrightarrow> sendable (response_data c)"
  by (simp add: sendable_def response_data_def frameMaxDataLen_def KnownCodec_def)

lemma ParseCommandPayload_response:
  assumes "c \<noteq> []" and "length c < 2 ^ 24"
  shows "ParseCommandPayload (response_data c) = Inr [c]"
  using assms by (simp add: ParseCommandPayload_def response_data_def Let_def)

lemma handleCommandFrame_response:
  assumes "length c < 2 ^ 23"
  shows "handleCommandFrame cfg (frame_bytes on (response_data c)) =
    Inr (frame_bytes (USE_CRC cfg) (response_data (command_reply c)))"
proof -
  define f where "f = frame_bytes on (response_data c)"
  have len: "length (response_data c) = 7 + length c"
    by (simp add: response_data_def)
  have r1: "readUInt32BE f 4 = Inr (length (response_data c))"
    using assms len by (simp add: readUInt32BE_def f_def frame_bytes_def)
  have dat: "take (length (response_data c)) (drop 8 f) = response_data c"
    by (simp add: f_def frame_bytes_def)
  have r2: "readUInt32BE (response_data c) 2 = Inr (length c)"
    using assms by (simp add: readUInt32BE_def response_data_def)
  have cmd: "bytes_text (take (length c) (drop 6 (response_data c))) = c"
    by (simp add: response_data_def)
  have "length (command_reply c) < 2 ^ 24"
    using assms by (simp add: command_reply_def)
  from buildCodec12Response_bytes [OF this, of cfg] show ?thesis
    by (simp add: handleCommandFrame_def r1 dat r2 cmd flip: f_def)
qed

lemma command_start:
  assumes "length c < 2 ^ 23"
  shows "take 4 (frame_bytes on (response_data c)) = [0, 0, 0, 0]"
    and "be_nat (take 4 (drop 4 (frame_bytes on (response_data c)))) = 7 + length c"
    and "frame_bytes on (response_data c) ! 8 = 0x0c" and "length (frame_bytes on (response_data c)) = 19 + length c"
proof -
  have len: "length (response_data c) = 7 + length c"
    by (simp add: response_data_def)
  show "take 4 (frame_bytes on (response_data c)) = [0, 0, 0, 0]"
    by (simp add: frame_bytes_def)
  show "be_nat (take 4 (drop 4 (frame_bytes on (response_data c)))) = 7 + length c"
    using assms len by (simp add: frame_bytes_def)
  show "frame_bytes on (response_data c) ! 8 = 0x0c"
    by (simp add: frame_bytes_def response_data_def nth_append)
  show "length (frame_bytes on (response_data c)) = 19 + length c"
    by (simp add: len)
qed

lemma be_nat_zeros: "be_nat [0, 0, 0, 0] = 0"
  by (simp add: be_nat_def)

text \<open>A command frame that is in the buffer as a whole is answered.\<close>

lemma pump_loop_command:
  assumes "LISTEN_COMMANDS cfg" and "length c < 2 ^ 23"
  shows "pump_loop cfg (frame_bytes on (response_data c)) =
    ([Answered (frame_bytes (USE_CRC cfg) (response_data (command_reply c)))], [])"
proof -
  define f where "f = frame_bytes on (response_data c)"
  note start = command_start [OF assms(2), of on, folded f_def]
  have "is_command cfg f"
    using assms(1) start be_nat_zeros by (simp add: is_command_def)
  then show ?thesis
    unfolding f_def [symmetric] using start handleCommandFrame_response [OF assms(2), of cfg on, folded f_def]
    by (subst pump_loop.simps) (simp add: pump_loop_wait Let_def)
qed

text \<open>The front of a command frame waits if it is shorter than 4 bytes or longer than 8.\<close>

lemma pump_loop_front:
  assumes "LISTEN_COMMANDS cfg" and "length c < 2 ^ 23" and "k < length (frame_bytes on (response_data c))"
  shows "if 4 \<le> k \<and> k \<le> 8
    then hd (fst (pump_loop cfg (take k (frame_bytes on (response_data c))))) = Acked 0
      \<and> fst (pump_loop cfg (take k (frame_bytes on (response_data c)))) \<noteq> []
    else pump_loop cfg (take k (frame_bytes on (response_data c))) = ([], take k (frame_bytes on (response_data c)))"
proof -
  define f where "f = frame_bytes on (response_data c)"
  note start = command_start [OF assms(2), of on, folded f_def]
  consider "k < 4" | "4 \<le> k" "k \<le> 8" | "8 < k"
    by linarith
  then show ?thesis
    unfolding f_def [symmetric]
  proof cases
    case 1
    then show "if 4 \<le> k \<and> k \<le> 8
      then hd (fst (pump_loop cfg (take k f))) = Acked 0 \<and> fst (pump_loop cfg (take k f)) \<noteq> []
      else pump_loop cfg (take k f) = ([], take k f)"
      by (simp add: pump_loop_wait)
  next
    case 2
    have "take 4 (take k f) = [0, 0, 0, 0]"
      using 2 start(1) by (simp add: min_def)
    moreover have "\<not> is_command cfg (take k f)" "4 \<le> length (take k f)"
      using 2 start(4) by (simp_all add: is_command_def)
    ultimately show "if 4 \<le> k \<and> k \<le> 8
      then hd (fst (pump_loop cfg (take k f))) = Acked 0 \<and> fst (pump_loop cfg (take k f)) \<noteq> []
      else pump_loop cfg (take k f) = ([], take k f)"
      using 2 be_nat_zeros pump_loop_ack [of cfg "take k f"] by simp
  next
    case 3
    have front: "take 4 (take k f) = [0, 0, 0, 0]" "take k f ! 8 = 0x0c" "length (take k f) = k"
      using 3 start assms(3) by (simp_all add: min_def f_def)
    have size: "be_nat (take 4 (drop 4 (take k f))) = 7 + length c" if "13 \<le> k"
      using that start(2) by (simp add: drop_take take_take min_def)
    have "is_command cfg (take k f)"
      using assms(1) 3 front be_nat_zeros by (simp add: is_command_def)
    then have "pump_loop cfg (take k f) = ([], take k f)"
      using 3 front(3) size assms(3) start(4)
      by (subst pump_loop.simps) (simp add: Let_def f_def)
    then show "if 4 \<le> k \<and> k \<le> 8
      then hd (fst (pump_loop cfg (take k f))) = Acked 0 \<and> fst (pump_loop cfg (take k f)) \<noteq> []
      else pump_loop cfg (take k f) = ([], take k f)"
      using 3 by simp
  qed
qed

subsection \<open>The properties of the link\<close>

text \<open>Default options, parked at every record: the runs of the witnesses.\<close>

definition demo_options :: sim_options where
  "demo_options =
     \<lparr> HOST = ''127.0.0.1'', PORT = Some 5040, IMEI = ''866907059076488'', EXTENDED = True, INTERVAL_MS = 2500,
       BURST = 1, FRAGMENT = False, USE_CRC = True, LISTEN_COMMANDS = True, POSITIONS = Some 1, VOLTAGE_MV = 0,
       PARK_EVERY = 1, PARK_RECORDS = 5, PARK_IGNITION = False \<rparr>"

definition demo_backend :: backend where
  "demo_backend = \<lparr> db_lookup = (\<lambda>i. if i = ''866907059076488'' then Some 7 else None),
                    context_of = (\<lambda>i. (1, ''58046'')), insertBatch = length,
                    db_clock = 0, db_redis = True \<rparr>"

lemma demo_sound: "sound_options demo_options" "gap_enough demo_options" "random_draws (\<lambda>k. 0)"
  by (simp_all add: sound_options_def gap_enough_def demo_options_def random_draws_def)

lemma sendFrame_whole:
  assumes "\<not> FRAGMENT cfg"
  shows "sendFrame cfg rnd now d \<noteq> None"
  using assms by (simp add: sendFrame_def writePacket_def split_beta Let_def split: sum.splits)

lemma stream_run_whole: "\<not> FRAGMENT cfg \<Longrightarrow> stream_run cfg rnd now n d \<noteq> None"
proof (induction n arbitrary: now d)
  case (Suc n)
  have "timer_tick cfg rnd now d \<noteq> None"
    using sendFrame_whole [OF Suc.prems] by (simp add: timer_tick_def)
  then obtain d' where "timer_tick cfg rnd now d = Some d'"
    by blast
  then show ?case
    using Suc by simp
qed simp

lemma session_run_whole:
  assumes "\<not> FRAGMENT cfg"
  shows "session_run cfg rnd t now n \<noteq> None"
proof -
  have "pump cfg rnd now d \<noteq> None" for d
  proof -
    have "startStreaming cfg rnd now d' \<noteq> None" for d'
      using sendFrame_whole [OF assms] by (simp add: startStreaming_def)
    then show ?thesis
      by (auto simp: pump_def split: list.splits option.splits) (metis option.distinct(1))
  qed
  then have "on_data cfg rnd now [1] (on_connect cfg t) \<noteq> None"
    by (simp add: on_data_def)
  then obtain d where "on_data cfg rnd now [1] (on_connect cfg t) = Some d"
    by blast
  then show ?thesis
    using stream_run_whole [OF assms] by (simp add: session_run_def)
qed



text \<open>C9: The server decodes every AVL frame the simulator builds to the records it was built from: same number,
  same order, coordinates to seven decimals, the signed temperature, the first non-zero voltage.
\<close>

theorem avl_frame_decodes:
  assumes "buildAvlFrame cfg rs = Inr packet" and "list_all rec_ok rs" and "length rs \<le> 255"
  shows "ParseData packet dev = Inr (map (reported (EXTENDED cfg) dev) rs)"
proof -
  let ?data = "avl_data (EXTENDED cfg) rs"
  have enc: "list_all encodable rs"
    using buildAvlFrame_encodable [OF assms(1,2)] .
  have packet: "packet = frame_bytes (USE_CRC cfg) ?data"
    using buildAvlFrame_bytes [OF enc, of cfg] assms(1,3) by simp
  have small: "length ?data < 256 ^ 4" "0 < length ?data"
    using assms(3) by (simp_all add: length_avl_data)
  have "take (length ?data) (drop 8 packet) = ?data" "be_nat (take 4 (drop 4 packet)) = length ?data"
    "take 4 packet = [0, 0, 0, 0]" "length packet = length ?data + 12"
    using small by (simp_all add: packet frame_bytes_def)
  then show ?thesis
    using small(2) ParseFrame_avl_data [OF enc assms(3)] by (simp add: ParseData_def Let_def)
qed

definition demo_rec :: avl_rec where
  "demo_rec = fst (nextRecord demo_options (\<lambda>k. 0) 0 sim_start)"

lemma demo_rec_ok: "rec_ok demo_rec \<and> rec_timestamp demo_rec = 0"
  using nextRecord_keeps(1,3) [OF demo_sound(3) _ sim_start_ok, of demo_options 0]
  by (simp add: demo_rec_def demo_options_def)

lemma demo_rec_built: "\<exists>packet. buildAvlFrame demo_options [demo_rec] = Inr packet"
proof -
  have "on_globe demo_rec"
    by (simp add: demo_rec_def nextRecord_def park_or_drive_def Let_def demo_options_def sim_start_def on_globe_def)
  then have "encodable demo_rec"
    using demo_rec_ok rec_ok_encodable by simp
  then show ?thesis
    using buildAvlFrame_bytes [of "[demo_rec]" demo_options] by simp
qed

theorem avl_frame_decodes_witness:
  "\<exists>packet. buildAvlFrame demo_options [demo_rec] = Inr packet \<and> ParseData packet 7 = Inr [reported True 7 demo_rec]"
proof -
  obtain packet where packet: "buildAvlFrame demo_options [demo_rec] = Inr packet"
    using demo_rec_built by blast
  have "EXTENDED demo_options"
    by (simp add: demo_options_def)
  then show ?thesis
    using avl_frame_decodes [OF packet, of 7] demo_rec_ok packet by simp
qed

text \<open>C10: The checksum the simulator sends catches every change of the payload that is confined to two neighbouring
  bytes, with one gap: the server also takes the two zero bytes that pad the field for a big-endian checksum, so
  a changed payload whose checksum is 0 passes.
\<close>

theorem two_byte_change_caught:
  assumes "[a, b] \<noteq> [a', b']"
  shows "CRCValid \<lparr> Payload = xs @ [a', b'] @ ys, CRC = crc_field True (xs @ [a, b] @ ys) \<rparr> \<longleftrightarrow>
    CRC16 (xs @ [a', b'] @ ys) = 0"
proof -
  have "CRC16 (xs @ [a', b'] @ ys) \<noteq> CRC16 (xs @ [a, b] @ ys)"
    using CRC16_detects [of xs a' b' ys a b] assms by auto
  then show ?thesis
    using CRCValid_field [of "xs @ [a', b'] @ ys" "xs @ [a, b] @ ys"] by simp
qed

theorem two_byte_change_caught_witness:
  "CRCValid \<lparr> Payload = [] @ [8, 1] @ [0], CRC = crc_field True ([] @ [8, 0] @ [0]) \<rparr> \<longleftrightarrow>
   CRC16 ([] @ [8, 1] @ [0]) = 0"
  by (rule two_byte_change_caught) simp


text \<open>The demo session runs, and its bytes are the handshake and one frame.\<close>

lemma demo_session_run:
  obtains d where "session_run demo_options (\<lambda>k. 0) 0 0 0 = Some d" and "d_crash d = None"
proof -
  let ?d0 = "(on_connect demo_options 0)\<lparr> d_rxBuf := [], d_state := STREAMING, d_timer := True \<rparr>"
  have hello: "handshake demo_options = Inr (be_bytes 2 (length (IMEI demo_options)) @ utf8_bytes (IMEI demo_options))"
    by (rule handshake_bytes) (simp add: demo_options_def)
  obtain packet where packet: "buildAvlFrame demo_options [demo_rec] = Inr packet"
    using demo_rec_built by blast
  have conn: "d_sim (on_connect demo_options 0) = sim_start" "d_crash (on_connect demo_options 0) = None"
    by (simp_all add: on_connect_def hello)
  have cfg: "nat (BURST demo_options) = Suc 0" "\<not> FRAGMENT demo_options"
    by (simp_all add: demo_options_def)
  have nr: "fst (next_records demo_options (\<lambda>k. 0) 0 (nat (BURST demo_options)) (d_sim ?d0)) = [demo_rec]"
    by (simp add: cfg conn demo_rec_def split_beta)
  have "\<exists>d1. sendFrame demo_options (\<lambda>k. 0) 0 ?d0 = Some d1 \<and> d_crash d1 = None"
    using nr packet by (simp add: sendFrame_def split_beta writePacket_def Let_def cfg conn)
  then obtain d1 where d1: "sendFrame demo_options (\<lambda>k. 0) 0 ?d0 = Some d1" "d_crash d1 = None"
    by blast
  have "d_rxBuf d1 = []"
    using d1(1) nr packet by (auto simp: sendFrame_def split_beta writePacket_def Let_def cfg)
  then have "pump_streaming demo_options 0 d1 = d1"
    using d1(2) by (simp add: pump_streaming_def pump_loop_wait)
  then have "session_run demo_options (\<lambda>k. 0) 0 0 0 = Some d1"
    using d1 by (simp add: session_run_def on_data_def pump_def on_connect_def hello startStreaming_def Let_def)
  then show thesis
    using that d1(2) by blast
qed


text \<open>C12: Without commands, the device counts the server's acknowledgements exactly, whatever way their bytes are cut
  into reads: one entry per frame, with the number of records stored.
\<close>

theorem acknowledgements_counted:
  assumes "\<not> LISTEN_COMMANDS cfg" and "d_state d = STREAMING" and "d_crash d = None" and "d_rxBuf d = []"
    and "list_all (\<lambda>n. n < 2 ^ 32) ns" and "concat chunks = concat (map (\<lambda>n. Acknowledge (int n)) ns)"
  shows "\<exists>d'. on_reads cfg rnd now chunks d = Some d' \<and> d_events d' = d_events d @ map Acked ns \<and> d_rxBuf d' = []
    \<and> d_out d' = d_out d"
proof -
  have "concat chunks = concat (map (be_bytes 4) ns)"
    using assms(5,6) by (simp add: Acknowledge_def list_all_iff zmod_int nat_mod_distrib cong: map_cong)
  then have "pump_feed cfg [] chunks = (map Acked ns, [])"
    using pump_feed_concat [OF assms(1), of chunks] pump_loop_acks [OF assms(1,5)] by simp
  moreover have "concat (map (written now) (map Acked ns)) = []"
    by (induction ns) simp_all
  ultimately show ?thesis
    using on_reads_feed [OF assms(2,3), of cfg chunks rnd now] assms(4) by simp
qed

definition quiet_options :: sim_options where
  "quiet_options = demo_options\<lparr> LISTEN_COMMANDS := False \<rparr>"

definition streaming_device :: device where
  "streaming_device = (on_connect demo_options 0)\<lparr> d_state := STREAMING, d_rxBuf := [], d_crash := None \<rparr>"

theorem acknowledgements_counted_witness:
  "\<exists>d'. on_reads quiet_options (\<lambda>k. 0) 0 [[0, 0], [0, 1, 0, 0, 0], [3]] streaming_device = Some d'
    \<and> d_events d' = d_events streaming_device @ map Acked [1, 3] \<and> d_rxBuf d' = [] \<and> d_out d' = d_out streaming_device"
proof -
  have "Acknowledge 1 = [0, 0, 0, 1]" "Acknowledge 3 = [0, 0, 0, 3]"
    by code_simp+
  then show ?thesis
    by (intro acknowledgements_counted) (simp_all add: quiet_options_def streaming_device_def)
qed

text \<open>C11: A command of the server, cut into two reads anywhere but after its 4th to 8th byte, is answered, and the server
  reads from the answer the reply that \<open>command_reply\<close> gives. Cut after the 4th to 8th byte, its zero preamble is
  taken for an acknowledgement of no records.
\<close>

theorem command_answered:
  assumes "LISTEN_COMMANDS cfg" and "length c < 2 ^ 18" and "d_state d = STREAMING" and "d_crash d = None"
    and "d_rxBuf d = []" and "k < length (BuildCommandFrame c)"
  shows "if 4 \<le> k \<and> k \<le> 8
    then \<exists>d'. on_reads cfg rnd now [take k (BuildCommandFrame c)] d = Some d' \<and> d_out d' = d_out d
      \<and> take (length (d_events d) + 1) (d_events d') = d_events d @ [Acked 0]
    else \<exists>d' reply. on_reads cfg rnd now [take k (BuildCommandFrame c), drop k (BuildCommandFrame c)] d = Some d'
      \<and> d_out d' = d_out d @ [(now, reply)] \<and> d_rxBuf d' = []
      \<and> map (\<lambda>f. ParseCommandPayload (Payload f)) (frames_in reply) = [Inr [command_reply c]]"
proof -
  define f where "f = BuildCommandFrame c"
  have len: "length c < 2 ^ 23" "length c < 2 ^ 24" "length c < 2 ^ 19"
    using assms(2) by simp_all
  have bytes: "f = frame_bytes True (response_data c)"
    unfolding f_def by (rule BuildCommandFrame_bytes [OF len(2)])
  note front = pump_loop_front [OF assms(1) len(1), of k True, folded bytes]
  show ?thesis
    unfolding f_def [symmetric]
  proof (cases "4 \<le> k \<and> k \<le> 8")
    case True
    have lk: "length (take k f) = k"
      using assms(6) by (simp add: f_def)
    have few: "4 \<le> length (take k f)" "length (take k f) \<le> 8" "length (drop 4 (take k f)) \<le> 4"
      unfolding length_drop lk using True by auto
    have "\<not> is_command cfg bs" if "length bs \<le> 8" for bs
      using that by (simp add: is_command_def)
    then have "\<not> is_command cfg (take k f)" "\<not> is_command cfg (drop 4 (take k f))" "4 \<le> length (take k f)"
      "length (drop 4 (take k f)) \<le> 4"
      using few by (blast, fastforce, blast, blast)
    then have "\<exists>ns. pump_loop cfg (take k f) = (Acked (be_nat (take 4 (take k f))) # map Acked ns, drop (4 + 4 * length ns) (take k f))"
      using pump_loop_ack [of cfg "take k f"] pump_loop_ack [of cfg "drop 4 (take k f)"]
        pump_loop_wait [of "drop 4 (take k f)" cfg] pump_loop_wait [of "drop 4 (drop 4 (take k f))" cfg]
      by (cases "length (drop 4 (take k f)) = 4") (auto intro: exI [of _ "[]"] exI [of _ "[_]"])
    then obtain ns rest where ns: "pump_loop cfg (take k f) = (map Acked (0 # ns), rest)"
      using front True assms(6) by (auto simp: f_def)
    have feed: "pump_feed cfg [] [take k f] = (map Acked (0 # ns), rest)"
      by (simp add: ns)
    have "concat (map (written now) (map Acked (0 # ns))) = []"
      by (induction ns) simp_all
    then have "\<exists>d'. on_reads cfg rnd now [take k f] d = Some d' \<and> d_out d' = d_out d
        \<and> d_events d' = d_events d @ map Acked (0 # ns)"
      using on_reads_feed [OF assms(3,4), of cfg "[take k f]" rnd now]
      unfolding assms(5) feed by simp
    then show "if 4 \<le> k \<and> k \<le> 8
      then \<exists>d'. on_reads cfg rnd now [take k f] d = Some d' \<and> d_out d' = d_out d
        \<and> take (length (d_events d) + 1) (d_events d') = d_events d @ [Acked 0]
      else \<exists>d' reply. on_reads cfg rnd now [take k f, drop k f] d = Some d'
        \<and> d_out d' = d_out d @ [(now, reply)] \<and> d_rxBuf d' = []
        \<and> map (\<lambda>f. ParseCommandPayload (Payload f)) (frames_in reply) = [Inr [command_reply c]]"
      using True by auto
  next
    case False
    define reply where "reply = frame_bytes (USE_CRC cfg) (response_data (command_reply c))"
    have "pump_loop cfg f = ([Answered reply], [])"
      unfolding bytes reply_def by (rule pump_loop_command [OF assms(1) len(1)])
    then have feed: "pump_feed cfg [] [take k f, drop k f] = ([Answered reply], [])"
      using front False assms(6) by (simp add: f_def)
    have small: "length (command_reply c) < 2 ^ 19" "length (command_reply c) < 2 ^ 24" "command_reply c \<noteq> []"
      using assms(2) by (simp_all add: command_reply_def)
    have "fst (drained reply) = [\<lparr> Payload = response_data (command_reply c),
        CRC = crc_field (USE_CRC cfg) (response_data (command_reply c)) \<rparr>]"
      using drained_wire [OF response_data_sendable [OF small(1)], of "crc_field (USE_CRC cfg) (response_data (command_reply c))" "[]"]
      by (simp add: reply_def frame_bytes_wire)
    then have "map (\<lambda>f. ParseCommandPayload (Payload f)) (frames_in reply) = [Inr [command_reply c]]"
      using ParseCommandPayload_response [OF small(3,2)] by (simp add: drained_def)
    then show "if 4 \<le> k \<and> k \<le> 8
      then \<exists>d'. on_reads cfg rnd now [take k f] d = Some d' \<and> d_out d' = d_out d
        \<and> take (length (d_events d) + 1) (d_events d') = d_events d @ [Acked 0]
      else \<exists>d' reply. on_reads cfg rnd now [take k f, drop k f] d = Some d'
        \<and> d_out d' = d_out d @ [(now, reply)] \<and> d_rxBuf d' = []
        \<and> map (\<lambda>f. ParseCommandPayload (Payload f)) (frames_in reply) = [Inr [command_reply c]]"
      using on_reads_feed [OF assms(3,4), of cfg "[take k f, drop k f]" rnd now] False
      unfolding assms(5) feed by auto
  qed
qed

theorem command_answered_witness:
  "\<exists>d' reply. on_reads demo_options (\<lambda>k. 0) 0 [take 2 (BuildCommandFrame ''getver''), drop 2 (BuildCommandFrame ''getver'')]
      streaming_device = Some d'
    \<and> d_out d' = d_out streaming_device @ [(0, reply)]
    \<and> map (\<lambda>f. ParseCommandPayload (Payload f)) (frames_in reply) = [Inr [''Yes:1'']]"
proof -
  have "2 < length (BuildCommandFrame ''getver'')"
    by (simp add: BuildCommandFrame_def Let_def)
  moreover have "command_reply ''getver'' = ''Yes:1''"
    by code_simp
  ultimately show ?thesis
    using command_answered [of demo_options "''getver''" streaming_device 2 "\<lambda>k. 0" 0]
    by (auto simp: demo_options_def streaming_device_def)
qed

text \<open>C14: With \<open>POSITIONS\<close> set and packets sent whole, the simulator stops: after enough ticks of its timer it has
  emitted at least that many records, less than one frame more, the timer is cleared and the end is scheduled
  (unless an encoder threw).
\<close>

theorem streaming_ends:
  assumes "random_draws rnd" and "sound_options cfg" and "\<not> FRAGMENT cfg" and "t \<le> now"
    and "POSITIONS cfg = Some goal" and "goal \<le> int n + 1"
  shows "case session_run cfg rnd t now n of
      None \<Rightarrow> False
    | Some d \<Rightarrow>
        if d_crash d = None
        then \<not> d_timer d \<and> d_end d \<noteq> None \<and> goal \<le> d_emitted d \<and> d_emitted d < goal + BURST cfg
        else True"
proof -
  have gap: "gap_enough cfg"
    using assms(3) by (simp add: gap_enough_def)
  obtain d where d: "session_run cfg rnd t now n = Some d"
    using session_run_whole [OF assms(3)] by blast
  have "\<not> d_timer d \<and> d_end d \<noteq> None \<and> goal \<le> d_emitted d \<and> d_emitted d < goal + BURST cfg"
    if fine: "d_crash d = None"
  proof -
    obtain rss now' where sent: "streamed cfg (be_bytes 2 (length (IMEI cfg)) @ utf8_bytes (IMEI cfg)) rss now' d"
      "d_timer d \<longrightarrow> length rss = n + 1"
      using session_run_streamed [OF assms(1,2) gap assms(4) d fine] by blast
    have "\<not> d_timer d"
    proof
      assume on: "d_timer d"
      then have "d_emitted d = BURST cfg * (int n + 1)" "d_emitted d < goal"
        using sent assms(5) by (simp_all add: streamed_def)
      moreover have "1 * (int n + 1) \<le> BURST cfg * (int n + 1)"
        using assms(2) by (intro mult_right_mono) (simp_all add: sound_options_def)
      ultimately have "1 * (int n + 1) < goal"
        by (metis order_le_less_trans)
      then show False
        using assms(6) by simp
    qed
    then show ?thesis
      using sent(1) assms(5) by (simp add: streamed_def)
  qed
  then show ?thesis
    by (simp add: d)
qed

theorem streaming_ends_witness:
  "case session_run demo_options (\<lambda>k. 0) 0 0 3 of
      None \<Rightarrow> False
    | Some d \<Rightarrow>
        if d_crash d = None
        then \<not> d_timer d \<and> d_end d \<noteq> None \<and> 1 \<le> d_emitted d \<and> d_emitted d < 1 + BURST demo_options
        else True"
  by (rule streaming_ends [OF demo_sound(3,1)]) (simp_all add: demo_options_def)

subsection \<open>Where the link fails\<close>

text \<open>With more than 255 records in a frame the count byte wraps: the server reads none of 256, and answers 0.\<close>

lemma full_burst_is_lost:
  assumes "length rs = 256"
  shows "ParseFrame (avl_data ext rs) dev = Inr []"
  using assms by (cases ext) (simp_all add: ParseFrame_def avl_data_def parseRecords_def Let_def)

text \<open>The IMEI is taken from one read: a handshake that TCP cuts is rejected.\<close>

lemma cut_handshake_rejected:
  assumes "length imei \<le> 254" and "k < 2 + length imei"
  shows "conn_open db (take k (be_bytes 2 (length imei) @ utf8_bytes imei)) = Inl IMEIReject"
proof -
  let ?b = "take k (be_bytes 2 (length imei) @ utf8_bytes imei)"
  have len: "length ?b = k" "take 256 ?b = ?b"
    using assms by simp_all
  have "\<exists>e. ParseIMEI ?b = Inl e"
  proof (cases "k < 2")
    case True
    then show ?thesis
      using len(1) by (simp add: ParseIMEI_def)
  next
    case False
    then have "take 2 ?b = be_bytes 2 (length imei)"
      by (simp add: min_def)
    then have "be_nat (take 2 ?b) = length imei"
      using assms(1) by simp
    then show ?thesis
      using False len(1) assms(2) by (simp add: ParseIMEI_def Let_def)
  qed
  then show ?thesis
    unfolding conn_open_def len(2) by auto
qed

text \<open>A frame whose checksum is wrong is counted, and decoded, stored and acknowledged all the same.\<close>

lemma corrupt_frame_is_stored:
  assumes "ParseFrame payload (i_device s) = Inr ps" and "hd payload = 0x08 \<or> hd payload = 0x8E"
  shows "i_stored (handle_frame db \<lparr> Payload = payload, CRC = crc \<rparr> s) = i_stored s @ [map (normalise db) ps]"
  using assms by (auto simp: handle_frame_def handleAVLFrame_def Let_def)

text \<open>The reply to a first command is filed under a second one that was delivered meanwhile; the second reply is lost.\<close>

lemma second_command_takes_reply:
  assumes "0 < j" and "r1 \<noteq> []" and "r2 \<noteq> []" and "length r1 < 2 ^ 24" and "length r2 < 2 ^ 24"
    and "s = deliver_command j c2 (deliver_command i c1 s0)"
  shows "i_answers (handleCommandResponse (response_data r2) (handleCommandResponse (response_data r1) s)) =
    i_answers s0 @ [(j, [r1])]"
  using assms ParseCommandPayload_response [of r1] ParseCommandPayload_response [of r2]
  by (simp add: handleCommandResponse_def deliver_command_def)

text \<open>The records of a burst are stamped a second apart, whatever the interval: with three of them every second,
  the last of one frame is later than the first of the next.\<close>

lemma bursts_overlap:
  assumes "random_draws rnd" and "1 \<le> PARK_RECORDS cfg" and "sim_ok s" and "sim_ok s'"
  shows "map rec_timestamp (fst (next_records cfg rnd now 3 s)) = [now, now + 1000, now + 2000]"
    and "map rec_timestamp (fst (next_records cfg rnd (now + 1000) 3 s')) = [now + 1000, now + 2000, now + 3000]"
  using next_records_keep [OF assms(1,2,3), of now 3] next_records_keep [OF assms(1,2,4), of "now + 1000" 3]
  by (simp_all add: upt_conv_Cons)

text \<open>
  With \<open>FRAGMENT\<close> on and an interval below the delays, the slices of two packets interleave on the socket: here two
  packets of three bytes, 50 ms apart, each cut once with a gap of 80 ms.
\<close>

definition late_slices :: "nat \<Rightarrow> real" where
  "late_slices k = (if k = 2 \<or> k = 5 then 0.99 else 0)"

lemma slices_interleave:
  assumes "FRAGMENT cfg"
  shows "\<exists>ws ws' k. writePacket cfg late_slices 0 0 [1, 2, 3] = Some (ws, k)
    \<and> writePacket cfg late_slices 50 k [4, 5, 6] = Some (ws', k + 3)
    \<and> socket_stream (ws @ ws') = [1, 4, 2, 3, 5, 6]"
proof -
  have cut: "draw_cuts late_slices (Suc (Suc 0)) (Suc 0) (Suc 0) [] = Some ([1], 2)"
    "draw_cuts late_slices (Suc (Suc 0)) (Suc 0) 4 [] = Some ([1], 5)"
    by (simp_all add: draw_cuts.simps rand_below_def late_slices_def numeral_2_eq_2)
  have r: "rand_below late_slices 0 3 = 0" "rand_below late_slices 3 3 = 0"
    "rand_below late_slices 2 61 = 60" "rand_below late_slices 5 61 = 60"
    by (simp_all add: rand_below_def late_slices_def floor_eq_iff)
  have first: "writePacket cfg late_slices 0 0 [1, 2, 3] = Some ([(0, [1]), (80, [2, 3])], 3)"
    using assms cut(1) r by (simp add: writePacket_def Let_def One_nat_def)
  have second: "writePacket cfg late_slices 50 3 [4, 5, 6] = Some ([(50, [4]), (130, [5, 6])], 6)"
    using assms cut(2) r by (simp add: writePacket_def Let_def One_nat_def)
  show ?thesis
    using first second by (simp add: socket_stream_def)
qed

end
