(* ===== verification/Spec2Isabelle.thy ===== *)
theory Spec2Isabelle
  imports Vehicle_Store Web_Socket Admin_Session Sign_In Alerts Live_Map Playback Live_Tracking Shell Telemetry_View Fleet
    Fleet_View Geofences Registers Register_View Control_Panel Settings Dashboard List_View Reports Admin_Console Device_Link
begin

text \<open>
  RudraNetra is a vehicle-tracking platform: trackers report positions, a Go back end stores them and serves
  them, and two browser consoles written in TypeScript work with them. This development models the two
  consoles, \<open>src/frontend/apps/client\<close> (a transport organization watching its fleet) and
  \<open>src/frontend/apps/admin\<close> (the superadmin of the platform), the vehicle map in
  \<open>src/frontend/apps/client/src/components\<close>, and the link at the other end: the device simulator
  \<open>src/backend/scripts/simulate_device.js\<close> and the part of the Go ingestion server that talks to a tracker
  (\<open>src/backend/internal/codec\<close>, \<open>src/backend/cmd/rudra-ingest\<close>).

  \<^bold>\<open>How the program is put together.\<close> A console is a set of pages over a session. The session is a
  token and a user, kept in memory and mirrored in \<open>localStorage\<close>. Every page talks to the back end through
  one wrapper of \<open>fetch\<close> (\<open>fetchWithAuth\<close>, \<open>fetchWithAdminAuth\<close>) that adds the token, and in the client the
  tenant, to each request and ends the session on a refusal. In the client all pages share the vehicle store,
  which is filled by \<open>fetchVehicles\<close> and kept current by a WebSocket. A page has a record of \<open>useState\<close> cells,
  a load, forms, row actions and derived views (filters, counters, pages, exports). A tracker opens a TCP
  connection, names itself by its IMEI and streams binary frames of position records; the server stores the
  records, answers every frame with the number stored, and sends commands over the same connection.

  \<^bold>\<open>Theories, bottom up.\<close>
  \<^item> \<open>Js_Prelude\<close>, \<open>Js_Map\<close>, \<open>Js_Json\<close>, \<open>Js_Date\<close>: what the sources use of JavaScript. Values (\<open>jsval\<close>), truthiness,
    strings, numbers as texts, \<open>Map\<close>, JSON, URLs, dates. Their lemmas are the round trips the properties rest on
    (JSON text, query strings, \<open>toFixed\<close>, the civil calendar).
  \<^item> \<open>Browser\<close>: the record \<open>browser\<close> (address, \<open>localStorage\<close>, session, network, logs of requests, redirects,
    events, clipboard and downloads), \<open>fetch\<close>, \<open>Promise.all\<close>, and the locale \<open>authorised_fetch\<close>, the contract of
    a wrapper of \<open>fetch\<close>.
  \<^item> \<open>Page_Kit\<close>: the pieces every page repeats, as functions and as contracts: \<open>list_loader\<close>, \<open>create_form\<close>,
    \<open>explained_form\<close>, \<open>row_removal\<close>, \<open>pager\<close>, \<open>csv_writer\<close>, \<open>fetch_run\<close> (what every operation built from a fetch
    preserves). Each is interpreted on the definitions of the pages that use it.
  \<^item> \<open>View_Kit\<close>: tables, printed values, and the fields of a dialog with the check the browser makes before it calls
    \<open>onSubmit\<close> (\<open>valid_form\<close>, \<open>press\<close>). The locale \<open>browser_form\<close> extends \<open>create_form\<close> where that check covers the
    page's own; \<open>wired\<close> says that every control writes its own field and no other.
  \<^item> Client, session and shell: \<open>Client_Session\<close> (\<open>store/authStore.ts\<close>, \<open>utils/api.ts\<close>), \<open>Vehicle_Store\<close>
    (\<open>store/vehicleStore.ts\<close>), \<open>Web_Socket\<close> (\<open>hooks/useWebSocket.ts\<close>), \<open>Sign_In\<close> (\<open>LoginPage\<close>, \<open>SignupPage\<close>),
    \<open>Shell\<close> (\<open>App.tsx\<close>, \<open>Header.tsx\<close>, \<open>Sidebar.tsx\<close>).
  \<^item> Client, pages: \<open>Alerts\<close>, \<open>Live_Map\<close> (\<open>LiveMap.tsx\<close>), \<open>Live_Tracking\<close>, \<open>Playback\<close>, \<open>Telemetry\<close> and
    \<open>Telemetry_View\<close> (\<open>TeltonikaDetailsModal.tsx\<close>), \<open>Fleet\<close> and \<open>Fleet_View\<close>, \<open>Geofences\<close>,
    \<open>Registers\<close> and \<open>Register_View\<close> (reminders, complaints, guest links, devices),
    \<open>Control_Panel\<close>, \<open>Settings\<close>, \<open>Dashboard\<close>, \<open>List_View\<close>, \<open>Reports\<close> (reports and analytics).
  \<^item> Superadmin console: \<open>Admin_Session\<close> (\<open>utils/api.ts\<close>, session and login), \<open>Admin_Registers\<close> (billing,
    extensions, toll plazas, warranties, raw packets, lookup values), \<open>Device_Master\<close>, \<open>Company_Manager\<close>,
    \<open>Role_Rights\<close> (the permission matrix, with masks in \<open>32 word\<close>), \<open>Admin_Console\<close> (\<open>App.tsx\<close> and the console as a
    whole).
  \<^item> Device link: \<open>Bytes\<close> (big-endian numbers, Node's \<open>Buffer\<close>, and the locale \<open>stream_reader\<close>, the contract of
    whatever reads a TCP stream), \<open>Crc16\<close> (the checksum in JavaScript and in Go), \<open>Simulator\<close> and \<open>Sim_Device\<close>
    (\<open>simulate_device.js\<close>: options, movement, encoders; then handshake, acknowledgements, commands, streaming),
    \<open>Ingest_Codec\<close> (\<open>teltonika.go\<close>), \<open>Ingest_Framing\<close> (\<open>framing.go\<close>), \<open>Ingest_Connection\<close>
    (\<open>handleDeviceConnection\<close> and what it calls, \<open>main.go\<close>), \<open>Device_Link\<close> (both ends together).
  \<^item> This theory: the client console as a step relation over all its pages, and the properties that span them.

  \<^bold>\<open>How code becomes definitions.\<close> A \<open>useState\<close> record or an interface is a \<open>record\<close>, a union a \<open>datatype\<close>, a handler
  a function from browser and page to browser and page, with one branch per early return, exception and answer.
  An exception is the left side of a sum. Definitions keep the source's names; a prefix is added where two
  pages use the same one. A handler with one \<open>await\<close> runs as a whole where nothing can come between that the
  code reacts to; where the order of answers matters (\<open>fetchVehicles\<close>, the route history, \<open>Promise.all\<close>, reports
  and lookup tables) it is split at the \<open>await\<close>. The answer of the network is an arbitrary function of the
  requests sent so far, so statements hold for every behaviour of the server, failures included.

  \<^bold>\<open>What the groups of lemmas show.\<close> Safety of the session (which requests are sent, with which token and
  tenant, and what a refusal does, for one call and for every run of either console); the vehicle store as
  a finite map from device ids to positions, refined by every sequence of loads and messages; the socket's
  and the playback's state machines (the connection is never given up while mounted, the position stays in the
  route, stale answers are ignored); forms (no input is lost unless the server accepted it, nothing
  unchecked is sent); tables (pages partition the filtered rows, counters agree with filters); texts
  (exports read back cell by cell, numbers and times read back); the permission matrix (a button flips one bit,
  a save sends what changed); the device link (the simulator's records stay in range and are encoded, the server
  decodes them to what they were, however TCP cuts the stream, the two checksums agree and catch changes of two
  bytes, acknowledgements and commands come back, a run with a record limit ends).

  \<^bold>\<open>Bounds and fuel.\<close> \<open>csv_records\<close> and \<open>parse_value\<close> recurse on fuel, the length of their input plus one, and are
  proved to succeed with it on what the programs write. \<open>show_screen\<close> and \<open>admin_screen\<close> take the number of
  renders; three, and two, are proved enough for every address. Playing a route is proved to end. The framer's and
  the device's loops shrink their buffer. Cutting a packet at random places is a \<open>partial_function\<close>: it returns
  once enough draws differ (\<open>draw_cuts_ends\<close>), and packets sent whole need no draw. A frame holds at most 255
  records, as many as its count byte can say.

  \<^bold>\<open>Parameters.\<close> The network; the clock; the router's matching; the map library's answers; the engine's reading of
  dates that are not ISO; texts that depend on the locale; the user's answer to \<open>window.confirm\<close>; the text of a
  binary answer. On the device link: the results of \<open>Math.random()\<close> (at least 0 and below 1), the times of the
  timers, the environment and the command line, and the server's database and Redis (record \<open>backend\<close>).

  \<^bold>\<open>Not modelled.\<close> Numbers are reals, so rounding of binary fractions, negative zero and overflow are left out
  (bit masks apart). Layout and fixed styles are left out. The texts, tables and dialogs are modelled for the telemetry modal, the fleet
  manager and the register pages; of the other pages' markup only what carries a decision is (which cards, tabs,
  links and buttons there are and when they are disabled). Printing, the icons, and \<open>main.tsx\<close> are left out.
  Of the back end only the device connection is part of the model: the API, the worker, the repositories and
  their SQL, the listener, the metrics endpoint and shutdown are not. The consoles reach the back end over HTTP
  and WebSocket, where it is the network parameter. The simulator's console output is left out. Timers are modelled where
  their order matters (toasts, polling, reconnection, playback, the simulator's slices). React's batching is not: a handler sees the state of the render it belongs to.
\<close>

section \<open>The client console as a whole\<close>

text \<open>
  A step of the client console is one operation of one of its pages, whatever state the page is in: what the
  user, a timer or the render loop makes the page do. Only the browser is followed here; the state of the page
  is arbitrary, so that every interleaving of the pages, and every moment of leaving and entering them, is a
  sequence of steps.
\<close>

inductive client_step :: "browser \<Rightarrow> browser \<Rightarrow> bool" where
  alerts: "client_step w (fst (alerts_step op (w, p)))"
| fleet: "client_step w (fst (fleet_loadData (w, p)))"
| trip: "client_step w (fst (handleCreateTrip w p))"
| tyre: "client_step w (fst (handleCreateTyre w p))"
| voucher: "client_step w (fst (handleCreateVoucher w p))"
| geofences: "client_step w (fst (geofences_loadData (w, p)))"
| zone: "client_step w (fst (handleCreateZone w p))"
| zone_gone: "client_step w (fst (handleDeleteZone nm i w p))"
| reminders: "client_step w (fst (loadReminders (w, p)))"
| reminder: "client_step w (fst (handleCreateReminder w p))"
| reminder_ack: "client_step w (fst (acknowledgeReminder i w p))"
| reminder_gone: "client_step w (fst (deleteReminder i w p))"
| complaints: "client_step w (fst (loadComplaints (w, p)))"
| ticket: "client_step w (fst (handleCreateTicket w p))"
| guests: "client_step w (fst (loadTempUsers (w, p)))"
| guest: "client_step w (fst (handleCreateGuest w p))"
| guest_gone: "client_step w (fst (handleRevoke i w p))"
| trackers: "client_step w (fst (loadDevices (w, p)))"
| tracker: "client_step w (fst (handleRegisterSubmit w p))"
| tracker_gone: "client_step w (fst (handleDeleteDevice imei i w p))"
| panel: "client_step w (fst (panel_step cmd (w, p)))"
| settings_load: "client_step w (fst (loadSettings (w, p)))"
| settings_devices: "client_step w (fst (settings_loadDevices (w, p)))"
| settings_save: "client_step w (fst (handleSave w p))"
| settings_device: "client_step w (fst (handleAddDevice w p))"
| dashboard: "client_step w (fst (dashboard_effect w s p))"
| dashboard_ack: "client_step w (fst (handleAcknowledgeAlert i w p))"
| gate_pass: "client_step w (fst (handleDispatchSubmit vs w p))"
| list_view: "client_step w (fst (list_effect w s p))"
| near_places: "client_step w (fst (openNearestAmenities v w p))"
| near_vehicles: "client_step w (fst (handleOpenFindNearestVehicle w p))"
| initial_action: "client_step w (fst (run_initial_action act s (w, p)))"
| tracking_poll: "client_step w (fst (poll w s))"
| playback: "client_step w (fst (playback_step gl ev (w, p)))"
| layout: "client_step w (fst (layout_effect w s))"
| bell: "client_step w (fst (toggleNotifications clock w h))"
| bell_all: "client_step w (fst (markAllRead w h))"
| bell_one: "client_step w (fst (markItemRead i w h))"
| modal_logs: "client_step w (fst (loadLogsFromDb other v w m))"
| modal_limits: "client_step w (fst (loadThresholds cancelled w m))"
| reports: "client_step w (fst (fetchReport (w, p)))"
| report_type: "client_step w (fst (setReportType t (w, p)))"
| report_range: "client_step w (fst (setDateRange d (w, p)))"
| report_file: "client_step w (fst (report_export bt w p))"
| analytics: "client_step w (fst (fetchAnalytics (w, p)))"
| sign_out: "client_step w (fst (handleLogout (w, s)))"

inductive_cases client_stepE: "client_step w w'"

lemma panel_send [intro]: "adds_only tenant_request w (fst (panel_step cmd (w, p)))"
proof -
  have logs: "adds_only tenant_request u (fst (loadCommandLogs (u, q)))" for u q
    by (simp add: loadCommandLogs_def split_beta client_sends(3))
  have answer: "adds_only tenant_request u (fst (command_answer c m r (u, q)))" for c m r u q
    by (auto simp: command_answer_def Let_def logs split: sum.splits)
  have run: "adds_only tenant_request w (fst (executeCommand c pin w q))" for c pin q
    by (simp add: executeCommand_def split_beta Let_def) (rule adds_trans [OF client_sends(2) answer])
  show ?thesis
    by (cases cmd) (auto simp: initiateCommand_def handlePinSubmit_def run logs split: prod.splits option.splits)
qed

lemma pages_send [intro]:
  "adds_only tenant_request w (fst (loadReminders (w, pr)))" "adds_only tenant_request w (fst (loadComplaints (w, pc)))"
  "adds_only tenant_request w (fst (loadTempUsers (w, pg)))" "adds_only tenant_request w (fst (loadDevices (w, pd)))"
  "adds_only tenant_request w (fst (loadSettings (w, ps)))" "adds_only tenant_request w (fst (settings_loadDevices (w, ps)))"
  using loads_send(1) [of "(w, pr)"] loads_send(2) [of "(w, pc)"] loads_send(3) [of "(w, pg)"] loads_send(4) [of "(w, pd)"]
    settings_loads_send [of "(w, ps)"]
  by simp_all

lemma effects_send [intro]:
  "adds_only scoped_request w (fst (dashboard_effect w s p))" "adds_only scoped_request w (fst (list_effect w s q))"
proof -
  have one: "adds_only scoped_request u (fst (loadSummary (u, r)))" "adds_only scoped_request u (fst (db_loadAlerts (u, r)))"
    "adds_only scoped_request u (fst (loadGatePasses (u, r)))" for u r
    by (simp_all add: loadSummary_def db_loadAlerts_def loadGatePasses_def split_beta Let_def client_sends(2,3) tenant_adds)
  have "adds_only scoped_request u (fst (loadGatePasses (db_loadAlerts (loadSummary (u, r)))))" for u r
    by (metis adds_trans one prod.collapse)
  then show "adds_only scoped_request w (fst (dashboard_effect w s p))"
    by (auto simp: dashboard_effect_def split_beta Let_def intro: adds_trans [OF fetchVehicles_send])
  show "adds_only scoped_request w (fst (list_effect w s q))"
    using tenant_adds [OF loadPage_send [of w q]] adds_trans [OF _ fetchVehicles_send]
    by (simp add: list_effect_def split_beta Let_def)
qed

lemma client_step_sends: "client_step w w' \<Longrightarrow> adds_only scoped_request w w'"
  by (erule client_stepE) (auto simp: adds_only_def [of _ w "fst (handleLogout _)"] shell_send(6) intro: tenant_adds)

subsection \<open>Properties\<close>




end
